(* ===== verification/Prelude.thy ===== *)
theory Prelude
  imports Main "HOL-Library.Monad_Syntax" "HOL-Library.List_Lexorder" "HOL-Library.Char_ord"
    "HOL-Library.AList" "HOL-Library.Multiset" "HOL-Library.Sublist"
begin

text \<open>
  Shared vocabulary of the development. A TypeScript function that may throw is a function
  into a sum: \<open>Inl\<close> is the thrown error, \<open>Inr\<close> the returned value. \<open>and_then\<close> sequences
  two such calls, \<open>ensure\<close> is an \<open>if (!cond) throw\<close> guard and \<open>or_fail\<close> turns an optional
  result into a throwing one. The collections at the end gather the facts the component
  theories share: \<open>parse_simps\<close> unfolds parser results, \<open>step_simps\<close> unfolds operations.
\<close>

named_theorems parse_simps "when a parser returns a value"
named_theorems step_simps "equations of the operations of a component"

subsection \<open>Results\<close>

type_synonym ('e, 'a) result = "'e + 'a"

definition and_then :: "('e, 'a) result \<Rightarrow> ('a \<Rightarrow> ('e, 'b) result) \<Rightarrow> ('e, 'b) result" where
  "and_then m f = (case m of Inl e \<Rightarrow> Inl e | Inr x \<Rightarrow> f x)"

definition ensure :: "bool \<Rightarrow> 'e \<Rightarrow> ('e, unit) result" where
  "ensure b e = (if b then Inr () else Inl e)"

definition or_fail :: "'a option \<Rightarrow> 'e \<Rightarrow> ('e, 'a) result" where
  "or_fail m e = (case m of None \<Rightarrow> Inl e | Some x \<Rightarrow> Inr x)"

definition is_ok :: "('e, 'a) result \<Rightarrow> bool" where
  "is_ok r = (case r of Inl _ \<Rightarrow> False | Inr _ \<Rightarrow> True)"

lemma and_then_simps [simp]:
  "and_then (Inl e) f = Inl e" "and_then (Inr x) f = f x"
  by (simp_all add: and_then_def)

lemma and_then_eq_Inr [simp]:
  "and_then m f = Inr y \<longleftrightarrow> (\<exists>x. m = Inr x \<and> f x = Inr y)"
  by (cases m) simp_all

lemma and_then_eq_Inl:
  "and_then m f = Inl e \<longleftrightarrow> m = Inl e \<or> (\<exists>x. m = Inr x \<and> f x = Inl e)"
  by (cases m) simp_all

lemma ensure_eq [simp]:
  "ensure b e = Inr u \<longleftrightarrow> b" "ensure b e = Inl e' \<longleftrightarrow> \<not> b \<and> e' = e"
  "ensure True e = Inr ()" "ensure False e = Inl e"
  by (auto simp: ensure_def)

lemma or_fail_eq [simp]:
  "or_fail m e = Inr x \<longleftrightarrow> m = Some x" "or_fail m e = Inl e' \<longleftrightarrow> m = None \<and> e' = e"
  "or_fail (Some y) e = Inr y" "or_fail None e = Inl e"
  by (auto simp: or_fail_def split: option.splits)

lemma is_ok_simps [simp]: "is_ok (Inl e) = False" "is_ok (Inr x) = True"
  by (simp_all add: is_ok_def)

lemma is_ok_iff: "is_ok r \<longleftrightarrow> (\<exists>x. r = Inr x)"
  by (cases r) simp_all

lemma bind_eq_Some [simp]:
  "Option.bind m f = Some y \<longleftrightarrow> (\<exists>x. m = Some x \<and> f x = Some y)"
  by (cases m) simp_all

subsection \<open>Collecting optional results\<close>

fun collect :: "('a \<Rightarrow> 'b option) \<Rightarrow> 'a list \<Rightarrow> 'b list option" where
  "collect f [] = Some []"
| "collect f (x # xs) =
     (case f x of None \<Rightarrow> None
      | Some y \<Rightarrow> (case collect f xs of None \<Rightarrow> None | Some ys \<Rightarrow> Some (y # ys)))"

lemma collect_length: "collect f xs = Some ys \<Longrightarrow> length ys = length xs"
  by (induction xs arbitrary: ys) (auto split: option.splits)

lemma collect_set:
  "collect f xs = Some ys \<Longrightarrow> y \<in> set ys \<Longrightarrow> \<exists>x \<in> set xs. f x = Some y"
  by (induction xs arbitrary: ys) (auto split: option.splits)

lemma collect_map_Some:
  "(\<And>x. x \<in> set xs \<Longrightarrow> f (g x) = Some (k x)) \<Longrightarrow> collect f (map g xs) = Some (map k xs)"
  by (induction xs) auto

lemma collect_eq_map:
  "(\<And>x. x \<in> set xs \<Longrightarrow> f (g x) = Some x) \<Longrightarrow> collect f (map g xs) = Some xs"
  by (induction xs) auto

subsection \<open>Association lists as insertion-ordered JavaScript maps\<close>

text \<open>
  \<open>AList.update\<close> keeps the position of a key that is already there and appends a new key
  at the end, as \<open>Map.prototype.set\<close> and property assignment do.
\<close>

definition add_if_new :: "'a \<Rightarrow> 'a list \<Rightarrow> 'a list" where
  "add_if_new x xs = (if x \<in> set xs then xs else xs @ [x])"

lemma set_add_if_new [simp]: "set (add_if_new x xs) = insert x (set xs)"
  by (auto simp: add_if_new_def)

lemma distinct_add_if_new [simp]: "distinct (add_if_new x xs) = distinct xs"
  by (auto simp: add_if_new_def)

lemma add_if_new_not_Nil [simp]: "add_if_new x xs \<noteq> []"
  by (auto simp: add_if_new_def)

lemma map_of_update: "map_of (AList.update k v al) = (map_of al)(k \<mapsto> v)"
  by (rule update_conv')

lemma update_new_key: "k \<notin> fst ` set al \<Longrightarrow> AList.update k v al = al @ [(k, v)]"
  by (induction al) auto

lemma fold_update_distinct:
  "distinct (map fst acc @ map fst fs) \<Longrightarrow>
     fold (\<lambda>(k, v). AList.update k v) fs acc = acc @ fs"
proof (induction fs arbitrary: acc)
  case (Cons f fs)
  obtain k v where f: "f = (k, v)" by (cases f)
  have "AList.update k v acc = acc @ [(k, v)]"
    using Cons.prems f by (intro update_new_key) force
  then show ?case using Cons f by simp
qed simp

lemma set_sort_distinct: "distinct xs \<Longrightarrow> distinct (sort xs)"
  by simp


lemma fold_add_if_new:
  "distinct (acc @ xs) \<Longrightarrow> fold add_if_new xs acc = acc @ xs"
proof (induction xs arbitrary: acc)
  case (Cons x xs)
  then have "add_if_new x acc = acc @ [x]" by (simp add: add_if_new_def)
  with Cons show ?case by simp
qed simp

lemma map_of_same_set:
  "set xs = set ys \<Longrightarrow> distinct (map fst xs) \<Longrightarrow> distinct (map fst ys) \<Longrightarrow> map_of xs = map_of ys"
  by (rule map_of_inject_set [THEN iffD2])

subsection \<open>Sorting by a comparison\<close>

text \<open>\<open>Array.prototype.sort\<close> with a comparison function: stable, and total whatever the comparison.\<close>

fun insert_by :: "('a \<Rightarrow> 'a \<Rightarrow> bool) \<Rightarrow> 'a \<Rightarrow> 'a list \<Rightarrow> 'a list" where
  "insert_by le x [] = [x]"
| "insert_by le x (y # ys) = (if le x y then x # y # ys else y # insert_by le x ys)"

definition sort_by :: "('a \<Rightarrow> 'a \<Rightarrow> bool) \<Rightarrow> 'a list \<Rightarrow> 'a list" where
  "sort_by le xs = foldr (insert_by le) xs []"

lemma set_insert_by [simp]: "set (insert_by le x xs) = insert x (set xs)"
  by (induction xs) auto

lemma set_sort_by [simp, termination_simp]: "set (sort_by le xs) = set xs"
  by (induction xs) (auto simp: sort_by_def)

lemma length_sort_by [simp]: "length (sort_by le xs) = length xs"
  and mset_sort_by [simp]: "mset (sort_by le xs) = mset xs"
proof -
  have i: "mset (insert_by le x ys) = add_mset x (mset ys)" for x and ys :: "'a list"
    by (induction ys) auto
  show "mset (sort_by le xs) = mset xs" by (induction xs) (auto simp: sort_by_def i)
  then show "length (sort_by le xs) = length xs" by (metis size_mset)
qed

lemma distinct_fst_sort_by [simp]: "distinct (map fst (sort_by le xs)) = distinct (map fst xs)"
  by (metis mset_sort_by mset_map mset_eq_imp_distinct_iff)

lemma insort_key_last: "f x \<le> f r \<Longrightarrow> insort_key f x (ys @ [r]) = insort_key f x ys @ [r]"
  by (induction ys) auto

lemma sort_key_last: "\<forall>x \<in> set xs. f x \<le> f r \<Longrightarrow> sort_key f (xs @ [r]) = sort_key f xs @ [r]"
  by (induction xs) (auto simp: insort_key_last)

subsection \<open>Append-only logs\<close>

text \<open>
  The contract of a component whose operations only ever extend a log while they keep the state well
  formed. What it promises of one operation holds of any sequence of them.
\<close>

locale append_only =
  fixes log :: "'s \<Rightarrow> 'e list"
    and step :: "'s \<Rightarrow> 'i \<Rightarrow> 's"
    and ok :: "'s \<Rightarrow> bool"
    and admissible :: "'s \<Rightarrow> 'i \<Rightarrow> bool"
  assumes step_ok: "ok s \<Longrightarrow> admissible s i \<Longrightarrow> ok (step s i)"
    and step_extends: "ok s \<Longrightarrow> admissible s i \<Longrightarrow> prefix (log s) (log (step s i))"
begin

fun all_admissible :: "'s \<Rightarrow> 'i list \<Rightarrow> bool" where
  "all_admissible s [] = True"
| "all_admissible s (i # is) = (admissible s i \<and> all_admissible (step s i) is)"

lemma run_keeps: "ok s \<Longrightarrow> all_admissible s is \<Longrightarrow> ok (foldl step s is) \<and> prefix (log s) (log (foldl step s is))"
proof (induction "is" arbitrary: s)
  case (Cons i "is")
  then have "ok (step s i)" "prefix (log s) (log (step s i))" by (auto intro: step_ok step_extends)
  with Cons show ?case by (auto intro: prefix_order.trans)
qed simp

lemma logged_stays:
  assumes "ok s" "all_admissible s is" "n < length (log s)"
  shows "n < length (log (foldl step s is)) \<and> log (foldl step s is) ! n = log s ! n"
  using run_keeps [OF assms(1,2)] assms(3) by (auto simp: prefix_def nth_append)

end

end
