(* ===== verification/JsValue.thy ===== *)
theory JsValue
  imports Complex_Main Prelude
begin

text \<open>
  The JavaScript values the program handles and the parts of the language's library it uses
  on them. A value is a finite tree: \<open>JOther\<close> stands for a value that is not JSON data (a
  bigint, a function, a symbol, an object that is not plain), named by its kind. Strings are
  the UTF-8 bytes of well-formed strings, so \<open>length\<close> is \<open>Buffer.byteLength\<close> and \<open>js_length\<close> is
  the JavaScript length; for the ASCII strings most schemas accept the two agree. Safe integers are \<open>NInt\<close>; a fractional or
  unsafe number is \<open>NFrac\<close> of its rational value, whose text the host gives (\<open>num_text\<close>, \<open>num_read\<close>:
  binary64 to shortest decimal and back).

  The record \<open>host\<close> gathers what the program takes from outside its sources: SHA-256 and
  Keccak-256 (Node's crypto, viem), \<open>String.prototype.localeCompare\<close>, the number
  conversions, zod's date-time syntax, the URL parser and the implementation-defined
  part of \<open>Date.parse\<close>. No property assumes more of it than the statement shows.
\<close>

subsection \<open>Values\<close>

datatype jsnum = NInt int | NFrac rat | NaN | NInf bool

datatype jsval =
    JUndefined
  | JNull
  | JBool bool
  | JNum jsnum
  | JStr string
  | JArr "jsval list"
  | JObj "(string \<times> jsval) list"
  | JOther string

record url =
  url_protocol :: string
  url_username :: string
  url_password :: string
  url_pathname :: string
  url_search :: string
  url_hash :: string

record host =
  sha256_hex :: "string \<Rightarrow> string"
  keccak256_hex :: "string \<Rightarrow> string"
  locale_le :: "string \<Rightarrow> string \<Rightarrow> bool"
  num_text :: "rat \<Rightarrow> string"
  num_read :: "string \<Rightarrow> jsnum option"
  zod_datetime :: "string \<Rightarrow> bool"
  parse_url :: "string \<Rightarrow> url option"
  legacy_date :: "string \<Rightarrow> int option"

abbreviation jint :: "int \<Rightarrow> jsval" where
  "jint i \<equiv> JNum (NInt i)"

definition max_safe_integer :: int where
  "max_safe_integer = 9007199254740991"

definition safe_int :: "int \<Rightarrow> bool" where
  "safe_int i \<longleftrightarrow> - max_safe_integer \<le> i \<and> i \<le> max_safe_integer"

subsection \<open>Characters\<close>

definition code :: "char \<Rightarrow> nat" where
  "code c = of_char c"

definition in_range :: "char \<Rightarrow> char \<Rightarrow> char \<Rightarrow> bool" where
  "in_range lo hi c \<longleftrightarrow> code lo \<le> code c \<and> code c \<le> code hi"

definition is_digit :: "char \<Rightarrow> bool" where
  "is_digit = in_range CHR ''0'' CHR ''9''"

definition is_alnum :: "char \<Rightarrow> bool" where
  "is_alnum c \<longleftrightarrow> is_digit c \<or> in_range CHR ''a'' CHR ''z'' c \<or> in_range CHR ''A'' CHR ''Z'' c"

definition is_lower_hex :: "char \<Rightarrow> bool" where
  "is_lower_hex c \<longleftrightarrow> is_digit c \<or> in_range CHR ''a'' CHR ''f'' c"

definition is_hex :: "char \<Rightarrow> bool" where
  "is_hex c \<longleftrightarrow> is_lower_hex c \<or> in_range CHR ''A'' CHR ''F'' c"

definition lower_char :: "char \<Rightarrow> char" where
  "lower_char c = (if in_range CHR ''A'' CHR ''Z'' c then char_of (code c + 32) else c)"

definition to_lower :: "string \<Rightarrow> string" where
  "to_lower s = map lower_char s"

lemma code_char_of: "n < 256 \<Longrightarrow> code (char_of n) = n"
  by (simp add: code_def)

lemma code_inject [simp]: "code c = code d \<longleftrightarrow> c = d"
  by (simp add: code_def)

lemma code_less: "code c < 256"
  by (simp add: code_def)

lemma lower_char_idem [simp]: "lower_char (lower_char c) = lower_char c"
proof (cases "in_range CHR ''A'' CHR ''Z'' c")
  case True
  then have "code c + 32 < 256" "65 \<le> code c" by (auto simp: in_range_def code_def)
  then have "code (lower_char c) = code c + 32"
    using True by (simp add: lower_char_def code_char_of)
  then have "\<not> in_range CHR ''A'' CHR ''Z'' (lower_char c)"
    using \<open>65 \<le> code c\<close> by (simp add: in_range_def) (simp add: code_def)
  then show ?thesis by (simp add: lower_char_def [of "lower_char c"])
qed (simp add: lower_char_def)

lemma to_lower_idem [simp]: "to_lower (to_lower s) = to_lower s"
  by (simp add: to_lower_def)

lemma to_lower_simps [simp]:
  "to_lower [] = []" "to_lower (c # s) = lower_char c # to_lower s"
  "length (to_lower s) = length s"
  by (simp_all add: to_lower_def)

text \<open>The UTF-16 length of a string held as UTF-8: a continuation byte adds nothing, a four-byte lead two.\<close>

definition js_length :: "string \<Rightarrow> nat" where
  "js_length s =
     sum_list (map (\<lambda>c. if 128 \<le> code c \<and> code c < 192 then 0 else if 240 \<le> code c then 2 else 1) s)"

subsection \<open>Decimal text\<close>

definition digit_char :: "nat \<Rightarrow> char" where
  "digit_char d = char_of (48 + d)"

definition digit_val :: "char \<Rightarrow> nat" where
  "digit_val c = code c - 48"

fun nat_str :: "nat \<Rightarrow> string" where
  "nat_str n = (if n < 10 then [digit_char n] else nat_str (n div 10) @ [digit_char (n mod 10)])"

declare nat_str.simps [simp del]

definition read_nat :: "string \<Rightarrow> nat" where
  "read_nat s = foldl (\<lambda>a c. 10 * a + digit_val c) 0 s"

definition int_str :: "int \<Rightarrow> string" where
  "int_str i = (if i < 0 then CHR ''-'' # nat_str (nat (- i)) else nat_str (nat i))"

lemma digit_char_props:
  assumes "d < 10"
  shows "is_digit (digit_char d)" "digit_val (digit_char d) = d" "code (digit_char d) = 48 + d"
proof -
  show c: "code (digit_char d) = 48 + d"
    using assms by (simp add: digit_char_def code_char_of)
  show "is_digit (digit_char d)"
    using assms by (simp add: is_digit_def in_range_def c) (simp add: code_def)
  show "digit_val (digit_char d) = d" by (simp add: digit_val_def c)
qed

lemma read_nat_snoc: "read_nat (s @ [c]) = 10 * read_nat s + digit_val c"
  by (simp add: read_nat_def)

lemma read_nat_str [simp]: "read_nat (nat_str n) = n"
proof (induction n rule: nat_str.induct)
  case (1 n)
  show ?case
  proof (cases "n < 10")
    case True
    then show ?thesis
      by (subst nat_str.simps) (simp add: read_nat_def digit_char_props)
  next
    case False
    then have "read_nat (nat_str n) = 10 * (n div 10) + n mod 10"
      by (subst nat_str.simps) (simp add: read_nat_snoc 1 digit_char_props)
    then show ?thesis by simp
  qed
qed

lemma nat_str_digits: "list_all is_digit (nat_str n)"
proof (induction n rule: nat_str.induct)
  case (1 n)
  then show ?case
    by (subst nat_str.simps) (auto simp: digit_char_props)
qed

lemma nat_str_not_Nil [simp]: "nat_str n \<noteq> []"
  by (subst nat_str.simps) simp

lemma nat_str_inject [simp]: "nat_str m = nat_str n \<longleftrightarrow> m = n"
  by (metis read_nat_str)

lemma nat_str_no_leading_zero: "0 < n \<Longrightarrow> hd (nat_str n) \<noteq> CHR ''0''"
proof (induction n rule: nat_str.induct)
  case (1 n)
  show ?case
  proof (cases "n < 10")
    case True
    with 1 have "code (digit_char n) \<noteq> code CHR ''0''"
      by (simp add: digit_char_props) (simp add: code_def)
    then have "digit_char n \<noteq> CHR ''0''" by auto
    with True show ?thesis by (subst nat_str.simps) simp
  next
    case False
    with 1 show ?thesis by (subst nat_str.simps) simp
  qed
qed

lemma is_digit_not_minus: "is_digit c \<Longrightarrow> c \<noteq> CHR ''-''"
  by (auto simp: is_digit_def in_range_def code_def)

lemma int_str_inject [simp]: "int_str i = int_str j \<longleftrightarrow> i = j"
proof -
  have hd: "hd (nat_str n) \<noteq> CHR ''-''" for n
    using nat_str_digits [of n] is_digit_not_minus by (cases "nat_str n") auto
  have "nat_str n \<noteq> CHR ''-'' # s" for n s using hd [of n] by auto
  from this this [symmetric] show ?thesis by (auto simp: int_str_def)
qed

subsection \<open>Serialisation of values\<close>

definition hex_char :: "nat \<Rightarrow> char" where
  "hex_char d = (if d < 10 then digit_char d else char_of (87 + d))"

definition escape_char :: "char \<Rightarrow> string" where
  "escape_char c =
     (if c = CHR 0x22 then [CHR 0x5C, CHR 0x22]
      else if c = CHR 0x5C then [CHR 0x5C, CHR 0x5C]
      else if c = CHR 0x08 then [CHR 0x5C, CHR ''b'']
      else if c = CHR 0x0C then [CHR 0x5C, CHR ''f'']
      else if c = CHR 0x0A then [CHR 0x5C, CHR ''n'']
      else if c = CHR 0x0D then [CHR 0x5C, CHR ''r'']
      else if c = CHR 0x09 then [CHR 0x5C, CHR ''t'']
      else if code c < 32 then
        [CHR 0x5C, CHR ''u'', CHR ''0'', CHR ''0'', hex_char (code c div 16), hex_char (code c mod 16)]
      else [c])"

definition quote :: "string \<Rightarrow> string" where
  "quote s = CHR 0x22 # concat (map escape_char s) @ [CHR 0x22]"

fun num_str :: "host \<Rightarrow> jsnum \<Rightarrow> string" where
  "num_str h (NInt i) = (if safe_int i then int_str i else num_text h (of_int i))"
| "num_str h (NFrac r) = num_text h r"
| "num_str h NaN = ''null''"
| "num_str h (NInf _) = ''null''"

fun commas :: "string list \<Rightarrow> string" where
  "commas [] = []"
| "commas [s] = s"
| "commas (s # t # ss) = s @ CHR '','' # commas (t # ss)"

definition bool_str :: "bool \<Rightarrow> string" where
  "bool_str b = (if b then ''true'' else ''false'')"

text \<open>\<open>JSON.stringify\<close>: properties whose value is not JSON data are dropped, array slots become null.\<close>

fun droppable :: "jsval \<Rightarrow> bool" where
  "droppable JUndefined = True"
| "droppable (JOther _) = True"
| "droppable _ = False"

fun stringify :: "host \<Rightarrow> jsval \<Rightarrow> string" where
  "stringify h JUndefined = ''null''"
| "stringify h JNull = ''null''"
| "stringify h (JBool b) = bool_str b"
| "stringify h (JNum n) = num_str h n"
| "stringify h (JStr s) = quote s"
| "stringify h (JArr vs) = CHR ''['' # commas (map (stringify h) vs) @ '']''"
| "stringify h (JObj fs) =
     CHR ''{'' # commas (map (\<lambda>(k, v). quote k @ CHR '':'' # stringify h v)
       (filter (\<lambda>(k, v). \<not> droppable v) fs)) @ ''}''"
| "stringify h (JOther _) = ''null''"

subsection \<open>Digests and blank text\<close>

text \<open>What the code relies on of a hash: its digest is 64 lower-case hexadecimal digits.\<close>

definition hex_digests :: "(string \<Rightarrow> string) \<Rightarrow> bool" where
  "hex_digests f \<longleftrightarrow> (\<forall>s. length (f s) = 64 \<and> list_all is_lower_hex (f s))"

text \<open>\<open>s.trimStart()\<close>: white space and line terminators, those of more than one UTF-8 byte included.\<close>

fun trim_start :: "string \<Rightarrow> string" where
  "trim_start [] = []"
| "trim_start (a # s) =
     (if code a \<in> {9, 10, 11, 12, 13, 32} then trim_start s
      else case s of
        b # t \<Rightarrow>
          if code a = 194 \<and> code b = 160 then trim_start t
          else (case t of
            c # u \<Rightarrow>
              if code a = 225 \<and> code b = 154 \<and> code c = 128
               \<or> code a = 226 \<and> code b = 128 \<and> (128 \<le> code c \<and> code c \<le> 138 \<or> code c \<in> {168, 169, 175})
               \<or> code a = 226 \<and> code b = 129 \<and> code c = 159
               \<or> code a = 227 \<and> code b = 128 \<and> code c = 128
               \<or> code a = 239 \<and> code b = 187 \<and> code c = 191
              then trim_start u else a # s
          | [] \<Rightarrow> a # s)
      | [] \<Rightarrow> [a])"

text \<open>\<open>s.trim() === ""\<close>\<close>

definition blank :: "string \<Rightarrow> bool" where
  "blank s \<longleftrightarrow> trim_start s = []"

lemma blank_ascii: "code c \<notin> {9, 10, 11, 12, 13, 32} \<Longrightarrow> code c < 128 \<Longrightarrow> \<not> blank (c # s)"
  by (auto simp: blank_def split: list.splits)

subsection \<open>The order of strings\<close>

text \<open>
  JavaScript compares strings by their UTF-16 code units. On UTF-8 bytes that is the order of the bytes, save that the
  surrogates of the supplementary characters (first byte 240 to 244) come before the characters from U+E000 to U+FFFF
  (first byte 238 or 239).
\<close>

definition utf16_order :: "string \<Rightarrow> nat list" where
  "utf16_order = map (\<lambda>c. if code c = 238 \<or> code c = 239 then code c + 256 else code c)"

lemma utf16_order_eq [simp]: "utf16_order s = utf16_order t \<longleftrightarrow> s = t"
proof -
  have byte: "code c < 256" for c by (simp add: code_def)
  have "inj (\<lambda>c. if code c = 238 \<or> code c = 239 then code c + 256 else code c)"
  proof (rule injI)
    fix c d assume "(if code c = 238 \<or> code c = 239 then code c + 256 else code c)
        = (if code d = 238 \<or> code d = 239 then code d + 256 else code d)"
    then have "code c = code d" using byte [of c] byte [of d] by (auto split: if_splits)
    then show "c = d" by (simp add: code_def)
  qed
  then show ?thesis unfolding utf16_order_def by (auto dest: map_injective)
qed

lemma inj_utf16_order [simp]: "inj utf16_order" "inj_on utf16_order A"
  by (simp_all add: inj_on_def)

text \<open>\<open>strings.sort()\<close>\<close>

abbreviation js_sort :: "string list \<Rightarrow> string list" where
  "js_sort \<equiv> sort_key utf16_order"

end
