(* ===== verification/JsDate.thy ===== *)
theory JsDate
  imports JsValue
begin

text \<open>
  The part of JavaScript's \<open>Date\<close> the program uses: a time value is an integer number of
  milliseconds since 1970, \<open>to_iso\<close> is \<open>toISOString\<close> and \<open>date_parse\<close> is \<open>Date.parse\<close>.
  The calendar is ECMAScript's (\<open>DayFromYear\<close>, \<open>YearFromTime\<close>). \<open>parse_canonical\<close> reads the
  spelling \<open>toISOString\<close> writes; any other spelling \<open>Date.parse\<close> accepts is the host's.
\<close>

definition ms_per_day :: int where
  "ms_per_day = 86400000"

definition max_time :: int where
  "max_time = 8640000000000000"

definition valid_time :: "int \<Rightarrow> bool" where
  "valid_time t \<longleftrightarrow> \<bar>t\<bar> \<le> max_time"

definition day_from_year :: "int \<Rightarrow> int" where
  "day_from_year y = 365 * (y - 1970) + (y - 1969) div 4 - (y - 1901) div 100 + (y - 1601) div 400"

definition year_from_day :: "int \<Rightarrow> int" where
  "year_from_day d =
     (let y = 1970 + (400 * d) div 146097
      in if d < day_from_year y then y - 1 else if day_from_year (y + 1) \<le> d then y + 1 else y)"

definition leap_year :: "int \<Rightarrow> bool" where
  "leap_year y \<longleftrightarrow> y mod 4 = 0 \<and> (y mod 100 \<noteq> 0 \<or> y mod 400 = 0)"

definition month_starts :: "bool \<Rightarrow> int list" where
  "month_starts leap = (let l = (if leap then 1 else 0) in
     [0, 31, 59 + l, 90 + l, 120 + l, 151 + l, 181 + l, 212 + l, 243 + l, 273 + l, 304 + l, 334 + l])"

definition month_index :: "bool \<Rightarrow> int \<Rightarrow> nat" where
  "month_index leap k = length (takeWhile (\<lambda>s. s \<le> k) (tl (month_starts leap)))"

definition digits2 :: "nat \<Rightarrow> string" where
  "digits2 n = [digit_char (n div 10 mod 10), digit_char (n mod 10)]"

definition digits3 :: "nat \<Rightarrow> string" where
  "digits3 n = digit_char (n div 100 mod 10) # digits2 n"

definition digits4 :: "nat \<Rightarrow> string" where
  "digits4 n = digit_char (n div 1000 mod 10) # digits3 n"

definition digits6 :: "nat \<Rightarrow> string" where
  "digits6 n = digit_char (n div 100000 mod 10) # digit_char (n div 10000 mod 10) # digits4 n"

definition year_text :: "int \<Rightarrow> string" where
  "year_text y =
     (if 0 \<le> y \<and> y \<le> 9999 then digits4 (nat y)
      else (if y < 0 then CHR ''-'' else CHR ''+'') # digits6 (nat \<bar>y\<bar>))"

definition to_iso :: "int \<Rightarrow> string" where
  "to_iso t =
     (let d = t div ms_per_day; r = t mod ms_per_day; y = year_from_day d; k = d - day_from_year y;
          m = month_index (leap_year y) k
      in year_text y @ CHR ''-'' # digits2 (Suc m)
         @ CHR ''-'' # digits2 (nat (k - month_starts (leap_year y) ! m + 1))
         @ CHR ''T'' # digits2 (nat (r div 3600000))
         @ CHR '':'' # digits2 (nat (r div 60000 mod 60))
         @ CHR '':'' # digits2 (nat (r div 1000 mod 60))
         @ CHR ''.'' # digits3 (nat (r mod 1000)) @ ''Z'')"

definition read_field :: "string \<Rightarrow> nat \<Rightarrow> nat \<Rightarrow> int" where
  "read_field s i w = int (read_nat (take w (drop i s)))"

definition read_year :: "string \<Rightarrow> int" where
  "read_year s =
     (if length s = 24 then read_field s 0 4
      else if hd s = CHR ''-'' then - read_field s 1 6 else read_field s 1 6)"

definition read_time :: "string \<Rightarrow> int" where
  "read_time s =
     (let y = read_year s; o' = length s - 24; m = nat (read_field s (o' + 5) 2) - 1
      in (day_from_year y + month_starts (leap_year y) ! m + read_field s (o' + 8) 2 - 1) * ms_per_day
         + read_field s (o' + 11) 2 * 3600000 + read_field s (o' + 14) 2 * 60000
         + read_field s (o' + 17) 2 * 1000 + read_field s (o' + 20) 3)"

definition parse_canonical :: "string \<Rightarrow> int option" where
  "parse_canonical s =
     (if length s = 24 \<or> length s = 27 then
        (let t = read_time s in if valid_time t \<and> to_iso t = s then Some t else None)
      else None)"

definition date_parse :: "host \<Rightarrow> string \<Rightarrow> int option" where
  "date_parse h s =
     (case parse_canonical s of
       Some t \<Rightarrow> Some t
     | None \<Rightarrow> (case legacy_date h s of Some t \<Rightarrow> if valid_time t then Some t else None | None \<Rightarrow> None))"

text \<open>\<open>date.toISOString().slice(0, 10)\<close>\<close>

definition iso_day :: "int \<Rightarrow> string" where
  "iso_day t = take 10 (to_iso t)"

text \<open>Accepted by \<open>Number.isFinite(Date.parse(s)) && new Date(Date.parse(s)).toISOString() === s\<close>.\<close>

definition canonical_time :: "host \<Rightarrow> string \<Rightarrow> bool" where
  "canonical_time h s = (case date_parse h s of Some t \<Rightarrow> to_iso t = s | None \<Rightarrow> False)"

subsection \<open>The calendar\<close>

lemma day_from_year_bounds:
  "400 * day_from_year y \<le> 146097 * (y - 1970) + 589"
  "146097 * (y - 1970) - 506 \<le> 400 * day_from_year y"
  by (simp_all add: day_from_year_def)

lemma year_from_day_bounds:
  "day_from_year (year_from_day d) \<le> d" "d < day_from_year (year_from_day d + 1)"
proof -
  define q where "q = (400 * d) div 146097"
  have q: "146097 * q \<le> 400 * d" "400 * d < 146097 * q + 146097"
    unfolding q_def by linarith+
  have lo: "day_from_year (1970 + q - 1) \<le> d"
    using day_from_year_bounds(1) [of "1970 + q - 1"] q by simp
  have hi: "d < day_from_year (1970 + q + 2)"
    using day_from_year_bounds(2) [of "1970 + q + 2"] q by simp
  show "day_from_year (year_from_day d) \<le> d" "d < day_from_year (year_from_day d + 1)"
    using lo hi by (auto simp: year_from_day_def Let_def q_def [symmetric] add.commute)
qed

lemma day_of_year_range: "0 \<le> d - day_from_year (year_from_day d)" "d - day_from_year (year_from_day d) \<le> 366"
proof -
  have "day_from_year (y + 1) - day_from_year y \<le> 367" for y
    using day_from_year_bounds(1) [of "y + 1"] day_from_year_bounds(2) [of y] by simp
  from this [of "year_from_day d"] year_from_day_bounds [of d]
  show "0 \<le> d - day_from_year (year_from_day d)" "d - day_from_year (year_from_day d) \<le> 366"
    by linarith+
qed

lemma month_index_range:
  assumes "0 \<le> k" "k \<le> 366"
  shows "month_index l k < 12" "0 \<le> k - month_starts l ! month_index l k"
    "k - month_starts l ! month_index l k \<le> 33"
  using assms by (auto simp: month_index_def month_starts_def Let_def)

lemma year_of_day_range:
  assumes "- 100000000 \<le> d" "d \<le> 100000000"
  shows "- 999999 \<le> year_from_day d" "year_from_day d \<le> 999999"
proof -
  have "400 * d < 146097 * (year_from_day d - 1969) + 589"
    using day_from_year_bounds(1) [of "year_from_day d + 1"] year_from_day_bounds(2) [of d] by simp
  then show "- 999999 \<le> year_from_day d" using assms(1) by simp
  have "146097 * (year_from_day d - 1970) - 506 \<le> 400 * d"
    using day_from_year_bounds(2) [of "year_from_day d"] year_from_day_bounds(1) [of d] by simp
  then show "year_from_day d \<le> 999999" using assms(2) by simp
qed

lemma valid_time_day:
  assumes "valid_time t"
  shows "- 100000000 \<le> t div ms_per_day" "t div ms_per_day \<le> 100000000"
proof -
  have "- 8640000000000000 \<le> t" "t \<le> 8640000000000000"
    using assms by (auto simp: valid_time_def max_time_def)
  then show "- 100000000 \<le> t div ms_per_day" "t div ms_per_day \<le> 100000000"
    unfolding ms_per_day_def by linarith+
qed

lemmas year_range = year_of_day_range [OF valid_time_day]

subsection \<open>Reading back what \<open>toISOString\<close> wrote\<close>

lemma tens: "10 * (n div (10 * k)) + n div k mod 10 = n div (k::nat)"
proof -
  have "n div (10 * k) = n div k div 10" by (simp add: div_mult2_eq [symmetric] mult.commute)
  then show ?thesis by simp
qed

lemma tens_numerals:
  "10 * (n div 10) + n mod 10 = (n::nat)"
  "10 * (n div 100) + n div 10 mod 10 = n div (10::nat)"
  "10 * (n div 1000) + n div 100 mod 10 = n div (100::nat)"
  "10 * (n div 10000) + n div 1000 mod 10 = n div (1000::nat)"
  "10 * (n div 100000) + n div 10000 mod 10 = n div (10000::nat)"
  using tens [of n 10] tens [of n 100] tens [of n 1000] tens [of n 10000] by simp_all

lemma read_digits2: "n < 100 \<Longrightarrow> read_nat (digits2 n) = n"
  by (simp add: digits2_def read_nat_def digit_char_props)

lemma read_digits3: "n < 1000 \<Longrightarrow> read_nat (digits3 n) = n"
  using tens_numerals(1,2) [of n]
  by (simp add: digits3_def digits2_def read_nat_def digit_char_props)

lemma read_digits4: "n < 10000 \<Longrightarrow> read_nat (digits4 n) = n"
  using tens_numerals(1-3) [of n]
  by (simp add: digits4_def digits3_def digits2_def read_nat_def digit_char_props)

lemma read_digits6:
  assumes "n < 1000000"
  shows "read_nat (digits6 n) = n"
proof -
  have "n div 100000 < 10" using assms by (simp add: less_mult_imp_div_less)
  moreover from this have "n div 100000 mod 10 = n div 100000" by simp
  ultimately show ?thesis using tens_numerals [of n]
    by (simp add: digits6_def digits4_def digits3_def digits2_def read_nat_def digit_char_props)
qed

lemma digits_length [simp]:
  "length (digits2 n) = 2" "length (digits3 n) = 3" "length (digits4 n) = 4" "length (digits6 n) = 6"
  by (simp_all add: digits2_def digits3_def digits4_def digits6_def)

lemma length_year_text: "length (year_text y) = (if 0 \<le> y \<and> y \<le> 9999 then 4 else 7)"
  by (simp add: year_text_def)

lemma read_year_text:
  assumes "- 999999 \<le> y" "y \<le> 999999" and s: "s = year_text y @ r" "length r = 20"
  shows "read_year s = y"
proof (cases "0 \<le> y \<and> y \<le> 9999")
  case True
  then have "nat y < 10000" by linarith
  with True show ?thesis using s
    by (simp add: read_year_def read_field_def year_text_def read_digits4)
next
  case False
  then have "length s = 27" using s by (simp add: length_year_text)
  moreover have "nat \<bar>y\<bar> < 1000000" using assms(1,2) by linarith
  ultimately show ?thesis using False s
    by (auto simp: read_year_def read_field_def year_text_def read_digits6)
qed

lemma read_field_at:
  "i = length p \<Longrightarrow> w = length f \<Longrightarrow> read_field (p @ f @ r) i w = int (read_nat f)"
  by (simp add: read_field_def)


lemma length_to_iso: "length (to_iso t) = length (year_text (year_from_day (t div ms_per_day))) + 20"
  by (simp add: to_iso_def Let_def)



lemma read_time_parts:
  assumes s: "s = Y @ CHR ''-'' # digits2 mo @ CHR ''-'' # digits2 da @ CHR ''T'' # digits2 ho
      @ CHR '':'' # digits2 mi @ CHR '':'' # digits2 se @ CHR ''.'' # digits3 ms @ ''Z''"
    and y: "read_year s = y" and Y: "length Y = k + 4"
    and n: "mo < 100" "da < 100" "ho < 100" "mi < 100" "se < 100" "ms < 1000"
  shows "read_time s = (day_from_year y + month_starts (leap_year y) ! (mo - 1) + int da - 1) * ms_per_day
     + int ho * 3600000 + int mi * 60000 + int se * 1000 + int ms"
proof -
  have len: "length s - 24 = k" using s Y by simp
  have fields: "read_field s (k + 5) 2 = int mo" "read_field s (k + 8) 2 = int da"
    "read_field s (k + 11) 2 = int ho" "read_field s (k + 14) 2 = int mi"
    "read_field s (k + 17) 2 = int se" "read_field s (k + 20) 3 = int ms"
    unfolding s read_field_def by (simp_all add: Y n read_digits2 read_digits3)
  show ?thesis by (simp only: read_time_def Let_def len fields y nat_int)
qed

lemma split_ms_of_day:
  fixes r :: int
  assumes "0 \<le> r" "r < ms_per_day"
  shows "nat (r div 3600000) < 100" "nat (r div 60000 mod 60) < 100" "nat (r div 1000 mod 60) < 100"
    "nat (r mod 1000) < 1000"
    "int (nat (r div 3600000)) * 3600000 + int (nat (r div 60000 mod 60)) * 60000
       + int (nat (r div 1000 mod 60)) * 1000 + int (nat (r mod 1000)) = r"
proof -
  have q: "r div 60000 = r div 1000 div 60" "r div 3600000 = r div 1000 div 60 div 60"
    by (simp_all only: zdiv_zmult2_eq [symmetric] zero_le_numeral mult_numeral_1 arith_simps)
  define a b c e where "a = r div 3600000" and "b = r div 60000 mod 60" and "c = r div 1000 mod 60"
    and "e = r mod 1000"
  note defs = this
  have bounds: "0 \<le> a" "a < 24" "0 \<le> b" "b < 60" "0 \<le> c" "c < 60" "0 \<le> e" "e < 1000"
    using assms by (simp_all add: defs ms_per_day_def pos_imp_zdiv_nonneg_iff)
  have sum: "a * 3600000 + b * 60000 + c * 1000 + e = r"
    using div_mult_mod_eq [of r 1000] div_mult_mod_eq [of "r div 1000" 60]
      div_mult_mod_eq [of "r div 1000 div 60" 60]
    unfolding defs q by (simp only: algebra_simps)
  show "nat (r div 3600000) < 100" "nat (r div 60000 mod 60) < 100" "nat (r div 1000 mod 60) < 100"
    "nat (r mod 1000) < 1000"
    unfolding defs [symmetric] using bounds by linarith+
  show "int (nat (r div 3600000)) * 3600000 + int (nat (r div 60000 mod 60)) * 60000
       + int (nat (r div 1000 mod 60)) * 1000 + int (nat (r mod 1000)) = r"
    unfolding defs [symmetric] using bounds sum by simp
qed

lemma read_time_to_iso:
  assumes "valid_time t"
  shows "read_time (to_iso t) = t"
proof -
  define d where "d = t div ms_per_day"
  define r where "r = t mod ms_per_day"
  define y where "y = year_from_day d"
  define k where "k = d - day_from_year y"
  define m where "m = month_index (leap_year y) k"
  define da where "da = nat (k - month_starts (leap_year y) ! m + 1)"
  have r: "0 \<le> r" "r < ms_per_day" by (simp_all add: r_def ms_per_day_def)
  have k: "0 \<le> k" "k \<le> 366" using day_of_year_range [of d] by (simp_all add: k_def y_def)
  note mi = month_index_range [OF k, of "leap_year y"]
  have y: "- 999999 \<le> y" "y \<le> 999999" using year_range [OF assms assms] by (simp_all add: y_def d_def)
  have iso: "to_iso t = year_text y @ CHR ''-'' # digits2 (Suc m) @ CHR ''-'' # digits2 da
      @ CHR ''T'' # digits2 (nat (r div 3600000)) @ CHR '':'' # digits2 (nat (r div 60000 mod 60))
      @ CHR '':'' # digits2 (nat (r div 1000 mod 60)) @ CHR ''.'' # digits3 (nat (r mod 1000)) @ ''Z''"
    by (simp add: to_iso_def Let_def d_def r_def y_def k_def m_def da_def)
  have year: "read_year (to_iso t) = y"
    by (rule read_year_text [OF y iso]) simp
  obtain j where j: "length (year_text y) = j + 4"
    using that [of "length (year_text y) - 4"] by (simp add: length_year_text)
  have md: "Suc m < 100" "da < 100" using mi by (auto simp: m_def da_def)
  have "read_time (to_iso t) = (day_from_year y + month_starts (leap_year y) ! m + int da - 1) * ms_per_day + r"
    unfolding read_time_parts [OF iso year j md split_ms_of_day(1-4) [OF r]] diff_Suc_1
    using split_ms_of_day(5) [OF r] by linarith
  also have "\<dots> = d * ms_per_day + r"
    using mi by (simp add: da_def m_def k_def)
  also have "\<dots> = t" by (simp add: d_def r_def)
  finally show ?thesis .
qed

theorem parse_to_iso:
  assumes "valid_time t"
  shows "parse_canonical (to_iso t) = Some t"
  using assms read_time_to_iso [OF assms]
  by (simp add: parse_canonical_def length_to_iso length_year_text Let_def)

lemma parse_canonical_iso: "parse_canonical s = Some t \<Longrightarrow> to_iso t = s \<and> valid_time t"
  by (auto simp: parse_canonical_def Let_def split: if_splits)

lemma date_parse_to_iso [simp]: "valid_time t \<Longrightarrow> date_parse h (to_iso t) = Some t"
  by (simp add: date_parse_def parse_to_iso)

lemma date_parse_valid: "date_parse h s = Some t \<Longrightarrow> valid_time t"
  by (auto simp: date_parse_def dest: parse_canonical_iso split: option.splits if_splits)

lemma canonical_timeE:
  assumes "canonical_time h s"
  obtains t where "valid_time t" "s = to_iso t" "date_parse h s = Some t"
  using assms by (auto simp: canonical_time_def dest: date_parse_valid split: option.splits)

lemma canonical_time_iff: "canonical_time h s \<longleftrightarrow> (\<exists>t. valid_time t \<and> s = to_iso t)"
proof
  show "canonical_time h s \<Longrightarrow> \<exists>t. valid_time t \<and> s = to_iso t" by (erule canonical_timeE) blast
qed (auto simp: canonical_time_def)

lemma to_iso_inject: "valid_time t \<Longrightarrow> valid_time u \<Longrightarrow> to_iso t = to_iso u \<longleftrightarrow> t = u"
  by (metis parse_to_iso option.inject)

end
