(* ===== verification/Zod.thy ===== *)
theory Zod
  imports JsDate
begin

text \<open>
  The schema language the program writes its input checks in (zod 4), read as its documentation
  gives it: a schema is a partial function from a JavaScript value to the parsed value, \<open>None\<close>
  where \<open>safeParse\<close> fails. \<open>z_object\<close> is a strict object: a key outside the shape is an error and a
  missing key reads as \<open>undefined\<close>. Integers are safe integers, as \<open>.int()\<close> requires.
\<close>

definition z_object :: "string list \<Rightarrow> jsval \<Rightarrow> (string \<Rightarrow> jsval) option" where
  "z_object keys v =
     (case v of
       JObj fs \<Rightarrow>
         if list_all (\<lambda>(k, _). k \<in> set keys) fs
         then Some (\<lambda>k. case map_of fs k of None \<Rightarrow> JUndefined | Some x \<Rightarrow> x)
         else None
     | _ \<Rightarrow> None)"

definition z_string :: "(string \<Rightarrow> bool) \<Rightarrow> jsval \<Rightarrow> string option" where
  "z_string p v = (case v of JStr s \<Rightarrow> if p s then Some s else None | _ \<Rightarrow> None)"

definition z_bool :: "jsval \<Rightarrow> bool option" where
  "z_bool v = (case v of JBool b \<Rightarrow> Some b | _ \<Rightarrow> None)"

definition z_int :: "(int \<Rightarrow> bool) \<Rightarrow> jsval \<Rightarrow> int option" where
  "z_int p v =
     (case v of JNum (NInt i) \<Rightarrow> if safe_int i \<and> p i then Some i else None | _ \<Rightarrow> None)"

definition z_between :: "int \<Rightarrow> int \<Rightarrow> jsval \<Rightarrow> int option" where
  "z_between lo hi = z_int (\<lambda>i. lo \<le> i \<and> i \<le> hi)"

fun unit_num :: "jsnum \<Rightarrow> bool" where
  "unit_num (NInt i) = (0 \<le> i \<and> i \<le> 1)"
| "unit_num (NFrac r) = (0 \<le> r \<and> r \<le> 1)"
| "unit_num _ = False"

definition z_unit :: "jsval \<Rightarrow> jsnum option" where
  "z_unit v = (case v of JNum n \<Rightarrow> if unit_num n then Some n else None | _ \<Rightarrow> None)"

definition z_array :: "(jsval \<Rightarrow> 'a option) \<Rightarrow> (nat \<Rightarrow> bool) \<Rightarrow> jsval \<Rightarrow> 'a list option" where
  "z_array f len v =
     (case v of JArr vs \<Rightarrow> if len (length vs) then collect f vs else None | _ \<Rightarrow> None)"

definition z_optional :: "(jsval \<Rightarrow> 'a option) \<Rightarrow> jsval \<Rightarrow> 'a option option" where
  "z_optional f v = (if v = JUndefined then Some None else map_option Some (f v))"

definition z_nullable :: "(jsval \<Rightarrow> 'a option) \<Rightarrow> jsval \<Rightarrow> 'a option option" where
  "z_nullable f v = (if v = JNull then Some None else map_option Some (f v))"

definition z_literal :: "string \<Rightarrow> jsval \<Rightarrow> unit option" where
  "z_literal s v = (if v = JStr s then Some () else None)"

definition z_number_literal :: "int \<Rightarrow> jsval \<Rightarrow> unit option" where
  "z_number_literal i v = (if v = jint i then Some () else None)"

definition z_enum :: "(string \<times> 'a) list \<Rightarrow> jsval \<Rightarrow> 'a option" where
  "z_enum table v = (case v of JStr s \<Rightarrow> map_of table s | _ \<Rightarrow> None)"

definition z_record :: "(string \<Rightarrow> bool) \<Rightarrow> (jsval \<Rightarrow> 'a option) \<Rightarrow> jsval \<Rightarrow> (string \<times> 'a) list option" where
  "z_record key f v =
     (case v of
       JObj fs \<Rightarrow> collect (\<lambda>(k, x). if key k then map_option (\<lambda>y. (k, y)) (f x) else None) fs
     | _ \<Rightarrow> None)"

definition z_refine :: "('a \<Rightarrow> bool) \<Rightarrow> 'a option \<Rightarrow> 'a option" where
  "z_refine p r = (case r of Some x \<Rightarrow> if p x then Some x else None | None \<Rightarrow> None)"

subsection \<open>When a schema accepts\<close>

lemma z_string_Some [parse_simps]: "z_string p v = Some s \<longleftrightarrow> v = JStr s \<and> p s"
  by (auto simp: z_string_def split: jsval.splits)

lemma z_bool_Some [parse_simps]: "z_bool v = Some b \<longleftrightarrow> v = JBool b"
  by (auto simp: z_bool_def split: jsval.splits)

lemma z_int_Some [parse_simps]: "z_int p v = Some i \<longleftrightarrow> v = jint i \<and> safe_int i \<and> p i"
  by (auto simp: z_int_def split: jsval.splits jsnum.splits)

lemma z_between_Some [parse_simps]:
  "z_between lo hi v = Some i \<longleftrightarrow> v = jint i \<and> safe_int i \<and> lo \<le> i \<and> i \<le> hi"
  by (simp add: z_between_def z_int_Some)

lemma z_unit_Some [parse_simps]: "z_unit v = Some n \<longleftrightarrow> v = JNum n \<and> unit_num n"
  by (auto simp: z_unit_def split: jsval.splits)

lemma z_array_Some [parse_simps]:
  "z_array f len v = Some xs \<longleftrightarrow> (\<exists>vs. v = JArr vs \<and> len (length vs) \<and> collect f vs = Some xs)"
  by (auto simp: z_array_def split: jsval.splits)

lemma z_optional_Some [parse_simps]:
  "z_optional f v = Some r \<longleftrightarrow>
     (case r of None \<Rightarrow> v = JUndefined | Some x \<Rightarrow> v \<noteq> JUndefined \<and> f v = Some x)"
  by (auto simp: z_optional_def split: option.splits)

lemma z_nullable_Some [parse_simps]:
  "z_nullable f v = Some r \<longleftrightarrow> (case r of None \<Rightarrow> v = JNull | Some x \<Rightarrow> v \<noteq> JNull \<and> f v = Some x)"
  by (auto simp: z_nullable_def split: option.splits)

lemma z_literal_Some [parse_simps]: "z_literal s v = Some u \<longleftrightarrow> v = JStr s"
  by (simp add: z_literal_def)

lemma z_number_literal_Some [parse_simps]: "z_number_literal i v = Some u \<longleftrightarrow> v = jint i"
  by (simp add: z_number_literal_def)

lemma z_refine_Some [parse_simps]: "z_refine p r = Some x \<longleftrightarrow> r = Some x \<and> p x"
  by (auto simp: z_refine_def split: option.splits)

lemma z_object_JObj:
  "list_all (\<lambda>(k, _). k \<in> set keys) fs \<Longrightarrow>
     z_object keys (JObj fs) = Some (\<lambda>k. case map_of fs k of None \<Rightarrow> JUndefined | Some x \<Rightarrow> x)"
  by (simp add: z_object_def)

subsection \<open>Text patterns\<close>

definition label_char :: "char \<Rightarrow> bool" where
  "label_char c \<longleftrightarrow> is_alnum c \<or> c \<in> {CHR ''.'', CHR ''_'', CHR ''-''}"

text \<open>\<open>/^<prefix>[A-Za-z0-9._-]{1,n}$/\<close>\<close>

definition labelled :: "string \<Rightarrow> nat \<Rightarrow> string \<Rightarrow> bool" where
  "labelled p n s \<longleftrightarrow>
     (let r = drop (length p) s
      in take (length p) s = p \<and> 1 \<le> length r \<and> length r \<le> n \<and> list_all label_char r)"

text \<open>\<open>/^<prefix>[digits]{n}$/\<close> for a digit class\<close>

definition fixed_digits :: "string \<Rightarrow> (char \<Rightarrow> bool) \<Rightarrow> nat \<Rightarrow> string \<Rightarrow> bool" where
  "fixed_digits p cls n s \<longleftrightarrow>
     (let r = drop (length p) s
      in take (length p) s = p \<and> length r = n \<and> list_all cls r)"

lemma fixed_digitsE:
  assumes "fixed_digits p cls n s"
  obtains r where "s = p @ r" "length r = n" "list_all cls r"
  using assms by (auto simp: fixed_digits_def Let_def) (metis append_take_drop_id)

end
