(* ===== verification/Evidence.thy ===== *)
theory Evidence
  imports Zod
begin

text \<open>
  \<open>packages/domain/src/evidence.ts\<close>: the identifier, amount and time formats, asset
  identity, and the observation a source is reduced to. Each schema is a parser
  from a raw JavaScript value; the records hold what a successful parse returns.
\<close>

subsection \<open>Formats\<close>

definition EvmAddressSchema :: "string \<Rightarrow> bool" where
  "EvmAddressSchema = fixed_digits ''0x'' is_hex 40"

definition Bytes32Schema :: "string \<Rightarrow> bool" where
  "Bytes32Schema = fixed_digits ''0x'' is_hex 64"

definition Sha256IdSchema :: "string \<Rightarrow> bool" where
  "Sha256IdSchema = fixed_digits ''sha256:'' is_lower_hex 64"

definition XStableIdSchema :: "string \<Rightarrow> bool" where
  "XStableIdSchema s \<longleftrightarrow> 1 \<le> length s \<and> length s \<le> 32 \<and> list_all is_digit s"

definition MAX_UINT256 :: nat where
  "MAX_UINT256 = 2 ^ 256 - 1"

text \<open>\<open>/^(0|[1-9][0-9]*)$/\<close>\<close>

definition unsigned_decimal :: "string \<Rightarrow> bool" where
  "unsigned_decimal s \<longleftrightarrow> s = ''0'' \<or> (s \<noteq> [] \<and> list_all is_digit s \<and> hd s \<noteq> CHR ''0'')"

definition AtomicAmountSchema :: "string \<Rightarrow> bool" where
  "AtomicAmountSchema s \<longleftrightarrow>
     length s \<le> 78 \<and> unsigned_decimal s \<and> read_nat s \<le> MAX_UINT256"

definition TimestampSchema :: "host \<Rightarrow> string \<Rightarrow> bool" where
  "TimestampSchema h s \<longleftrightarrow> zod_datetime h s"

definition HttpsOriginSchema :: "host \<Rightarrow> string \<Rightarrow> bool" where
  "HttpsOriginSchema h s \<longleftrightarrow>
     (case parse_url h s of
       None \<Rightarrow> False
     | Some u \<Rightarrow> url_protocol u = ''https:'' \<and> url_username u = [] \<and> url_password u = []
         \<and> url_pathname u = ''/'' \<and> url_search u = [] \<and> url_hash u = [])"

definition SafeLabelSchema :: "string \<Rightarrow> bool" where
  "SafeLabelSchema s \<longleftrightarrow>
     (case s of [] \<Rightarrow> False
      | c # r \<Rightarrow> is_alnum c \<and> length r \<le> 127 \<and> list_all (\<lambda>d. label_char d \<or> d = CHR '':'') r)"

definition media_char :: "char \<Rightarrow> bool" where
  "media_char c \<longleftrightarrow> is_alnum c \<or> c \<in> set ''!#$&^_.+-''"

definition MediaTypeSchema :: "string \<Rightarrow> bool" where
  "MediaTypeSchema s \<longleftrightarrow>
     js_length s \<le> 128 \<and>
     (let t = takeWhile media_char s; r = dropWhile media_char s
      in 1 \<le> length t \<and> length t \<le> 64 \<and> r \<noteq> [] \<and> hd r = CHR ''/'' \<and>
         (let u = takeWhile media_char (tl r); p = dropWhile media_char (tl r)
          in 1 \<le> length u \<and> length u \<le> 64 \<and>
             (p = [] \<or> (hd p = CHR '';'' \<and> labelled ''charset='' 32 (trim_start (tl p))))))"

subsection \<open>Assets\<close>

record AssetContract =
  ac_chainId :: int
  ac_address :: string

record NftAsset =
  nft_chainId :: int
  nft_address :: string
  nft_tokenId :: string

definition positive :: "int \<Rightarrow> bool" where
  "positive i \<longleftrightarrow> 0 < i"

definition AssetContractSchema :: "jsval \<Rightarrow> AssetContract option" where
  "AssetContractSchema v = do {
     f \<leftarrow> z_object [''chainId'', ''address''] v;
     c \<leftarrow> z_int positive (f ''chainId'');
     a \<leftarrow> z_string EvmAddressSchema (f ''address'');
     Some \<lparr>ac_chainId = c, ac_address = a\<rparr> }"

definition NftAssetSchema :: "jsval \<Rightarrow> NftAsset option" where
  "NftAssetSchema v = do {
     f \<leftarrow> z_object [''chainId'', ''address'', ''tokenId''] v;
     c \<leftarrow> z_int positive (f ''chainId'');
     a \<leftarrow> z_string EvmAddressSchema (f ''address'');
     t \<leftarrow> z_string AtomicAmountSchema (f ''tokenId'');
     Some \<lparr>nft_chainId = c, nft_address = a, nft_tokenId = t\<rparr> }"

definition assetKey :: "int \<Rightarrow> string \<Rightarrow> string" where
  "assetKey chainId address = int_str chainId @ CHR '':'' # to_lower address"

subsection \<open>Observations\<close>

datatype SourceKind = SrcX | SrcX402 | SrcOpensea | SrcOnchain | SrcRobinhood | SrcManual

definition ObservationSourceKindSchema :: "jsval \<Rightarrow> SourceKind option" where
  "ObservationSourceKindSchema =
     z_enum [(''x'', SrcX), (''x402'', SrcX402), (''opensea'', SrcOpensea), (''onchain'', SrcOnchain),
             (''robinhood'', SrcRobinhood), (''manual'', SrcManual)]"

datatype ClaimType =
  CollectionIdentity | Ownership | Listing | ExecutableBid | MarketMomentum | RiskIndicator

record EvidenceClaim =
  claim_type :: ClaimType
  claim_asset :: NftAsset
  claim_confidence :: jsnum

definition EvidenceClaimSchema :: "jsval \<Rightarrow> EvidenceClaim option" where
  "EvidenceClaimSchema v = do {
     f \<leftarrow> z_object [''type'', ''asset'', ''confidence''] v;
     t \<leftarrow> z_enum [(''collection_identity'', CollectionIdentity), (''ownership'', Ownership),
            (''listing'', Listing), (''executable_bid'', ExecutableBid),
            (''market_momentum'', MarketMomentum), (''risk_indicator'', RiskIndicator)] (f ''type'');
     a \<leftarrow> NftAssetSchema (f ''asset'');
     c \<leftarrow> z_unit (f ''confidence'');
     Some \<lparr>claim_type = t, claim_asset = a, claim_confidence = c\<rparr> }"

record ObservationSource =
  src_kind :: SourceKind
  src_providerId :: string
  src_providerOrigin :: "string option"

record ObservationRaw =
  raw_contentHash :: string
  raw_contentType :: string
  raw_byteLength :: int

record ObservationOrigin =
  org_xPostId :: "string option"
  org_authorId :: "string option"
  org_editHistoryIds :: "string list"
  org_capturedVersionHash :: "string option"

record ObservationIntegrity =
  coordinationClusterId :: string
  accountAnomalyScore :: jsnum
  homographFlags :: "string list"
  injectionFlags :: "string list"
  independentEvidenceIds :: "string list"

text \<open>The only marketplace an order can name is OpenSea, so an order is its hash.\<close>

record Observation =
  observationId :: string
  obs_source :: ObservationSource
  acquiredAt :: string
  observedAt :: string
  validUntil :: string
  obs_raw :: ObservationRaw
  obs_origin :: "ObservationOrigin option"
  obs_order :: "string option"
  obs_claims :: "EvidenceClaim list"
  integrity :: ObservationIntegrity

definition source_schema :: "host \<Rightarrow> jsval \<Rightarrow> ObservationSource option" where
  "source_schema h v = do {
     f \<leftarrow> z_object [''kind'', ''providerId'', ''providerOrigin''] v;
     k \<leftarrow> ObservationSourceKindSchema (f ''kind'');
     p \<leftarrow> z_string SafeLabelSchema (f ''providerId'');
     u \<leftarrow> z_optional (z_string (HttpsOriginSchema h)) (f ''providerOrigin'');
     Some \<lparr>src_kind = k, src_providerId = p, src_providerOrigin = u\<rparr> }"

definition raw_schema :: "jsval \<Rightarrow> ObservationRaw option" where
  "raw_schema v = do {
     f \<leftarrow> z_object [''contentHash'', ''contentType'', ''byteLength''] v;
     c \<leftarrow> z_string Sha256IdSchema (f ''contentHash'');
     m \<leftarrow> z_string MediaTypeSchema (f ''contentType'');
     n \<leftarrow> z_between 0 5000000 (f ''byteLength'');
     Some \<lparr>raw_contentHash = c, raw_contentType = m, raw_byteLength = n\<rparr> }"

definition origin_schema :: "jsval \<Rightarrow> ObservationOrigin option" where
  "origin_schema v = do {
     f \<leftarrow> z_object [''xPostId'', ''authorId'', ''editHistoryIds'', ''capturedVersionHash''] v;
     p \<leftarrow> z_optional (z_string XStableIdSchema) (f ''xPostId'');
     a \<leftarrow> z_optional (z_string XStableIdSchema) (f ''authorId'');
     e \<leftarrow> z_optional (z_array (z_string XStableIdSchema) (\<lambda>n. n \<le> 100)) (f ''editHistoryIds'');
     c \<leftarrow> z_optional (z_string Sha256IdSchema) (f ''capturedVersionHash'');
     Some \<lparr>org_xPostId = p, org_authorId = a,
           org_editHistoryIds = (case e of None \<Rightarrow> [] | Some ids \<Rightarrow> ids), org_capturedVersionHash = c\<rparr> }"

definition order_schema :: "jsval \<Rightarrow> string option" where
  "order_schema v = do {
     f \<leftarrow> z_object [''marketplace'', ''orderHash''] v;
     _ \<leftarrow> z_literal ''opensea'' (f ''marketplace'');
     z_string Bytes32Schema (f ''orderHash'') }"

definition integrity_schema :: "jsval \<Rightarrow> ObservationIntegrity option" where
  "integrity_schema v = do {
     f \<leftarrow> z_object [''coordinationClusterId'', ''accountAnomalyScore'', ''homographFlags'',
            ''injectionFlags'', ''independentEvidenceIds''] v;
     c \<leftarrow> z_string SafeLabelSchema (f ''coordinationClusterId'');
     s \<leftarrow> z_unit (f ''accountAnomalyScore'');
     g \<leftarrow> z_array (z_string SafeLabelSchema) (\<lambda>n. n \<le> 50) (f ''homographFlags'');
     i \<leftarrow> z_array (z_string SafeLabelSchema) (\<lambda>n. n \<le> 50) (f ''injectionFlags'');
     e \<leftarrow> z_array (z_string Sha256IdSchema) (\<lambda>n. n \<le> 100) (f ''independentEvidenceIds'');
     Some \<lparr>coordinationClusterId = c, accountAnomalyScore = s, homographFlags = g,
           injectionFlags = i, independentEvidenceIds = e\<rparr> }"

definition ObservationSchema :: "host \<Rightarrow> jsval \<Rightarrow> Observation option" where
  "ObservationSchema h v = do {
     f \<leftarrow> z_object [''observationId'', ''source'', ''acquiredAt'', ''observedAt'', ''validUntil'',
            ''raw'', ''origin'', ''order'', ''claims'', ''integrity''] v;
     i \<leftarrow> z_string Sha256IdSchema (f ''observationId'');
     s \<leftarrow> source_schema h (f ''source'');
     a \<leftarrow> z_string (TimestampSchema h) (f ''acquiredAt'');
     b \<leftarrow> z_string (TimestampSchema h) (f ''observedAt'');
     u \<leftarrow> z_string (TimestampSchema h) (f ''validUntil'');
     r \<leftarrow> raw_schema (f ''raw'');
     g \<leftarrow> z_optional origin_schema (f ''origin'');
     d \<leftarrow> z_optional order_schema (f ''order'');
     c \<leftarrow> z_array EvidenceClaimSchema (\<lambda>n. 1 \<le> n \<and> n \<le> 100) (f ''claims'');
     t \<leftarrow> integrity_schema (f ''integrity'');
     Some \<lparr>observationId = i, obs_source = s, acquiredAt = a, observedAt = b, validUntil = u,
           obs_raw = r, obs_origin = g, obs_order = d, obs_claims = c, integrity = t\<rparr> }"


subsection \<open>Decimal amounts\<close>

lemma foldl_read: "foldl (\<lambda>a c. 10 * a + digit_val c) n s = n * 10 ^ length s + read_nat s"
proof (induction s arbitrary: n)
  case (Cons c s)
  have "read_nat (c # s) = digit_val c * 10 ^ length s + read_nat s"
    using Cons [of "digit_val c"] by (simp add: read_nat_def)
  then show ?case using Cons [of "10 * n + digit_val c"] by (simp add: algebra_simps)
qed (simp add: read_nat_def)

lemma digit_char_val: "is_digit c \<Longrightarrow> digit_char (digit_val c) = c"
proof -
  assume "is_digit c"
  then have "48 \<le> code c" "code c \<le> 57" by (simp_all add: is_digit_def in_range_def) (simp_all add: code_def)
  then have "code (digit_char (digit_val c)) = code c"
    by (simp add: digit_char_props digit_val_def)
  then show ?thesis by simp
qed

lemma digit_val_less: "is_digit c \<Longrightarrow> digit_val c < 10"
proof -
  assume "is_digit c"
  then have "code c \<le> 57" by (simp add: is_digit_def in_range_def) (simp add: code_def)
  then show ?thesis by (simp add: digit_val_def)
qed

lemma digit_char_0: "digit_char 0 = CHR ''0''"
proof -
  have "code (digit_char 0) = code CHR ''0''" by (simp add: digit_char_props) (simp add: code_def)
  then show ?thesis by simp
qed

lemma digit_val_pos: "is_digit c \<Longrightarrow> c \<noteq> CHR ''0'' \<Longrightarrow> 0 < digit_val c"
  using digit_char_val [of c] by (cases "digit_val c") (auto simp: digit_char_0)

lemma read_nat_pos: "list_all is_digit s \<Longrightarrow> s \<noteq> [] \<Longrightarrow> hd s \<noteq> CHR ''0'' \<Longrightarrow> 0 < read_nat s"
  using foldl_read [of "digit_val (hd s)" "tl s"] digit_val_pos [of "hd s"]
  by (cases s) (simp_all add: read_nat_def)

lemma nat_str_read:
  "list_all is_digit s \<Longrightarrow> s \<noteq> [] \<Longrightarrow> hd s \<noteq> CHR ''0'' \<Longrightarrow> nat_str (read_nat s) = s"
proof (induction s rule: rev_induct)
  case (snoc c s)
  have c: "is_digit c" using snoc.prems by simp
  have r: "read_nat (s @ [c]) = 10 * read_nat s + digit_val c" by (simp add: read_nat_snoc)
  show ?case
  proof (cases "s = []")
    case True
    then show ?thesis using r c digit_val_less [OF c]
      by (subst nat_str.simps) (simp add: read_nat_def digit_char_val)
  next
    case False
    then have s: "list_all is_digit s" "hd s \<noteq> CHR ''0''" using snoc.prems by (cases s; simp)+
    have "0 < read_nat s" using s False by (intro read_nat_pos)
    then show ?thesis using r snoc.IH [OF s(1) False s(2)] digit_val_less [OF c]
      by (subst nat_str.simps) (simp add: digit_char_val c)
  qed
qed simp

lemma unsigned_decimal_iff: "unsigned_decimal s \<longleftrightarrow> (\<exists>n. s = nat_str n)"
proof
  assume "unsigned_decimal s"
  then consider "s = ''0''" | "s \<noteq> [] \<and> list_all is_digit s \<and> hd s \<noteq> CHR ''0''"
    by (auto simp: unsigned_decimal_def)
  then show "\<exists>n. s = nat_str n"
  proof cases
    case 1
    moreover have "nat_str 0 = ''0''" by (subst nat_str.simps) (simp add: digit_char_0)
    ultimately show ?thesis by metis
  next
    case 2
    then show ?thesis using nat_str_read [of s] by metis
  qed
next
  assume "\<exists>n. s = nat_str n"
  then obtain n where n: "s = nat_str n" by blast
  show "unsigned_decimal s"
  proof (cases "n = 0")
    case True
    then have "s = ''0''" unfolding n by (subst nat_str.simps) (simp add: digit_char_0)
    then show ?thesis by (simp add: unsigned_decimal_def)
  next
    case False
    then show ?thesis using n nat_str_digits nat_str_no_leading_zero by (simp add: unsigned_decimal_def)
  qed
qed

lemma length_nat_str: "n < 10 ^ k \<Longrightarrow> 0 < k \<Longrightarrow> length (nat_str n) \<le> k"
proof (induction n arbitrary: k rule: nat_str.induct)
  case (1 n)
  show ?case
  proof (cases "n < 10")
    case True
    then show ?thesis using 1 by (subst nat_str.simps) simp
  next
    case False
    then obtain j where k: "k = Suc j" "0 < j" using "1.prems" by (cases k) (auto, case_tac nat, auto)
    then have "n div 10 < 10 ^ j" using "1.prems" by (simp add: less_mult_imp_div_less mult.commute)
    then show ?thesis using 1 False k by (subst nat_str.simps) fastforce
  qed
qed

lemma AtomicAmountSchema_iff: "AtomicAmountSchema s \<longleftrightarrow> (\<exists>n \<le> MAX_UINT256. s = nat_str n)"
proof -
  have "length (nat_str n) \<le> 78" if "n \<le> MAX_UINT256" for n
  proof (rule length_nat_str)
    have "n < 2 ^ 256" using that by (simp add: MAX_UINT256_def)
    also have "(2::nat) ^ 256 < 10 ^ 78" by simp
    finally show "n < 10 ^ 78" .
  qed simp
  then show ?thesis by (auto simp: AtomicAmountSchema_def unsigned_decimal_iff)
qed

subsection \<open>Asset keys\<close>

lemma colon_not_in_int_str: "CHR '':'' \<notin> set (int_str i)"
proof -
  have "CHR '':'' \<notin> set (nat_str n)" for n
    using nat_str_digits [of n] by (auto simp: list_all_iff is_digit_def in_range_def code_def)
  then show ?thesis by (simp add: int_str_def)
qed

lemma append_delim_eq:
  "c \<notin> set xs \<Longrightarrow> c \<notin> set xs' \<Longrightarrow> xs @ c # ys = xs' @ c # ys' \<longleftrightarrow> xs = xs' \<and> ys = ys'"
proof (induction xs arbitrary: xs')
  case Nil
  then show ?case by (cases xs') auto
next
  case (Cons x xs)
  then show ?case by (cases xs') auto
qed

lemma assetKey_eq_iff: "assetKey c a = assetKey d b \<longleftrightarrow> c = d \<and> to_lower a = to_lower b"
  by (simp add: assetKey_def append_delim_eq colon_not_in_int_str)

end
