(* ===== verification/Schemas.thy ===== *)
theory Schemas
  imports Evidence
begin

text \<open>
  \<open>packages/domain/src/schemas.ts\<close>: the execution intent, the policy configuration, the
  strategy and its patch. The \<open>_json\<close> functions give the plain object a parsed record is in
  JavaScript, which is what the program hashes and clones; parsing that object gives the
  record back.
\<close>

definition PositiveAtomicAmountSchema :: "string \<Rightarrow> bool" where
  "PositiveAtomicAmountSchema s \<longleftrightarrow>
     AtomicAmountSchema s \<and> s \<noteq> [] \<and> hd s \<noteq> CHR ''0'' \<and> list_all is_digit s \<and> length s \<le> 78"

subsection \<open>Execution intents\<close>

record NftPurchaseAction =
  chainId :: int
  targetContract :: string
  collectionContract :: string
  tokenId :: string
  paymentAsset :: string
  maxTotalSpend :: string
  recipient :: string
  orderHash :: string
  nonce :: string

definition NftPurchaseActionSchema :: "jsval \<Rightarrow> NftPurchaseAction option" where
  "NftPurchaseActionSchema v = do {
     f \<leftarrow> z_object [''kind'', ''adapterId'', ''chainId'', ''marketplace'', ''targetContract'',
            ''collectionContract'', ''tokenId'', ''paymentAsset'', ''maxTotalSpend'', ''recipient'',
            ''orderHash'', ''nonce''] v;
     _ \<leftarrow> z_literal ''nft.purchase'' (f ''kind'');
     _ \<leftarrow> z_literal ''opensea.seaport'' (f ''adapterId'');
     c \<leftarrow> z_int positive (f ''chainId'');
     _ \<leftarrow> z_literal ''opensea'' (f ''marketplace'');
     t \<leftarrow> z_string EvmAddressSchema (f ''targetContract'');
     l \<leftarrow> z_string EvmAddressSchema (f ''collectionContract'');
     k \<leftarrow> z_string AtomicAmountSchema (f ''tokenId'');
     p \<leftarrow> z_string EvmAddressSchema (f ''paymentAsset'');
     m \<leftarrow> z_string PositiveAtomicAmountSchema (f ''maxTotalSpend'');
     r \<leftarrow> z_string EvmAddressSchema (f ''recipient'');
     h \<leftarrow> z_string Bytes32Schema (f ''orderHash'');
     n \<leftarrow> z_string Bytes32Schema (f ''nonce'');
     Some \<lparr>chainId = c, targetContract = t, collectionContract = l, tokenId = k, paymentAsset = p,
           maxTotalSpend = m, recipient = r, orderHash = h, nonce = n\<rparr> }"

record ExecutionIntent =
  intentId :: string
  strategyVersion :: string
  policyVersion :: string
  intent_policyHash :: string
  evidenceIds :: "string list"
  createdAt :: string
  expiresAt :: string
  action :: NftPurchaseAction

definition ExecutionIntentSchema :: "host \<Rightarrow> jsval \<Rightarrow> ExecutionIntent option" where
  "ExecutionIntentSchema h v = do {
     f \<leftarrow> z_object [''intentId'', ''strategyVersion'', ''policyVersion'', ''policyHash'',
            ''evidenceIds'', ''createdAt'', ''expiresAt'', ''action''] v;
     i \<leftarrow> z_string (labelled ''rsi-intent:'' 96) (f ''intentId'');
     s \<leftarrow> z_string (labelled ''rsi-'' 64) (f ''strategyVersion'');
     p \<leftarrow> z_string (labelled ''kernel-'' 64) (f ''policyVersion'');
     q \<leftarrow> z_string Bytes32Schema (f ''policyHash'');
     e \<leftarrow> z_array (z_string Sha256IdSchema) (\<lambda>n. 1 \<le> n \<and> n \<le> 100) (f ''evidenceIds'');
     c \<leftarrow> z_string (TimestampSchema h) (f ''createdAt'');
     x \<leftarrow> z_string (TimestampSchema h) (f ''expiresAt'');
     a \<leftarrow> NftPurchaseActionSchema (f ''action'');
     Some \<lparr>intentId = i, strategyVersion = s, policyVersion = p, intent_policyHash = q,
           evidenceIds = e, createdAt = c, expiresAt = x, action = a\<rparr> }"

definition action_json :: "NftPurchaseAction \<Rightarrow> jsval" where
  "action_json a = JObj
     [(''kind'', JStr ''nft.purchase''), (''adapterId'', JStr ''opensea.seaport''),
      (''chainId'', jint (chainId a)), (''marketplace'', JStr ''opensea''),
      (''targetContract'', JStr (targetContract a)), (''collectionContract'', JStr (collectionContract a)),
      (''tokenId'', JStr (tokenId a)), (''paymentAsset'', JStr (paymentAsset a)),
      (''maxTotalSpend'', JStr (maxTotalSpend a)), (''recipient'', JStr (recipient a)),
      (''orderHash'', JStr (orderHash a)), (''nonce'', JStr (nonce a))]"

definition intent_json :: "ExecutionIntent \<Rightarrow> jsval" where
  "intent_json i = JObj
     [(''intentId'', JStr (intentId i)), (''strategyVersion'', JStr (strategyVersion i)),
      (''policyVersion'', JStr (policyVersion i)), (''policyHash'', JStr (intent_policyHash i)),
      (''evidenceIds'', JArr (map JStr (evidenceIds i))), (''createdAt'', JStr (createdAt i)),
      (''expiresAt'', JStr (expiresAt i)), (''action'', action_json (action i))]"

subsection \<open>Policy configuration\<close>

record PolicyConfig =
  cfg_policyVersion :: string
  allowedChains :: "int list"
  allowedMarketplaceTargets :: "AssetContract list"
  allowedCollections :: "AssetContract list"
  allowedPaymentAssets :: "AssetContract list"
  allowedRecipients :: "AssetContract list"
  maxPerTransactionByAsset :: "(string \<times> string) list"
  maxDailySpendByAsset :: "(string \<times> string) list"
  maxEvidenceAgeSeconds :: int
  maxClockSkewSeconds :: int
  minIndependentEvidenceClusters :: int
  requireCanonicalMarketplaceEvidence :: bool

text \<open>\<open>/^[0-9]+:0x[0-9a-f]{40}$/\<close>\<close>

definition asset_key_format :: "string \<Rightarrow> bool" where
  "asset_key_format s \<longleftrightarrow>
     (let d = takeWhile is_digit s; r = dropWhile is_digit s
      in d \<noteq> [] \<and> fixed_digits '':0x'' is_lower_hex 40 r)"

definition PolicyConfigSchema :: "jsval \<Rightarrow> PolicyConfig option" where
  "PolicyConfigSchema v = do {
     f \<leftarrow> z_object [''policyVersion'', ''allowedChains'', ''allowedMarketplaceTargets'',
            ''allowedCollections'', ''allowedPaymentAssets'', ''allowedRecipients'',
            ''maxPerTransactionByAsset'', ''maxDailySpendByAsset'', ''maxEvidenceAgeSeconds'',
            ''maxClockSkewSeconds'', ''minIndependentEvidenceClusters'',
            ''requireCanonicalMarketplaceEvidence''] v;
     p \<leftarrow> z_string (labelled ''kernel-'' 64) (f ''policyVersion'');
     c \<leftarrow> z_array (z_int positive) (\<lambda>n. 1 \<le> n) (f ''allowedChains'');
     t \<leftarrow> z_array AssetContractSchema (\<lambda>n. 1 \<le> n) (f ''allowedMarketplaceTargets'');
     l \<leftarrow> z_array AssetContractSchema (\<lambda>n. 1 \<le> n) (f ''allowedCollections'');
     y \<leftarrow> z_array AssetContractSchema (\<lambda>n. 1 \<le> n) (f ''allowedPaymentAssets'');
     r \<leftarrow> z_array AssetContractSchema (\<lambda>n. 1 \<le> n) (f ''allowedRecipients'');
     x \<leftarrow> z_record asset_key_format (z_string PositiveAtomicAmountSchema) (f ''maxPerTransactionByAsset'');
     d \<leftarrow> z_record asset_key_format (z_string PositiveAtomicAmountSchema) (f ''maxDailySpendByAsset'');
     a \<leftarrow> z_between 1 86400 (f ''maxEvidenceAgeSeconds'');
     k \<leftarrow> z_between 0 300 (f ''maxClockSkewSeconds'');
     m \<leftarrow> z_between 2 10 (f ''minIndependentEvidenceClusters'');
     q \<leftarrow> z_bool (f ''requireCanonicalMarketplaceEvidence'');
     Some \<lparr>cfg_policyVersion = p, allowedChains = c, allowedMarketplaceTargets = t,
           allowedCollections = l, allowedPaymentAssets = y, allowedRecipients = r,
           maxPerTransactionByAsset = x, maxDailySpendByAsset = d, maxEvidenceAgeSeconds = a,
           maxClockSkewSeconds = k, minIndependentEvidenceClusters = m,
           requireCanonicalMarketplaceEvidence = q\<rparr> }"

definition asset_json :: "AssetContract \<Rightarrow> jsval" where
  "asset_json a = JObj [(''chainId'', jint (ac_chainId a)), (''address'', JStr (ac_address a))]"

definition limits_json :: "(string \<times> string) list \<Rightarrow> jsval" where
  "limits_json al = JObj (map (\<lambda>(k, v). (k, JStr v)) al)"

definition policy_json :: "PolicyConfig \<Rightarrow> jsval" where
  "policy_json p = JObj
     [(''policyVersion'', JStr (cfg_policyVersion p)),
      (''allowedChains'', JArr (map jint (allowedChains p))),
      (''allowedMarketplaceTargets'', JArr (map asset_json (allowedMarketplaceTargets p))),
      (''allowedCollections'', JArr (map asset_json (allowedCollections p))),
      (''allowedPaymentAssets'', JArr (map asset_json (allowedPaymentAssets p))),
      (''allowedRecipients'', JArr (map asset_json (allowedRecipients p))),
      (''maxPerTransactionByAsset'', limits_json (maxPerTransactionByAsset p)),
      (''maxDailySpendByAsset'', limits_json (maxDailySpendByAsset p)),
      (''maxEvidenceAgeSeconds'', jint (maxEvidenceAgeSeconds p)),
      (''maxClockSkewSeconds'', jint (maxClockSkewSeconds p)),
      (''minIndependentEvidenceClusters'', jint (minIndependentEvidenceClusters p)),
      (''requireCanonicalMarketplaceEvidence'', JBool (requireCanonicalMarketplaceEvidence p))]"

subsection \<open>Strategies\<close>

record SourceWeights =
  weight_x :: jsnum
  weight_x402 :: jsnum
  weight_opensea :: jsnum
  weight_onchain :: jsnum

record Strategy =
  strat_version :: string
  sourceWeights :: SourceWeights
  opportunityThreshold :: jsnum
  maxHoldSeconds :: int
  exitLossBps :: int
  exitGainBps :: int
  queryTerms :: "string list"

record SourceWeightsPatch =
  patch_x :: "jsnum option"
  patch_x402 :: "jsnum option"
  patch_opensea :: "jsnum option"
  patch_onchain :: "jsnum option"

record StrategyPatch =
  patch_sourceWeights :: "SourceWeightsPatch option"
  patch_opportunityThreshold :: "jsnum option"
  patch_maxHoldSeconds :: "int option"
  patch_exitLossBps :: "int option"
  patch_exitGainBps :: "int option"
  patch_queryTerms :: "string list option"

definition SourceWeightsSchema :: "jsval \<Rightarrow> SourceWeights option" where
  "SourceWeightsSchema v = do {
     f \<leftarrow> z_object [''x'', ''x402'', ''opensea'', ''onchain''] v;
     a \<leftarrow> z_unit (f ''x''); b \<leftarrow> z_unit (f ''x402'');
     c \<leftarrow> z_unit (f ''opensea''); d \<leftarrow> z_unit (f ''onchain'');
     Some \<lparr>weight_x = a, weight_x402 = b, weight_opensea = c, weight_onchain = d\<rparr> }"

definition query_terms_schema :: "jsval \<Rightarrow> string list option" where
  "query_terms_schema =
     z_array (z_string (\<lambda>s. 1 \<le> js_length s \<and> js_length s \<le> 80)) (\<lambda>n. 1 \<le> n \<and> n \<le> 50)"

definition StrategySchema :: "jsval \<Rightarrow> Strategy option" where
  "StrategySchema v = do {
     f \<leftarrow> z_object [''version'', ''sourceWeights'', ''opportunityThreshold'', ''maxHoldSeconds'',
            ''exitLossBps'', ''exitGainBps'', ''queryTerms''] v;
     s \<leftarrow> z_string (labelled ''rsi-'' 64) (f ''version'');
     w \<leftarrow> SourceWeightsSchema (f ''sourceWeights'');
     t \<leftarrow> z_unit (f ''opportunityThreshold'');
     m \<leftarrow> z_between 60 31536000 (f ''maxHoldSeconds'');
     l \<leftarrow> z_between 1 5000 (f ''exitLossBps'');
     g \<leftarrow> z_between 1 100000 (f ''exitGainBps'');
     q \<leftarrow> query_terms_schema (f ''queryTerms'');
     Some \<lparr>strat_version = s, sourceWeights = w, opportunityThreshold = t, maxHoldSeconds = m,
           exitLossBps = l, exitGainBps = g, queryTerms = q\<rparr> }"

definition source_weights_patch_schema :: "jsval \<Rightarrow> SourceWeightsPatch option" where
  "source_weights_patch_schema v = do {
     f \<leftarrow> z_object [''x'', ''x402'', ''opensea'', ''onchain''] v;
     a \<leftarrow> z_optional z_unit (f ''x''); b \<leftarrow> z_optional z_unit (f ''x402'');
     c \<leftarrow> z_optional z_unit (f ''opensea''); d \<leftarrow> z_optional z_unit (f ''onchain'');
     Some \<lparr>patch_x = a, patch_x402 = b, patch_opensea = c, patch_onchain = d\<rparr> }"

definition StrategyPatchSchema :: "jsval \<Rightarrow> StrategyPatch option" where
  "StrategyPatchSchema v = do {
     f \<leftarrow> z_object [''sourceWeights'', ''opportunityThreshold'', ''maxHoldSeconds'',
            ''exitLossBps'', ''exitGainBps'', ''queryTerms''] v;
     w \<leftarrow> z_optional source_weights_patch_schema (f ''sourceWeights'');
     t \<leftarrow> z_optional z_unit (f ''opportunityThreshold'');
     m \<leftarrow> z_optional (z_between 60 31536000) (f ''maxHoldSeconds'');
     l \<leftarrow> z_optional (z_between 1 5000) (f ''exitLossBps'');
     g \<leftarrow> z_optional (z_between 1 100000) (f ''exitGainBps'');
     q \<leftarrow> z_optional query_terms_schema (f ''queryTerms'');
     Some \<lparr>patch_sourceWeights = w, patch_opportunityThreshold = t, patch_maxHoldSeconds = m,
           patch_exitLossBps = l, patch_exitGainBps = g, patch_queryTerms = q\<rparr> }"

definition weights_json :: "SourceWeights \<Rightarrow> jsval" where
  "weights_json w = JObj
     [(''x'', JNum (weight_x w)), (''x402'', JNum (weight_x402 w)),
      (''opensea'', JNum (weight_opensea w)), (''onchain'', JNum (weight_onchain w))]"

definition strategy_json :: "Strategy \<Rightarrow> jsval" where
  "strategy_json s = JObj
     [(''version'', JStr (strat_version s)), (''sourceWeights'', weights_json (sourceWeights s)),
      (''opportunityThreshold'', JNum (opportunityThreshold s)),
      (''maxHoldSeconds'', jint (maxHoldSeconds s)), (''exitLossBps'', jint (exitLossBps s)),
      (''exitGainBps'', jint (exitGainBps s)), (''queryTerms'', JArr (map JStr (queryTerms s)))]"

subsection \<open>Parsed records parse again\<close>

lemma z_array_reparse:
  assumes "z_array f len v = Some xs" and "\<And>w x. f w = Some x \<Longrightarrow> f (g x) = Some x"
  shows "z_array f len (JArr (map g xs)) = Some xs"
proof -
  from assms(1) obtain vs where vs: "len (length vs)" "collect f vs = Some xs"
    by (auto simp: z_array_Some)
  have "collect f (map g xs) = Some xs"
    using collect_set [OF vs(2)] assms(2) by (intro collect_eq_map) blast
  then show ?thesis using vs collect_length [OF vs(2)] by (simp add: z_array_Some)
qed

lemma z_strings_reparse:
  "z_array (z_string p) len v = Some ss \<Longrightarrow> z_array (z_string p) len (JArr (map JStr ss)) = Some ss"
  by (rule z_array_reparse) (auto simp: z_string_Some)

lemmas reparse_simps = z_object_JObj z_string_Some z_int_Some z_between_Some z_unit_Some z_literal_Some z_bool_Some

lemma action_reparse:
  "NftPurchaseActionSchema v = Some a \<Longrightarrow> NftPurchaseActionSchema (action_json a) = Some a"
  by (auto simp: NftPurchaseActionSchema_def action_json_def reparse_simps)

lemma intent_reparse:
  "ExecutionIntentSchema h v = Some i \<Longrightarrow> ExecutionIntentSchema h (intent_json i) = Some i"
  by (auto simp: ExecutionIntentSchema_def intent_json_def reparse_simps
      intro: action_reparse z_strings_reparse)

lemma weights_reparse:
  "SourceWeightsSchema v = Some w \<Longrightarrow> SourceWeightsSchema (weights_json w) = Some w"
  by (auto simp: SourceWeightsSchema_def weights_json_def reparse_simps)

lemma strategy_reparse:
  "StrategySchema v = Some s \<Longrightarrow> StrategySchema (strategy_json s) = Some s"
  by (auto simp: StrategySchema_def strategy_json_def query_terms_schema_def reparse_simps
      intro: weights_reparse z_strings_reparse)

end
