(* ===== verification/CanonicalJson.thy ===== *)
theory CanonicalJson
  imports JsValue
begin

text \<open>
  \<open>packages/store/src/canonical-json.ts\<close>: \<open>serialize\<close> is the recursive serialiser with its
  depth bound and its refusals, \<open>canonicalJson\<close> its entry. \<open>JSON.parse\<close> is modelled beside it
  (\<open>json_parse\<close>), because the store parses a stored payload and serialises it again to see
  that it is canonical. The lemmas show that the parser reads back exactly what the serialiser
  wrote, up to the order of object keys, and that the order of keys never shows in the text.
\<close>

subsection \<open>The serialiser\<close>

datatype json_error = DepthExceeded | NumberNotFinite | UnsupportedJson string

definition MAX_CANONICAL_DEPTH :: nat where
  "MAX_CANONICAL_DEPTH = 100"

lemma size_list_sort_key [termination_simp]:
  "size_list f (sort_key k xs) = size_list f xs"
proof -
  have sl: "size_list f ys = sum_mset (image_mset f (mset ys)) + length ys" for ys
    by (induction ys) auto
  show ?thesis by (simp only: sl mset_sort length_sort)
qed

text \<open>The entries of an object in the order of their keys.\<close>

definition field_order :: "string \<times> 'a \<Rightarrow> nat list" where
  "field_order f = utf16_order (fst f)"

fun serialize :: "host \<Rightarrow> nat \<Rightarrow> jsval \<Rightarrow> (json_error, string) result"
and serialize_elements :: "host \<Rightarrow> nat \<Rightarrow> jsval list \<Rightarrow> (json_error, string list) result"
and serialize_fields :: "host \<Rightarrow> nat \<Rightarrow> (string \<times> jsval) list \<Rightarrow> (json_error, string list) result"
where
  "serialize h depth v =
     (if MAX_CANONICAL_DEPTH < depth then Inl DepthExceeded
      else case v of
        JNull \<Rightarrow> Inr ''null''
      | JBool b \<Rightarrow> Inr (bool_str b)
      | JStr s \<Rightarrow> Inr (quote s)
      | JNum NaN \<Rightarrow> Inl NumberNotFinite
      | JNum (NInf _) \<Rightarrow> Inl NumberNotFinite
      | JNum n \<Rightarrow> Inr (num_str h n)
      | JUndefined \<Rightarrow> Inl (UnsupportedJson ''undefined'')
      | JOther t \<Rightarrow> Inl (UnsupportedJson t)
      | JArr vs \<Rightarrow>
          and_then (serialize_elements h (Suc depth) vs)
            (\<lambda>parts. Inr (CHR ''['' # commas parts @ '']''))
      | JObj fs \<Rightarrow>
          and_then (serialize_fields h (Suc depth) (sort_key field_order fs))
            (\<lambda>parts. Inr (CHR ''{'' # commas parts @ ''}'')))"
| "serialize_elements h depth [] = Inr []"
| "serialize_elements h depth (v # vs) =
     and_then (serialize h depth v) (\<lambda>s.
       and_then (serialize_elements h depth vs) (\<lambda>ss. Inr (s # ss)))"
| "serialize_fields h depth [] = Inr []"
| "serialize_fields h depth ((k, v) # fs) =
     and_then (serialize h depth v) (\<lambda>s.
       and_then (serialize_fields h depth fs) (\<lambda>ss. Inr ((quote k @ CHR '':'' # s) # ss)))"

declare serialize.simps [simp del]

definition canonicalJson :: "host \<Rightarrow> jsval \<Rightarrow> (json_error, string) result" where
  "canonicalJson h v = serialize h 0 v"

subsection \<open>JSON.parse\<close>

fun skip_ws :: "string \<Rightarrow> string" where
  "skip_ws [] = []"
| "skip_ws (c # s) = (if c \<in> {CHR 0x20, CHR 0x09, CHR 0x0A, CHR 0x0D} then skip_ws s else c # s)"

definition hex_val :: "char \<Rightarrow> nat option" where
  "hex_val c =
     (if is_digit c then Some (code c - 48)
      else if in_range CHR ''a'' CHR ''f'' c then Some (code c - 87)
      else if in_range CHR ''A'' CHR ''F'' c then Some (code c - 55)
      else None)"

definition hex4 :: "char \<Rightarrow> char \<Rightarrow> char \<Rightarrow> char \<Rightarrow> nat option" where
  "hex4 a b c d = do {
     w \<leftarrow> hex_val a; x \<leftarrow> hex_val b; y \<leftarrow> hex_val c; z \<leftarrow> hex_val d;
     Some (4096 * w + 256 * x + 16 * y + z) }"

definition utf8 :: "nat \<Rightarrow> string" where
  "utf8 u =
     (if u < 128 then [char_of u]
      else if u < 2048 then [char_of (192 + u div 64), char_of (128 + u mod 64)]
      else if u < 65536 then
        [char_of (224 + u div 4096), char_of (128 + u div 64 mod 64), char_of (128 + u mod 64)]
      else
        [char_of (240 + u div 262144), char_of (128 + u div 4096 mod 64),
         char_of (128 + u div 64 mod 64), char_of (128 + u mod 64)])"

definition simple_escape :: "char \<Rightarrow> char option" where
  "simple_escape c =
     (if c \<in> {CHR 0x22, CHR 0x5C, CHR 0x2F} then Some c
      else if c = CHR ''b'' then Some (CHR 0x08)
      else if c = CHR ''f'' then Some (CHR 0x0C)
      else if c = CHR ''n'' then Some (CHR 0x0A)
      else if c = CHR ''r'' then Some (CHR 0x0D)
      else if c = CHR ''t'' then Some (CHR 0x09)
      else None)"

text \<open>
  A low surrogate on its own, or a high one that no low one follows, is not a well-formed
  string: such an escape is outside the model and does not parse.
\<close>

fun parse_string :: "string \<Rightarrow> (string \<times> string) option" where
  "parse_string [] = None"
| "parse_string (c # s) =
     (if c = CHR 0x22 then Some ([], s)
      else if c = CHR 0x5C then
        (case s of
          [] \<Rightarrow> None
        | e # t \<Rightarrow>
            if e = CHR ''u'' then
              (case t of
                h1 # h2 # h3 # h4 # t' \<Rightarrow>
                  (case hex4 h1 h2 h3 h4 of
                    None \<Rightarrow> None
                  | Some u \<Rightarrow>
                      if u < 55296 \<or> 57344 \<le> u then
                        map_option (apfst (\<lambda>r. utf8 u @ r)) (parse_string t')
                      else if u < 56320 then
                        (case t' of
                          b # u' # l1 # l2 # l3 # l4 # t'' \<Rightarrow>
                            (case hex4 l1 l2 l3 l4 of
                              None \<Rightarrow> None
                            | Some w \<Rightarrow>
                                if b = CHR 0x5C \<and> u' = CHR ''u'' \<and> 56320 \<le> w \<and> w < 57344 then
                                  map_option (apfst (\<lambda>r. utf8 (65536 + 1024 * (u - 55296) + (w - 56320)) @ r))
                                    (parse_string t'')
                                else None)
                        | _ \<Rightarrow> None)
                      else None)
              | _ \<Rightarrow> None)
            else
              (case simple_escape e of
                None \<Rightarrow> None
              | Some x \<Rightarrow> map_option (apfst (\<lambda>r. x # r)) (parse_string t)))
      else if code c < 32 then None
      else map_option (apfst (\<lambda>r. c # r)) (parse_string s))"

definition number_char :: "char \<Rightarrow> bool" where
  "number_char c \<longleftrightarrow> is_digit c \<or> c \<in> {CHR ''-'', CHR ''+'', CHR ''.'', CHR ''e'', CHR ''E''}"

definition plain_nat :: "string \<Rightarrow> bool" where
  "plain_nat s \<longleftrightarrow> s \<noteq> [] \<and> list_all is_digit s \<and> (hd s = CHR ''0'' \<longrightarrow> s = ''0'')"

definition plain_int :: "string \<Rightarrow> int option" where
  "plain_int s =
     (if plain_nat s then Some (int (read_nat s))
      else case s of
        c # t \<Rightarrow> if c = CHR ''-'' \<and> plain_nat t then Some (- int (read_nat t)) else None
      | [] \<Rightarrow> None)"

definition parse_number :: "host \<Rightarrow> string \<Rightarrow> jsval option" where
  "parse_number h tok =
     (case plain_int tok of
       Some i \<Rightarrow> if safe_int i then Some (jint i) else map_option JNum (num_read h tok)
     | None \<Rightarrow> map_option JNum (num_read h tok))"

fun parse_value :: "host \<Rightarrow> nat \<Rightarrow> string \<Rightarrow> (jsval \<times> string) option"
and parse_elements :: "host \<Rightarrow> nat \<Rightarrow> string \<Rightarrow> (jsval list \<times> string) option"
and parse_fields :: "host \<Rightarrow> nat \<Rightarrow> string \<Rightarrow> ((string \<times> jsval) list \<times> string) option"
where
  "parse_value h 0 s = None"
| "parse_value h (Suc n) s =
     (case skip_ws s of
       [] \<Rightarrow> None
     | c # t \<Rightarrow>
         if c = CHR 0x22 then map_option (apfst JStr) (parse_string t)
         else if c = CHR ''['' then
           (case skip_ws t of
             d # u \<Rightarrow> if d = CHR '']'' then Some (JArr [], u)
                      else map_option (apfst JArr) (parse_elements h n t)
           | [] \<Rightarrow> None)
         else if c = CHR ''{'' then
           (case skip_ws t of
             d # u \<Rightarrow> if d = CHR ''}'' then Some (JObj [], u)
                      else map_option (apfst (\<lambda>fs. JObj (fold (\<lambda>(k, v). AList.update k v) fs [])))
                             (parse_fields h n t)
           | [] \<Rightarrow> None)
         else if take 4 (c # t) = ''true'' then Some (JBool True, drop 4 (c # t))
         else if take 5 (c # t) = ''false'' then Some (JBool False, drop 5 (c # t))
         else if take 4 (c # t) = ''null'' then Some (JNull, drop 4 (c # t))
         else map_option (\<lambda>v. (v, dropWhile number_char (c # t)))
                (parse_number h (takeWhile number_char (c # t))))"
| "parse_elements h 0 s = None"
| "parse_elements h (Suc n) s =
     (case parse_value h n s of
       None \<Rightarrow> None
     | Some (v, r) \<Rightarrow>
         (case skip_ws r of
           c # t \<Rightarrow>
             if c = CHR '','' then map_option (apfst (\<lambda>vs. v # vs)) (parse_elements h n t)
             else if c = CHR '']'' then Some ([v], t) else None
         | [] \<Rightarrow> None))"
| "parse_fields h 0 s = None"
| "parse_fields h (Suc n) s =
     (case skip_ws s of
       q # t \<Rightarrow>
         if q = CHR 0x22 then
           (case parse_string t of
             None \<Rightarrow> None
           | Some (k, r) \<Rightarrow>
               (case skip_ws r of
                 c # u \<Rightarrow>
                   if c = CHR '':'' then
                     (case parse_value h n u of
                       None \<Rightarrow> None
                     | Some (v, r') \<Rightarrow>
                         (case skip_ws r' of
                           d # w \<Rightarrow>
                             if d = CHR '','' then map_option (apfst (\<lambda>fs. (k, v) # fs)) (parse_fields h n w)
                             else if d = CHR ''}'' then Some ([(k, v)], w) else None
                         | [] \<Rightarrow> None))
                   else None
               | [] \<Rightarrow> None))
         else None
     | [] \<Rightarrow> None)"

text \<open>Two units of fuel per character: every value and every element reads at least one.\<close>

definition json_parse :: "host \<Rightarrow> string \<Rightarrow> jsval option" where
  "json_parse h s =
     (case parse_value h (2 * length s + 2) s of
       Some (v, r) \<Rightarrow> if skip_ws r = [] then Some v else None
     | None \<Rightarrow> None)"


subsection \<open>Strings read back\<close>

lemma hex_val_hex_char: "d < 16 \<Longrightarrow> hex_val (hex_char d) = Some d"
proof (cases "d < 10")
  case True
  then show ?thesis by (simp add: hex_char_def hex_val_def digit_char_props)
next
  case False
  assume "d < 16"
  have c: "code (char_of (87 + d)) = 87 + d" using \<open>d < 16\<close> by (intro code_char_of) simp
  have "\<not> is_digit (char_of (87 + d))" "in_range CHR ''a'' CHR ''f'' (char_of (87 + d))"
    using False \<open>d < 16\<close> by (auto simp: is_digit_def in_range_def c) (auto simp: code_def)
  then show ?thesis using False by (simp add: hex_char_def hex_val_def c)
qed

lemma hex4_control:
  assumes "code c < 32"
  shows "hex4 CHR ''0'' CHR ''0'' (hex_char (code c div 16)) (hex_char (code c mod 16)) = Some (code c)"
proof -
  have z: "hex_val CHR ''0'' = Some 0" by code_simp
  show ?thesis using assms by (simp add: hex4_def z hex_val_hex_char)
qed

lemma utf8_code: "code c < 128 \<Longrightarrow> utf8 (code c) = [c]"
  by (simp add: utf8_def code_def)

lemma parse_string_escape_char:
  "parse_string (escape_char c @ s) = map_option (apfst (\<lambda>t. c # t)) (parse_string s)"
proof (cases "c \<in> {CHR 0x22, CHR 0x5C, CHR 0x08, CHR 0x0C, CHR 0x0A, CHR 0x0D, CHR 0x09}")
  case True
  then show ?thesis by (elim insertE emptyE) (simp_all add: escape_char_def simple_escape_def)
next
  case False
  show ?thesis
  proof (cases "code c < 32")
    case True
    moreover have "(@) [c] = (#) c" by (simp add: fun_eq_iff)
    ultimately show ?thesis using False
      by (simp add: escape_char_def hex4_control utf8_code)
  next
    case big: False
    with False show ?thesis by (simp add: escape_char_def)
  qed
qed

lemma parse_string_quote:
  "parse_string (concat (map escape_char s) @ CHR 0x22 # r) = Some (s, r)"
  by (induction s) (simp_all add: parse_string_escape_char)

lemma quote_inject [simp]: "quote s = quote t \<longleftrightarrow> s = t"
proof
  assume "quote s = quote t"
  then have "concat (map escape_char s) @ [CHR 0x22] = concat (map escape_char t) @ [CHR 0x22]"
    by (simp add: quote_def)
  then have "parse_string (concat (map escape_char s) @ [CHR 0x22])
    = parse_string (concat (map escape_char t) @ [CHR 0x22])" by (rule arg_cong)
  then show "s = t" by (simp add: parse_string_quote)
qed simp

subsection \<open>Numbers read back\<close>

definition frac_ok :: "host \<Rightarrow> rat \<Rightarrow> bool" where
  "frac_ok h r \<longleftrightarrow>
     (let t = num_text h r in
      t \<noteq> [] \<and> list_all number_char t \<and> num_read h t = Some (NFrac r)
      \<and> (case plain_int t of Some i \<Rightarrow> \<not> safe_int i | None \<Rightarrow> True))"

fun num_ok :: "host \<Rightarrow> jsnum \<Rightarrow> bool" where
  "num_ok h (NInt i) = safe_int i"
| "num_ok h (NFrac r) = frac_ok h r"
| "num_ok h _ = True"

lemma plain_nat_str: "plain_nat (nat_str n)"
proof (cases "n = 0")
  case True
  then show ?thesis
    by (simp add: plain_nat_def nat_str.simps [of 0]) (simp add: digit_char_def is_digit_def in_range_def code_def)
next
  case False
  then show ?thesis using nat_str_digits [of n] nat_str_no_leading_zero [of n]
    by (simp add: plain_nat_def)
qed

lemma plain_int_str [simp]: "plain_int (int_str i) = Some i"
proof (cases "i < 0")
  case True
  have "\<not> plain_nat (CHR ''-'' # s)" for s
    by (simp add: plain_nat_def is_digit_def in_range_def) (simp add: code_def)
  with True show ?thesis by (simp add: int_str_def plain_int_def plain_nat_str)
next
  case False
  then show ?thesis by (simp add: int_str_def plain_int_def plain_nat_str)
qed

lemma int_str_number_chars: "list_all number_char (int_str i)" "int_str i \<noteq> []"
proof -
  have "list_all number_char (nat_str n)" for n
    using nat_str_digits [of n] by (rule list.pred_mono_strong) (simp add: number_char_def)
  then show "list_all number_char (int_str i)" by (simp add: int_str_def number_char_def)
  show "int_str i \<noteq> []" by (simp add: int_str_def)
qed

lemma num_str_text:
  assumes "num_ok h n" and "n \<noteq> NaN" and "\<And>b. n \<noteq> NInf b"
  shows "list_all number_char (num_str h n) \<and> num_str h n \<noteq> [] \<and> parse_number h (num_str h n) = Some (JNum n)"
proof (cases n)
  case (NInt i)
  with assms show ?thesis by (simp add: int_str_number_chars parse_number_def)
next
  case (NFrac r)
  with assms show ?thesis
    by (auto simp: frac_ok_def Let_def parse_number_def split: option.splits)
qed (use assms in auto)


subsection \<open>Values read back\<close>

fun wf_json :: "host \<Rightarrow> jsval \<Rightarrow> bool" where
  "wf_json h (JNum n) = num_ok h n"
| "wf_json h (JArr vs) = (\<forall>v \<in> set vs. wf_json h v)"
| "wf_json h (JObj fs) = (distinct (map fst fs) \<and> (\<forall>(k, v) \<in> set fs. wf_json h v))"
| "wf_json h _ = True"

fun sort_deep :: "jsval \<Rightarrow> jsval" where
  "sort_deep (JArr vs) = JArr (map sort_deep vs)"
| "sort_deep (JObj fs) = JObj (sort_key field_order (map (\<lambda>(k, v). (k, sort_deep v)) fs))"
| "sort_deep v = v"

abbreviation sort_fields :: "(string \<times> jsval) list \<Rightarrow> (string \<times> jsval) list" where
  "sort_fields fs \<equiv> map (\<lambda>(k, v). (k, sort_deep v)) fs"

lemma insort_key_map_pairs:
  "insort_key field_order (k, f v) (map (\<lambda>(k, v). (k, f v)) fs) = map (\<lambda>(k, v). (k, f v)) (insort_key field_order (k, v) fs)"
  by (induction fs) (auto simp: field_order_def)

lemma sort_key_map_pairs:
  "sort_key field_order (map (\<lambda>(k, v). (k, f v)) fs) = map (\<lambda>(k, v). (k, f v)) (sort_key field_order fs)"
  by (induction fs) (auto simp: insort_key_map_pairs)

lemma sort_key_of_sorted: "sorted (map k xs) \<Longrightarrow> sort_key k xs = xs"
  by (induction xs) (auto simp: insort_is_Cons)

definition at_boundary :: "string \<Rightarrow> bool" where
  "at_boundary r \<longleftrightarrow> r = [] \<or> \<not> number_char (hd r)"

lemma at_boundary_simps [simp]:
  "at_boundary []" "at_boundary (CHR '','' # r)" "at_boundary (CHR '']'' # r)"
  "at_boundary (CHR ''}'' # r)"
  by (simp_all add: at_boundary_def number_char_def is_digit_def in_range_def) (simp_all add: code_def)

lemma takeWhile_boundary:
  assumes "list_all P t" and "r = [] \<or> \<not> P (hd r)"
  shows "takeWhile P (t @ r) = t" "dropWhile P (t @ r) = r"
proof -
  from assms(1) have all: "\<And>x. x \<in> set t \<Longrightarrow> P x" by (simp add: list_all_iff)
  show "takeWhile P (t @ r) = t" using assms(2) all
    by (cases r) (simp_all add: takeWhile_append2)
  show "dropWhile P (t @ r) = r" using assms(2) all
    by (cases r) (simp_all add: dropWhile_append2)
qed

lemma number_char_first:
  "number_char c \<Longrightarrow> c \<notin> {CHR 0x20, CHR 0x09, CHR 0x0A, CHR 0x0D, CHR 0x22, CHR ''['', CHR ''{'',
     CHR '']'', CHR ''}'', CHR ''t'', CHR ''f'', CHR ''n''}"
  by (auto simp: number_char_def is_digit_def in_range_def code_def)

lemma parse_value_number:
  assumes t: "list_all number_char t" "t \<noteq> []" and v: "parse_number h t = Some v"
    and r: "at_boundary r"
  shows "parse_value h (Suc n) (t @ r) = Some (v, r)"
proof -
  from t obtain c t' where ct: "t = c # t'" "number_char c" by (cases t) auto
  note tw = takeWhile_boundary [OF t(1) r [unfolded at_boundary_def]]
  show ?thesis using tw number_char_first [OF ct(2)] v by (simp add: ct(1))
qed

lemma parse_value_scalars:
  "parse_value h (Suc n) (''null'' @ r) = Some (JNull, r)"
  "parse_value h (Suc n) (bool_str b @ r) = Some (JBool b, r)"
  "parse_value h (Suc n) (quote s @ r) = Some (JStr s, r)"
  by (simp_all add: bool_str_def quote_def parse_string_quote)

definition opens_value :: "string \<Rightarrow> bool" where
  "opens_value s \<longleftrightarrow> (case s of [] \<Rightarrow> False
     | c # _ \<Rightarrow> c \<notin> {CHR 0x20, CHR 0x09, CHR 0x0A, CHR 0x0D, CHR '']'', CHR ''}''})"

lemma opens_value_skip: "opens_value s \<Longrightarrow> skip_ws (s @ r) = s @ r"
  by (cases s) (auto simp: opens_value_def)

lemma opens_value_append: "opens_value s \<Longrightarrow> opens_value (s @ r)"
  by (cases s) (auto simp: opens_value_def)

lemma opens_value_number: "list_all number_char t \<Longrightarrow> t \<noteq> [] \<Longrightarrow> opens_value t"
  using number_char_first by (cases t) (auto simp: opens_value_def)

lemma serialize_opens:
  assumes "serialize h d v = Inr s" and "wf_json h v"
  shows "opens_value s"
proof (cases v)
  case (JNum n)
  have n: "n \<noteq> NaN" "\<And>b. n \<noteq> NInf b"
    using assms(1) JNum by (auto simp: serialize.simps split: if_splits)
  then have "s = num_str h n"
    using assms(1) JNum by (cases n) (auto simp: serialize.simps split: if_splits)
  with num_str_text [of h n] n assms(2) JNum show ?thesis
    by (auto intro: opens_value_number)
qed (use assms(1) in \<open>auto simp: serialize.simps opens_value_def quote_def bool_str_def split: if_splits\<close>)


lemma commas_Cons: "commas (s # ss) = s @ (if ss = [] then [] else CHR '','' # commas ss)"
  by (cases ss) simp_all

lemma commas_length: "s \<in> set ss \<Longrightarrow> length s \<le> length (commas ss)"
  by (induction ss rule: commas.induct) auto

lemma serialize_elements_Nil_iff: "serialize_elements h d vs = Inr [] \<longleftrightarrow> vs = []"
  by (cases vs) auto

lemma serialize_fields_Nil_iff: "serialize_fields h d fs = Inr [] \<longleftrightarrow> fs = []"
  by (cases fs) auto

lemma set_commas_opens:
  "(\<And>s. s \<in> set ss \<Longrightarrow> opens_value s) \<Longrightarrow> ss \<noteq> [] \<Longrightarrow> opens_value (commas ss)"
  by (cases ss) (auto simp: commas_Cons opens_value_append)

lemma serialize_elements_open:
  "serialize_elements h d vs = Inr ss \<Longrightarrow> \<forall>v \<in> set vs. wf_json h v \<Longrightarrow> s \<in> set ss \<Longrightarrow> opens_value s"
  by (induction vs arbitrary: ss) (auto dest: serialize_opens)

lemma serialize_fields_open:
  "serialize_fields h d fs = Inr ss \<Longrightarrow> s \<in> set ss \<Longrightarrow> \<exists>k t. s = quote k @ CHR '':'' # t"
proof (induction fs arbitrary: ss)
  case (Cons f fs)
  obtain k v where f: "f = (k, v)" by (cases f)
  from Cons.prems obtain t ts where "ss = (quote k @ CHR '':'' # t) # ts" "serialize_fields h d fs = Inr ts"
    by (auto simp: f)
  with Cons.prems Cons.IH [of ts] show ?case by (cases "s = quote k @ CHR '':'' # t") auto
qed simp

lemma quote_opens: "opens_value (quote k @ s)"
  by (simp add: quote_def opens_value_def)

lemma fst_comp_pair [simp]: "fst \<circ> (\<lambda>(k, v). (k, f v)) = fst"
  by (simp add: fun_eq_iff split_beta)

lemma map_fst_pairs [simp]: "map fst (map (\<lambda>(k, v). (k, f v)) fs) = map fst fs"
  by (induction fs) auto

lemma distinct_keys_sort [simp]: "distinct (map fst (sort_key field_order fs)) = distinct (map fst fs)"
  by (metis distinct_sort sort_key_def mset_map mset_sort mset_eq_imp_distinct_iff)


lemma skip_ws_not_ws [simp]:
  "c \<notin> {CHR 0x20, CHR 0x09, CHR 0x0A, CHR 0x0D} \<Longrightarrow> skip_ws (c # s) = c # s"
  by simp

lemma map_pair_eq: "(\<lambda>(k, v). (k, f v)) (k, v) = (k, f v)"
  by simp

lemma parse_fields_step:
  assumes "parse_value h m (t @ r) = Some (v, r)"
  shows "parse_fields h (Suc m) ((quote k @ CHR '':'' # t) @ r) =
    (case skip_ws r of
       d # w \<Rightarrow>
         if d = CHR '','' then map_option (apfst (\<lambda>fs. (k, v) # fs)) (parse_fields h m w)
         else if d = CHR ''}'' then Some ([(k, v)], w) else None
     | [] \<Rightarrow> None)"
  using assms by (simp add: quote_def parse_string_quote)

lemma parse_array_text:
  assumes opens: "\<And>t. t \<in> set ss \<Longrightarrow> opens_value t"
    and elems: "ss \<noteq> [] \<Longrightarrow> parse_elements h m (commas ss @ CHR '']'' # r) = Some (vs', r)"
    and nil: "ss = [] \<Longrightarrow> vs' = []"
  shows "parse_value h (Suc m) ((CHR ''['' # commas ss @ '']'') @ r) = Some (JArr vs', r)"
proof (cases "ss = []")
  case True
  then show ?thesis using nil by simp
next
  case False
  have "opens_value (commas ss)" using False opens by (intro set_commas_opens)
  then obtain c t where "commas ss = c # t"
      "c \<notin> {CHR 0x20, CHR 0x09, CHR 0x0A, CHR 0x0D, CHR '']''}"
    by (cases "commas ss") (auto simp: opens_value_def)
  then show ?thesis using elems [OF False] by simp
qed

lemma parse_object_text:
  assumes opens: "\<And>t. t \<in> set ss \<Longrightarrow> \<exists>k u. t = quote k @ CHR '':'' # u" and dist: "distinct (map fst fs')"
    and fields: "ss \<noteq> [] \<Longrightarrow> parse_fields h m (commas ss @ CHR ''}'' # r) = Some (fs', r)"
    and nil: "ss = [] \<Longrightarrow> fs' = []"
  shows "parse_value h (Suc m) ((CHR ''{'' # commas ss @ ''}'') @ r) = Some (JObj fs', r)"
proof (cases "ss = []")
  case True
  then show ?thesis using nil by simp
next
  case False
  have "opens_value (commas ss)"
  proof (rule set_commas_opens)
    show "opens_value t" if "t \<in> set ss" for t using opens [OF that] quote_opens by auto
  qed (rule False)
  then obtain c t where "commas ss = c # t"
      "c \<notin> {CHR 0x20, CHR 0x09, CHR 0x0A, CHR 0x0D, CHR ''}''}"
    by (cases "commas ss") (auto simp: opens_value_def)
  then show ?thesis using fields [OF False] fold_update_distinct [of "[]" fs'] dist by simp
qed

lemma parse_elements_text:
  assumes v: "\<And>u. at_boundary u \<Longrightarrow> parse_value h m (t @ u) = Some (v, u)"
    and vs: "ts \<noteq> [] \<Longrightarrow> parse_elements h m (commas ts @ CHR '']'' # r) = Some (vs, r)"
    and nil: "ts = [] \<Longrightarrow> vs = []"
  shows "parse_elements h (Suc m) (commas (t # ts) @ CHR '']'' # r) = Some (v # vs, r)"
  using v vs nil by (cases "ts = []") (simp_all add: commas_Cons)

lemma parse_fields_text:
  assumes v: "\<And>u. at_boundary u \<Longrightarrow> parse_value h m (t @ u) = Some (v, u)"
    and fs: "ts \<noteq> [] \<Longrightarrow> parse_fields h m (commas ts @ CHR ''}'' # r) = Some (fs, r)"
    and nil: "ts = [] \<Longrightarrow> fs = []"
  shows "parse_fields h (Suc m) (commas ((quote k @ CHR '':'' # t) # ts) @ CHR ''}'' # r) = Some ((k, v) # fs, r)"
proof (cases "ts = []")
  case True
  have "parse_value h m (t @ CHR ''}'' # r) = Some (v, CHR ''}'' # r)" by (simp add: v)
  from parse_fields_step [OF this, of k] show ?thesis using True nil by simp
next
  case False
  have "parse_value h m (t @ CHR '','' # commas ts @ CHR ''}'' # r) = Some (v, CHR '','' # commas ts @ CHR ''}'' # r)"
    by (simp add: v)
  from parse_fields_step [OF this, of k] show ?thesis using False fs by (simp add: commas_Cons)
qed

lemma serialize_scalar_parse:
  assumes s: "serialize h d v = Inr s" and wf: "wf_json h v" and r: "at_boundary r"
    and scalar: "\<And>vs. v \<noteq> JArr vs" "\<And>fs. v \<noteq> JObj fs"
  shows "parse_value h (Suc m) (s @ r) = Some (sort_deep v, r)"
proof (cases v)
  case (JNum x)
  have fin: "x \<noteq> NaN" "\<And>b. x \<noteq> NInf b"
    using s JNum by (auto simp: serialize.simps split: if_splits)
  then have "s = num_str h x"
    using s JNum by (cases x) (auto simp: serialize.simps split: if_splits)
  with num_str_text [of h x] fin wf r JNum parse_value_number show ?thesis by simp
next
  case (JBool b)
  then have "s = bool_str b" using s by (simp add: serialize.simps split: if_splits)
  then show ?thesis by (simp only: JBool sort_deep.simps parse_value_scalars)
next
  case (JStr t)
  then have "s = quote t" using s by (simp add: serialize.simps split: if_splits)
  then show ?thesis by (simp only: JStr sort_deep.simps parse_value_scalars)
next
  case JNull
  then have "s = ''null''" using s by (simp add: serialize.simps split: if_splits)
  then show ?thesis by (simp only: JNull sort_deep.simps parse_value_scalars)
qed (use s scalar in \<open>auto simp: serialize.simps split: if_splits\<close>)

theorem parse_serialize:
  "serialize h d v = Inr s \<Longrightarrow> wf_json h v \<Longrightarrow> at_boundary r \<Longrightarrow> 2 * length s \<le> n \<Longrightarrow>
     parse_value h n (s @ r) = Some (sort_deep v, r)"
  "serialize_elements h d vs = Inr ss \<Longrightarrow> vs \<noteq> [] \<Longrightarrow> \<forall>v \<in> set vs. wf_json h v \<Longrightarrow>
     2 * length (commas ss) + 1 \<le> n \<Longrightarrow>
     parse_elements h n (commas ss @ CHR '']'' # r) = Some (map sort_deep vs, r)"
  "serialize_fields h d fs = Inr ss \<Longrightarrow> fs \<noteq> [] \<Longrightarrow> \<forall>(k, v) \<in> set fs. wf_json h v \<Longrightarrow>
     2 * length (commas ss) + 1 \<le> n \<Longrightarrow>
     parse_fields h n (commas ss @ CHR ''}'' # r) = Some (sort_fields fs, r)"
proof (induction h d v and h d vs and h d fs arbitrary: s r n and ss r n and ss r n
    rule: serialize_serialize_elements_serialize_fields.induct)
  case (1 h d v)
  have depth: "\<not> MAX_CANONICAL_DEPTH < d"
    using "1.prems"(1) by (auto simp: serialize.simps split: if_splits)
  have "s \<noteq> []" using serialize_opens [OF "1.prems"(1,2)] by (auto simp: opens_value_def)
  then obtain m where n: "n = Suc m" "2 * length s \<le> Suc m"
    using "1.prems"(4) by (cases n) auto
  consider (arr) vs where "v = JArr vs" | (obj) fs where "v = JObj fs"
    | (scalar) "\<And>vs. v \<noteq> JArr vs" "\<And>fs. v \<noteq> JObj fs" by blast
  then show ?case
  proof cases
    case arr
    then obtain ss where ss: "serialize_elements h (Suc d) vs = Inr ss" "s = CHR ''['' # commas ss @ '']''"
      using "1.prems"(1) depth by (auto simp: serialize.simps)
    have wf: "\<forall>v \<in> set vs. wf_json h v" using "1.prems"(2) arr by simp
    show ?thesis unfolding n(1) ss(2) arr sort_deep.simps
      using "1.IH"(1) [OF depth arr ss(1) _ wf, of m r] n ss serialize_elements_Nil_iff [of h "Suc d" vs]
      by (intro parse_array_text serialize_elements_open [OF ss(1) wf]) auto
  next
    case obj
    then obtain ss where ss: "serialize_fields h (Suc d) (sort_key field_order fs) = Inr ss"
        "s = CHR ''{'' # commas ss @ ''}''"
      using "1.prems"(1) depth by (auto simp: serialize.simps)
    have wf: "\<forall>(k, v) \<in> set (sort_key field_order fs). wf_json h v" and dist: "distinct (map fst fs)"
      using "1.prems"(2) obj by auto
    show ?thesis unfolding n(1) ss(2) obj sort_deep.simps sort_key_map_pairs
      using "1.IH"(2) [OF depth obj ss(1) _ wf, of m r] n ss dist serialize_fields_Nil_iff [of h "Suc d" "sort_key field_order fs"]
      by (intro parse_object_text serialize_fields_open [OF ss(1)]) auto
  next
    case scalar
    then show ?thesis using serialize_scalar_parse "1.prems" n(1) by blast
  qed
next
  case (3 h d v vs)
  then obtain t ts where ts: "serialize h d v = Inr t" "serialize_elements h d vs = Inr ts" "ss = t # ts"
    by auto
  obtain m where n: "n = Suc m" using "3.prems"(4) by (cases n) auto
  have len: "2 * length t \<le> m" "ts \<noteq> [] \<Longrightarrow> 2 * length (commas ts) + 1 \<le> m"
    using "3.prems"(4) n ts(3) by (auto simp: commas_Cons)
  have nil: "ts = [] \<longleftrightarrow> vs = []" using ts(2) serialize_elements_Nil_iff by auto
  show ?case unfolding n ts(3) list.map
    using "3.IH"(1) [OF ts(1)] "3.IH"(2) [OF ts(2)] "3.prems"(3) len nil
    by (intro parse_elements_text) auto
next
  case (5 h d k v fs)
  then obtain t ts where ts: "serialize h d v = Inr t" "serialize_fields h d fs = Inr ts"
      "ss = (quote k @ CHR '':'' # t) # ts"
    by auto
  obtain m where n: "n = Suc m" using "5.prems"(4) by (cases n) auto
  have len: "2 * length t \<le> m" "ts \<noteq> [] \<Longrightarrow> 2 * length (commas ts) + 1 \<le> m"
    using "5.prems"(4) n ts(3) by (auto simp: commas_Cons)
  have nil: "ts = [] \<longleftrightarrow> fs = []" using ts(2) serialize_fields_Nil_iff by auto
  show ?case unfolding n ts(3) list.map prod.case
    using "5.IH"(1) [OF ts(1)] "5.IH"(2) [OF ts(2)] "5.prems"(3) len nil
    by (intro parse_fields_text) auto
qed simp_all

lemma json_parse_serialized:
  assumes "canonicalJson h v = Inr s" and "wf_json h v"
  shows "json_parse h s = Some (sort_deep v)"
  using parse_serialize(1) [OF assms(1) [unfolded canonicalJson_def] assms(2), of "[]" "2 * length s + 2"]
  by (simp add: json_parse_def)

subsection \<open>Key order never shows\<close>

lemma sort_key_idem [simp]: "sort_key f (sort_key f xs) = sort_key f xs"
  by (rule sort_key_of_sorted) simp

lemma serialize_sort_deep:
  "serialize h d (sort_deep v) = serialize h d v"
  "serialize_elements h d (map sort_deep vs) = serialize_elements h d vs"
  "serialize_fields h d (sort_fields fs) = serialize_fields h d fs"
proof (induction h d v and h d vs and h d fs
    rule: serialize_serialize_elements_serialize_fields.induct)
  case (1 h d v)
  show ?case
  proof (cases "MAX_CANONICAL_DEPTH < d")
    case True
    then show ?thesis by (simp add: serialize.simps)
  next
    case False
    then show ?thesis using "1.IH"
      by (cases v) (simp_all add: serialize.simps sort_key_map_pairs)
  qed
qed simp_all

lemma wf_sort_deep: "wf_json h v \<Longrightarrow> wf_json h (sort_deep v)"
  by (induction v rule: sort_deep.induct) (fastforce simp: sort_key_map_pairs)+

lemma canonical_reserialize:
  assumes "canonicalJson h v = Inr s" and "wf_json h v"
  shows "map_option (canonicalJson h) (json_parse h s) = Some (Inr s)"
  using assms by (simp add: json_parse_serialized) (simp add: canonicalJson_def serialize_sort_deep)

lemma canonicalJson_permuted_fields:
  assumes "mset fs = mset gs" and "distinct (map fst fs)"
  shows "canonicalJson h (JObj fs) = canonicalJson h (JObj gs)"
proof -
  have "inj_on field_order (set fs)" using assms(2) by (simp add: distinct_map inj_on_def field_order_def)
  then have "sort_key field_order fs = sort_key field_order gs"
    using assms(1) by (intro sort_key_inj_key_eq) simp_all
  then show ?thesis by (simp add: canonicalJson_def serialize.simps)
qed

lemma canonicalJson_inj:
  assumes "canonicalJson h v = Inr s" "canonicalJson h w = Inr s" "wf_json h v" "wf_json h w"
  shows "sort_deep v = sort_deep w"
  using json_parse_serialized [OF assms(1,3)] json_parse_serialized [OF assms(2,4)] by simp

end
