(* ===== verification/LocaleJson.thy ===== *)
theory LocaleJson
  imports CanonicalJson
begin

text \<open>
  Canonical text with the keys of every object in the order of \<open>String.prototype.localeCompare\<close>, as the policy
  kernel and the session coordinator write it. The order is the host's and nothing is assumed of it:
  \<open>locale_round_trip\<close> shows that \<open>JSON.parse\<close> reads back what was written for any order.
\<close>

fun canonicalize :: "host \<Rightarrow> jsval \<Rightarrow> jsval" where
  "canonicalize h (JArr vs) = JArr (map (canonicalize h) vs)"
| "canonicalize h (JObj fs) =
     JObj (map (\<lambda>(k, v). (k, canonicalize h v)) (sort_by (\<lambda>(k, _) (l, _). locale_le h k l) fs))"
| "canonicalize h v = v"

subsection \<open>The serialiser of the session coordinator\<close>

lemma collect_cong [fundef_cong]:
  "xs = ys \<Longrightarrow> (\<And>x. x \<in> set ys \<Longrightarrow> f x = g x) \<Longrightarrow> collect f xs = collect g ys"
proof (induction ys arbitrary: xs)
  case (Cons y ys)
  from Cons.prems(2) have "f y = g y" "collect f ys = collect g ys" by (auto intro: Cons.IH)
  with Cons.prems(1) show ?case by (auto split: option.split)
qed simp

text \<open>\<open>None\<close> is the thrown integrity error: a number that is not finite, or a value that is not JSON data.\<close>

fun locale_text :: "host \<Rightarrow> jsval \<Rightarrow> string option" where
  "locale_text h JNull = Some ''null''"
| "locale_text h (JBool b) = Some (bool_str b)"
| "locale_text h (JStr s) = Some (quote s)"
| "locale_text h (JNum NaN) = None"
| "locale_text h (JNum (NInf _)) = None"
| "locale_text h (JNum n) = Some (num_str h n)"
| "locale_text h (JArr vs) = map_option (\<lambda>ts. CHR ''['' # commas ts @ '']'') (collect (locale_text h) vs)"
| "locale_text h (JObj fs) =
     map_option (\<lambda>ts. CHR ''{'' # commas ts @ ''}'')
       (collect (\<lambda>(k, v). map_option (\<lambda>t. quote k @ CHR '':'' # t) (locale_text h v))
         (sort_by (\<lambda>(k, _) (l, _). locale_le h k l) fs))"
| "locale_text h JUndefined = None"
| "locale_text h (JOther _) = None"

subsection \<open>Plain values have a text, and it reads back\<close>

fun plain_json :: "host \<Rightarrow> jsval \<Rightarrow> bool" where
  "plain_json h (JNum n) = (num_ok h n \<and> (case n of NaN \<Rightarrow> False | NInf _ \<Rightarrow> False | _ \<Rightarrow> True))"
| "plain_json h (JArr vs) = (\<forall>v \<in> set vs. plain_json h v)"
| "plain_json h (JObj fs) = (distinct (map fst fs) \<and> (\<forall>(k, v) \<in> set fs. plain_json h v))"
| "plain_json h JUndefined = False"
| "plain_json h (JOther _) = False"
| "plain_json h _ = True"

text \<open>On plain values both writers of the program agree: \<open>JSON.stringify\<close> of the value in key order.\<close>

lemma plain_not_droppable: "plain_json h v \<Longrightarrow> \<not> droppable v"
  by (cases v) auto

lemma collect_all: "(\<And>x. x \<in> set xs \<Longrightarrow> f x = Some (g x)) \<Longrightarrow> collect f xs = Some (map g xs)"
  by (induction xs) auto

lemma plain_canonicalize: "plain_json h v \<Longrightarrow> plain_json h (canonicalize h v)"
  by (induction v rule: canonicalize.induct) auto

lemma locale_text_plain: "plain_json h v \<Longrightarrow> locale_text h v = Some (stringify h (canonicalize h v))"
proof (induction h v rule: locale_text.induct)
  case (7 h vs)
  then have "collect (locale_text h) vs = Some (map (\<lambda>v. stringify h (canonicalize h v)) vs)"
    by (intro collect_all) simp
  then show ?case by (simp add: comp_def)
next
  case (8 h fs)
  let ?sorted = "sort_by (\<lambda>(k, _) (l, _). locale_le h k l) fs"
  have all: "plain_json h v" "locale_text h v = Some (stringify h (canonicalize h v))" if "(k, v) \<in> set ?sorted" for k v
    using 8 that by auto
  have "collect (\<lambda>(k, v). map_option (\<lambda>t. quote k @ CHR '':'' # t) (locale_text h v)) ?sorted
      = Some (map (\<lambda>(k, v). quote k @ CHR '':'' # stringify h (canonicalize h v)) ?sorted)"
    by (rule collect_all) (use all(2) in auto)
  moreover have "filter (\<lambda>(k, v). \<not> droppable v) (map (\<lambda>(k, v). (k, canonicalize h v)) ?sorted)
      = map (\<lambda>(k, v). (k, canonicalize h v)) ?sorted"
    using all(1) plain_canonicalize plain_not_droppable by (intro filter_True) force
  ultimately show ?case by (simp add: comp_def case_prod_unfold)
qed auto

lemma plain_num_text:
  assumes "plain_json h (JNum n)"
  shows "list_all number_char (num_str h n)" "num_str h n \<noteq> []" "parse_number h (num_str h n) = Some (JNum n)"
  using num_str_text [of h n] assms by (auto split: jsnum.splits)

lemma stringify_opens: "plain_json h v \<Longrightarrow> opens_value (stringify h v)"
proof (cases v)
  case (JNum n)
  assume "plain_json h v"
  with JNum show ?thesis using plain_num_text [of h n] by (auto intro: opens_value_number)
qed (auto simp: opens_value_def quote_def bool_str_def)

text \<open>Two units of fuel for every character, as \<open>json_parse\<close> gives.\<close>

lemma parse_elements_stringified:
  assumes "\<And>v u n. v \<in> set vs \<Longrightarrow> at_boundary u \<Longrightarrow> 2 * length (stringify h v) \<le> n
      \<Longrightarrow> parse_value h n (stringify h v @ u) = Some (v, u)"
    and "2 * length (commas (map (stringify h) vs)) + 1 \<le> n" and "vs \<noteq> []"
  shows "parse_elements h n (commas (map (stringify h) vs) @ CHR '']'' # r) = Some (vs, r)"
  using assms
proof (induction vs arbitrary: n)
  case (Cons v vs)
  obtain m where n: "n = Suc m" using Cons.prems(2) by (cases n) auto
  have len: "2 * length (stringify h v) \<le> m" "vs \<noteq> [] \<Longrightarrow> 2 * length (commas (map (stringify h) vs)) + 1 \<le> m"
    using Cons.prems(2) n by (auto simp: commas_Cons)
  have rest: "parse_elements h m (commas (map (stringify h) vs) @ CHR '']'' # r) = Some (vs, r)" if "vs \<noteq> []"
    by (rule Cons.IH [OF _ len(2) [OF that] that]) (use Cons.prems(1) in auto)
  show ?case unfolding n list.map
    using Cons.prems(1) [of v, OF _ _ len(1)] rest by (intro parse_elements_text) auto
qed simp

lemma parse_fields_stringified:
  assumes "\<And>k v u n. (k, v) \<in> set fs \<Longrightarrow> at_boundary u \<Longrightarrow> 2 * length (stringify h v) \<le> n
      \<Longrightarrow> parse_value h n (stringify h v @ u) = Some (v, u)"
    and "2 * length (commas (map (\<lambda>(k, v). quote k @ CHR '':'' # stringify h v) fs)) + 1 \<le> n" and "fs \<noteq> []"
  shows "parse_fields h n (commas (map (\<lambda>(k, v). quote k @ CHR '':'' # stringify h v) fs) @ CHR ''}'' # r) = Some (fs, r)"
  using assms
proof (induction fs arbitrary: n)
  case (Cons f fs)
  obtain k v where f: "f = (k, v)" by (cases f)
  obtain m where n: "n = Suc m" using Cons.prems(2) by (cases n) auto
  have len: "2 * length (stringify h v) \<le> m"
      "fs \<noteq> [] \<Longrightarrow> 2 * length (commas (map (\<lambda>(k, v). quote k @ CHR '':'' # stringify h v) fs)) + 1 \<le> m"
    using Cons.prems(2) n f by (auto simp: commas_Cons)
  have rest: "parse_fields h m (commas (map (\<lambda>(k, v). quote k @ CHR '':'' # stringify h v) fs) @ CHR ''}'' # r) = Some (fs, r)"
    if "fs \<noteq> []"
    by (rule Cons.IH [OF _ len(2) [OF that] that]) (use Cons.prems(1) in auto)
  show ?case unfolding n f list.map prod.case
    using Cons.prems(1) [of k v, OF _ _ len(1)] rest f by (intro parse_fields_text) auto
qed simp

lemma parse_leaf:
  "2 * length (stringify h JNull) \<le> n \<Longrightarrow> parse_value h n (stringify h JNull @ r) = Some (JNull, r)"
  "2 * length (stringify h (JBool b)) \<le> n \<Longrightarrow> parse_value h n (stringify h (JBool b) @ r) = Some (JBool b, r)"
  "2 * length (stringify h (JStr s)) \<le> n \<Longrightarrow> parse_value h n (stringify h (JStr s) @ r) = Some (JStr s, r)"
  by (cases n; use parse_value_scalars in \<open>force simp: bool_str_def quote_def split: if_splits\<close>)+

lemma parse_stringify:
  "plain_json h v \<Longrightarrow> at_boundary r \<Longrightarrow> 2 * length (stringify h v) \<le> n \<Longrightarrow>
     parse_value h n (stringify h v @ r) = Some (v, r)"
proof (induction h v arbitrary: r n rule: plain_json.induct)
  case (1 h x)
  have "num_str h x \<noteq> []" "2 * length (num_str h x) \<le> n" using plain_num_text(2) [OF 1(1)] 1(3) by simp_all
  then have "n \<noteq> 0" by (cases n) auto
  then obtain m where "n = Suc m" by (cases n) auto
  then show ?case using parse_value_number [OF plain_num_text [OF 1(1)] 1(2)] by simp
next
  case (2 h vs)
  obtain m where n: "n = Suc m" using 2 by (cases n) auto
  show ?case unfolding n stringify.simps
    by (rule parse_array_text, use 2 stringify_opens in fastforce,
        rule parse_elements_stringified, use 2 n in auto)
next
  case (3 h fs)
  obtain m where n: "n = Suc m" using 3 by (cases n) auto
  have keep: "filter (\<lambda>(k, v). \<not> droppable v) fs = fs"
    using 3 plain_not_droppable by (intro filter_True) force
  show ?case unfolding n stringify.simps keep
    by (rule parse_object_text, fastforce, use 3 in simp,
        rule parse_fields_stringified, use 3 n keep in auto)
qed (simp_all only: parse_leaf plain_json.simps)

theorem locale_round_trip:
  assumes "plain_json h v"
  shows "\<exists>s. locale_text h v = Some s \<and> json_parse h s = Some (canonicalize h v)"
proof -
  let ?s = "stringify h (canonicalize h v)"
  have "parse_value h (2 * length ?s + 2) (?s @ []) = Some (canonicalize h v, [])"
    by (rule parse_stringify [OF plain_canonicalize [OF assms]]) simp_all
  then have "json_parse h ?s = Some (canonicalize h v)" by (simp add: json_parse_def del: parse_value.simps)
  then show ?thesis using locale_text_plain [OF assms] by blast
qed

end
