(* ===== verification/PolicyKernel.thy ===== *)
theory PolicyKernel
  imports Schemas LocaleJson
begin

text \<open>
  \<open>packages/policy/src/kernel.ts\<close>: the authorization kernel. Its state is the frozen policy with
  its hash, the intent ids and nonces already processed and the amount approved per UTC day and
  payment asset. \<open>authorize\<close> returns the new kernel and its decision; \<open>new_kernel\<close> is the
  constructor, which restores an exported state. The lemmas show when an intent is approved,
  that replays and overspending are impossible over any run, and that exporting and
  restoring a kernel does not change what it approves.
\<close>

subsection \<open>Decisions\<close>

datatype PolicyReasonCode =
    INVALID_INTENT | INVALID_EVIDENCE | POLICY_VERSION_MISMATCH | POLICY_HASH_MISMATCH
  | DUPLICATE_INTENT | DUPLICATE_NONCE | INTENT_TIME_INVALID | INTENT_EXPIRED | INTENT_FROM_FUTURE
  | CHAIN_NOT_ALLOWED | MARKETPLACE_TARGET_NOT_ALLOWED | COLLECTION_NOT_ALLOWED
  | PAYMENT_ASSET_NOT_ALLOWED | RECIPIENT_NOT_ALLOWED | SPEND_LIMIT_MISSING | SPEND_LIMIT_EXCEEDED
  | DAILY_SPEND_LIMIT_EXCEEDED | MISSING_EVIDENCE | DUPLICATE_EVIDENCE | STALE_EVIDENCE
  | EVIDENCE_TIME_INVALID | EVIDENCE_INTEGRITY_FLAG | EVIDENCE_ASSET_MISMATCH
  | INSUFFICIENT_INDEPENDENT_EVIDENCE | CANONICAL_EVIDENCE_MISSING

primrec reason_text :: "PolicyReasonCode \<Rightarrow> string" where
  "reason_text INVALID_INTENT = ''INVALID_INTENT''"
| "reason_text INVALID_EVIDENCE = ''INVALID_EVIDENCE''"
| "reason_text POLICY_VERSION_MISMATCH = ''POLICY_VERSION_MISMATCH''"
| "reason_text POLICY_HASH_MISMATCH = ''POLICY_HASH_MISMATCH''"
| "reason_text DUPLICATE_INTENT = ''DUPLICATE_INTENT''"
| "reason_text DUPLICATE_NONCE = ''DUPLICATE_NONCE''"
| "reason_text INTENT_TIME_INVALID = ''INTENT_TIME_INVALID''"
| "reason_text INTENT_EXPIRED = ''INTENT_EXPIRED''"
| "reason_text INTENT_FROM_FUTURE = ''INTENT_FROM_FUTURE''"
| "reason_text CHAIN_NOT_ALLOWED = ''CHAIN_NOT_ALLOWED''"
| "reason_text MARKETPLACE_TARGET_NOT_ALLOWED = ''MARKETPLACE_TARGET_NOT_ALLOWED''"
| "reason_text COLLECTION_NOT_ALLOWED = ''COLLECTION_NOT_ALLOWED''"
| "reason_text PAYMENT_ASSET_NOT_ALLOWED = ''PAYMENT_ASSET_NOT_ALLOWED''"
| "reason_text RECIPIENT_NOT_ALLOWED = ''RECIPIENT_NOT_ALLOWED''"
| "reason_text SPEND_LIMIT_MISSING = ''SPEND_LIMIT_MISSING''"
| "reason_text SPEND_LIMIT_EXCEEDED = ''SPEND_LIMIT_EXCEEDED''"
| "reason_text DAILY_SPEND_LIMIT_EXCEEDED = ''DAILY_SPEND_LIMIT_EXCEEDED''"
| "reason_text MISSING_EVIDENCE = ''MISSING_EVIDENCE''"
| "reason_text DUPLICATE_EVIDENCE = ''DUPLICATE_EVIDENCE''"
| "reason_text STALE_EVIDENCE = ''STALE_EVIDENCE''"
| "reason_text EVIDENCE_TIME_INVALID = ''EVIDENCE_TIME_INVALID''"
| "reason_text EVIDENCE_INTEGRITY_FLAG = ''EVIDENCE_INTEGRITY_FLAG''"
| "reason_text EVIDENCE_ASSET_MISMATCH = ''EVIDENCE_ASSET_MISMATCH''"
| "reason_text INSUFFICIENT_INDEPENDENT_EVIDENCE = ''INSUFFICIENT_INDEPENDENT_EVIDENCE''"
| "reason_text CANONICAL_EVIDENCE_MISSING = ''CANONICAL_EVIDENCE_MISSING''"

record PolicyRejection =
  rej_decisionId :: string
  rej_evaluatedAt :: string
  rej_policyHash :: string
  rej_reasons :: "PolicyReasonCode list"

record PolicyApproval =
  app_decisionId :: string
  app_evaluatedAt :: string
  app_policyHash :: string
  app_intentHash :: string
  app_intent :: ExecutionIntent

datatype PolicyDecision = Approved PolicyApproval | Rejected PolicyRejection

record PolicyKernelState =
  st_policyHash :: string
  st_processedIntentIds :: "string list"
  st_processedNonces :: "string list"
  st_dailySpendByKey :: "(string \<times> string) list"

record PolicyKernel =
  policy :: PolicyConfig
  policyHash :: string
  processedIntentIds :: "string list"
  processedNonces :: "string list"
  dailySpend :: "(string \<times> nat) list"

subsection \<open>Hashing\<close>

definition canonicalHash :: "host \<Rightarrow> jsval \<Rightarrow> string" where
  "canonicalHash h v = ''0x'' @ sha256_hex h (stringify h (canonicalize h v))"

definition executionIntentHash :: "host \<Rightarrow> jsval \<Rightarrow> string option" where
  "executionIntentHash h raw =
     map_option (\<lambda>i. canonicalHash h (intent_json i)) (ExecutionIntentSchema h raw)"

subsection \<open>Guards\<close>

definition includesContract :: "AssetContract list \<Rightarrow> int \<Rightarrow> string \<Rightarrow> bool" where
  "includesContract entries c a =
     list_ex (\<lambda>e. ac_chainId e = c \<and> to_lower (ac_address e) = to_lower a) entries"

definition claimMatchesIntent :: "Observation \<Rightarrow> ExecutionIntent \<Rightarrow> bool" where
  "claimMatchesIntent ob i =
     list_ex (\<lambda>c. nft_chainId (claim_asset c) = chainId (action i)
       \<and> to_lower (nft_address (claim_asset c)) = to_lower (collectionContract (action i))
       \<and> nft_tokenId (claim_asset c) = tokenId (action i)) (obs_claims ob)"

definition isCanonicalMarketplaceEvidence :: "Observation \<Rightarrow> ExecutionIntent \<Rightarrow> bool" where
  "isCanonicalMarketplaceEvidence ob i =
     (if src_kind (obs_source ob) \<noteq> SrcOpensea
        \<or> map_option to_lower (obs_order ob) \<noteq> Some (to_lower (orderHash (action i)))
      then False
      else list_ex (\<lambda>c. claim_type c = Listing
             \<and> nft_chainId (claim_asset c) = chainId (action i)
             \<and> to_lower (nft_address (claim_asset c)) = to_lower (collectionContract (action i))
             \<and> nft_tokenId (claim_asset c) = tokenId (action i)) (obs_claims ob))"

definition dailySpendKey :: "ExecutionIntent \<Rightarrow> int \<Rightarrow> string" where
  "dailySpendKey i now =
     iso_day now @ CHR '':'' # assetKey (chainId (action i)) (paymentAsset (action i))"

definition spent :: "PolicyKernel \<Rightarrow> string \<Rightarrow> nat" where
  "spent k key = (case map_of (dailySpend k) key of None \<Rightarrow> 0 | Some n \<Rightarrow> n)"

text \<open>\<open>getTime()\<close> of a date that did not parse is NaN, and every comparison with it is false.\<close>

definition later :: "int option \<Rightarrow> int option \<Rightarrow> bool" where
  "later a b = (case (a, b) of (Some x, Some y) \<Rightarrow> x > y | _ \<Rightarrow> False)"

definition not_before :: "int option \<Rightarrow> int option \<Rightarrow> bool" where
  "not_before a b = (case (a, b) of (Some x, Some y) \<Rightarrow> x \<ge> y | _ \<Rightarrow> False)"

definition plus_ms :: "int option \<Rightarrow> int \<Rightarrow> int option" where
  "plus_ms a d = map_option (\<lambda>x. x + d) a"

definition evidence_time_invalid :: "host \<Rightarrow> int \<Rightarrow> int \<Rightarrow> Observation \<Rightarrow> bool" where
  "evidence_time_invalid h skew now ob =
     (let acq = date_parse h (acquiredAt ob); obs = date_parse h (observedAt ob);
          val = date_parse h (validUntil ob)
      in later acq (Some (now + skew)) \<or> later obs (Some (now + skew)) \<or> later obs (plus_ms acq skew)
         \<or> not_before acq val \<or> not_before obs val)"

definition evidence_stale :: "host \<Rightarrow> int \<Rightarrow> int \<Rightarrow> Observation \<Rightarrow> bool" where
  "evidence_stale h max_age now ob =
     (let acq = date_parse h (acquiredAt ob); obs = date_parse h (observedAt ob);
          val = date_parse h (validUntil ob)
      in later (Some now) (plus_ms acq max_age) \<or> later (Some now) (plus_ms obs max_age)
         \<or> not_before (Some now) val)"

definition evidence_flagged :: "Observation \<Rightarrow> bool" where
  "evidence_flagged ob \<longleftrightarrow>
     injectionFlags (integrity ob) \<noteq> [] \<or> homographFlags (integrity ob) \<noteq> []"

definition flag_if :: "bool \<Rightarrow> 'a \<Rightarrow> 'a list" where
  "flag_if b x = (if b then [x] else [])"

definition spend_reasons :: "PolicyKernel \<Rightarrow> ExecutionIntent \<Rightarrow> int \<Rightarrow> PolicyReasonCode list" where
  "spend_reasons k i now =
     (let key = assetKey (chainId (action i)) (paymentAsset (action i))
      in case (map_of (maxPerTransactionByAsset (policy k)) key, map_of (maxDailySpendByAsset (policy k)) key) of
        (Some per_tx, Some daily) \<Rightarrow>
          (let requested = read_nat (maxTotalSpend (action i));
               prior = spent k (dailySpendKey i now)
           in flag_if (requested > read_nat per_tx) SPEND_LIMIT_EXCEEDED
              @ flag_if (prior + requested > read_nat daily) DAILY_SPEND_LIMIT_EXCEEDED)
      | _ \<Rightarrow> [SPEND_LIMIT_MISSING])"

text \<open>\<open>new Map(observations.map(o => [o.observationId, o]))\<close>: a later observation replaces an earlier one.\<close>

definition observations_by_id :: "Observation list \<Rightarrow> string \<Rightarrow> Observation option" where
  "observations_by_id obs = map_of (rev (map (\<lambda>ob. (observationId ob, ob)) obs))"

definition referenced_evidence :: "ExecutionIntent \<Rightarrow> Observation list \<Rightarrow> Observation list" where
  "referenced_evidence i obs = List.map_filter (observations_by_id obs) (evidenceIds i)"

definition evidence_reasons :: "host \<Rightarrow> PolicyConfig \<Rightarrow> ExecutionIntent \<Rightarrow> int \<Rightarrow> Observation \<Rightarrow> PolicyReasonCode list" where
  "evidence_reasons h p i now ob =
     (let skew = maxClockSkewSeconds p * 1000; max_age = maxEvidenceAgeSeconds p * 1000
      in flag_if (evidence_time_invalid h skew now ob) EVIDENCE_TIME_INVALID
         @ flag_if (evidence_stale h max_age now ob) STALE_EVIDENCE
         @ flag_if (evidence_flagged ob) EVIDENCE_INTEGRITY_FLAG
         @ flag_if (\<not> claimMatchesIntent ob i) EVIDENCE_ASSET_MISMATCH)"

definition sorted_reasons :: "PolicyReasonCode list \<Rightarrow> PolicyReasonCode list" where
  "sorted_reasons rs = sort_key reason_text (remdups rs)"

definition evaluate :: "host \<Rightarrow> PolicyKernel \<Rightarrow> ExecutionIntent \<Rightarrow> Observation list \<Rightarrow> int \<Rightarrow> PolicyReasonCode list" where
  "evaluate h k i obs now =
     (let p = policy k; a = action i;
          created = date_parse h (createdAt i); expires = date_parse h (expiresAt i);
          skew = maxClockSkewSeconds p * 1000;
          referenced = referenced_evidence i obs
      in sorted_reasons
        (flag_if (policyVersion i \<noteq> cfg_policyVersion p) POLICY_VERSION_MISMATCH
         @ flag_if (to_lower (intent_policyHash i) \<noteq> to_lower (policyHash k)) POLICY_HASH_MISMATCH
         @ flag_if (intentId i \<in> set (processedIntentIds k)) DUPLICATE_INTENT
         @ flag_if (to_lower (nonce a) \<in> set (processedNonces k)) DUPLICATE_NONCE
         @ flag_if (not_before created expires) INTENT_TIME_INVALID
         @ flag_if (not_before (Some now) expires) INTENT_EXPIRED
         @ flag_if (later created (Some (now + skew))) INTENT_FROM_FUTURE
         @ flag_if (chainId a \<notin> set (allowedChains p)) CHAIN_NOT_ALLOWED
         @ flag_if (\<not> includesContract (allowedMarketplaceTargets p) (chainId a) (targetContract a))
             MARKETPLACE_TARGET_NOT_ALLOWED
         @ flag_if (\<not> includesContract (allowedCollections p) (chainId a) (collectionContract a))
             COLLECTION_NOT_ALLOWED
         @ flag_if (\<not> includesContract (allowedPaymentAssets p) (chainId a) (paymentAsset a))
             PAYMENT_ASSET_NOT_ALLOWED
         @ flag_if (\<not> includesContract (allowedRecipients p) (chainId a) (recipient a)) RECIPIENT_NOT_ALLOWED
         @ spend_reasons k i now
         @ flag_if (\<not> distinct (evidenceIds i) \<or> \<not> distinct (map observationId obs)) DUPLICATE_EVIDENCE
         @ flag_if (length referenced \<noteq> length (evidenceIds i)) MISSING_EVIDENCE
         @ concat (map (evidence_reasons h p i now) referenced)
         @ flag_if (int (length (remdups (map (\<lambda>ob. coordinationClusterId (integrity ob)) referenced)))
                 < minIndependentEvidenceClusters p) INSUFFICIENT_INDEPENDENT_EVIDENCE
         @ flag_if (requireCanonicalMarketplaceEvidence p
                 \<and> \<not> list_ex (\<lambda>ob. isCanonicalMarketplaceEvidence ob i) referenced)
             CANONICAL_EVIDENCE_MISSING))"

definition reject :: "host \<Rightarrow> PolicyKernel \<Rightarrow> PolicyReasonCode list \<Rightarrow> int \<Rightarrow> string \<Rightarrow> PolicyDecision" where
  "reject h k reasons now iid =
     (let instant = to_iso now; rs = sorted_reasons reasons
      in Rejected \<lparr>rej_decisionId = canonicalHash h (JObj
             [(''approved'', JBool False), (''evaluatedAt'', JStr instant), (''intentId'', JStr iid),
              (''policyHash'', JStr (policyHash k)), (''reasons'', JArr (map (\<lambda>r. JStr (reason_text r)) rs))]),
           rej_evaluatedAt = instant, rej_policyHash = policyHash k, rej_reasons = rs\<rparr>)"

definition approve :: "PolicyKernel \<Rightarrow> ExecutionIntent \<Rightarrow> int \<Rightarrow> PolicyKernel" where
  "approve k i now =
     (let key = dailySpendKey i now
      in k\<lparr>processedIntentIds := add_if_new (intentId i) (processedIntentIds k),
           processedNonces := add_if_new (to_lower (nonce (action i))) (processedNonces k),
           dailySpend := AList.update key (spent k key + read_nat (maxTotalSpend (action i))) (dailySpend k)\<rparr>)"

text \<open>
  Hashing parses the approved intent again. That it parses is \<open>intent_reparse\<close>, so the branch for a
  second parse that fails is never taken (\<open>approval_hash\<close>).
\<close>

definition approval :: "host \<Rightarrow> PolicyKernel \<Rightarrow> ExecutionIntent \<Rightarrow> int \<Rightarrow> PolicyApproval" where
  "approval h k i now =
     (let instant = to_iso now;
          ih = (case executionIntentHash h (intent_json i) of Some x \<Rightarrow> x | None \<Rightarrow> [])
      in \<lparr>app_decisionId = canonicalHash h (JObj
             [(''approved'', JBool True), (''evaluatedAt'', JStr instant), (''intentHash'', JStr ih),
              (''policyHash'', JStr (policyHash k))]),
          app_evaluatedAt = instant, app_policyHash = policyHash k, app_intentHash = ih, app_intent = i\<rparr>)"

definition authorize :: "host \<Rightarrow> PolicyKernel \<Rightarrow> jsval \<Rightarrow> jsval list \<Rightarrow> int \<Rightarrow> PolicyKernel \<times> PolicyDecision" where
  "authorize h k rawIntent rawObservations now =
     (case ExecutionIntentSchema h rawIntent of
       None \<Rightarrow> (k, reject h k [INVALID_INTENT] now ''invalid'')
     | Some i \<Rightarrow>
        (case collect (ObservationSchema h) rawObservations of
          None \<Rightarrow> (k, reject h k [INVALID_EVIDENCE] now (intentId i))
        | Some obs \<Rightarrow>
           (let reasons = evaluate h k i obs now
            in if reasons \<noteq> [] then (k, reject h k reasons now (intentId i))
               else (approve k i now, Approved (approval h k i now)))))"


subsection \<open>Construction, export and restore\<close>

datatype PolicyError = PolicyConfigInvalid | PolicyStateInvalid | PolicyStateMismatch

text \<open>\<open>/^[0-9]{4}-[0-9]{2}-[0-9]{2}:[0-9]+:0x[0-9a-f]{40}$/\<close>, at most 128 characters\<close>

definition spend_key_format :: "string \<Rightarrow> bool" where
  "spend_key_format s \<longleftrightarrow>
     length s \<le> 128 \<and>
     (let d = take 10 s
      in length d = 10 \<and> list_all is_digit (take 4 d) \<and> d ! 4 = CHR ''-'' \<and> list_all is_digit (take 2 (drop 5 d))
         \<and> d ! 7 = CHR ''-'' \<and> list_all is_digit (drop 8 d) \<and> take 1 (drop 10 s) = '':''
         \<and> asset_key_format (drop 11 s))"

definition intent_id_format :: "string \<Rightarrow> bool" where
  "intent_id_format = labelled ''rsi-intent:'' 96"

definition PolicyKernelStateSchema :: "jsval \<Rightarrow> PolicyKernelState option" where
  "PolicyKernelStateSchema v = do {
     f \<leftarrow> z_object [''schemaVersion'', ''policyHash'', ''processedIntentIds'', ''processedNonces'',
            ''dailySpendByKey''] v;
     _ \<leftarrow> z_number_literal 1 (f ''schemaVersion'');
     q \<leftarrow> z_string Bytes32Schema (f ''policyHash'');
     i \<leftarrow> z_refine distinct
            (z_array (z_string intent_id_format) (\<lambda>n. n \<le> 1000000) (f ''processedIntentIds''));
     n \<leftarrow> z_refine (\<lambda>ns. distinct (map to_lower ns))
            (z_array (z_string Bytes32Schema) (\<lambda>n. n \<le> 1000000) (f ''processedNonces''));
     d \<leftarrow> z_record spend_key_format (z_string AtomicAmountSchema) (f ''dailySpendByKey'');
     Some \<lparr>st_policyHash = q, st_processedIntentIds = i, st_processedNonces = n, st_dailySpendByKey = d\<rparr> }"

definition state_json :: "PolicyKernelState \<Rightarrow> jsval" where
  "state_json st = JObj
     [(''schemaVersion'', jint 1), (''policyHash'', JStr (st_policyHash st)),
      (''processedIntentIds'', JArr (map JStr (st_processedIntentIds st))),
      (''processedNonces'', JArr (map JStr (st_processedNonces st))),
      (''dailySpendByKey'', JObj (map (\<lambda>(k, v). (k, JStr v)) (st_dailySpendByKey st)))]"

definition restore_state :: "PolicyKernel \<Rightarrow> PolicyKernelState \<Rightarrow> PolicyKernel" where
  "restore_state k st =
     k\<lparr>processedIntentIds := fold add_if_new (st_processedIntentIds st) (processedIntentIds k),
       processedNonces := fold add_if_new (map to_lower (st_processedNonces st)) (processedNonces k),
       dailySpend := fold (\<lambda>(key, v). AList.update key (read_nat v)) (st_dailySpendByKey st) (dailySpend k)\<rparr>"

definition new_kernel :: "host \<Rightarrow> jsval \<Rightarrow> jsval option \<Rightarrow> (PolicyError, PolicyKernel) result" where
  "new_kernel h rawPolicy rawState =
     and_then (or_fail (PolicyConfigSchema rawPolicy) PolicyConfigInvalid) (\<lambda>p.
       let k = \<lparr>policy = p, policyHash = canonicalHash h (policy_json p), processedIntentIds = [],
                processedNonces = [], dailySpend = []\<rparr>
       in case rawState of
            None \<Rightarrow> Inr k
          | Some raw \<Rightarrow>
              and_then (or_fail (PolicyKernelStateSchema raw) PolicyStateInvalid) (\<lambda>st.
              and_then (ensure (to_lower (st_policyHash st) = to_lower (policyHash k)) PolicyStateMismatch) (\<lambda>_.
                Inr (restore_state k st))))"

definition exportState :: "host \<Rightarrow> PolicyKernel \<Rightarrow> PolicyKernelState" where
  "exportState h k =
     \<lparr>st_policyHash = policyHash k, st_processedIntentIds = js_sort (processedIntentIds k),
      st_processedNonces = js_sort (processedNonces k),
      st_dailySpendByKey = map (\<lambda>(key, n). (key, nat_str n))
        (sort_by (\<lambda>(a, _) (b, _). locale_le h a b) (dailySpend k))\<rparr>"

subsection \<open>Runs\<close>

type_synonym policy_request = "jsval \<times> jsval list \<times> int"

fun authorize_run :: "host \<Rightarrow> PolicyKernel \<Rightarrow> policy_request list \<Rightarrow> PolicyKernel \<times> PolicyDecision list" where
  "authorize_run h k [] = (k, [])"
| "authorize_run h k ((raw, obs, now) # rs) =
     (let (k1, d) = authorize h k raw obs now; (k2, ds) = authorize_run h k1 rs in (k2, d # ds))"

fun approvals :: "PolicyDecision list \<Rightarrow> PolicyApproval list" where
  "approvals [] = []"
| "approvals (Approved a # ds) = a # approvals ds"
| "approvals (Rejected _ # ds) = approvals ds"

definition approved_amount :: "PolicyApproval \<Rightarrow> nat" where
  "approved_amount a = read_nat (maxTotalSpend (action (app_intent a)))"

definition approved_asset :: "PolicyApproval \<Rightarrow> string" where
  "approved_asset a = assetKey (chainId (action (app_intent a))) (paymentAsset (action (app_intent a)))"

definition approved_key :: "PolicyApproval \<Rightarrow> string" where
  "approved_key a = take 10 (app_evaluatedAt a) @ CHR '':'' # approved_asset a"

subsection \<open>When an intent is approved\<close>

text \<open>The contract of the kernel, stated on the intent, the evidence and the state.\<close>

definition cited :: "ExecutionIntent \<Rightarrow> Observation list \<Rightarrow> Observation set" where
  "cited i obs = {ob \<in> set obs. observationId ob \<in> set (evidenceIds i)}"

definition within_limits :: "PolicyKernel \<Rightarrow> ExecutionIntent \<Rightarrow> int \<Rightarrow> bool" where
  "within_limits k i now \<longleftrightarrow>
     (\<exists>per_tx daily.
        map_of (maxPerTransactionByAsset (policy k)) (assetKey (chainId (action i)) (paymentAsset (action i))) = Some per_tx
      \<and> map_of (maxDailySpendByAsset (policy k)) (assetKey (chainId (action i)) (paymentAsset (action i))) = Some daily
      \<and> read_nat (maxTotalSpend (action i)) \<le> read_nat per_tx
      \<and> spent k (dailySpendKey i now) + read_nat (maxTotalSpend (action i)) \<le> read_nat daily)"

definition sound_evidence :: "host \<Rightarrow> PolicyConfig \<Rightarrow> ExecutionIntent \<Rightarrow> int \<Rightarrow> Observation \<Rightarrow> bool" where
  "sound_evidence h p i now ob \<longleftrightarrow>
     \<not> evidence_time_invalid h (maxClockSkewSeconds p * 1000) now ob
     \<and> \<not> evidence_stale h (maxEvidenceAgeSeconds p * 1000) now ob
     \<and> \<not> evidence_flagged ob \<and> claimMatchesIntent ob i"

definition policy_permits :: "host \<Rightarrow> PolicyKernel \<Rightarrow> ExecutionIntent \<Rightarrow> Observation list \<Rightarrow> int \<Rightarrow> bool" where
  "policy_permits h k i obs now \<longleftrightarrow>
     policyVersion i = cfg_policyVersion (policy k)
   \<and> to_lower (intent_policyHash i) = to_lower (policyHash k)
   \<and> intentId i \<notin> set (processedIntentIds k)
   \<and> to_lower (nonce (action i)) \<notin> set (processedNonces k)
   \<and> \<not> not_before (date_parse h (createdAt i)) (date_parse h (expiresAt i))
   \<and> \<not> not_before (Some now) (date_parse h (expiresAt i))
   \<and> \<not> later (date_parse h (createdAt i)) (Some (now + maxClockSkewSeconds (policy k) * 1000))
   \<and> chainId (action i) \<in> set (allowedChains (policy k))
   \<and> includesContract (allowedMarketplaceTargets (policy k)) (chainId (action i)) (targetContract (action i))
   \<and> includesContract (allowedCollections (policy k)) (chainId (action i)) (collectionContract (action i))
   \<and> includesContract (allowedPaymentAssets (policy k)) (chainId (action i)) (paymentAsset (action i))
   \<and> includesContract (allowedRecipients (policy k)) (chainId (action i)) (recipient (action i))
   \<and> within_limits k i now
   \<and> distinct (evidenceIds i) \<and> distinct (map observationId obs)
   \<and> set (evidenceIds i) \<subseteq> observationId ` set obs
   \<and> (\<forall>ob \<in> cited i obs. sound_evidence h (policy k) i now ob)
   \<and> minIndependentEvidenceClusters (policy k)
       \<le> int (card ((\<lambda>ob. coordinationClusterId (integrity ob)) ` cited i obs))
   \<and> (requireCanonicalMarketplaceEvidence (policy k)
       \<longrightarrow> (\<exists>ob \<in> cited i obs. isCanonicalMarketplaceEvidence ob i))"

lemma flag_if_Nil [simp]: "flag_if b x = [] \<longleftrightarrow> \<not> b"
  by (simp add: flag_if_def)

lemma sorted_reasons_Nil [simp]: "sorted_reasons rs = [] \<longleftrightarrow> rs = []"
  by (metis sorted_reasons_def length_0_conv length_sort remdups_eq_nil_iff)

lemma reason_text_inject [simp]: "reason_text a = reason_text b \<longleftrightarrow> a = b"
  by (cases a; cases b) simp_all

lemma spend_reasons_Nil: "spend_reasons k i now = [] \<longleftrightarrow> within_limits k i now"
  by (auto simp: spend_reasons_def within_limits_def Let_def not_less split: option.splits)

lemma observations_by_id_Some:
  "distinct (map observationId obs) \<Longrightarrow>
     observations_by_id obs x = Some ob \<longleftrightarrow> ob \<in> set obs \<and> observationId ob = x"
  unfolding observations_by_id_def
  by (subst map_of_eq_Some_iff) (auto simp: rev_map [symmetric] comp_def)

lemma map_filter_length: "length (List.map_filter f xs) = length (filter (\<lambda>x. f x \<noteq> None) xs)"
  by (induction xs) (auto simp: map_filter_simps split: option.splits)

lemma set_map_filter_Some: "set (List.map_filter f xs) = {y. \<exists>x \<in> set xs. f x = Some y}"
  by (induction xs) (auto simp: map_filter_simps split: option.splits)

lemma set_referenced:
  "distinct (map observationId obs) \<Longrightarrow> set (referenced_evidence i obs) = cited i obs"
  by (auto simp: referenced_evidence_def set_map_filter_Some observations_by_id_Some cited_def)

lemma length_filter_eq_all: "length (filter P xs) = length xs \<longleftrightarrow> (\<forall>x \<in> set xs. P x)"
  by (metis filter_id_conv length_filter_less less_irrefl)

lemma referenced_complete:
  assumes "distinct (map observationId obs)"
  shows "length (referenced_evidence i obs) = length (evidenceIds i)
    \<longleftrightarrow> set (evidenceIds i) \<subseteq> observationId ` set obs"
  using observations_by_id_Some [OF assms]
  by (auto simp: referenced_evidence_def map_filter_length length_filter_eq_all)

lemma evaluate_Nil_iff: "evaluate h k i obs now = [] \<longleftrightarrow> policy_permits h k i obs now"
proof (cases "distinct (map observationId obs)")
  case True
  note simps = set_referenced [OF True] referenced_complete [OF True]
  show ?thesis
    unfolding evaluate_def policy_permits_def Let_def sorted_reasons_Nil append_is_Nil_conv flag_if_Nil
      spend_reasons_Nil concat_eq_Nil_conv set_map simps
    using True
    by (auto simp: evidence_reasons_def sound_evidence_def simps list_ex_iff length_remdups_card_conv image_image)
next
  case False
  then show ?thesis by (simp add: evaluate_def policy_permits_def Let_def)
qed


lemma authorize_approved_iff:
  "(\<exists>a. snd (authorize h k raw robs now) = Approved a) \<longleftrightarrow>
     (\<exists>i obs. ExecutionIntentSchema h raw = Some i \<and> collect (ObservationSchema h) robs = Some obs
        \<and> policy_permits h k i obs now)"
  by (auto simp: authorize_def reject_def Let_def evaluate_Nil_iff split: option.splits)

lemma authorize_cases:
  obtains (approved) i obs where "ExecutionIntentSchema h raw = Some i"
      "collect (ObservationSchema h) robs = Some obs" "policy_permits h k i obs now"
      "authorize h k raw robs now = (approve k i now, Approved (approval h k i now))"
  | (rejected) r where "authorize h k raw robs now = (k, Rejected r)" "rej_reasons r \<noteq> []"
      "rej_policyHash r = policyHash k"
proof (cases "\<exists>a. snd (authorize h k raw robs now) = Approved a")
  case True
  then obtain i obs where i: "ExecutionIntentSchema h raw = Some i"
      "collect (ObservationSchema h) robs = Some obs" "policy_permits h k i obs now"
    unfolding authorize_approved_iff by blast
  then have "authorize h k raw robs now = (approve k i now, Approved (approval h k i now))"
    using evaluate_Nil_iff by (simp add: authorize_def)
  with i show thesis by (rule approved)
next
  case False
  then show thesis
    by (intro rejected [of "case snd (authorize h k raw robs now) of Rejected r \<Rightarrow> r"])
      (auto simp: authorize_def reject_def Let_def split: option.splits if_splits)
qed

lemma approval_hash:
  assumes "ExecutionIntentSchema h raw = Some i"
  shows "app_intentHash (approval h k i now) = canonicalHash h (intent_json i)"
  using intent_reparse [OF assms] by (simp add: approval_def executionIntentHash_def Let_def)

lemma approval_simps [simp]:
  "app_intent (approval h k i now) = i" "app_evaluatedAt (approval h k i now) = to_iso now"
  "app_policyHash (approval h k i now) = policyHash k"
  by (simp_all add: approval_def Let_def)

lemma approval_keys [simp]:
  "approved_key (approval h k i now) = dailySpendKey i now"
  "approved_amount (approval h k i now) = read_nat (maxTotalSpend (action i))"
  "approved_asset (approval h k i now) = assetKey (chainId (action i)) (paymentAsset (action i))"
  by (simp_all add: approved_key_def approved_asset_def approved_amount_def dailySpendKey_def iso_day_def)

lemma approve_simps [simp]:
  "policy (approve k i now) = policy k" "policyHash (approve k i now) = policyHash k"
  "set (processedIntentIds (approve k i now)) = insert (intentId i) (set (processedIntentIds k))"
  "set (processedNonces (approve k i now)) = insert (to_lower (nonce (action i))) (set (processedNonces k))"
  "spent (approve k i now) key = spent k key
     + (if key = dailySpendKey i now then read_nat (maxTotalSpend (action i)) else 0)"
  by (simp_all add: approve_def Let_def spent_def map_of_update)

subsection \<open>Safety of runs\<close>

text \<open>The asset a spend key is for: what follows the ten characters of the day and the colon.\<close>

definition key_asset :: "string \<Rightarrow> string" where
  "key_asset key = drop 11 key"

definition limits_kept :: "PolicyKernel \<Rightarrow> bool" where
  "limits_kept k \<longleftrightarrow>
     (\<forall>key. 0 < spent k key \<longrightarrow>
        (\<exists>daily. map_of (maxDailySpendByAsset (policy k)) (key_asset key) = Some daily
           \<and> spent k key \<le> read_nat daily))"

lemma length_iso_day: "length (iso_day t) = 10"
  by (simp add: iso_day_def length_to_iso length_year_text)

lemma key_asset_dailySpendKey [simp]:
  "key_asset (dailySpendKey i now) = assetKey (chainId (action i)) (paymentAsset (action i))"
  by (simp add: key_asset_def dailySpendKey_def length_iso_day)

lemma approve_limits_kept:
  assumes "limits_kept k" and "within_limits k i now"
  shows "limits_kept (approve k i now)"
  using assms by (auto simp: limits_kept_def within_limits_def)

lemma authorize_limits_kept:
  assumes "limits_kept k"
  shows "limits_kept (fst (authorize h k raw obs now))"
  by (cases rule: authorize_cases [of h raw obs k now])
    (use assms in \<open>auto simp: policy_permits_def intro: approve_limits_kept\<close>)

lemma authorize_policy [simp]:
  "policy (fst (authorize h k raw obs now)) = policy k"
  "policyHash (fst (authorize h k raw obs now)) = policyHash k"
  by (cases rule: authorize_cases [of h raw obs k now]; simp)+

definition total_for :: "string \<Rightarrow> PolicyApproval list \<Rightarrow> nat" where
  "total_for key as = sum_list (map approved_amount (filter (\<lambda>a. approved_key a = key) as))"

lemma total_for_Cons [simp]:
  "total_for key [] = 0"
  "total_for key (a # as) = (if approved_key a = key then approved_amount a else 0) + total_for key as"
  by (simp_all add: total_for_def)

text \<open>What a run does to the state, in terms of the approvals it made.\<close>

lemma run_invariant:
  assumes "authorize_run h k rs = (k', ds)" and "limits_kept k"
  shows "limits_kept k' \<and> policy k' = policy k \<and> policyHash k' = policyHash k
    \<and> (\<forall>key. spent k' key = spent k key + total_for key (approvals ds))
    \<and> set (processedIntentIds k') = set (processedIntentIds k) \<union> (\<lambda>a. intentId (app_intent a)) ` set (approvals ds)
    \<and> set (processedNonces k') = set (processedNonces k) \<union> (\<lambda>a. to_lower (nonce (action (app_intent a)))) ` set (approvals ds)"
  using assms
proof (induction rs arbitrary: k k' ds)
  case (Cons r rs)
  obtain raw obs now where r: "r = (raw, obs, now)" by (cases r)
  obtain k1 d ds' where step: "authorize h k raw obs now = (k1, d)" and rest: "authorize_run h k1 rs = (k', ds')"
      and ds: "ds = d # ds'"
    using Cons.prems(1) by (auto simp: r Let_def split: prod.splits)
  have k1: "limits_kept k1" using authorize_limits_kept [OF Cons.prems(2), of h raw obs now] step by simp
  note IH = Cons.IH [OF rest k1]
  show ?case
    using step IH by (cases rule: authorize_cases [of h raw obs k now]) (auto simp: ds)
qed auto

lemma policy_permits_fresh:
  "policy_permits h k i obs now \<Longrightarrow>
     intentId i \<notin> set (processedIntentIds k) \<and> to_lower (nonce (action i)) \<notin> set (processedNonces k)"
  by (simp add: policy_permits_def)

lemma run_no_replay:
  assumes "authorize_run h k rs = (k', ds)"
  shows "distinct (map (\<lambda>a. intentId (app_intent a)) (approvals ds))
    \<and> distinct (map (\<lambda>a. to_lower (nonce (action (app_intent a)))) (approvals ds))
    \<and> (\<forall>a \<in> set (approvals ds). intentId (app_intent a) \<notin> set (processedIntentIds k)
         \<and> to_lower (nonce (action (app_intent a))) \<notin> set (processedNonces k))"
  using assms
proof (induction rs arbitrary: k k' ds)
  case (Cons r rs)
  obtain raw obs now where r: "r = (raw, obs, now)" by (cases r)
  obtain k1 d ds' where step: "authorize h k raw obs now = (k1, d)" and rest: "authorize_run h k1 rs = (k', ds')"
      and ds: "ds = d # ds'"
    using Cons.prems by (auto simp: r Let_def split: prod.splits)
  note IH = Cons.IH [OF rest]
  show ?case
  proof (cases rule: authorize_cases [of h raw obs k now])
    case (approved i obs')
    have k1: "k1 = approve k i now" "d = Approved (approval h k i now)"
      using step approved(4) by auto
    have ne: "\<forall>a \<in> set (approvals ds'). intentId i \<noteq> intentId (app_intent a)
        \<and> to_lower (nonce (action i)) \<noteq> to_lower (nonce (action (app_intent a)))"
      using IH k1 by auto
    then have "intentId i \<notin> (\<lambda>a. intentId (app_intent a)) ` set (approvals ds')"
      "to_lower (nonce (action i)) \<notin> (\<lambda>a. to_lower (nonce (action (app_intent a)))) ` set (approvals ds')"
      by blast+
    with IH policy_permits_fresh [OF approved(3)] show ?thesis by (simp add: ds k1)
  qed (use step IH in \<open>simp add: ds\<close>)
qed auto

lemma fresh_kernel:
  "new_kernel h rawPolicy None = Inr k \<Longrightarrow>
     processedIntentIds k = [] \<and> processedNonces k = [] \<and> dailySpend k = [] \<and> limits_kept k"
  by (auto simp: new_kernel_def limits_kept_def spent_def)


subsection \<open>Export and restore\<close>

definition kernel_wf :: "PolicyKernel \<Rightarrow> bool" where
  "kernel_wf k \<longleftrightarrow>
     distinct (processedIntentIds k) \<and> list_all intent_id_format (processedIntentIds k)
   \<and> distinct (processedNonces k) \<and> list_all (\<lambda>n. Bytes32Schema n \<and> to_lower n = n) (processedNonces k)
   \<and> distinct (map fst (dailySpend k))
   \<and> (\<forall>(key, n) \<in> set (dailySpend k). spend_key_format key \<and> n \<le> MAX_UINT256)"

definition kernel_equiv :: "PolicyKernel \<Rightarrow> PolicyKernel \<Rightarrow> bool" where
  "kernel_equiv k l \<longleftrightarrow>
     policy k = policy l \<and> policyHash k = policyHash l
   \<and> set (processedIntentIds k) = set (processedIntentIds l)
   \<and> set (processedNonces k) = set (processedNonces l) \<and> spent k = spent l"

lemma restore_export:
  assumes "kernel_wf k" and "processedIntentIds l = []" "processedNonces l = []" "dailySpend l = []"
    and "policy l = policy k" "policyHash l = policyHash k"
  shows "kernel_equiv k (restore_state l (exportState h k))"
proof -
  have lower: "map to_lower (js_sort (processedNonces k)) = js_sort (processedNonces k)"
    using assms(1) by (intro map_idI) (auto simp: kernel_wf_def list_all_iff)
  define xs where "xs = sort_by (\<lambda>(a, _) (b, _). locale_le h a b) (dailySpend k)"
  have dist: "distinct (map fst xs)" "set xs = set (dailySpend k)" "distinct (map fst (dailySpend k))"
    using assms(1) by (simp_all add: xs_def kernel_wf_def)
  have "fold (\<lambda>(key, v). AList.update key (read_nat v)) (map (\<lambda>(key, n). (key, nat_str n)) xs) [] = xs"
    using fold_update_distinct [of "[]" xs] dist(1) by (simp add: fold_map comp_def case_prod_unfold)
  then have "map_of (dailySpend (restore_state l (exportState h k))) = map_of (dailySpend k)"
    using map_of_same_set [OF dist(2,1,3)] assms(4)
    by (simp add: restore_state_def exportState_def xs_def)
  then have "spent (restore_state l (exportState h k)) = spent k" by (simp add: spent_def fun_eq_iff)
  then show ?thesis
    using assms fold_add_if_new [of "[]" "js_sort (processedIntentIds k)"]
      fold_add_if_new [of "[]" "js_sort (processedNonces k)"]
    by (simp add: kernel_equiv_def kernel_wf_def)
      (simp add: restore_state_def exportState_def lower)
qed

lemma export_parses:
  assumes "kernel_wf k" and "Bytes32Schema (policyHash k)"
    and "length (processedIntentIds k) \<le> 1000000" "length (processedNonces k) \<le> 1000000"
  shows "PolicyKernelStateSchema (state_json (exportState h k)) = Some (exportState h k)"
proof -
  let ?e = "exportState h k"
  have ids: "collect (z_string intent_id_format) (map JStr (st_processedIntentIds ?e)) = Some (st_processedIntentIds ?e)"
    using assms(1) by (intro collect_eq_map) (auto simp: exportState_def z_string_Some kernel_wf_def list_all_iff)
  have nonces: "collect (z_string Bytes32Schema) (map JStr (st_processedNonces ?e)) = Some (st_processedNonces ?e)"
    using assms(1) by (intro collect_eq_map) (auto simp: exportState_def z_string_Some kernel_wf_def list_all_iff)
  have lower: "map to_lower (st_processedNonces ?e) = st_processedNonces ?e"
    using assms(1) by (intro map_idI) (auto simp: exportState_def kernel_wf_def list_all_iff)
  have spend: "z_record spend_key_format (z_string AtomicAmountSchema)
      (JObj (map (\<lambda>(key, v). (key, JStr v)) (st_dailySpendByKey ?e))) = Some (st_dailySpendByKey ?e)"
    unfolding z_record_def jsval.case
    by (rule collect_eq_map)
      (use assms(1) in \<open>auto simp: exportState_def z_string_Some kernel_wf_def AtomicAmountSchema_iff\<close>)
  have "distinct (st_processedIntentIds ?e)" "distinct (st_processedNonces ?e)"
      "length (st_processedIntentIds ?e) \<le> 1000000" "length (st_processedNonces ?e) \<le> 1000000"
      "Bytes32Schema (st_policyHash ?e)"
    using assms by (simp_all add: exportState_def kernel_wf_def)
  then show ?thesis
    by (simp add: PolicyKernelStateSchema_def state_json_def z_object_JObj z_number_literal_def z_refine_def
        z_array_def ids nonces lower spend z_string_def)
qed

lemma policy_permits_equiv:
  "kernel_equiv k l \<Longrightarrow> policy_permits h k i obs now = policy_permits h l i obs now"
  by (simp add: kernel_equiv_def policy_permits_def within_limits_def)

lemma approval_equiv: "kernel_equiv k l \<Longrightarrow> approval h k i now = approval h l i now"
  by (simp add: kernel_equiv_def approval_def)


lemma spend_reasons_equiv: "kernel_equiv k l \<Longrightarrow> spend_reasons k i now = spend_reasons l i now"
proof -
  assume "kernel_equiv k l"
  then have e: "spent k = spent l" "policy k = policy l" by (simp_all add: kernel_equiv_def)
  show ?thesis unfolding spend_reasons_def e ..
qed

lemma evaluate_equiv:
  assumes "kernel_equiv k l"
  shows "evaluate h k i obs now = evaluate h l i obs now"
  using assms unfolding evaluate_def Let_def spend_reasons_equiv [OF assms]
  by (simp add: kernel_equiv_def)

lemma reject_equiv: "kernel_equiv k l \<Longrightarrow> reject h k rs now iid = reject h l rs now iid"
  by (simp add: kernel_equiv_def reject_def)

lemma approve_equiv: "kernel_equiv k l \<Longrightarrow> kernel_equiv (approve k i now) (approve l i now)"
  unfolding kernel_equiv_def by (auto simp: fun_eq_iff)

lemma authorize_equiv:
  assumes "kernel_equiv k l"
  shows "snd (authorize h k raw robs now) = snd (authorize h l raw robs now)
    \<and> kernel_equiv (fst (authorize h k raw robs now)) (fst (authorize h l raw robs now))"
  using assms unfolding authorize_def evaluate_equiv [OF assms] reject_equiv [OF assms] approval_equiv [OF assms]
  by (auto simp: approve_equiv Let_def split: option.splits)

lemma authorize_run_equiv:
  "kernel_equiv k l \<Longrightarrow> snd (authorize_run h k rs) = snd (authorize_run h l rs)"
proof (induction rs arbitrary: k l)
  case (Cons r rs)
  obtain raw obs now where r: "r = (raw, obs, now)" by (cases r)
  note step = authorize_equiv [OF Cons.prems, of h raw obs now]
  show ?case using step Cons.IH [OF conjunct2 [OF step]]
    by (auto simp: r Let_def split_beta)
qed simp

subsection \<open>Runs keep the exported form\<close>

lemma is_lower_hex_lower:
  assumes "is_hex c"
  shows "is_lower_hex (lower_char c)"
proof (cases "in_range CHR ''A'' CHR ''Z'' c")
  case True
  then have c: "65 \<le> code c" "code c \<le> 90" by (simp_all add: in_range_def) (simp_all add: code_def)
  then have "code c \<le> 70" using assms
    by (auto simp: is_hex_def is_lower_hex_def is_digit_def in_range_def) (auto simp: code_def)
  moreover have "code (lower_char c) = code c + 32" using True c by (simp add: lower_char_def code_char_of)
  ultimately show ?thesis using c
    by (auto simp: is_lower_hex_def in_range_def) (auto simp: code_def)
next
  case False
  moreover have "code CHR ''F'' \<le> code CHR ''Z''" by (simp add: code_def)
  ultimately show ?thesis using assms by (auto simp: lower_char_def is_hex_def in_range_def)
qed

lemma lower_char_0x [simp]: "lower_char CHR ''0'' = CHR ''0''" "lower_char CHR ''x'' = CHR ''x''"
  by (simp_all add: lower_char_def in_range_def) (simp_all add: code_def)

lemma to_lower_hex:
  assumes "fixed_digits ''0x'' is_hex n s"
  obtains r where "to_lower s = ''0x'' @ r" "length r = n" "list_all is_lower_hex r"
proof -
  from assms obtain r where "s = ''0x'' @ r" "length r = n" "list_all is_hex r" by (rule fixed_digitsE)
  then show thesis using that [of "to_lower r"] is_lower_hex_lower
    by (simp add: to_lower_def list_all_iff)
qed

lemma lower_hex_is_hex: "is_lower_hex c \<Longrightarrow> is_hex c"
  by (simp add: is_hex_def)

lemma Bytes32_lower: "Bytes32Schema s \<Longrightarrow> Bytes32Schema (to_lower s)"
  unfolding Bytes32Schema_def
  by (erule to_lower_hex) (auto simp: fixed_digits_def list_all_iff lower_hex_is_hex)

lemma digits_span:
  assumes "list_all is_digit d" and "r = [] \<or> \<not> is_digit (hd r)"
  shows "takeWhile is_digit (d @ r) = d" "dropWhile is_digit (d @ r) = r"
  using assms by (cases r; simp add: takeWhile_append2 dropWhile_append2 list_all_iff)+

lemma assetKey_format:
  assumes "0 < c" and "EvmAddressSchema a"
  shows "asset_key_format (assetKey c a)"
proof -
  from assms(2) obtain r where r: "to_lower a = ''0x'' @ r" "length r = 40" "list_all is_lower_hex r"
    unfolding EvmAddressSchema_def by (rule to_lower_hex)
  have n: "\<not> is_digit CHR '':''" by (simp add: is_digit_def in_range_def) (simp add: code_def)
  show ?thesis using assms(1) r n digits_span [OF nat_str_digits [of "nat c"], of "CHR '':'' # to_lower a"]
    by (simp add: asset_key_format_def assetKey_def int_str_def Let_def fixed_digits_def)
qed

definition four_digit_year :: "int \<Rightarrow> bool" where
  "four_digit_year t \<longleftrightarrow> 0 \<le> year_from_day (t div ms_per_day) \<and> year_from_day (t div ms_per_day) \<le> 9999"

lemma digits_are_digits: "list_all is_digit (digits2 n)" "list_all is_digit (digits4 n)"
  by (simp_all add: digits2_def digits3_def digits4_def digit_char_props)

lemma spend_key_format_daily:
  assumes "four_digit_year now" and "positive (chainId (action i))" "EvmAddressSchema (paymentAsset (action i))"
    and "safe_int (chainId (action i))"
  shows "spend_key_format (dailySpendKey i now)"
proof -
  let ?key = "assetKey (chainId (action i)) (paymentAsset (action i))"
  define y m d where "y = digits4 (nat (year_from_day (now div ms_per_day)))"
    and "m = digits2 (Suc (month_index (leap_year (year_from_day (now div ms_per_day)))
               (now div ms_per_day - day_from_year (year_from_day (now div ms_per_day)))))"
    and "d = digits2 (nat (now div ms_per_day - day_from_year (year_from_day (now div ms_per_day))
               - month_starts (leap_year (year_from_day (now div ms_per_day)))
                  ! month_index (leap_year (year_from_day (now div ms_per_day)))
               (now div ms_per_day - day_from_year (year_from_day (now div ms_per_day))) + 1))"
  have day: "iso_day now = y @ CHR ''-'' # m @ CHR ''-'' # d"
    using assms(1) unfolding iso_day_def to_iso_def Let_def year_text_def four_digit_year_def
    by (simp add: y_def m_def d_def)
  have dg: "length y = 4" "length m = 2" "length d = 2" "list_all is_digit y" "list_all is_digit m" "list_all is_digit d"
    by (simp_all add: y_def m_def d_def digits_are_digits)
  have "length (assetKey (chainId (action i)) (paymentAsset (action i))) \<le> 100"
  proof -
    have "nat (chainId (action i)) < 10 ^ 16"
      using assms(4) by (simp add: safe_int_def max_safe_integer_def) linarith
    then have "length (nat_str (nat (chainId (action i)))) \<le> 16" by (rule length_nat_str) simp
    moreover have "length (paymentAsset (action i)) = 42"
      using assms(3) unfolding EvmAddressSchema_def by (auto elim!: fixed_digitsE)
    ultimately show ?thesis using assms(2) by (simp add: assetKey_def int_str_def positive_def)
  qed
  moreover have "asset_key_format ?key" using assms(2,3) by (intro assetKey_format) (simp_all add: positive_def)
  ultimately show ?thesis using dg
    by (simp add: spend_key_format_def dailySpendKey_def day Let_def nth_append)
qed

definition limits_bounded :: "PolicyKernel \<Rightarrow> bool" where
  "limits_bounded k \<longleftrightarrow>
     (\<forall>key v. map_of (maxDailySpendByAsset (policy k)) key = Some v \<longrightarrow> read_nat v \<le> MAX_UINT256)"

lemma limits_bounded_fresh:
  assumes "new_kernel h raw None = Inr k"
  shows "limits_bounded k"
proof -
  from assms have p: "PolicyConfigSchema raw = Some (policy k)" by (auto simp: new_kernel_def Let_def)
  then obtain v where v: "z_record asset_key_format (z_string PositiveAtomicAmountSchema) v = Some (maxDailySpendByAsset (policy k))"
    by (auto simp: PolicyConfigSchema_def dest!: sym [of _ "policy k"])
  have "read_nat s \<le> MAX_UINT256" if "(key, s) \<in> set (maxDailySpendByAsset (policy k))" for key s
  proof -
    have "PositiveAtomicAmountSchema s" using v that
      by (auto simp: z_record_def z_string_Some split: jsval.splits option.splits if_splits dest!: collect_set)
    then show ?thesis by (simp add: PositiveAtomicAmountSchema_def AtomicAmountSchema_def)
  qed
  then show ?thesis by (auto simp: limits_bounded_def dest: map_of_SomeD)
qed

lemma intent_formats:
  assumes "ExecutionIntentSchema h raw = Some i"
  shows "intent_id_format (intentId i)" "Bytes32Schema (nonce (action i))" "positive (chainId (action i))"
    "safe_int (chainId (action i))" "EvmAddressSchema (paymentAsset (action i))"
  using assms by (auto simp: ExecutionIntentSchema_def NftPurchaseActionSchema_def parse_simps intent_id_format_def)

lemma distinct_keys_update: "distinct (map fst al) \<Longrightarrow> distinct (map fst (AList.update k v al))"
  by (rule distinct_update)

lemma approve_wf:
  assumes "kernel_wf k" "limits_bounded k" "ExecutionIntentSchema h raw = Some i" "within_limits k i now"
    and "four_digit_year now"
  shows "kernel_wf (approve k i now)"
proof -
  note f = intent_formats [OF assms(3)]
  have key: "spend_key_format (dailySpendKey i now)"
    using assms(5) f by (intro spend_key_format_daily) auto
  have amount: "spent k (dailySpendKey i now) + read_nat (maxTotalSpend (action i)) \<le> MAX_UINT256"
    using assms(2,4) by (force simp: within_limits_def limits_bounded_def)
  have entries: "(x, n) \<in> set (AList.update key v al) \<Longrightarrow> (x, n) = (key, v) \<or> (x, n) \<in> set al"
    for x n key v and al :: "(string \<times> nat) list"
    by (induction al) (auto split: if_splits)
  show ?thesis
    using assms(1) f key amount Bytes32_lower [OF f(2)]
    by (auto simp: kernel_wf_def approve_def Let_def list_all_iff distinct_keys_update dest!: entries)
qed

lemma authorize_wf:
  assumes "kernel_wf k" "limits_bounded k" "four_digit_year now"
  shows "kernel_wf (fst (authorize h k raw obs now)) \<and> limits_bounded (fst (authorize h k raw obs now))"
proof (cases rule: authorize_cases [of h raw obs k now])
  case (approved i obs')
  moreover have "within_limits k i now" using approved(3) by (simp add: policy_permits_def)
  ultimately show ?thesis using assms approve_wf [OF assms(1,2) approved(1) _ assms(3)]
    by (simp add: limits_bounded_def)
qed (use assms in simp)

lemma authorize_run_wf:
  "kernel_wf k \<Longrightarrow> limits_bounded k \<Longrightarrow> list_all (\<lambda>(_, _, now). four_digit_year now) rs \<Longrightarrow>
     kernel_wf (fst (authorize_run h k rs))"
proof (induction rs arbitrary: k)
  case (Cons r rs)
  obtain raw obs now where r: "r = (raw, obs, now)" by (cases r)
  have "four_digit_year now" using Cons.prems(3) r by simp
  note step = authorize_wf [OF Cons.prems(1,2) this, of h raw obs]
  show ?case using Cons.IH [of "fst (authorize h k raw obs now)"] step Cons.prems(3)
    by (auto simp: r Let_def split_beta)
qed simp

lemma restored_run:
  assumes "new_kernel h raw None = Inr k0" "authorize_run h k0 rs = (k, ds)"
    and "list_all (\<lambda>(_, _, now). four_digit_year now) rs"
    and "Bytes32Schema (policyHash k0)"
    and "length (processedIntentIds k) \<le> 1000000" "length (processedNonces k) \<le> 1000000"
  shows "\<exists>k'. new_kernel h raw (Some (state_json (exportState h k))) = Inr k' \<and> kernel_equiv k k'"
proof -
  have "kernel_wf k0" using fresh_kernel [OF assms(1)] by (simp add: kernel_wf_def)
  then have wf: "kernel_wf k"
    using authorize_run_wf [OF _ limits_bounded_fresh [OF assms(1)] assms(3), of h] assms(2) by simp
  have same: "policy k = policy k0" "policyHash k = policyHash k0"
    using run_invariant [OF assms(2)] fresh_kernel [OF assms(1)] by simp_all
  have parses: "PolicyKernelStateSchema (state_json (exportState h k)) = Some (exportState h k)"
    using assms(4-6) same by (intro export_parses [OF wf]) simp_all
  have "new_kernel h raw (Some (state_json (exportState h k))) = Inr (restore_state k0 (exportState h k))"
    using assms(1) parses same by (auto simp: new_kernel_def Let_def exportState_def)
  moreover have "kernel_equiv k (restore_state k0 (exportState h k))"
    using fresh_kernel [OF assms(1)] same by (intro restore_export [OF wf]) auto
  ultimately show ?thesis by blast
qed

end
