(* ===== verification/ImprovementLoop.thy ===== *)
theory ImprovementLoop
  imports Schemas
begin

text \<open>
  \<open>packages/engine/src/loop.ts\<close>: the loop that turns a strategy patch into the next champion. Its state is
  the champion, the candidates by id and the options. A method that throws may still have changed
  a candidate, so each returns the loop together with its result. Adversarial replay, canary and evaluation
  arrive as reports; the lemmas follow a candidate through its stages.
\<close>

subsection \<open>State\<close>

datatype CandidateStage =
  Proposed | AttackPassed | CanaryActive | CanaryComplete | Evaluated | Promoted | StageRejected

record Evaluation =
  ev_sampleSize :: int
  ev_recommendPromotion :: bool
  ev_notes :: string

record CandidateStrategy =
  cand_id :: string
  cand_stage :: CandidateStage
  cand_baseVersion :: string
  cand_strategy :: Strategy
  cand_patch :: StrategyPatch
  cand_evidenceRoot :: string
  cand_createdAt :: string
  cand_rejectionReason :: "string option"
  cand_evaluation :: "Evaluation option"

record ImprovementLoopOptions =
  maxCanaryAllocationBps :: int
  maxCanaryDrawdownBps :: int
  minEvaluationSampleSize :: int

record ImprovementLoop =
  champion :: Strategy
  candidates :: "(string \<times> CandidateStrategy) list"
  loop_options :: ImprovementLoopOptions

datatype LoopError =
    ChampionInvalid | OptionsInvalid | PatchInvalid | EvidenceRootInvalid | CandidateTimeInvalid
  | NextStrategyInvalid | VersionNotNew | ReportInvalid | UnknownCandidate | WrongStage CandidateStage
  | AllocationOutOfRange | SampleTooSmall | NotRecommended | ChampionChanged

subsection \<open>Schemas\<close>

text \<open>
  The options spread over the defaults: a key that is present wins even where its value is undefined,
  and an unknown key reaches the strict schema.
\<close>

definition DEFAULT_OPTIONS :: "(string \<times> jsval) list" where
  "DEFAULT_OPTIONS = [(''maxCanaryAllocationBps'', jint 100), (''maxCanaryDrawdownBps'', jint 500),
     (''minEvaluationSampleSize'', jint 10)]"

definition spread :: "(string \<times> jsval) list \<Rightarrow> (string \<times> jsval) list \<Rightarrow> (string \<times> jsval) list" where
  "spread base over = fold (\<lambda>(k, v). AList.update k v) over base"

definition ImprovementLoopOptionsSchema :: "jsval \<Rightarrow> ImprovementLoopOptions option" where
  "ImprovementLoopOptionsSchema v = do {
     f \<leftarrow> z_object [''maxCanaryAllocationBps'', ''maxCanaryDrawdownBps'', ''minEvaluationSampleSize''] v;
     a \<leftarrow> z_between 1 10000 (f ''maxCanaryAllocationBps'');
     d \<leftarrow> z_between 0 10000 (f ''maxCanaryDrawdownBps'');
     s \<leftarrow> z_between 1 1000000000 (f ''minEvaluationSampleSize'');
     Some \<lparr>maxCanaryAllocationBps = a, maxCanaryDrawdownBps = d, minEvaluationSampleSize = s\<rparr> }"

definition notes_schema :: "jsval \<Rightarrow> string option" where
  "notes_schema = z_string (\<lambda>s. js_length s \<le> 4096)"

definition AttackResultSchema :: "jsval \<Rightarrow> (bool \<times> int \<times> string) option" where
  "AttackResultSchema v = do {
     f \<leftarrow> z_object [''passed'', ''hardInvariantEscapes'', ''notes''] v;
     p \<leftarrow> z_bool (f ''passed'');
     e \<leftarrow> z_between 0 1000000 (f ''hardInvariantEscapes'');
     n \<leftarrow> notes_schema (f ''notes'');
     Some (p, e, n) }"

definition CanaryResultSchema :: "jsval \<Rightarrow> (int \<times> int \<times> string) option" where
  "CanaryResultSchema v = do {
     f \<leftarrow> z_object [''hardInvariantEscapes'', ''maxDrawdownBps'', ''notes''] v;
     e \<leftarrow> z_between 0 1000000 (f ''hardInvariantEscapes'');
     d \<leftarrow> z_between 0 10000 (f ''maxDrawdownBps'');
     n \<leftarrow> notes_schema (f ''notes'');
     Some (e, d, n) }"

definition EvaluationResultSchema :: "jsval \<Rightarrow> Evaluation option" where
  "EvaluationResultSchema v = do {
     f \<leftarrow> z_object [''sampleSize'', ''recommendPromotion'', ''notes''] v;
     s \<leftarrow> z_between 0 1000000000 (f ''sampleSize'');
     r \<leftarrow> z_bool (f ''recommendPromotion'');
     n \<leftarrow> notes_schema (f ''notes'');
     Some \<lparr>ev_sampleSize = s, ev_recommendPromotion = r, ev_notes = n\<rparr> }"

definition EvidenceRootSchema :: "string \<Rightarrow> bool" where
  "EvidenceRootSchema = fixed_digits ''0x'' is_hex 64"

definition candidateId :: "host \<Rightarrow> jsval \<Rightarrow> string" where
  "candidateId h v = ''candidate:'' @ take 24 (sha256_hex h (stringify h v))"

subsection \<open>Construction and proposals\<close>

definition new_loop :: "host \<Rightarrow> jsval \<Rightarrow> (string \<times> jsval) list \<Rightarrow> (LoopError, ImprovementLoop) result" where
  "new_loop h rawChampion opts =
     and_then (or_fail (StrategySchema rawChampion) ChampionInvalid) (\<lambda>c.
     and_then (or_fail (ImprovementLoopOptionsSchema (JObj (spread DEFAULT_OPTIONS opts))) OptionsInvalid) (\<lambda>ps.
       Inr \<lparr>champion = c, candidates = [], loop_options = ps\<rparr>))"

definition or_else :: "'a option \<Rightarrow> 'a \<Rightarrow> 'a" where
  "or_else m d = (case m of None \<Rightarrow> d | Some x \<Rightarrow> x)"

definition merge_weights :: "SourceWeights \<Rightarrow> SourceWeightsPatch option \<Rightarrow> SourceWeights" where
  "merge_weights w p = (case p of
     None \<Rightarrow> w
   | Some q \<Rightarrow> \<lparr>weight_x = or_else (patch_x q) (weight_x w),
                weight_x402 = or_else (patch_x402 q) (weight_x402 w),
                weight_opensea = or_else (patch_opensea q) (weight_opensea w),
                weight_onchain = or_else (patch_onchain q) (weight_onchain w)\<rparr>)"

definition merge_strategy :: "Strategy \<Rightarrow> StrategyPatch \<Rightarrow> string \<Rightarrow> Strategy" where
  "merge_strategy s p v =
     \<lparr>strat_version = v, sourceWeights = merge_weights (sourceWeights s) (patch_sourceWeights p),
      opportunityThreshold = or_else (patch_opportunityThreshold p) (opportunityThreshold s),
      maxHoldSeconds = or_else (patch_maxHoldSeconds p) (maxHoldSeconds s),
      exitLossBps = or_else (patch_exitLossBps p) (exitLossBps s),
      exitGainBps = or_else (patch_exitGainBps p) (exitGainBps s),
      queryTerms = or_else (patch_queryTerms p) (queryTerms s)\<rparr>"

text \<open>
  A patch key that is present with the value undefined survives the patch schema and, spread over the
  champion, erases that field, so the strategy schema refuses the result. Only \<open>sourceWeights\<close> itself
  is rebuilt and may be undefined.
\<close>

definition erased :: "string list \<Rightarrow> jsval \<Rightarrow> bool" where
  "erased keys v = (case v of JObj fs \<Rightarrow> list_ex (\<lambda>k. map_of fs k = Some JUndefined) keys | _ \<Rightarrow> False)"

definition erases_field :: "jsval \<Rightarrow> bool" where
  "erases_field rawPatch \<longleftrightarrow>
     erased [''opportunityThreshold'', ''maxHoldSeconds'', ''exitLossBps'', ''exitGainBps'', ''queryTerms''] rawPatch
     \<or> (case rawPatch of
          JObj fs \<Rightarrow> (case map_of fs ''sourceWeights'' of
              Some w \<Rightarrow> erased [''x'', ''x402'', ''opensea'', ''onchain''] w | None \<Rightarrow> False)
        | _ \<Rightarrow> False)"

definition next_strategy :: "Strategy \<Rightarrow> jsval \<Rightarrow> StrategyPatch \<Rightarrow> string \<Rightarrow> Strategy option" where
  "next_strategy c rawPatch p v =
     (if erases_field rawPatch then None else StrategySchema (strategy_json (merge_strategy c p v)))"

definition candidate_content :: "Strategy \<Rightarrow> string \<Rightarrow> Strategy \<Rightarrow> jsval" where
  "candidate_content c evroot s = JObj
     [(''baseVersion'', JStr (strat_version c)), (''evidenceRoot'', JStr evroot), (''nextStrategy'', strategy_json s)]"

definition new_candidate ::
  "host \<Rightarrow> Strategy \<Rightarrow> string \<Rightarrow> jsval \<Rightarrow> jsval \<Rightarrow> int option \<Rightarrow> (LoopError, CandidateStrategy) result" where
  "new_candidate h c nextVersion rawPatch rawRoot now =
     and_then (or_fail (StrategyPatchSchema rawPatch) PatchInvalid) (\<lambda>p.
     and_then (or_fail (z_string EvidenceRootSchema rawRoot) EvidenceRootInvalid) (\<lambda>evroot.
     and_then (or_fail now CandidateTimeInvalid) (\<lambda>t.
     and_then (or_fail (next_strategy c rawPatch p nextVersion) NextStrategyInvalid) (\<lambda>s.
     and_then (ensure (strat_version s \<noteq> strat_version c) VersionNotNew) (\<lambda>_.
       Inr \<lparr>cand_id = candidateId h (candidate_content c evroot s), cand_stage = Proposed,
            cand_baseVersion = strat_version c, cand_strategy = s, cand_patch = p,
            cand_evidenceRoot = evroot, cand_createdAt = to_iso t, cand_rejectionReason = None,
            cand_evaluation = None\<rparr>)))))"

definition propose ::
  "host \<Rightarrow> ImprovementLoop \<Rightarrow> string \<Rightarrow> jsval \<Rightarrow> jsval \<Rightarrow> int option
     \<Rightarrow> ImprovementLoop \<times> (LoopError, CandidateStrategy) result" where
  "propose h l nextVersion rawPatch rawRoot now =
     (case new_candidate h (champion l) nextVersion rawPatch rawRoot now of
       Inl e \<Rightarrow> (l, Inl e)
     | Inr c \<Rightarrow> (l\<lparr>candidates := AList.update (cand_id c) c (candidates l)\<rparr>, Inr c))"

subsection \<open>Stages\<close>

definition requireStage :: "ImprovementLoop \<Rightarrow> string \<Rightarrow> CandidateStage \<Rightarrow> (LoopError, CandidateStrategy) result" where
  "requireStage l i stage =
     and_then (or_fail (map_of (candidates l) i) UnknownCandidate) (\<lambda>c.
     and_then (ensure (cand_stage c = stage) (WrongStage (cand_stage c))) (\<lambda>_. Inr c))"

definition put_candidate :: "ImprovementLoop \<Rightarrow> string \<Rightarrow> CandidateStrategy \<Rightarrow> ImprovementLoop" where
  "put_candidate l i c = l\<lparr>candidates := AList.update i c (candidates l)\<rparr>"

definition reject_candidate :: "string \<Rightarrow> CandidateStrategy \<Rightarrow> CandidateStrategy" where
  "reject_candidate why c = c\<lparr>cand_stage := StageRejected, cand_rejectionReason := Some why\<rparr>"

definition recordAttackResult ::
  "ImprovementLoop \<Rightarrow> string \<Rightarrow> jsval \<Rightarrow> ImprovementLoop \<times> (LoopError, CandidateStrategy) result" where
  "recordAttackResult l i raw =
     (case and_then (or_fail (AttackResultSchema raw) ReportInvalid) (\<lambda>r.
           and_then (requireStage l i Proposed) (\<lambda>c. Inr (r, c))) of
       Inl e \<Rightarrow> (l, Inl e)
     | Inr ((passed, escapes, notes), c) \<Rightarrow>
         (let c' = (if \<not> passed \<or> escapes \<noteq> 0
                    then reject_candidate (''adversarial replay failed: '' @ notes) c
                    else c\<lparr>cand_stage := AttackPassed\<rparr>)
          in (put_candidate l i c', Inr c')))"

definition startLiveCanary ::
  "ImprovementLoop \<Rightarrow> string \<Rightarrow> jsnum \<Rightarrow> ImprovementLoop \<times> (LoopError, CandidateStrategy) result" where
  "startLiveCanary l i allocationBps =
     (case requireStage l i AttackPassed of
       Inl e \<Rightarrow> (l, Inl e)
     | Inr c \<Rightarrow>
         (case allocationBps of
            NInt n \<Rightarrow>
              if n \<le> 0 \<or> n > maxCanaryAllocationBps (loop_options l) then (l, Inl AllocationOutOfRange)
              else (let c' = c\<lparr>cand_stage := CanaryActive\<rparr> in (put_candidate l i c', Inr c'))
          | _ \<Rightarrow> (l, Inl AllocationOutOfRange)))"

definition recordCanaryResult ::
  "ImprovementLoop \<Rightarrow> string \<Rightarrow> jsval \<Rightarrow> ImprovementLoop \<times> (LoopError, CandidateStrategy) result" where
  "recordCanaryResult l i raw =
     (case and_then (or_fail (CanaryResultSchema raw) ReportInvalid) (\<lambda>r.
           and_then (requireStage l i CanaryActive) (\<lambda>c. Inr (r, c))) of
       Inl e \<Rightarrow> (l, Inl e)
     | Inr ((escapes, drawdown, notes), c) \<Rightarrow>
         (let c' = (if escapes \<noteq> 0 \<or> drawdown > maxCanaryDrawdownBps (loop_options l)
                    then reject_candidate (''live canary safety regression: '' @ notes) c
                    else c\<lparr>cand_stage := CanaryComplete\<rparr>)
          in (put_candidate l i c', Inr c')))"

definition recordEvaluation ::
  "ImprovementLoop \<Rightarrow> string \<Rightarrow> jsval \<Rightarrow> ImprovementLoop \<times> (LoopError, CandidateStrategy) result" where
  "recordEvaluation l i raw =
     (case and_then (or_fail (EvaluationResultSchema raw) ReportInvalid) (\<lambda>r.
           and_then (requireStage l i CanaryComplete) (\<lambda>c.
           and_then (ensure (\<not> ev_sampleSize r < minEvaluationSampleSize (loop_options l)) SampleTooSmall) (\<lambda>_.
             Inr (r, c)))) of
       Inl e \<Rightarrow> (l, Inl e)
     | Inr (r, c) \<Rightarrow>
         (let c' = c\<lparr>cand_stage := Evaluated, cand_evaluation := Some r\<rparr> in (put_candidate l i c', Inr c')))"

definition promote :: "ImprovementLoop \<Rightarrow> string \<Rightarrow> ImprovementLoop \<times> (LoopError, Strategy) result" where
  "promote l i =
     (case requireStage l i Evaluated of
       Inl e \<Rightarrow> (l, Inl e)
     | Inr c \<Rightarrow>
         if \<not> (case cand_evaluation c of Some r \<Rightarrow> ev_recommendPromotion r | None \<Rightarrow> False)
         then (put_candidate l i (reject_candidate ''evaluator did not recommend promotion'' c), Inl NotRecommended)
         else if cand_baseVersion c \<noteq> strat_version (champion l)
         then (put_candidate l i
                 (reject_candidate ''champion changed while candidate was under evaluation'' c), Inl ChampionChanged)
         else (put_candidate l i (c\<lparr>cand_stage := Promoted\<rparr>)\<lparr>champion := cand_strategy c\<rparr>,
               Inr (cand_strategy c)))"

definition getCandidate :: "ImprovementLoop \<Rightarrow> string \<Rightarrow> CandidateStrategy option" where
  "getCandidate l i = map_of (candidates l) i"

subsection \<open>Calls and traces\<close>

text \<open>
  A client of the loop makes calls; a trace records each with its outcome, the id of the candidate it
  concerned or the error. \<open>loop_trace\<close> relates the loop a client started from to where its calls
  lead.
\<close>

datatype LoopCall =
    CallPropose string jsval jsval "int option"
  | CallAttack string jsval
  | CallStart string jsnum
  | CallCanary string jsval
  | CallEvaluate string jsval
  | CallPromote string

type_synonym LoopEvent = "LoopCall \<times> (LoopError, string) result"

definition outcome :: "('a \<Rightarrow> string) \<Rightarrow> ImprovementLoop \<times> (LoopError, 'a) result \<Rightarrow> ImprovementLoop \<times> (LoopError, string) result" where
  "outcome f r = (fst r, and_then (snd r) (\<lambda>x. Inr (f x)))"

primrec loop_exec :: "host \<Rightarrow> ImprovementLoop \<Rightarrow> LoopCall \<Rightarrow> ImprovementLoop \<times> (LoopError, string) result" where
  "loop_exec h l (CallPropose v p r t) = outcome cand_id (propose h l v p r t)"
| "loop_exec h l (CallAttack i r) = outcome (\<lambda>_. i) (recordAttackResult l i r)"
| "loop_exec h l (CallStart i n) = outcome (\<lambda>_. i) (startLiveCanary l i n)"
| "loop_exec h l (CallCanary i r) = outcome (\<lambda>_. i) (recordCanaryResult l i r)"
| "loop_exec h l (CallEvaluate i r) = outcome (\<lambda>_. i) (recordEvaluation l i r)"
| "loop_exec h l (CallPromote i) = outcome (\<lambda>_. i) (promote l i)"

inductive loop_trace :: "host \<Rightarrow> ImprovementLoop \<Rightarrow> LoopEvent list \<Rightarrow> ImprovementLoop \<Rightarrow> bool"
  for h l where
  start: "loop_trace h l [] l"
| call: "loop_trace h l es m \<Longrightarrow> loop_exec h m c = (m', r) \<Longrightarrow> loop_trace h l (es @ [(c, r)]) m'"

inductive_cases loop_trace_NilE: "loop_trace h l [] m"

text \<open>Events that satisfy a list of conditions in this order, others in between.\<close>

fun in_order :: "('a \<Rightarrow> bool) list \<Rightarrow> 'a list \<Rightarrow> bool" where
  "in_order [] xs = True"
| "in_order (P # Ps) [] = False"
| "in_order (P # Ps) (x # xs) = (if P x then in_order Ps xs else in_order (P # Ps) xs)"

lemma in_order_later: "in_order Ps xs \<Longrightarrow> in_order Ps (xs @ [x])"
  by (induction Ps xs rule: in_order.induct) auto

lemma in_order_next: "in_order Ps xs \<Longrightarrow> P x \<Longrightarrow> in_order (Ps @ [P]) (xs @ [x])"
proof (induction Ps xs rule: in_order.induct)
  case (1 xs)
  then show ?case by (induction xs) auto
qed auto

text \<open>The gates a candidate passes, each as a condition on an event.\<close>

definition proposed :: "string \<Rightarrow> LoopEvent \<Rightarrow> bool" where
  "proposed i e = (case e of (CallPropose _ _ _ _, Inr j) \<Rightarrow> j = i | _ \<Rightarrow> False)"

definition survived_attack :: "string \<Rightarrow> LoopEvent \<Rightarrow> bool" where
  "survived_attack i e = (case e of
     (CallAttack j raw, Inr _) \<Rightarrow>
       j = i \<and> (case AttackResultSchema raw of Some (p, n, _) \<Rightarrow> p \<and> n = 0 | None \<Rightarrow> False)
   | _ \<Rightarrow> False)"

definition canary_started :: "ImprovementLoopOptions \<Rightarrow> string \<Rightarrow> LoopEvent \<Rightarrow> bool" where
  "canary_started opts i e = (case e of
     (CallStart j (NInt n), Inr _) \<Rightarrow> j = i \<and> 0 < n \<and> n \<le> maxCanaryAllocationBps opts | _ \<Rightarrow> False)"

definition canary_survived :: "ImprovementLoopOptions \<Rightarrow> string \<Rightarrow> LoopEvent \<Rightarrow> bool" where
  "canary_survived opts i e = (case e of
     (CallCanary j raw, Inr _) \<Rightarrow>
       j = i \<and> (case CanaryResultSchema raw of
          Some (n, d, _) \<Rightarrow> n = 0 \<and> d \<le> maxCanaryDrawdownBps opts | None \<Rightarrow> False)
   | _ \<Rightarrow> False)"

definition evaluated_as :: "ImprovementLoopOptions \<Rightarrow> string \<Rightarrow> Evaluation option \<Rightarrow> LoopEvent \<Rightarrow> bool" where
  "evaluated_as opts i r e = (case e of
     (CallEvaluate j raw, Inr _) \<Rightarrow>
       j = i \<and> EvaluationResultSchema raw = r
       \<and> (case r of Some x \<Rightarrow> minEvaluationSampleSize opts \<le> ev_sampleSize x | None \<Rightarrow> False)
   | _ \<Rightarrow> False)"

definition was_promoted :: "string \<Rightarrow> LoopEvent \<Rightarrow> bool" where
  "was_promoted i e = (case e of (CallPromote j, Inr _) \<Rightarrow> j = i | _ \<Rightarrow> False)"

primrec gates :: "ImprovementLoopOptions \<Rightarrow> string \<Rightarrow> Evaluation option \<Rightarrow> CandidateStage \<Rightarrow> (LoopEvent \<Rightarrow> bool) list" where
  "gates opts i r Proposed = [proposed i]"
| "gates opts i r AttackPassed = [proposed i, survived_attack i]"
| "gates opts i r CanaryActive = [proposed i, survived_attack i, canary_started opts i]"
| "gates opts i r CanaryComplete =
     [proposed i, survived_attack i, canary_started opts i, canary_survived opts i]"
| "gates opts i r Evaluated =
     [proposed i, survived_attack i, canary_started opts i, canary_survived opts i, evaluated_as opts i r]"
| "gates opts i r Promoted =
     [proposed i, survived_attack i, canary_started opts i, canary_survived opts i, evaluated_as opts i r,
      was_promoted i]"
| "gates opts i r StageRejected = []"

subsection \<open>Invariant\<close>

definition candidate_ok :: "LoopEvent list \<Rightarrow> ImprovementLoopOptions \<Rightarrow> string \<Rightarrow> CandidateStrategy \<Rightarrow> bool" where
  "candidate_ok es opts i c \<longleftrightarrow>
     cand_id c = i
   \<and> StrategySchema (strategy_json (cand_strategy c)) = Some (cand_strategy c)
   \<and> strat_version (cand_strategy c) \<noteq> cand_baseVersion c
   \<and> in_order (gates opts i (cand_evaluation c) (cand_stage c)) es"

definition champion_ok :: "LoopEvent list \<Rightarrow> ImprovementLoop \<Rightarrow> ImprovementLoop \<Rightarrow> bool" where
  "champion_ok es l m \<longleftrightarrow>
     StrategySchema (strategy_json (champion m)) = Some (champion m)
   \<and> (champion m = champion l
      \<or> (\<exists>i r. ev_recommendPromotion r \<and> in_order (gates (loop_options l) i (Some r) Promoted) es))"

definition loop_ok :: "LoopEvent list \<Rightarrow> ImprovementLoop \<Rightarrow> ImprovementLoop \<Rightarrow> bool" where
  "loop_ok es l m \<longleftrightarrow>
     loop_options m = loop_options l \<and> champion_ok es l m
   \<and> (\<forall>i c. map_of (candidates m) i = Some c \<longrightarrow> candidate_ok es (loop_options l) i c)"

lemma candidate_ok_later: "candidate_ok es opts i c \<Longrightarrow> candidate_ok (es @ [e]) opts i c"
  by (simp add: candidate_ok_def in_order_later)

lemma champion_ok_later: "champion_ok es l m \<Longrightarrow> champion_ok (es @ [e]) l m"
  by (auto simp: champion_ok_def intro: in_order_later)

lemma loop_ok_same: "loop_ok es l m \<Longrightarrow> loop_ok (es @ [e]) l m"
  unfolding loop_ok_def by (blast intro: candidate_ok_later champion_ok_later)

lemma loop_ok_put:
  assumes "loop_ok es l m" "candidate_ok (es @ [e]) (loop_options l) i c"
  shows "loop_ok (es @ [e]) l (put_candidate m i c)"
proof -
  have same: "champion (put_candidate m i c) = champion m" "loop_options (put_candidate m i c) = loop_options m"
      "candidates (put_candidate m i c) = AList.update i c (candidates m)"
    by (simp_all add: put_candidate_def)
  have "champion_ok (es @ [e]) l m" using assms(1) unfolding loop_ok_def by (blast intro: champion_ok_later)
  then have "champion_ok (es @ [e]) l (put_candidate m i c)" unfolding champion_ok_def same .
  moreover have "candidate_ok (es @ [e]) (loop_options l) j d"
    if "map_of (candidates (put_candidate m i c)) j = Some d" for j d
  proof (cases "j = i")
    case False
    then have "candidate_ok es (loop_options l) j d"
      using that assms(1) unfolding same map_of_update loop_ok_def by simp
    then show ?thesis by (rule candidate_ok_later)
  qed (use that assms(2) in \<open>simp add: same map_of_update\<close>)
  ultimately show ?thesis using assms(1) unfolding loop_ok_def same(2) by blast
qed

lemma candidate_advance:
  assumes "candidate_ok es opts i c" and "gates opts i r s = gates opts i (cand_evaluation c) (cand_stage c) @ [P]" "P e"
  shows "candidate_ok (es @ [e]) opts i (c\<lparr>cand_stage := s, cand_evaluation := r\<rparr>)"
  using assms in_order_next [of "gates opts i (cand_evaluation c) (cand_stage c)" es P e]
  by (simp add: candidate_ok_def)

lemma candidate_rejected:
  "candidate_ok es opts i c \<Longrightarrow> candidate_ok (es @ [e]) opts i (reject_candidate why c)"
  by (simp add: candidate_ok_def reject_candidate_def)

lemma requireStage_ok:
  "requireStage l i s = Inr c \<longleftrightarrow> map_of (candidates l) i = Some c \<and> cand_stage c = s"
  by (auto simp: requireStage_def)

lemmas gate_defs = proposed_def survived_attack_def canary_started_def canary_survived_def evaluated_as_def
  was_promoted_def

lemma stage_update [simp]: "c\<lparr>cand_stage := s, cand_evaluation := cand_evaluation c\<rparr> = c\<lparr>cand_stage := s\<rparr>"
  by simp

lemma loop_ok_candidate:
  "loop_ok es l m \<Longrightarrow> map_of (candidates m) i = Some c \<Longrightarrow> candidate_ok es (loop_options l) i c"
  unfolding loop_ok_def by blast

lemma loop_ok_options: "loop_ok es l m \<Longrightarrow> loop_options m = loop_options l"
  by (simp add: loop_ok_def)

text \<open>A step that keeps the loop, or replaces one candidate by one that is still in order.\<close>

lemma loop_ok_step:
  assumes "loop_ok es l m"
    and "m' = m \<or> (\<exists>i c. m' = put_candidate m i c \<and> candidate_ok (es @ [e]) (loop_options l) i c)"
  shows "loop_ok (es @ [e]) l m'"
  using assms loop_ok_same loop_ok_put by blast

lemma propose_cases:
  obtains e where "propose h m v p r t = (m, Inl e)"
  | c where "propose h m v p r t = (put_candidate m (cand_id c) c, Inr c)" "cand_stage c = Proposed"
      "cand_baseVersion c = strat_version (champion m)"
      "strat_version (cand_strategy c) \<noteq> strat_version (champion m)"
      "StrategySchema (strategy_json (cand_strategy c)) = Some (cand_strategy c)" "cand_evaluation c = None"
proof (cases "new_candidate h (champion m) v p r t")
  case (Inl e)
  then show thesis by (intro that(1)) (simp add: propose_def)
next
  case (Inr c)
  then obtain q evroot u s where s: "next_strategy (champion m) p q v = Some s"
      "strat_version s \<noteq> strat_version (champion m)"
      and c: "c = \<lparr>cand_id = candidateId h (candidate_content (champion m) evroot s), cand_stage = Proposed,
            cand_baseVersion = strat_version (champion m), cand_strategy = s, cand_patch = q,
            cand_evidenceRoot = evroot, cand_createdAt = to_iso u, cand_rejectionReason = None,
            cand_evaluation = None\<rparr>"
    unfolding new_candidate_def and_then_eq_Inr or_fail_eq ensure_eq by blast
  moreover have "StrategySchema (strategy_json s) = Some s"
    using s(1) by (auto simp: next_strategy_def strategy_reparse split: if_splits)
  ultimately show thesis using Inr by (intro that(2) [of c]) (simp_all add: propose_def put_candidate_def)
qed

lemma loop_ok_propose:
  assumes "loop_ok es l m" "loop_exec h m (CallPropose v p r t) = (m', x)"
  shows "loop_ok (es @ [(CallPropose v p r t, x)]) l m'"
proof (cases rule: propose_cases [of h m v p r t])
  case (1 e)
  then show ?thesis using assms by (simp add: outcome_def loop_ok_same)
next
  case (2 c)
  then have c: "x = Inr (cand_id c)" "m' = put_candidate m (cand_id c) c"
    using assms(2) by (simp_all add: outcome_def)
  then have "candidate_ok (es @ [(CallPropose v p r t, x)]) (loop_options l) (cand_id c) c"
    using in_order_next [of "[]" es "proposed (cand_id c)"] 2
    by (simp add: candidate_ok_def proposed_def)
  then show ?thesis unfolding c(2) by (rule loop_ok_put [OF assms(1)])
qed

lemma attack_cases:
  obtains e where "recordAttackResult m i raw = (m, Inl e)"
  | p n w c c' where "AttackResultSchema raw = Some (p, n, w)" "map_of (candidates m) i = Some c"
      "cand_stage c = Proposed" "recordAttackResult m i raw = (put_candidate m i c', Inr c')"
      "c' = (if p \<and> n = 0 then c\<lparr>cand_stage := AttackPassed\<rparr>
             else reject_candidate (''adversarial replay failed: '' @ w) c)"
proof (cases "and_then (or_fail (AttackResultSchema raw) ReportInvalid) (\<lambda>r.
           and_then (requireStage m i Proposed) (\<lambda>c. Inr (r, c)))")
  case (Inl e)
  then show thesis by (intro that(1)) (simp add: recordAttackResult_def)
next
  case (Inr q)
  obtain p n w c where q: "q = ((p, n, w), c)" by (cases q) auto
  have "AttackResultSchema raw = Some (p, n, w)" "map_of (candidates m) i = Some c" "cand_stage c = Proposed"
    using Inr by (simp_all add: q requireStage_ok)
  then show thesis using Inr by (intro that(2) [OF _ _ _ _ refl]) (auto simp: recordAttackResult_def q Let_def)
qed

lemma loop_ok_attack:
  assumes "loop_ok es l m" "loop_exec h m (CallAttack i raw) = (m', x)"
  shows "loop_ok (es @ [(CallAttack i raw, x)]) l m'"
proof (cases rule: attack_cases [of m i raw])
  case (1 e)
  then show ?thesis using assms by (simp add: outcome_def loop_ok_same)
next
  case (2 p n w c c')
  then have m': "m' = put_candidate m i c'" "x = Inr i" using assms(2) by (simp_all add: outcome_def)
  note ok = loop_ok_candidate [OF assms(1) 2(2)]
  have "candidate_ok (es @ [(CallAttack i raw, x)]) (loop_options l) i
      (c\<lparr>cand_stage := AttackPassed, cand_evaluation := cand_evaluation c\<rparr>)" if "p \<and> n = 0"
    by (rule candidate_advance [OF ok, where P = "survived_attack i"])
      (use that 2(1,3) m' in \<open>simp_all add: gate_defs\<close>)
  then have "candidate_ok (es @ [(CallAttack i raw, x)]) (loop_options l) i c'"
    using candidate_rejected [OF ok] unfolding 2(5) by simp
  then show ?thesis unfolding m'(1) by (rule loop_ok_put [OF assms(1)])
qed

lemma start_cases:
  obtains e where "startLiveCanary m i n = (m, Inl e)"
  | k c c' where "n = NInt k" "0 < k" "k \<le> maxCanaryAllocationBps (loop_options m)"
      "map_of (candidates m) i = Some c" "cand_stage c = AttackPassed"
      "startLiveCanary m i n = (put_candidate m i c', Inr c')" "c' = c\<lparr>cand_stage := CanaryActive\<rparr>"
proof (cases "requireStage m i AttackPassed")
  case (Inl e)
  then show thesis by (intro that(1)) (simp add: startLiveCanary_def)
next
  case (Inr c)
  then have "map_of (candidates m) i = Some c" "cand_stage c = AttackPassed" by (simp_all add: requireStage_ok)
  with Inr that show thesis
    by (cases n) (force simp: startLiveCanary_def Let_def)+
qed

lemma loop_ok_start:
  assumes "loop_ok es l m" "loop_exec h m (CallStart i n) = (m', x)"
  shows "loop_ok (es @ [(CallStart i n, x)]) l m'"
proof (cases rule: start_cases [of m i n])
  case (1 e)
  then show ?thesis using assms by (simp add: outcome_def loop_ok_same)
next
  case (2 k c c')
  then have m': "m' = put_candidate m i c'" "x = Inr i" using assms(2) by (simp_all add: outcome_def)
  have "candidate_ok (es @ [(CallStart i n, x)]) (loop_options l) i
      (c\<lparr>cand_stage := CanaryActive, cand_evaluation := cand_evaluation c\<rparr>)"
    by (rule candidate_advance [OF loop_ok_candidate [OF assms(1) 2(4)], where P = "canary_started (loop_options l) i"])
      (use 2 m' loop_ok_options [OF assms(1)] in \<open>simp_all add: gate_defs\<close>)
  then show ?thesis unfolding m'(1) 2(7) by (intro loop_ok_put [OF assms(1)]) simp
qed

lemma canary_cases:
  obtains e where "recordCanaryResult m i raw = (m, Inl e)"
  | n b w c c' where "CanaryResultSchema raw = Some (n, b, w)" "map_of (candidates m) i = Some c"
      "cand_stage c = CanaryActive" "recordCanaryResult m i raw = (put_candidate m i c', Inr c')"
      "c' = (if n = 0 \<and> b \<le> maxCanaryDrawdownBps (loop_options m) then c\<lparr>cand_stage := CanaryComplete\<rparr>
             else reject_candidate (''live canary safety regression: '' @ w) c)"
proof (cases "and_then (or_fail (CanaryResultSchema raw) ReportInvalid) (\<lambda>r.
           and_then (requireStage m i CanaryActive) (\<lambda>c. Inr (r, c)))")
  case (Inl e)
  then show thesis by (intro that(1)) (simp add: recordCanaryResult_def)
next
  case (Inr q)
  obtain n b w c where q: "q = ((n, b, w), c)" by (cases q) auto
  have "CanaryResultSchema raw = Some (n, b, w)" "map_of (candidates m) i = Some c" "cand_stage c = CanaryActive"
    using Inr by (simp_all add: q requireStage_ok)
  then show thesis using Inr by (intro that(2) [OF _ _ _ _ refl]) (auto simp: recordCanaryResult_def q Let_def)
qed

lemma loop_ok_canary:
  assumes "loop_ok es l m" "loop_exec h m (CallCanary i raw) = (m', x)"
  shows "loop_ok (es @ [(CallCanary i raw, x)]) l m'"
proof (cases rule: canary_cases [of m i raw])
  case (1 e)
  then show ?thesis using assms by (simp add: outcome_def loop_ok_same)
next
  case (2 n b w c c')
  then have m': "m' = put_candidate m i c'" "x = Inr i" using assms(2) by (simp_all add: outcome_def)
  note ok = loop_ok_candidate [OF assms(1) 2(2)]
  have "candidate_ok (es @ [(CallCanary i raw, x)]) (loop_options l) i
      (c\<lparr>cand_stage := CanaryComplete, cand_evaluation := cand_evaluation c\<rparr>)"
    if "n = 0 \<and> b \<le> maxCanaryDrawdownBps (loop_options m)"
    by (rule candidate_advance [OF ok, where P = "canary_survived (loop_options l) i"])
      (use that 2(1,3) m' loop_ok_options [OF assms(1)] in \<open>simp_all add: gate_defs\<close>)
  then have "candidate_ok (es @ [(CallCanary i raw, x)]) (loop_options l) i c'"
    using candidate_rejected [OF ok] unfolding 2(5) by simp
  then show ?thesis unfolding m'(1) by (rule loop_ok_put [OF assms(1)])
qed

lemma evaluation_cases:
  obtains e where "recordEvaluation m i raw = (m, Inl e)"
  | r c c' where "EvaluationResultSchema raw = Some r" "minEvaluationSampleSize (loop_options m) \<le> ev_sampleSize r"
      "map_of (candidates m) i = Some c" "cand_stage c = CanaryComplete"
      "recordEvaluation m i raw = (put_candidate m i c', Inr c')"
      "c' = c\<lparr>cand_stage := Evaluated, cand_evaluation := Some r\<rparr>"
proof (cases "and_then (or_fail (EvaluationResultSchema raw) ReportInvalid) (\<lambda>r.
           and_then (requireStage m i CanaryComplete) (\<lambda>c.
           and_then (ensure (\<not> ev_sampleSize r < minEvaluationSampleSize (loop_options m)) SampleTooSmall) (\<lambda>_.
             Inr (r, c))))")
  case (Inl e)
  then show thesis by (intro that(1)) (simp add: recordEvaluation_def)
next
  case (Inr q)
  obtain r c where q: "q = (r, c)" by (cases q) auto
  have "EvaluationResultSchema raw = Some r" "map_of (candidates m) i = Some c" "cand_stage c = CanaryComplete"
      "minEvaluationSampleSize (loop_options m) \<le> ev_sampleSize r"
    using Inr by (simp_all add: q requireStage_ok)
  then show thesis using Inr by (intro that(2)) (simp_all add: recordEvaluation_def q Let_def)
qed

lemma loop_ok_evaluate:
  assumes "loop_ok es l m" "loop_exec h m (CallEvaluate i raw) = (m', x)"
  shows "loop_ok (es @ [(CallEvaluate i raw, x)]) l m'"
proof (cases rule: evaluation_cases [of m i raw])
  case (1 e)
  then show ?thesis using assms by (simp add: outcome_def loop_ok_same)
next
  case (2 r c c')
  then have m': "m' = put_candidate m i c'" "x = Inr i" using assms(2) by (simp_all add: outcome_def)
  have "candidate_ok (es @ [(CallEvaluate i raw, x)]) (loop_options l) i
      (c\<lparr>cand_stage := Evaluated, cand_evaluation := Some r\<rparr>)"
    by (rule candidate_advance [OF loop_ok_candidate [OF assms(1) 2(3)],
          where P = "evaluated_as (loop_options l) i (Some r)"])
      (use 2 m' loop_ok_options [OF assms(1)] in \<open>simp_all add: gate_defs\<close>)
  then show ?thesis unfolding m'(1) 2(6) by (rule loop_ok_put [OF assms(1)])
qed

lemma promote_cases:
  obtains (refused) e where "promote m i = (m, Inl e)"
  | (rejected) c e why where "map_of (candidates m) i = Some c" "cand_stage c = Evaluated"
      "promote m i = (put_candidate m i (reject_candidate why c), Inl e)"
  | (promoted) c r where "map_of (candidates m) i = Some c" "cand_stage c = Evaluated"
      "cand_evaluation c = Some r" "ev_recommendPromotion r" "cand_baseVersion c = strat_version (champion m)"
      "promote m i = (put_candidate m i (c\<lparr>cand_stage := Promoted\<rparr>)\<lparr>champion := cand_strategy c\<rparr>, Inr (cand_strategy c))"
proof (cases "requireStage m i Evaluated")
  case (Inl e)
  then show thesis by (intro refused) (simp add: promote_def)
next
  case (Inr c)
  then have c: "map_of (candidates m) i = Some c" "cand_stage c = Evaluated" by (simp_all add: requireStage_ok)
  show thesis
  proof (cases "promote m i = (put_candidate m i (c\<lparr>cand_stage := Promoted\<rparr>)\<lparr>champion := cand_strategy c\<rparr>, Inr (cand_strategy c))")
    case True
    then have "\<exists>r. cand_evaluation c = Some r \<and> ev_recommendPromotion r" "cand_baseVersion c = strat_version (champion m)"
      using Inr by (auto simp: promote_def split: if_splits option.splits)
    then show thesis using c True promoted by blast
  next
    case False
    then show thesis using Inr c rejected by (auto simp: promote_def split: if_splits)
  qed
qed

lemma loop_ok_promote:
  assumes "loop_ok es l m" "loop_exec h m (CallPromote i) = (m', x)"
  shows "loop_ok (es @ [(CallPromote i, x)]) l m'"
proof (cases rule: promote_cases [of m i])
  case (refused e)
  then have "m' = m" using assms(2) by (simp add: outcome_def)
  then show ?thesis using assms(1) by (simp add: loop_ok_same)
next
  case (rejected c e why)
  then have "m' = put_candidate m i (reject_candidate why c)" using assms(2) by (simp add: outcome_def)
  then show ?thesis using loop_ok_put [OF assms(1) candidate_rejected [OF loop_ok_candidate [OF assms(1) rejected(1)]]]
    by simp
next
  case (promoted c r)
  let ?es = "es @ [(CallPromote i, x)]" and ?c = "c\<lparr>cand_stage := Promoted\<rparr>"
  have m': "m' = put_candidate m i ?c\<lparr>champion := cand_strategy c\<rparr>" and x: "x = Inr i"
    using assms(2) promoted(6) by (simp_all add: outcome_def)
  note ok = loop_ok_candidate [OF assms(1) promoted(1)]
  have "candidate_ok ?es (loop_options l) i (c\<lparr>cand_stage := Promoted, cand_evaluation := cand_evaluation c\<rparr>)"
    by (rule candidate_advance [OF ok, where P = "was_promoted i"])
      (use promoted(2) x in \<open>simp_all add: gate_defs\<close>)
  then have c: "candidate_ok ?es (loop_options l) i ?c" by simp
  have put: "loop_ok ?es l (put_candidate m i ?c)" by (rule loop_ok_put [OF assms(1) c])
  have "in_order (gates (loop_options l) i (Some r) Promoted) ?es"
    using c promoted(3) by (simp add: candidate_ok_def)
  moreover have "StrategySchema (strategy_json (cand_strategy c)) = Some (cand_strategy c)"
    using c by (simp add: candidate_ok_def)
  moreover have "loop_options m' = loop_options m" "champion m' = cand_strategy c"
    by (simp_all add: m' put_candidate_def)
  ultimately have "champion_ok ?es l m'"
    unfolding champion_ok_def using promoted(4) by metis
  moreover have "candidates m' = candidates (put_candidate m i ?c)" by (simp add: m' put_candidate_def)
  moreover have "loop_options m' = loop_options (put_candidate m i ?c)" by (simp add: m')
  ultimately show ?thesis using put unfolding loop_ok_def by metis
qed

lemma loop_exec_ok: "loop_ok es l m \<Longrightarrow> loop_exec h m c = (m', x) \<Longrightarrow> loop_ok (es @ [(c, x)]) l m'"
  by (cases c)
    (blast intro: loop_ok_propose loop_ok_attack loop_ok_start loop_ok_canary loop_ok_evaluate loop_ok_promote)+

lemma new_loop_ok: "new_loop h raw opts = Inr l \<Longrightarrow> loop_ok [] l l"
  by (auto simp: new_loop_def loop_ok_def champion_ok_def strategy_reparse)

lemma loop_trace_ok: "loop_trace h l es m \<Longrightarrow> loop_ok [] l l \<Longrightarrow> loop_ok es l m"
  by (induction rule: loop_trace.induct) (auto intro: loop_exec_ok)

end
