(* ===== verification/Proposals.thy ===== *)
theory Proposals
  imports Evidence
begin

text \<open>
  \<open>packages/domain/src/proposals.ts\<close>: the research proposal, a content-free artifact. The record has
  no field that could carry an action, an amount or an approval; the schema also checks that it
  expires after its creation and that it does not claim more clusters than it cites evidence.
\<close>

datatype AbstentionReason =
    IdentityAmbiguity | InsufficientEvidence | IntegrityRisk | MarketUncertainty | PolicyOutOfScope
  | StaleEvidence

definition ResearchProposalAbstentionReasonSchema :: "jsval \<Rightarrow> AbstentionReason option" where
  "ResearchProposalAbstentionReasonSchema =
     z_enum [(''identity_ambiguity'', IdentityAmbiguity), (''insufficient_evidence'', InsufficientEvidence),
             (''integrity_risk'', IntegrityRisk), (''market_uncertainty'', MarketUncertainty),
             (''policy_out_of_scope'', PolicyOutOfScope), (''stale_evidence'', StaleEvidence)]"

datatype Disposition = Candidate | Abstain AbstentionReason

text \<open>The discriminator \<open>kind\<close> chooses the strict object the value must match.\<close>

definition kind_of :: "jsval \<Rightarrow> string option" where
  "kind_of v = (case v of
     JObj fs \<Rightarrow> (case map_of fs ''kind'' of Some (JStr s) \<Rightarrow> Some s | _ \<Rightarrow> None)
   | _ \<Rightarrow> None)"

definition ResearchProposalDispositionSchema :: "jsval \<Rightarrow> Disposition option" where
  "ResearchProposalDispositionSchema v =
     (if kind_of v = Some ''candidate'' then map_option (\<lambda>_. Candidate) (z_object [''kind''] v)
      else if kind_of v = Some ''abstain'' then do {
        f \<leftarrow> z_object [''kind'', ''reason''] v;
        r \<leftarrow> ResearchProposalAbstentionReasonSchema (f ''reason'');
        Some (Abstain r) }
      else None)"

record ProposalProvenance =
  prov_providerIds :: "string list"
  prov_sourceKinds :: "SourceKind list"
  prov_independentClusterCount :: int

record ProposalFlags =
  flag_scam :: "string list"
  flag_injection :: "string list"
  flag_homograph :: "string list"

record Scorecard =
  score_confidence :: jsnum
  score_marketSupport :: jsnum
  score_opportunity :: jsnum
  score_provenanceQuality :: jsnum
  score_risk :: jsnum

record ResearchProposal =
  prop_proposalId :: string
  prop_strategyVersion :: string
  prop_createdAt :: string
  prop_expiresAt :: string
  prop_asset :: NftAsset
  prop_evidenceIds :: "string list"
  prop_provenance :: ProposalProvenance
  prop_flags :: ProposalFlags
  prop_scorecard :: Scorecard
  prop_disposition :: Disposition

definition unique_array :: "(jsval \<Rightarrow> 'a option) \<Rightarrow> (nat \<Rightarrow> bool) \<Rightarrow> jsval \<Rightarrow> 'a list option" where
  "unique_array f len v = z_refine distinct (z_array f len v)"

definition UniqueSafeLabelsSchema :: "jsval \<Rightarrow> string list option" where
  "UniqueSafeLabelsSchema = unique_array (z_string SafeLabelSchema) (\<lambda>n. n \<le> 100)"

definition provenance_schema :: "jsval \<Rightarrow> ProposalProvenance option" where
  "provenance_schema v = do {
     f \<leftarrow> z_object [''providerIds'', ''sourceKinds'', ''independentClusterCount''] v;
     p \<leftarrow> unique_array (z_string SafeLabelSchema) (\<lambda>n. 1 \<le> n \<and> n \<le> 50) (f ''providerIds'');
     s \<leftarrow> unique_array ObservationSourceKindSchema (\<lambda>n. 1 \<le> n \<and> n \<le> 6) (f ''sourceKinds'');
     c \<leftarrow> z_between 0 100 (f ''independentClusterCount'');
     Some \<lparr>prov_providerIds = p, prov_sourceKinds = s, prov_independentClusterCount = c\<rparr> }"

definition flags_schema :: "jsval \<Rightarrow> ProposalFlags option" where
  "flags_schema v = do {
     f \<leftarrow> z_object [''scam'', ''injection'', ''homograph''] v;
     s \<leftarrow> UniqueSafeLabelsSchema (f ''scam'');
     i \<leftarrow> UniqueSafeLabelsSchema (f ''injection'');
     g \<leftarrow> UniqueSafeLabelsSchema (f ''homograph'');
     Some \<lparr>flag_scam = s, flag_injection = i, flag_homograph = g\<rparr> }"

definition scorecard_schema :: "jsval \<Rightarrow> Scorecard option" where
  "scorecard_schema v = do {
     f \<leftarrow> z_object [''confidence'', ''marketSupport'', ''opportunity'', ''provenanceQuality'', ''risk''] v;
     c \<leftarrow> z_unit (f ''confidence'');
     m \<leftarrow> z_unit (f ''marketSupport'');
     p \<leftarrow> z_unit (f ''opportunity'');
     q \<leftarrow> z_unit (f ''provenanceQuality'');
     r \<leftarrow> z_unit (f ''risk'');
     Some \<lparr>score_confidence = c, score_marketSupport = m, score_opportunity = p,
           score_provenanceQuality = q, score_risk = r\<rparr> }"

text \<open>The two refinements of the whole object; a comparison with a date that did not parse is false.\<close>

definition expires_after_creation :: "host \<Rightarrow> string \<Rightarrow> string \<Rightarrow> bool" where
  "expires_after_creation h created expires =
     (case (date_parse h created, date_parse h expires) of (Some c, Some e) \<Rightarrow> \<not> e \<le> c | _ \<Rightarrow> True)"

definition proposal_consistent :: "host \<Rightarrow> ResearchProposal \<Rightarrow> bool" where
  "proposal_consistent h p \<longleftrightarrow>
     expires_after_creation h (prop_createdAt p) (prop_expiresAt p)
     \<and> \<not> prov_independentClusterCount (prop_provenance p) > int (length (prop_evidenceIds p))"

definition ResearchProposalV1Schema :: "host \<Rightarrow> jsval \<Rightarrow> ResearchProposal option" where
  "ResearchProposalV1Schema h v = z_refine (proposal_consistent h) (do {
     f \<leftarrow> z_object [''schemaVersion'', ''proposalId'', ''strategyVersion'', ''createdAt'', ''expiresAt'',
            ''asset'', ''evidenceIds'', ''provenance'', ''flags'', ''scorecard'', ''disposition''] v;
     _ \<leftarrow> z_number_literal 1 (f ''schemaVersion'');
     i \<leftarrow> z_string (labelled ''rsi-proposal:'' 96) (f ''proposalId'');
     s \<leftarrow> z_string (labelled ''rsi-'' 64) (f ''strategyVersion'');
     c \<leftarrow> z_string (TimestampSchema h) (f ''createdAt'');
     x \<leftarrow> z_string (TimestampSchema h) (f ''expiresAt'');
     a \<leftarrow> NftAssetSchema (f ''asset'');
     e \<leftarrow> unique_array (z_string Sha256IdSchema) (\<lambda>n. 1 \<le> n \<and> n \<le> 100) (f ''evidenceIds'');
     p \<leftarrow> provenance_schema (f ''provenance'');
     g \<leftarrow> flags_schema (f ''flags'');
     k \<leftarrow> scorecard_schema (f ''scorecard'');
     d \<leftarrow> ResearchProposalDispositionSchema (f ''disposition'');
     Some \<lparr>prop_proposalId = i, prop_strategyVersion = s, prop_createdAt = c, prop_expiresAt = x,
           prop_asset = a, prop_evidenceIds = e, prop_provenance = p, prop_flags = g,
           prop_scorecard = k, prop_disposition = d\<rparr> })"

subsection \<open>What an accepted proposal is\<close>

lemma unique_array_Some:
  "unique_array f len v = Some xs \<Longrightarrow> distinct xs \<and> len (length xs)"
  by (auto simp: unique_array_def parse_simps dest: collect_length)

lemma provenance_accepted:
  assumes "provenance_schema v = Some p"
  shows "distinct (prov_providerIds p) \<and> distinct (prov_sourceKinds p) \<and> 0 \<le> prov_independentClusterCount p"
  using assms by (auto simp: provenance_schema_def z_between_Some dest!: unique_array_Some)

lemma proposal_accepted:
  assumes "ResearchProposalV1Schema h v = Some p"
  shows "distinct (prop_evidenceIds p)" "1 \<le> length (prop_evidenceIds p)" "length (prop_evidenceIds p) \<le> 100"
    "0 \<le> prov_independentClusterCount (prop_provenance p)"
    "prov_independentClusterCount (prop_provenance p) \<le> int (length (prop_evidenceIds p))"
    "distinct (prov_providerIds (prop_provenance p))" "distinct (prov_sourceKinds (prop_provenance p))"
    "expires_after_creation h (prop_createdAt p) (prop_expiresAt p)"
proof -
  from assms obtain e q where
      e: "unique_array (z_string Sha256IdSchema) (\<lambda>n. 1 \<le> n \<and> n \<le> 100) e = Some (prop_evidenceIds p)"
      and q: "provenance_schema q = Some (prop_provenance p)"
    unfolding ResearchProposalV1Schema_def z_refine_Some bind_eq_Some
    by (elim conjE exE) (drule sym [of "Some _" "Some p"], simp only: option.inject ResearchProposal.select_convs)
  from assms have c: "proposal_consistent h p"
    unfolding ResearchProposalV1Schema_def z_refine_Some by (rule conjunct2)
  show "distinct (prop_evidenceIds p)" "1 \<le> length (prop_evidenceIds p)" "length (prop_evidenceIds p) \<le> 100"
    using unique_array_Some [OF e] by simp_all
  show "0 \<le> prov_independentClusterCount (prop_provenance p)"
      "distinct (prov_providerIds (prop_provenance p))" "distinct (prov_sourceKinds (prop_provenance p))"
    using provenance_accepted [OF q] by simp_all
  show "prov_independentClusterCount (prop_provenance p) \<le> int (length (prop_evidenceIds p))"
      "expires_after_creation h (prop_createdAt p) (prop_expiresAt p)"
    using c by (simp_all add: proposal_consistent_def)
qed

text \<open>A key outside the eleven of the schema, an action say, is refused whatever its value.\<close>

lemma z_object_keys: "z_object keys (JObj fs) = Some f \<Longrightarrow> (k, x) \<in> set fs \<Longrightarrow> k \<in> set keys"
  by (auto simp: z_object_def list_all_iff split: if_splits)

lemma proposal_keys:
  assumes "ResearchProposalV1Schema h (JObj fs) = Some p" "(k, x) \<in> set fs"
  shows "k \<in> set [''schemaVersion'', ''proposalId'', ''strategyVersion'', ''createdAt'', ''expiresAt'',
            ''asset'', ''evidenceIds'', ''provenance'', ''flags'', ''scorecard'', ''disposition'']"
proof -
  from assms(1) obtain f where "z_object [''schemaVersion'', ''proposalId'', ''strategyVersion'', ''createdAt'', ''expiresAt'',
            ''asset'', ''evidenceIds'', ''provenance'', ''flags'', ''scorecard'', ''disposition''] (JObj fs) = Some f"
    unfolding ResearchProposalV1Schema_def z_refine_Some bind_eq_Some by (elim conjE exE)
  then show ?thesis using assms(2) by (rule z_object_keys)
qed

end
