(* ===== verification/Eip712.thy ===== *)
theory Eip712
  imports Schemas
begin

text \<open>
  \<open>packages/domain/src/eip712.ts\<close>: the typed data a signer sees for an execution intent. Keccak-256 is
  the host's; the EIP-712 encoder of the library that hashes the structure is the argument
  \<open>hashTypedData\<close>. The lemmas show that the evidence root depends on the cited evidence only, and
  what a signature over the structure pins down.
\<close>

definition keccak256 :: "host \<Rightarrow> string \<Rightarrow> string" where
  "keccak256 h bytes = ''0x'' @ keccak256_hex h bytes"

definition textHash :: "host \<Rightarrow> string \<Rightarrow> string" where
  "textHash h s = keccak256 h s"

text \<open>\<open>keccak256\<close> of a hex string is over the bytes it denotes; \<open>concatHex\<close> joins the digits.\<close>

definition nibble :: "char \<Rightarrow> nat" where
  "nibble c = (if is_digit c then code c - 48 else code (lower_char c) - 87)"

fun hex_bytes :: "string \<Rightarrow> string" where
  "hex_bytes (a # b # s) = char_of (16 * nibble a + nibble b) # hex_bytes s"
| "hex_bytes _ = []"

definition concatHex :: "string list \<Rightarrow> string" where
  "concatHex hs = ''0x'' @ concat (map (drop 2) hs)"

definition root_bytes :: "host \<Rightarrow> string list \<Rightarrow> string" where
  "root_bytes h ids = (let leaves = map (textHash h) (sort ids) in hex_bytes (drop 2 (concatHex leaves)))"

definition evidenceRoot :: "host \<Rightarrow> string list \<Rightarrow> string" where
  "evidenceRoot h ids = keccak256 h (root_bytes h ids)"

record TypedDomain =
  domain_name :: string
  domain_version :: string
  domain_chainId :: int
  verifyingContract :: string

record IntentMessage =
  msg_intentId :: string
  msg_strategyVersion :: string
  msg_policyVersion :: string
  msg_policyHash :: string
  msg_target :: string
  msg_collection :: string
  msg_tokenId :: string
  msg_paymentAsset :: string
  msg_maxTotalSpend :: nat
  msg_recipient :: string
  msg_orderHash :: string
  msg_evidenceRoot :: string
  msg_nonce :: string
  msg_expiresAt :: int

record IntentTypedData =
  typed_domain :: TypedDomain
  typed_types :: "(string \<times> string) list"
  typed_message :: IntentMessage

datatype TypedDataError = IntentInvalid | ContractInvalid | ExpiryNotANumber

definition EXECUTION_INTENT_TYPES :: "(string \<times> string) list" where
  "EXECUTION_INTENT_TYPES =
     [(''intentId'', ''bytes32''), (''strategyVersion'', ''bytes32''), (''policyVersion'', ''bytes32''),
      (''policyHash'', ''bytes32''), (''target'', ''address''), (''collection'', ''address''),
      (''tokenId'', ''string''), (''paymentAsset'', ''address''), (''maxTotalSpend'', ''uint256''),
      (''recipient'', ''address''), (''orderHash'', ''bytes32''), (''evidenceRoot'', ''bytes32''),
      (''nonce'', ''bytes32''), (''expiresAt'', ''uint64'')]"

definition intent_message :: "host \<Rightarrow> ExecutionIntent \<Rightarrow> int \<Rightarrow> IntentMessage" where
  "intent_message h i expires =
     \<lparr>msg_intentId = textHash h (intentId i),
      msg_strategyVersion = textHash h (strategyVersion i),
      msg_policyVersion = textHash h (policyVersion i),
      msg_policyHash = intent_policyHash i,
      msg_target = targetContract (action i),
      msg_collection = collectionContract (action i),
      msg_tokenId = tokenId (action i),
      msg_paymentAsset = paymentAsset (action i),
      msg_maxTotalSpend = read_nat (maxTotalSpend (action i)),
      msg_recipient = recipient (action i),
      msg_orderHash = orderHash (action i),
      msg_evidenceRoot = evidenceRoot h (evidenceIds i),
      msg_nonce = nonce (action i),
      msg_expiresAt = expires div 1000\<rparr>"

definition executionIntentTypedData :: "host \<Rightarrow> jsval \<Rightarrow> jsval \<Rightarrow> (TypedDataError, IntentTypedData) result" where
  "executionIntentTypedData h rawIntent rawContract =
     and_then (or_fail (ExecutionIntentSchema h rawIntent) IntentInvalid) (\<lambda>i.
     and_then (or_fail (z_string EvmAddressSchema rawContract) ContractInvalid) (\<lambda>contract.
     and_then (or_fail (date_parse h (expiresAt i)) ExpiryNotANumber) (\<lambda>expires.
       Inr \<lparr>typed_domain = \<lparr>domain_name = ''RSI Policy Gateway'', domain_version = ''1'',
              domain_chainId = chainId (action i), verifyingContract = contract\<rparr>,
            typed_types = EXECUTION_INTENT_TYPES,
            typed_message = intent_message h i expires\<rparr>)))"

definition hashExecutionIntent ::
  "host \<Rightarrow> (IntentTypedData \<Rightarrow> string) \<Rightarrow> jsval \<Rightarrow> jsval \<Rightarrow> (TypedDataError, string) result" where
  "hashExecutionIntent h hashTypedData intent contract =
     and_then (executionIntentTypedData h intent contract) (\<lambda>d. Inr (hashTypedData d))"

subsection \<open>What the root and the message pin down\<close>

text \<open>
  No hash function is injective. What the binding lemmas assume is that the byte strings hashed for the two
  intents do not collide: each id, each version text and the two root inputs.
\<close>

definition intent_texts :: "ExecutionIntent \<Rightarrow> string set" where
  "intent_texts i = insert (intentId i) (insert (strategyVersion i) (insert (policyVersion i) (set (evidenceIds i))))"

lemma evidenceRoot_mset: "mset xs = mset ys \<Longrightarrow> evidenceRoot h xs = evidenceRoot h ys"
proof -
  assume "mset xs = mset ys"
  then have "sort xs = sort ys" by (metis properties_for_sort mset_sort sorted_sort)
  then show ?thesis by (simp add: evidenceRoot_def root_bytes_def)
qed

lemma nibble_inject:
  assumes "is_lower_hex a" "is_lower_hex b" "nibble a = nibble b"
  shows "a = b"
proof -
  have v: "nibble c < 16 \<and> code c = (if nibble c < 10 then nibble c + 48 else nibble c + 87)"
    if "is_lower_hex c" for c
  proof -
    from that consider "48 \<le> code c" "code c \<le> 57" | "97 \<le> code c" "code c \<le> 102"
      by (auto simp: is_lower_hex_def is_digit_def in_range_def) (auto simp: code_def)
    then show ?thesis
    proof cases
      case 1
      then have "is_digit c" by (simp add: is_digit_def in_range_def) (simp add: code_def)
      then show ?thesis using 1 by (simp add: nibble_def)
    next
      case 2
      then have "\<not> is_digit c" "\<not> in_range CHR ''A'' CHR ''Z'' c"
        by (simp_all add: is_digit_def in_range_def) (simp_all add: code_def)
      then have "nibble c = code c - 87" by (simp add: nibble_def lower_char_def)
      then show ?thesis using 2 by simp arith
    qed
  qed
  from v [OF assms(1)] v [OF assms(2)] assms(3) have "code a = code b" by simp
  then show ?thesis by simp
qed

lemma nibble_less: "is_lower_hex c \<Longrightarrow> nibble c < 16"
proof -
  assume "is_lower_hex c"
  then have c: "48 \<le> code c \<and> code c \<le> 57 \<or> 97 \<le> code c \<and> code c \<le> 102"
    by (auto simp: is_lower_hex_def is_digit_def in_range_def) (auto simp: code_def)
  have "is_digit c \<longleftrightarrow> 48 \<le> code c \<and> code c \<le> 57"
      "in_range CHR ''A'' CHR ''Z'' c \<longleftrightarrow> 65 \<le> code c \<and> code c \<le> 90"
    by (simp_all add: is_digit_def in_range_def) (simp_all add: code_def)
  with c show ?thesis by (auto simp: nibble_def lower_char_def)
qed

lemma hex_bytes_inject:
  "list_all is_lower_hex s \<Longrightarrow> list_all is_lower_hex t \<Longrightarrow> length s = length t \<Longrightarrow> even (length s)
     \<Longrightarrow> hex_bytes s = hex_bytes t \<Longrightarrow> s = t"
proof (induction s arbitrary: t rule: hex_bytes.induct)
  case (1 a b s)
  then obtain c d u where t: "t = c # d # u"
    by (metis length_Suc_conv list.size(4) length_Cons)
  have hex: "is_lower_hex a" "is_lower_hex b" "is_lower_hex c" "is_lower_hex d" using 1 t by auto
  note l = nibble_less [OF hex(1)] nibble_less [OF hex(2)] nibble_less [OF hex(3)] nibble_less [OF hex(4)]
  have "(char_of (16 * nibble a + nibble b) :: char) = char_of (16 * nibble c + nibble d)"
    using 1 t by simp
  then have "code (char_of (16 * nibble a + nibble b)) = code (char_of (16 * nibble c + nibble d))" by simp
  then have "16 * nibble a + nibble b = 16 * nibble c + nibble d" using l by (simp add: code_char_of)
  moreover have "p = q \<and> r = t" if "16 * p + r = 16 * q + t" "r < 16" "t < 16" for p q r t :: nat
    using that by presburger
  ultimately have "nibble a = nibble c \<and> nibble b = nibble d" using l by blast
  then have "a = c" "b = d" using nibble_inject hex by simp_all
  moreover have "s = u" using 1 t by simp
  ultimately show ?case using t by simp
qed auto

lemma concat_same_length_inject:
  "\<forall>x \<in> set xs \<union> set ys. length x = n \<Longrightarrow> 0 < n \<Longrightarrow> concat xs = concat ys \<Longrightarrow> xs = ys"
proof (induction xs arbitrary: ys)
  case Nil
  then show ?case by (cases ys) auto
next
  case (Cons x xs)
  then obtain y zs where ys: "ys = y # zs" by (cases ys) auto
  then have "x = y \<and> concat xs = concat zs" using Cons.prems by simp
  then show ?case using Cons.IH [of zs] Cons.prems ys by simp
qed

lemma length_concat_map: "(\<And>x. length (f x) = n) \<Longrightarrow> length (concat (map f xs)) = n * length xs"
  by (induction xs) auto

lemma list_all_concat_map: "(\<And>x. list_all P (f x)) \<Longrightarrow> list_all P (concat (map f xs))"
  by (induction xs) auto

lemma evidenceRoot_inject:
  assumes "hex_digests (keccak256_hex h)"
    and "inj_on (keccak256_hex h) (set xs \<union> set ys \<union> {root_bytes h xs, root_bytes h ys})"
    and "evidenceRoot h xs = evidenceRoot h ys"
  shows "mset xs = mset ys"
proof -
  define leaf where "leaf = keccak256_hex h"
  let ?c = "\<lambda>zs. concat (map leaf (sort zs))"
  have root: "root_bytes h zs = hex_bytes (?c zs)" for zs
    by (simp add: root_bytes_def textHash_def keccak256_def concatHex_def comp_def leaf_def)
  have leaf: "list_all is_lower_hex (leaf z) \<and> length (leaf z) = 64" for z
    using assms(1) unfolding hex_digests_def leaf_def by blast
  have "\<And>z. list_all is_lower_hex (leaf z)" "\<And>z. length (leaf z) = 64" using leaf by blast+
  note hex = list_all_concat_map [OF this(1)] length_concat_map [OF this(2)]
  have "root_bytes h xs = root_bytes h ys"
    by (rule inj_onD [OF assms(2)]) (use assms(3) in \<open>simp_all add: evidenceRoot_def keccak256_def\<close>)
  then have bytes: "hex_bytes (?c xs) = hex_bytes (?c ys)" by (simp add: root)
  have len: "length (hex_bytes s) = length s div 2" for s by (induction s rule: hex_bytes.induct) auto
  have "length (?c xs) div 2 = length (?c ys) div 2" using arg_cong [OF bytes, of length] unfolding len .
  moreover have even: "even (length (?c xs))" "even (length (?c ys))" unfolding hex(2) by (rule dvd_mult2, rule even_numeral)+
  ultimately have "length (?c xs) = length (?c ys)" by (metis dvd_mult_div_cancel)
  then have "?c xs = ?c ys" by (rule hex_bytes_inject [OF hex(1) hex(1) _ even(1) bytes])
  moreover have "\<forall>x \<in> set (map leaf (sort xs)) \<union> set (map leaf (sort ys)). length x = 64"
    using leaf by auto
  ultimately have "map leaf (sort xs) = map leaf (sort ys)"
    by (intro concat_same_length_inject [of _ _ 64]) simp_all
  moreover have "inj_on leaf (set (sort xs) \<union> set (sort ys))"
    unfolding leaf_def by (rule inj_on_subset [OF assms(2)]) auto
  ultimately have "sort xs = sort ys" using inj_on_map_eq_map by blast
  then show ?thesis by (metis mset_sort)
qed

lemma textHash_inject:
  "inj_on (keccak256_hex h) A \<Longrightarrow> a \<in> A \<Longrightarrow> b \<in> A \<Longrightarrow> textHash h a = textHash h b \<longleftrightarrow> a = b"
  by (auto simp: textHash_def keccak256_def inj_on_def)

definition hashed_texts :: "host \<Rightarrow> ExecutionIntent \<Rightarrow> string set" where
  "hashed_texts h i = insert (root_bytes h (evidenceIds i)) (intent_texts i)"

lemma typed_data_fields:
  assumes "ExecutionIntentSchema h v = Some i" "executionIntentTypedData h v c = Inr d"
  obtains t where "date_parse h (expiresAt i) = Some t" "z_string EvmAddressSchema c = Some (verifyingContract (typed_domain d))"
    "typed_message d = intent_message h i t"
    "domain_chainId (typed_domain d) = chainId (action i)"
  using assms by (auto simp: executionIntentTypedData_def)

lemma amount_canonical:
  assumes "ExecutionIntentSchema h v = Some i"
  shows "maxTotalSpend (action i) = nat_str (read_nat (maxTotalSpend (action i)))"
  using assms by (auto simp: ExecutionIntentSchema_def NftPurchaseActionSchema_def parse_simps
      PositiveAtomicAmountSchema_def AtomicAmountSchema_iff)

lemma typed_data_binds:
  assumes "hex_digests (keccak256_hex h)" "inj_on (keccak256_hex h) (hashed_texts h i \<union> hashed_texts h j)"
    and "ExecutionIntentSchema h v = Some i" "ExecutionIntentSchema h w = Some j"
    and "executionIntentTypedData h v c = Inr d" "executionIntentTypedData h w c' = Inr d"
  shows "intentId i = intentId j \<and> strategyVersion i = strategyVersion j \<and> policyVersion i = policyVersion j
    \<and> intent_policyHash i = intent_policyHash j \<and> mset (evidenceIds i) = mset (evidenceIds j)
    \<and> action i = action j \<and> c = c'
    \<and> (\<exists>s t. date_parse h (expiresAt i) = Some s \<and> date_parse h (expiresAt j) = Some t
         \<and> s div 1000 = t div 1000)"
proof -
  obtain s where s: "date_parse h (expiresAt i) = Some s"
      "z_string EvmAddressSchema c = Some (verifyingContract (typed_domain d))"
      and i: "typed_message d = intent_message h i s" "domain_chainId (typed_domain d) = chainId (action i)"
    by (rule typed_data_fields [OF assms(3,5)])
  obtain t where t: "date_parse h (expiresAt j) = Some t"
      "z_string EvmAddressSchema c' = Some (verifyingContract (typed_domain d))"
      and j: "typed_message d = intent_message h j t" "domain_chainId (typed_domain d) = chainId (action j)"
    by (rule typed_data_fields [OF assms(4,6)])
  note same = trans [OF sym [OF i(1)] j(1), unfolded intent_message_def IntentMessage.ext_inject]
  have texts: "intentId i = intentId j" "strategyVersion i = strategyVersion j" "policyVersion i = policyVersion j"
    using same assms(2) by (auto simp: textHash_inject hashed_texts_def intent_texts_def dest: inj_onD)
  have "mset (evidenceIds i) = mset (evidenceIds j)"
    using same by (intro evidenceRoot_inject [OF assms(1) inj_on_subset [OF assms(2)]])
      (auto simp: hashed_texts_def intent_texts_def)
  moreover have "action i = action j"
    using same i(2) j(2) amount_canonical [OF assms(3)] amount_canonical [OF assms(4)]
    by (intro NftPurchaseAction.equality) simp_all
  ultimately show ?thesis using same texts s t by (simp add: z_string_Some)
qed

lemma typed_data_total:
  assumes "ExecutionIntentSchema h v = Some i" "EvmAddressSchema c" "date_parse h (expiresAt i) = Some t"
  shows "\<exists>d. executionIntentTypedData h v (JStr c) = Inr d"
  using assms by (simp add: executionIntentTypedData_def z_string_def)

end
