(* ===== verification/RuntimeSchemas.thy ===== *)
theory RuntimeSchemas
  imports Zod
begin

text \<open>
  \<open>packages/runtime/src/types.ts\<close> and \<open>schemas.ts\<close>: the modes and boundaries of the runtime authority, the
  inputs of its operations and the payloads of the three kinds of audit event. Each payload has
  a writer (\<open>\<dots>_json\<close>) and a schema; the lemmas show that a payload within the
  schema's bounds reads back as itself, in whatever order its keys were stored.
\<close>

subsection \<open>Modes, boundaries and reasons\<close>

datatype RuntimeMode = STOPPED | RESEARCH | PROPOSE_ONLY

datatype RuntimeBoundary =
    ResearchCollection | ProposalPersist | AttentionRefresh | WatchlistImport | PolicyApprovalBoundary
  | PaidRead | WalletSign | ExecutionAdapter | TransactionBroadcast | ExternalPublish

datatype BoundaryReason =
    ALLOWED | EXPIRED | MODE_NOT_ALLOWED | PERMANENTLY_FORBIDDEN | PROCESS_SUPERSEDED | STALE_REVISION

datatype StopCause = Operator | Startup

definition mode_table :: "(string \<times> RuntimeMode) list" where
  "mode_table = [(''STOPPED'', STOPPED), (''RESEARCH'', RESEARCH), (''PROPOSE_ONLY'', PROPOSE_ONLY)]"

primrec mode_text :: "RuntimeMode \<Rightarrow> string" where
  "mode_text STOPPED = ''STOPPED''"
| "mode_text RESEARCH = ''RESEARCH''"
| "mode_text PROPOSE_ONLY = ''PROPOSE_ONLY''"

definition boundary_table :: "(string \<times> RuntimeBoundary) list" where
  "boundary_table =
     [(''research_collection'', ResearchCollection), (''proposal_persist'', ProposalPersist),
      (''attention_refresh'', AttentionRefresh), (''watchlist_import'', WatchlistImport),
      (''policy_approval'', PolicyApprovalBoundary), (''paid_read'', PaidRead), (''wallet_sign'', WalletSign),
      (''execution_adapter'', ExecutionAdapter), (''transaction_broadcast'', TransactionBroadcast),
      (''external_publish'', ExternalPublish)]"

primrec boundary_text :: "RuntimeBoundary \<Rightarrow> string" where
  "boundary_text ResearchCollection = ''research_collection''"
| "boundary_text ProposalPersist = ''proposal_persist''"
| "boundary_text AttentionRefresh = ''attention_refresh''"
| "boundary_text WatchlistImport = ''watchlist_import''"
| "boundary_text PolicyApprovalBoundary = ''policy_approval''"
| "boundary_text PaidRead = ''paid_read''"
| "boundary_text WalletSign = ''wallet_sign''"
| "boundary_text ExecutionAdapter = ''execution_adapter''"
| "boundary_text TransactionBroadcast = ''transaction_broadcast''"
| "boundary_text ExternalPublish = ''external_publish''"

definition reason_table :: "(string \<times> BoundaryReason) list" where
  "reason_table =
     [(''ALLOWED'', ALLOWED), (''EXPIRED'', EXPIRED), (''MODE_NOT_ALLOWED'', MODE_NOT_ALLOWED),
      (''PERMANENTLY_FORBIDDEN'', PERMANENTLY_FORBIDDEN), (''PROCESS_SUPERSEDED'', PROCESS_SUPERSEDED),
      (''STALE_REVISION'', STALE_REVISION)]"

primrec boundary_reason_text :: "BoundaryReason \<Rightarrow> string" where
  "boundary_reason_text ALLOWED = ''ALLOWED''"
| "boundary_reason_text EXPIRED = ''EXPIRED''"
| "boundary_reason_text MODE_NOT_ALLOWED = ''MODE_NOT_ALLOWED''"
| "boundary_reason_text PERMANENTLY_FORBIDDEN = ''PERMANENTLY_FORBIDDEN''"
| "boundary_reason_text PROCESS_SUPERSEDED = ''PROCESS_SUPERSEDED''"
| "boundary_reason_text STALE_REVISION = ''STALE_REVISION''"

primrec cause_text :: "StopCause \<Rightarrow> string" where
  "cause_text Operator = ''operator''"
| "cause_text Startup = ''startup''"

definition decision_text :: "bool \<Rightarrow> string" where
  "decision_text allowed = (if allowed then ''allowed'' else ''denied'')"

definition RuntimeModeSchema :: "jsval \<Rightarrow> RuntimeMode option" where
  "RuntimeModeSchema = z_enum mode_table"

definition RuntimeBoundarySchema :: "jsval \<Rightarrow> RuntimeBoundary option" where
  "RuntimeBoundarySchema = z_enum boundary_table"

definition RuntimeBoundaryDecisionReasonSchema :: "jsval \<Rightarrow> BoundaryReason option" where
  "RuntimeBoundaryDecisionReasonSchema = z_enum reason_table"

definition decision_schema :: "jsval \<Rightarrow> bool option" where
  "decision_schema = z_enum [(''allowed'', True), (''denied'', False)]"

definition started_mode_schema :: "jsval \<Rightarrow> RuntimeMode option" where
  "started_mode_schema = z_enum [(''RESEARCH'', RESEARCH), (''PROPOSE_ONLY'', PROPOSE_ONLY)]"

subsection \<open>Text formats\<close>

definition RuntimeCanonicalTimestampSchema :: "host \<Rightarrow> string \<Rightarrow> bool" where
  "RuntimeCanonicalTimestampSchema h s \<longleftrightarrow> js_length s \<le> 32 \<and> canonical_time h s"

text \<open>The lower-case version 4 identifier, group by group.\<close>

definition RuntimeUuidSchema :: "string \<Rightarrow> bool" where
  "RuntimeUuidSchema s \<longleftrightarrow>
     length s = 36
   \<and> list_all is_lower_hex (take 8 s) \<and> s ! 8 = CHR ''-''
   \<and> list_all is_lower_hex (take 4 (drop 9 s)) \<and> s ! 13 = CHR ''-''
   \<and> s ! 14 = CHR ''4'' \<and> list_all is_lower_hex (take 3 (drop 15 s)) \<and> s ! 18 = CHR ''-''
   \<and> s ! 19 \<in> set ''89ab'' \<and> list_all is_lower_hex (take 3 (drop 20 s)) \<and> s ! 23 = CHR ''-''
   \<and> list_all is_lower_hex (drop 24 s)"

definition RuntimeSafeIdentifierSchema :: "string \<Rightarrow> bool" where
  "RuntimeSafeIdentifierSchema s \<longleftrightarrow>
     (case s of [] \<Rightarrow> False
      | c # r \<Rightarrow> is_alnum c \<and> length r \<le> 127 \<and> list_all (\<lambda>d. label_char d \<or> d = CHR '':'') r)"

definition RuntimeRevisionSchema :: "jsval \<Rightarrow> int option" where
  "RuntimeRevisionSchema = z_between 1 max_safe_integer"

definition RuntimePreviousRevisionSchema :: "jsval \<Rightarrow> int option" where
  "RuntimePreviousRevisionSchema = z_between 0 (max_safe_integer - 1)"

subsection \<open>Inputs\<close>

record OpenRuntimeInput =
  in_openedAt :: string
  in_path :: string
  in_processInstanceId :: string

record RuntimeTransitionInput =
  in_expectedMode :: RuntimeMode
  in_expectedRevision :: int
  in_transitionAt :: string
  in_transitionId :: string
  in_targetMode :: RuntimeMode

record RuntimeStopInput =
  in_stopAt :: string
  in_stopId :: string

record RuntimeBoundaryInput =
  in_actionId :: string
  in_authorizationId :: string
  in_boundary :: RuntimeBoundary

text \<open>Inputs are plain data: no array anywhere (a value that is not data fails the schemas).\<close>

fun plain_data :: "jsval \<Rightarrow> bool" where
  "plain_data (JArr _) = False"
| "plain_data (JObj fs) = list_all (\<lambda>(_, v). plain_data v) fs"
| "plain_data _ = True"

definition parseRuntimeInput :: "(jsval \<Rightarrow> 'a option) \<Rightarrow> jsval \<Rightarrow> 'a option" where
  "parseRuntimeInput schema v = (if plain_data v then schema v else None)"

definition OpenRuntimeInputSchema :: "host \<Rightarrow> jsval \<Rightarrow> OpenRuntimeInput option" where
  "OpenRuntimeInputSchema h v = do {
     f \<leftarrow> z_object [''openedAt'', ''path'', ''processInstanceId''] v;
     a \<leftarrow> z_string (RuntimeCanonicalTimestampSchema h) (f ''openedAt'');
     p \<leftarrow> z_string (\<lambda>s. 1 \<le> js_length s \<and> js_length s \<le> 4096) (f ''path'');
     i \<leftarrow> z_string RuntimeUuidSchema (f ''processInstanceId'');
     Some \<lparr>in_openedAt = a, in_path = p, in_processInstanceId = i\<rparr> }"

definition RuntimeTransitionInputSchema :: "host \<Rightarrow> jsval \<Rightarrow> RuntimeTransitionInput option" where
  "RuntimeTransitionInputSchema h v = do {
     f \<leftarrow> z_object [''expectedMode'', ''expectedRevision'', ''occurredAt'', ''requestId'', ''targetMode''] v;
     m \<leftarrow> RuntimeModeSchema (f ''expectedMode'');
     r \<leftarrow> z_between 1 (max_safe_integer - 1) (f ''expectedRevision'');
     a \<leftarrow> z_string (RuntimeCanonicalTimestampSchema h) (f ''occurredAt'');
     i \<leftarrow> z_string RuntimeUuidSchema (f ''requestId'');
     t \<leftarrow> started_mode_schema (f ''targetMode'');
     Some \<lparr>in_expectedMode = m, in_expectedRevision = r, in_transitionAt = a, in_transitionId = i,
           in_targetMode = t\<rparr> }"

definition RuntimeStopInputSchema :: "host \<Rightarrow> jsval \<Rightarrow> RuntimeStopInput option" where
  "RuntimeStopInputSchema h v = do {
     f \<leftarrow> z_object [''occurredAt'', ''requestId''] v;
     a \<leftarrow> z_string (RuntimeCanonicalTimestampSchema h) (f ''occurredAt'');
     i \<leftarrow> z_string RuntimeUuidSchema (f ''requestId'');
     Some \<lparr>in_stopAt = a, in_stopId = i\<rparr> }"

definition RuntimeBoundaryAuthorizationInputSchema :: "jsval \<Rightarrow> RuntimeBoundaryInput option" where
  "RuntimeBoundaryAuthorizationInputSchema v = do {
     f \<leftarrow> z_object [''actionId'', ''authorizationId'', ''boundary''] v;
     a \<leftarrow> z_string RuntimeSafeIdentifierSchema (f ''actionId'');
     i \<leftarrow> z_string RuntimeUuidSchema (f ''authorizationId'');
     b \<leftarrow> RuntimeBoundarySchema (f ''boundary'');
     Some \<lparr>in_actionId = a, in_authorizationId = i, in_boundary = b\<rparr> }"

subsection \<open>Event payloads\<close>

record StopPayload =
  sp_cause :: StopCause
  sp_from :: "RuntimeMode option"
  sp_previousRevision :: int
  sp_processInstanceId :: string
  sp_requestId :: string
  sp_revision :: int

record TransitionPayload =
  tp_expectedMode :: RuntimeMode
  tp_expectedRevision :: int
  tp_from :: RuntimeMode
  tp_previousRevision :: int
  tp_processInstanceId :: string
  tp_requestId :: string
  tp_revision :: int
  tp_to :: RuntimeMode

record BoundaryPayload =
  bp_actionId :: string
  bp_authorizationId :: string
  bp_boundary :: RuntimeBoundary
  bp_checkedMode :: RuntimeMode
  bp_checkedProcessInstanceId :: string
  bp_checkedRevision :: int
  bp_allowed :: bool
  bp_expiresAt :: string
  bp_reason :: BoundaryReason
  bp_requestedAt :: string
  bp_requestedMode :: RuntimeMode
  bp_requestedProcessInstanceId :: string
  bp_requestedRevision :: int

record RuntimeBoundaryReceipt =
  rc_actionId :: string
  rc_authorizationId :: string
  rc_boundary :: RuntimeBoundary
  rc_checkedAt :: string
  rc_allowed :: bool
  rc_eventHash :: string
  rc_eventSequence :: int
  rc_mode :: RuntimeMode
  rc_modeRevision :: int
  rc_processInstanceId :: string
  rc_reason :: BoundaryReason

definition receipt_keys :: "string list" where
  "receipt_keys = [''schemaVersion'', ''actionId'', ''authorizationId'', ''boundary'', ''checkedAt'', ''decision'',
     ''eventHash'', ''eventSequence'', ''mode'', ''modeRevision'', ''processInstanceId'', ''reason'']"

definition event_hash_format :: "string \<Rightarrow> bool" where
  "event_hash_format s \<longleftrightarrow> length s = 64 \<and> list_all is_lower_hex s"

definition RuntimeBoundaryReceiptSchema :: "host \<Rightarrow> jsval \<Rightarrow> RuntimeBoundaryReceipt option" where
  "RuntimeBoundaryReceiptSchema h v = do {
     f \<leftarrow> z_object receipt_keys v;
     _ \<leftarrow> z_number_literal 1 (f ''schemaVersion'');
     a \<leftarrow> z_string RuntimeSafeIdentifierSchema (f ''actionId'');
     i \<leftarrow> z_string RuntimeUuidSchema (f ''authorizationId'');
     b \<leftarrow> RuntimeBoundarySchema (f ''boundary'');
     c \<leftarrow> z_string (RuntimeCanonicalTimestampSchema h) (f ''checkedAt'');
     d \<leftarrow> decision_schema (f ''decision'');
     e \<leftarrow> z_string event_hash_format (f ''eventHash'');
     n \<leftarrow> z_between 1 max_safe_integer (f ''eventSequence'');
     m \<leftarrow> RuntimeModeSchema (f ''mode'');
     r \<leftarrow> RuntimeRevisionSchema (f ''modeRevision'');
     p \<leftarrow> z_string RuntimeUuidSchema (f ''processInstanceId'');
     w \<leftarrow> RuntimeBoundaryDecisionReasonSchema (f ''reason'');
     Some \<lparr>rc_actionId = a, rc_authorizationId = i, rc_boundary = b, rc_checkedAt = c, rc_allowed = d,
           rc_eventHash = e, rc_eventSequence = n, rc_mode = m, rc_modeRevision = r,
           rc_processInstanceId = p, rc_reason = w\<rparr> }"

text \<open>The four fields the extended schema overrides with literals.\<close>

definition RuntimeAllowedAttentionRefreshReceiptSchema :: "host \<Rightarrow> jsval \<Rightarrow> RuntimeBoundaryReceipt option" where
  "RuntimeAllowedAttentionRefreshReceiptSchema h v = do {
     r \<leftarrow> RuntimeBoundaryReceiptSchema h v;
     if rc_boundary r = AttentionRefresh \<and> rc_allowed r \<and> rc_mode r = RESEARCH \<and> rc_reason r = ALLOWED
     then Some r else None }"

definition RuntimeStopEventPayloadSchema :: "jsval \<Rightarrow> StopPayload option" where
  "RuntimeStopEventPayloadSchema v = do {
     f \<leftarrow> z_object [''schemaVersion'', ''cause'', ''from'', ''previousRevision'', ''processInstanceId'',
            ''requestId'', ''revision'', ''to''] v;
     _ \<leftarrow> z_number_literal 1 (f ''schemaVersion'');
     c \<leftarrow> z_enum [(''operator'', Operator), (''startup'', Startup)] (f ''cause'');
     m \<leftarrow> z_nullable RuntimeModeSchema (f ''from'');
     p \<leftarrow> RuntimePreviousRevisionSchema (f ''previousRevision'');
     i \<leftarrow> z_string RuntimeUuidSchema (f ''processInstanceId'');
     q \<leftarrow> z_string RuntimeUuidSchema (f ''requestId'');
     r \<leftarrow> RuntimeRevisionSchema (f ''revision'');
     _ \<leftarrow> z_literal ''STOPPED'' (f ''to'');
     Some \<lparr>sp_cause = c, sp_from = m, sp_previousRevision = p, sp_processInstanceId = i,
           sp_requestId = q, sp_revision = r\<rparr> }"

definition RuntimeTransitionEventPayloadSchema :: "jsval \<Rightarrow> TransitionPayload option" where
  "RuntimeTransitionEventPayloadSchema v = do {
     f \<leftarrow> z_object [''schemaVersion'', ''expectedMode'', ''expectedRevision'', ''from'', ''previousRevision'',
            ''processInstanceId'', ''requestId'', ''revision'', ''to''] v;
     _ \<leftarrow> z_number_literal 1 (f ''schemaVersion'');
     m \<leftarrow> RuntimeModeSchema (f ''expectedMode'');
     e \<leftarrow> RuntimeRevisionSchema (f ''expectedRevision'');
     g \<leftarrow> RuntimeModeSchema (f ''from'');
     p \<leftarrow> RuntimeRevisionSchema (f ''previousRevision'');
     i \<leftarrow> z_string RuntimeUuidSchema (f ''processInstanceId'');
     q \<leftarrow> z_string RuntimeUuidSchema (f ''requestId'');
     r \<leftarrow> RuntimeRevisionSchema (f ''revision'');
     t \<leftarrow> started_mode_schema (f ''to'');
     Some \<lparr>tp_expectedMode = m, tp_expectedRevision = e, tp_from = g, tp_previousRevision = p,
           tp_processInstanceId = i, tp_requestId = q, tp_revision = r, tp_to = t\<rparr> }"

definition RuntimeBoundaryEventPayloadSchema :: "host \<Rightarrow> jsval \<Rightarrow> BoundaryPayload option" where
  "RuntimeBoundaryEventPayloadSchema h v = do {
     f \<leftarrow> z_object [''schemaVersion'', ''actionId'', ''authorizationId'', ''boundary'', ''checkedMode'',
            ''checkedProcessInstanceId'', ''checkedRevision'', ''decision'', ''expiresAt'', ''reason'',
            ''requestedAt'', ''requestedMode'', ''requestedProcessInstanceId'', ''requestedRevision''] v;
     _ \<leftarrow> z_number_literal 1 (f ''schemaVersion'');
     a \<leftarrow> z_string RuntimeSafeIdentifierSchema (f ''actionId'');
     i \<leftarrow> z_string RuntimeUuidSchema (f ''authorizationId'');
     b \<leftarrow> RuntimeBoundarySchema (f ''boundary'');
     m \<leftarrow> RuntimeModeSchema (f ''checkedMode'');
     p \<leftarrow> z_string RuntimeUuidSchema (f ''checkedProcessInstanceId'');
     r \<leftarrow> RuntimeRevisionSchema (f ''checkedRevision'');
     d \<leftarrow> decision_schema (f ''decision'');
     x \<leftarrow> z_string (RuntimeCanonicalTimestampSchema h) (f ''expiresAt'');
     w \<leftarrow> RuntimeBoundaryDecisionReasonSchema (f ''reason'');
     q \<leftarrow> z_string (RuntimeCanonicalTimestampSchema h) (f ''requestedAt'');
     n \<leftarrow> RuntimeModeSchema (f ''requestedMode'');
     j \<leftarrow> z_string RuntimeUuidSchema (f ''requestedProcessInstanceId'');
     s \<leftarrow> RuntimeRevisionSchema (f ''requestedRevision'');
     Some \<lparr>bp_actionId = a, bp_authorizationId = i, bp_boundary = b, bp_checkedMode = m,
           bp_checkedProcessInstanceId = p, bp_checkedRevision = r, bp_allowed = d, bp_expiresAt = x,
           bp_reason = w, bp_requestedAt = q, bp_requestedMode = n, bp_requestedProcessInstanceId = j,
           bp_requestedRevision = s\<rparr> }"

text \<open>The payload objects as the controller builds them; \<open>toJson\<close> copies them through JSON text.\<close>

definition stop_json :: "StopPayload \<Rightarrow> jsval" where
  "stop_json p = JObj
     [(''schemaVersion'', jint 1), (''cause'', JStr (cause_text (sp_cause p))),
      (''from'', case sp_from p of None \<Rightarrow> JNull | Some m \<Rightarrow> JStr (mode_text m)),
      (''previousRevision'', jint (sp_previousRevision p)),
      (''processInstanceId'', JStr (sp_processInstanceId p)), (''requestId'', JStr (sp_requestId p)),
      (''revision'', jint (sp_revision p)), (''to'', JStr ''STOPPED'')]"

definition transition_json :: "TransitionPayload \<Rightarrow> jsval" where
  "transition_json p = JObj
     [(''schemaVersion'', jint 1), (''expectedMode'', JStr (mode_text (tp_expectedMode p))),
      (''expectedRevision'', jint (tp_expectedRevision p)), (''from'', JStr (mode_text (tp_from p))),
      (''previousRevision'', jint (tp_previousRevision p)),
      (''processInstanceId'', JStr (tp_processInstanceId p)), (''requestId'', JStr (tp_requestId p)),
      (''revision'', jint (tp_revision p)), (''to'', JStr (mode_text (tp_to p)))]"

definition boundary_json :: "BoundaryPayload \<Rightarrow> jsval" where
  "boundary_json p = JObj
     [(''schemaVersion'', jint 1), (''actionId'', JStr (bp_actionId p)),
      (''authorizationId'', JStr (bp_authorizationId p)), (''boundary'', JStr (boundary_text (bp_boundary p))),
      (''checkedMode'', JStr (mode_text (bp_checkedMode p))),
      (''checkedProcessInstanceId'', JStr (bp_checkedProcessInstanceId p)),
      (''checkedRevision'', jint (bp_checkedRevision p)), (''decision'', JStr (decision_text (bp_allowed p))),
      (''expiresAt'', JStr (bp_expiresAt p)), (''reason'', JStr (boundary_reason_text (bp_reason p))),
      (''requestedAt'', JStr (bp_requestedAt p)), (''requestedMode'', JStr (mode_text (bp_requestedMode p))),
      (''requestedProcessInstanceId'', JStr (bp_requestedProcessInstanceId p)),
      (''requestedRevision'', jint (bp_requestedRevision p))]"

subsection \<open>Payloads read back\<close>

lemma enum_texts [simp]:
  "RuntimeModeSchema (JStr (mode_text m)) = Some m"
  "RuntimeBoundarySchema (JStr (boundary_text b)) = Some b"
  "RuntimeBoundaryDecisionReasonSchema (JStr (boundary_reason_text r)) = Some r"
  "z_enum [(''operator'', Operator), (''startup'', Startup)] (JStr (cause_text c)) = Some c"
  "decision_schema (JStr (decision_text d)) = Some d"
proof -
  show "RuntimeModeSchema (JStr (mode_text m)) = Some m"
    by (cases m) (simp_all add: RuntimeModeSchema_def z_enum_def mode_table_def)
  show "RuntimeBoundarySchema (JStr (boundary_text b)) = Some b"
    by (cases b) (simp_all add: RuntimeBoundarySchema_def z_enum_def boundary_table_def)
  show "RuntimeBoundaryDecisionReasonSchema (JStr (boundary_reason_text r)) = Some r"
    by (cases r) (simp_all add: RuntimeBoundaryDecisionReasonSchema_def z_enum_def reason_table_def)
  show "z_enum [(''operator'', Operator), (''startup'', Startup)] (JStr (cause_text c)) = Some c"
    by (cases c) (simp_all add: z_enum_def)
  show "decision_schema (JStr (decision_text d)) = Some d"
    by (cases d) (simp_all add: decision_schema_def decision_text_def z_enum_def)
qed

lemma started_mode_text: "m \<noteq> STOPPED \<Longrightarrow> started_mode_schema (JStr (mode_text m)) = Some m"
  by (cases m) (simp_all add: started_mode_schema_def z_enum_def)

text \<open>A strict object does not see the order of its keys.\<close>

lemma z_object_permuted:
  assumes "set fs = set gs" "distinct (map fst fs)" "distinct (map fst gs)"
  shows "z_object keys (JObj fs) = z_object keys (JObj gs)"
  using map_of_same_set [OF assms] assms(1) by (simp add: z_object_def list_all_iff)

definition stop_bounds :: "StopPayload \<Rightarrow> bool" where
  "stop_bounds p \<longleftrightarrow>
     0 \<le> sp_previousRevision p \<and> sp_previousRevision p \<le> max_safe_integer - 1
   \<and> 1 \<le> sp_revision p \<and> sp_revision p \<le> max_safe_integer
   \<and> RuntimeUuidSchema (sp_processInstanceId p) \<and> RuntimeUuidSchema (sp_requestId p)"

definition transition_bounds :: "TransitionPayload \<Rightarrow> bool" where
  "transition_bounds p \<longleftrightarrow>
     1 \<le> tp_expectedRevision p \<and> tp_expectedRevision p \<le> max_safe_integer
   \<and> 1 \<le> tp_previousRevision p \<and> tp_previousRevision p \<le> max_safe_integer
   \<and> 1 \<le> tp_revision p \<and> tp_revision p \<le> max_safe_integer \<and> tp_to p \<noteq> STOPPED
   \<and> RuntimeUuidSchema (tp_processInstanceId p) \<and> RuntimeUuidSchema (tp_requestId p)"

definition boundary_bounds :: "host \<Rightarrow> BoundaryPayload \<Rightarrow> bool" where
  "boundary_bounds h p \<longleftrightarrow>
     RuntimeSafeIdentifierSchema (bp_actionId p) \<and> RuntimeUuidSchema (bp_authorizationId p)
   \<and> RuntimeUuidSchema (bp_checkedProcessInstanceId p) \<and> RuntimeUuidSchema (bp_requestedProcessInstanceId p)
   \<and> 1 \<le> bp_checkedRevision p \<and> bp_checkedRevision p \<le> max_safe_integer
   \<and> 1 \<le> bp_requestedRevision p \<and> bp_requestedRevision p \<le> max_safe_integer
   \<and> RuntimeCanonicalTimestampSchema h (bp_expiresAt p) \<and> RuntimeCanonicalTimestampSchema h (bp_requestedAt p)"

lemma safe_revision: "0 \<le> i \<Longrightarrow> i \<le> max_safe_integer \<Longrightarrow> safe_int i"
  by (simp add: safe_int_def max_safe_integer_def)

lemma stop_reparse:
  assumes "stop_bounds p"
  shows "RuntimeStopEventPayloadSchema (stop_json p) = Some p"
  using assms
  by (cases "sp_from p")
    (simp_all add: RuntimeStopEventPayloadSchema_def stop_json_def z_object_JObj parse_simps stop_bounds_def
      RuntimePreviousRevisionSchema_def RuntimeRevisionSchema_def safe_revision z_nullable_def)

lemma transition_reparse:
  assumes "transition_bounds p"
  shows "RuntimeTransitionEventPayloadSchema (transition_json p) = Some p"
  using assms
  by (simp add: RuntimeTransitionEventPayloadSchema_def transition_json_def z_object_JObj parse_simps
      transition_bounds_def RuntimeRevisionSchema_def safe_revision started_mode_text)

lemma boundary_reparse:
  assumes "boundary_bounds h p"
  shows "RuntimeBoundaryEventPayloadSchema h (boundary_json p) = Some p"
  using assms
  by (simp add: RuntimeBoundaryEventPayloadSchema_def boundary_json_def z_object_JObj parse_simps
      boundary_bounds_def RuntimeRevisionSchema_def safe_revision)

end
