(* ===== verification/EventStore.thy ===== *)
theory EventStore
  imports CanonicalJson JsDate
begin

text \<open>
  \<open>packages/store/src/sqlite-event-store.ts\<close>: the append-only, hash-chained event store. The two SQLite
  tables are \<open>Database\<close>, one connection to it is \<open>EventStore\<close>. Each method takes the store and returns it
  with its result; the time (\<open>new Date()\<close>) and the generated id (\<open>randomUUID()\<close>) are arguments. SQL runs as its
  statements say: the constraints of the schema are checked on insertion, a transaction that
  fails leaves the tables as they were. A statement that fails for a reason outside the program
  (the disk, a lock not granted in time) is not modelled, nor are callbacks that are not
  synchronous functions. The lemmas show that every operation keeps the chain
  valid and only ever extends it, that a repeated append is the same event, and that a valid chain
  is pinned down by its length and head.
\<close>

subsection \<open>Tables\<close>

record EventRow =
  row_sequence :: int
  row_event_id :: string
  row_idempotency_key :: "string option"
  row_event_type :: string
  row_aggregate_id :: string
  row_payload_json :: string
  row_occurred_at :: string
  row_previous_hash :: string
  row_event_hash :: string

record MetadataRow =
  md_schema_version :: int
  md_head_sequence :: int
  md_head_hash :: string

record Database =
  db_rows :: "EventRow list"
  db_metadata :: "MetadataRow option"

record EventStore =
  store_db :: Database
  store_closed :: bool
  store_exclusive :: bool
  store_failed :: bool
  store_scope :: "bool option"

record StoredEvent =
  ev_aggregateId :: string
  ev_eventHash :: string
  ev_eventId :: string
  ev_idempotencyKey :: "string option"
  ev_occurredAt :: string
  ev_payload :: jsval
  ev_previousHash :: string
  ev_sequence :: int
  ev_type :: string

record PreparedEvent =
  pe_aggregateId :: string
  pe_eventId :: "string option"
  pe_idempotencyKey :: "string option"
  pe_occurredAt :: string
  pe_occurredAtWasSupplied :: bool
  pe_payloadJson :: string
  pe_type :: string

datatype IntegrityIssueCode =
    DATABASE_ERROR | HEAD_HASH_MISMATCH | HEAD_SEQUENCE_MISMATCH | INVALID_EVENT_HASH | INVALID_METADATA
  | INVALID_PAYLOAD_JSON | INVALID_PREVIOUS_HASH | INVALID_ROW | NON_CANONICAL_PAYLOAD
  | NON_CANONICAL_TIMESTAMP | PREVIOUS_HASH_MISMATCH | SEQUENCE_GAP | UNSUPPORTED_SCHEMA_VERSION

record IntegrityReport =
  rep_errors :: "(IntegrityIssueCode \<times> int option) list"
  rep_eventCount :: nat
  rep_headHash :: string
  rep_headSequence :: int
  rep_valid :: bool

datatype EventConflictCode = EVENT_ID_CONFLICT | EVENT_ID_IDEMPOTENCY_MISMATCH | IDEMPOTENCY_KEY_CONFLICT

datatype InvalidEventReason =
    NotAnObject | BadIdentifier string | BadPayload json_error | PayloadTooLarge | BadOccurredAt | BadFilter string

datatype StoreError =
    InvalidEvent InvalidEventReason
  | EventConflict EventConflictCode
  | StoreClosed
  | ScopeEscaped
  | StoreIntegrity IntegrityReport
  | NestedTransaction
  | FailedAppend
  | ConstraintFailed
  | HeadChanged
  | PayloadUnreadable

definition SCHEMA_VERSION :: int where
  "SCHEMA_VERSION = 1"

definition GENESIS_HASH :: string where
  "GENESIS_HASH = replicate 64 CHR ''0''"

definition MAX_IDENTIFIER_BYTES :: nat where
  "MAX_IDENTIFIER_BYTES = 512"

definition MAX_PAYLOAD_BYTES :: nat where
  "MAX_PAYLOAD_BYTES = 1048576"

definition HASH_PATTERN :: "string \<Rightarrow> bool" where
  "HASH_PATTERN s \<longleftrightarrow> length s = 64 \<and> list_all is_lower_hex s"

subsection \<open>Input\<close>

definition validateIdentifier :: "jsval \<Rightarrow> string \<Rightarrow> (StoreError, string) result" where
  "validateIdentifier v field =
     (case v of
       JStr s \<Rightarrow>
         and_then (ensure (\<not> blank s) (InvalidEvent (BadIdentifier field))) (\<lambda>_.
         and_then (ensure (CHR 0x00 \<notin> set s) (InvalidEvent (BadIdentifier field))) (\<lambda>_.
         and_then (ensure (length s \<le> MAX_IDENTIFIER_BYTES) (InvalidEvent (BadIdentifier field))) (\<lambda>_.
           Inr s)))
     | _ \<Rightarrow> Inl (InvalidEvent (BadIdentifier field)))"

definition optional_identifier :: "jsval \<Rightarrow> string \<Rightarrow> (StoreError, string option) result" where
  "optional_identifier v field =
     (if v = JUndefined then Inr None
      else and_then (validateIdentifier v field) (\<lambda>s. Inr (Some s)))"

definition normalizeOccurredAt :: "host \<Rightarrow> jsval \<Rightarrow> (StoreError, string) result" where
  "normalizeOccurredAt h v =
     (case v of
       JStr s \<Rightarrow>
         and_then (ensure (\<not> blank s) (InvalidEvent BadOccurredAt)) (\<lambda>_.
         and_then (or_fail (date_parse h s) (InvalidEvent BadOccurredAt)) (\<lambda>t. Inr (to_iso t)))
     | _ \<Rightarrow> Inl (InvalidEvent BadOccurredAt))"

definition property_of :: "(string \<times> jsval) list \<Rightarrow> string \<Rightarrow> jsval" where
  "property_of fs k = (case map_of fs k of Some v \<Rightarrow> v | None \<Rightarrow> JUndefined)"

text \<open>\<open>now\<close> is the current time; a null \<open>occurredAt\<close> takes it too, and still counts as supplied.\<close>

definition prepareEvent :: "host \<Rightarrow> jsval \<Rightarrow> int \<Rightarrow> (StoreError, PreparedEvent) result" where
  "prepareEvent h input now =
     (case input of
       JObj fs \<Rightarrow>
         (let f = property_of fs; instant = f ''occurredAt'' in
          and_then (validateIdentifier (f ''type'') ''type'') (\<lambda>ty.
          and_then (validateIdentifier (f ''aggregateId'') ''aggregateId'') (\<lambda>ag.
          and_then (optional_identifier (f ''eventId'') ''eventId'') (\<lambda>eid.
          and_then (optional_identifier (f ''idempotencyKey'') ''idempotencyKey'') (\<lambda>key.
          and_then (case canonicalJson h (f ''payload'') of
                      Inl e \<Rightarrow> Inl (InvalidEvent (BadPayload e)) | Inr s \<Rightarrow> Inr s) (\<lambda>payload.
          and_then (ensure (length payload \<le> MAX_PAYLOAD_BYTES) (InvalidEvent PayloadTooLarge)) (\<lambda>_.
          and_then (normalizeOccurredAt h
                      (if instant = JUndefined \<or> instant = JNull then JStr (to_iso now) else instant)) (\<lambda>occurred.
            Inr \<lparr>pe_aggregateId = ag, pe_eventId = eid, pe_idempotencyKey = key, pe_occurredAt = occurred,
                 pe_occurredAtWasSupplied = (instant \<noteq> JUndefined), pe_payloadJson = payload, pe_type = ty\<rparr>))))))))
     | _ \<Rightarrow> Inl (InvalidEvent NotAnObject))"

subsection \<open>Hashes\<close>

record HashFields =
  hf_aggregateId :: string
  hf_eventId :: string
  hf_idempotencyKey :: "string option"
  hf_occurredAt :: string
  hf_payloadJson :: string
  hf_previousHash :: string
  hf_sequence :: int
  hf_type :: string

definition hash_input :: "HashFields \<Rightarrow> jsval" where
  "hash_input f = JObj
     [(''aggregateId'', JStr (hf_aggregateId f)), (''eventId'', JStr (hf_eventId f)),
      (''idempotencyKey'', case hf_idempotencyKey f of None \<Rightarrow> JNull | Some k \<Rightarrow> JStr k),
      (''occurredAt'', JStr (hf_occurredAt f)), (''payloadJson'', JStr (hf_payloadJson f)),
      (''previousHash'', JStr (hf_previousHash f)), (''schemaVersion'', jint SCHEMA_VERSION),
      (''sequence'', jint (hf_sequence f)), (''type'', JStr (hf_type f))]"

text \<open>The text that is hashed. It always serialises (\<open>hash_text_total\<close>), so the empty text is never used.\<close>

definition hash_text :: "host \<Rightarrow> HashFields \<Rightarrow> string" where
  "hash_text h f = ''rsi-event-v1'' @ CHR 0x00 #
     (case canonicalJson h (hash_input f) of Inr s \<Rightarrow> s | Inl _ \<Rightarrow> [])"

definition computeEventHash :: "host \<Rightarrow> HashFields \<Rightarrow> string" where
  "computeEventHash h f = sha256_hex h (hash_text h f)"

definition row_fields :: "EventRow \<Rightarrow> HashFields" where
  "row_fields r =
     \<lparr>hf_aggregateId = row_aggregate_id r, hf_eventId = row_event_id r,
      hf_idempotencyKey = row_idempotency_key r, hf_occurredAt = row_occurred_at r,
      hf_payloadJson = row_payload_json r, hf_previousHash = row_previous_hash r,
      hf_sequence = row_sequence r, hf_type = row_event_type r\<rparr>"

definition rowToEvent :: "host \<Rightarrow> EventRow \<Rightarrow> (StoreError, StoredEvent) result" where
  "rowToEvent h r =
     and_then (or_fail (json_parse h (row_payload_json r)) PayloadUnreadable) (\<lambda>p.
       Inr \<lparr>ev_aggregateId = row_aggregate_id r, ev_eventHash = row_event_hash r, ev_eventId = row_event_id r,
            ev_idempotencyKey = row_idempotency_key r, ev_occurredAt = row_occurred_at r, ev_payload = p,
            ev_previousHash = row_previous_hash r, ev_sequence = row_sequence r, ev_type = row_event_type r\<rparr>)"

subsection \<open>Integrity\<close>

definition by_sequence :: "Database \<Rightarrow> EventRow list" where
  "by_sequence db = sort_key row_sequence (db_rows db)"

definition payload_issue :: "host \<Rightarrow> string \<Rightarrow> IntegrityIssueCode list" where
  "payload_issue h s =
     (case json_parse h s of
       None \<Rightarrow> [INVALID_PAYLOAD_JSON]
     | Some v \<Rightarrow> (case canonicalJson h v of
           Inl _ \<Rightarrow> [NON_CANONICAL_PAYLOAD]
         | Inr t \<Rightarrow> if t \<noteq> s then [NON_CANONICAL_PAYLOAD] else []))"

definition time_issue :: "host \<Rightarrow> string \<Rightarrow> IntegrityIssueCode list" where
  "time_issue h s =
     (case normalizeOccurredAt h (JStr s) of
       Inl _ \<Rightarrow> [NON_CANONICAL_TIMESTAMP]
     | Inr t \<Rightarrow> if t \<noteq> s then [NON_CANONICAL_TIMESTAMP] else [])"

definition issue_if :: "bool \<Rightarrow> IntegrityIssueCode \<Rightarrow> IntegrityIssueCode list" where
  "issue_if b c = (if b then [c] else [])"

definition row_issues :: "host \<Rightarrow> string \<Rightarrow> int \<Rightarrow> EventRow \<Rightarrow> (IntegrityIssueCode \<times> int option) list" where
  "row_issues h expectedPreviousHash expectedSequence r =
     (let sequence = (if safe_int (row_sequence r) then Some (row_sequence r) else None)
      in map (\<lambda>c. (c, sequence))
        ((case sequence of
            None \<Rightarrow> [INVALID_ROW]
          | Some n \<Rightarrow> issue_if (n \<noteq> expectedSequence) SEQUENCE_GAP)
         @ issue_if (\<not> HASH_PATTERN (row_previous_hash r)) INVALID_PREVIOUS_HASH
         @ issue_if (row_previous_hash r \<noteq> expectedPreviousHash) PREVIOUS_HASH_MISMATCH
         @ issue_if (\<not> HASH_PATTERN (row_event_hash r)) INVALID_EVENT_HASH
         @ payload_issue h (row_payload_json r)
         @ time_issue h (row_occurred_at r)
         @ issue_if (sequence \<noteq> None \<and> computeEventHash h (row_fields r) \<noteq> row_event_hash r)
             INVALID_EVENT_HASH))"

fun chain_issues :: "host \<Rightarrow> string \<Rightarrow> int \<Rightarrow> EventRow list \<Rightarrow> (IntegrityIssueCode \<times> int option) list" where
  "chain_issues h expectedPreviousHash expectedSequence [] = []"
| "chain_issues h expectedPreviousHash expectedSequence (r # rs) =
     row_issues h expectedPreviousHash expectedSequence r
     @ chain_issues h (row_event_hash r) (expectedSequence + 1) rs"

definition head_sequence :: "EventRow list \<Rightarrow> int" where
  "head_sequence rs = (if rs = [] then 0 else row_sequence (last rs))"

definition head_hash :: "EventRow list \<Rightarrow> string" where
  "head_hash rs = (if rs = [] then GENESIS_HASH else row_event_hash (last rs))"

definition verifyIntegrityInternal :: "host \<Rightarrow> Database \<Rightarrow> IntegrityReport" where
  "verifyIntegrityInternal h db =
     (let rows = by_sequence db;
          unplaced = map (\<lambda>c. (c, None));
          errors =
            unplaced (case db_metadata db of
                None \<Rightarrow> [INVALID_METADATA]
              | Some m \<Rightarrow> issue_if (md_schema_version m \<noteq> SCHEMA_VERSION) UNSUPPORTED_SCHEMA_VERSION)
            @ chain_issues h GENESIS_HASH 1 rows
            @ unplaced (case db_metadata db of
                None \<Rightarrow> []
              | Some m \<Rightarrow> issue_if (md_head_sequence m \<noteq> head_sequence rows) HEAD_SEQUENCE_MISMATCH
                         @ issue_if (md_head_hash m \<noteq> head_hash rows) HEAD_HASH_MISMATCH)
      in \<lparr>rep_errors = errors, rep_eventCount = length rows, rep_headHash = head_hash rows,
          rep_headSequence = head_sequence rows, rep_valid = (errors = [])\<rparr>)"

definition assertIntegrity :: "host \<Rightarrow> Database \<Rightarrow> (StoreError, unit) result" where
  "assertIntegrity h db =
     (let report = verifyIntegrityInternal h db in ensure (rep_valid report) (StoreIntegrity report))"

subsection \<open>Opening\<close>

text \<open>
  The constructor creates the tables when they are missing (\<open>None\<close> is a file without them), inserts the
  genesis metadata when both are empty, and refuses a store that does not verify.
\<close>

definition initializeSchema :: "Database option \<Rightarrow> Database" where
  "initializeSchema file =
     (let db = (case file of None \<Rightarrow> \<lparr>db_rows = [], db_metadata = None\<rparr> | Some d \<Rightarrow> d)
      in if db_metadata db = None \<and> db_rows db = []
         then db\<lparr>db_metadata := Some \<lparr>md_schema_version = SCHEMA_VERSION, md_head_sequence = 0,
                                     md_head_hash = GENESIS_HASH\<rparr>\<rparr>
         else db)"

definition open_store :: "host \<Rightarrow> Database option \<Rightarrow> (StoreError, EventStore) result" where
  "open_store h file =
     (let db = initializeSchema file
      in and_then (assertIntegrity h db) (\<lambda>_.
           Inr \<lparr>store_db = db, store_closed = False, store_exclusive = False, store_failed = False,
                store_scope = None\<rparr>))"

definition assertOpen :: "EventStore \<Rightarrow> (StoreError, unit) result" where
  "assertOpen s =
     and_then (ensure (store_scope s \<noteq> Some False) ScopeEscaped) (\<lambda>_.
       ensure (\<not> store_closed s) StoreClosed)"

definition close_store :: "EventStore \<Rightarrow> EventStore" where
  "close_store s = s\<lparr>store_closed := True\<rparr>"

subsection \<open>Appending\<close>

definition find_by_event_id :: "Database \<Rightarrow> string \<Rightarrow> EventRow option" where
  "find_by_event_id db i = find (\<lambda>r. row_event_id r = i) (db_rows db)"

definition find_by_key :: "Database \<Rightarrow> string \<Rightarrow> EventRow option" where
  "find_by_key db k = find (\<lambda>r. row_idempotency_key r = Some k) (db_rows db)"

definition same_content :: "PreparedEvent \<Rightarrow> EventRow \<Rightarrow> bool" where
  "same_content p r \<longleftrightarrow>
     pe_type p = row_event_type r \<and> pe_aggregateId p = row_aggregate_id r
     \<and> pe_payloadJson p = row_payload_json r
     \<and> (\<not> pe_occurredAtWasSupplied p \<or> pe_occurredAt p = row_occurred_at r)"

definition resolveDuplicate :: "Database \<Rightarrow> PreparedEvent \<Rightarrow> (StoreError, EventRow option) result" where
  "resolveDuplicate db p =
     (let byEventId = Option.bind (pe_eventId p) (find_by_event_id db);
          byIdempotencyKey = Option.bind (pe_idempotencyKey p) (find_by_key db)
      in and_then (ensure (case (byEventId, byIdempotencyKey) of
                       (Some a, Some b) \<Rightarrow> row_sequence a = row_sequence b | _ \<Rightarrow> True)
                     (EventConflict EVENT_ID_IDEMPOTENCY_MISMATCH)) (\<lambda>_.
         case (if byEventId \<noteq> None then byEventId else byIdempotencyKey) of
           None \<Rightarrow> Inr None
         | Some existing \<Rightarrow>
             and_then (ensure (pe_eventId p = None \<or> pe_eventId p = Some (row_event_id existing))
                         (EventConflict IDEMPOTENCY_KEY_CONFLICT)) (\<lambda>_.
             and_then (ensure (pe_idempotencyKey p = None \<or> pe_idempotencyKey p = row_idempotency_key existing)
                         (EventConflict EVENT_ID_CONFLICT)) (\<lambda>_.
             and_then (ensure (same_content p existing)
                         (EventConflict (if byEventId = None then IDEMPOTENCY_KEY_CONFLICT else EVENT_ID_CONFLICT)))
               (\<lambda>_. Inr (Some existing))))))"

text \<open>The row of an event placed after the current head.\<close>

definition next_row :: "host \<Rightarrow> PreparedEvent \<Rightarrow> MetadataRow \<Rightarrow> string \<Rightarrow> EventRow" where
  "next_row h p m uuid =
     (let sequence = md_head_sequence m + 1;
          eventId = (case pe_eventId p of Some i \<Rightarrow> i | None \<Rightarrow> uuid);
          eventHash = computeEventHash h
            \<lparr>hf_aggregateId = pe_aggregateId p, hf_eventId = eventId, hf_idempotencyKey = pe_idempotencyKey p,
             hf_occurredAt = pe_occurredAt p, hf_payloadJson = pe_payloadJson p,
             hf_previousHash = md_head_hash m, hf_sequence = sequence, hf_type = pe_type p\<rparr>
      in \<lparr>row_sequence = sequence, row_event_id = eventId, row_idempotency_key = pe_idempotencyKey p,
          row_event_type = pe_type p, row_aggregate_id = pe_aggregateId p, row_payload_json = pe_payloadJson p,
          row_occurred_at = pe_occurredAt p, row_previous_hash = md_head_hash m, row_event_hash = eventHash\<rparr>)"

text \<open>The PRIMARY KEY, UNIQUE and CHECK constraints of \<open>rsi_events\<close>.\<close>

definition insertable :: "Database \<Rightarrow> EventRow \<Rightarrow> bool" where
  "insertable db r \<longleftrightarrow>
     list_all (\<lambda>q. row_sequence q \<noteq> row_sequence r \<and> row_event_id q \<noteq> row_event_id r
        \<and> (row_idempotency_key r = None \<or> row_idempotency_key q \<noteq> row_idempotency_key r)
        \<and> row_event_hash q \<noteq> row_event_hash r) (db_rows db)
     \<and> row_event_id r \<noteq> [] \<and> row_event_type r \<noteq> [] \<and> row_aggregate_id r \<noteq> []
     \<and> length (row_previous_hash r) = 64 \<and> length (row_event_hash r) = 64"

definition insert_row :: "Database \<Rightarrow> EventRow \<Rightarrow> Database" where
  "insert_row db r = db\<lparr>db_rows := db_rows db @ [r]\<rparr>"

text \<open>\<open>UPDATE \<dots> WHERE head_sequence = ? AND head_hash = ?\<close>: the new tables, and whether a row changed.\<close>

definition move_head :: "Database \<Rightarrow> MetadataRow \<Rightarrow> EventRow \<Rightarrow> Database \<times> bool" where
  "move_head db m r =
     (case db_metadata db of
       Some n \<Rightarrow>
         if md_head_sequence n = md_head_sequence m \<and> md_head_hash n = md_head_hash m
         then (db\<lparr>db_metadata := Some (n\<lparr>md_head_sequence := row_sequence r,
                 md_head_hash := row_event_hash r\<rparr>)\<rparr>, True)
         else (db, False)
     | None \<Rightarrow> (db, False))"

text \<open>The body of \<open>append\<close>: the tables as it leaves them, also where it throws, and its row.\<close>

definition append_row ::
  "host \<Rightarrow> Database \<Rightarrow> bool \<Rightarrow> PreparedEvent \<Rightarrow> string \<Rightarrow> Database \<times> (StoreError, EventRow) result" where
  "append_row h db ownsTransaction p uuid =
     (case and_then (if ownsTransaction then assertIntegrity h db else Inr ()) (\<lambda>_. resolveDuplicate db p) of
       Inl e \<Rightarrow> (db, Inl e)
     | Inr (Some existing) \<Rightarrow> (db, Inr existing)
     | Inr None \<Rightarrow>
         (case db_metadata db of
           None \<Rightarrow> (db, Inl (StoreIntegrity (verifyIntegrityInternal h db)))
         | Some m \<Rightarrow>
             (let r = next_row h p m uuid
              in if \<not> insertable db r then (db, Inl ConstraintFailed)
                 else (case move_head (insert_row db r) m r of
                         (db', changed) \<Rightarrow> if changed then (db', Inr r) else (db', Inl HeadChanged)))))"

text \<open>
  Outside an exclusive transaction \<open>append\<close> runs its own, rolled back on an error before its commit.
  Inside one, an error only marks the surrounding transaction as failed.
\<close>

definition append_event ::
  "host \<Rightarrow> EventStore \<Rightarrow> jsval \<Rightarrow> int \<Rightarrow> string \<Rightarrow> EventStore \<times> (StoreError, StoredEvent) result" where
  "append_event h s input now uuid =
     (case and_then (assertOpen s) (\<lambda>_. prepareEvent h input now) of
       Inl e \<Rightarrow> (s, Inl e)
     | Inr p \<Rightarrow>
         (let owns = \<not> store_exclusive s
          in case append_row h (store_db s) owns p uuid of
               (db', Inl e) \<Rightarrow>
                 (if owns then (s, Inl e) else (s\<lparr>store_db := db', store_failed := True\<rparr>, Inl e))
             | (db', Inr r) \<Rightarrow>
                 (case rowToEvent h r of
                    Inr ev \<Rightarrow> (s\<lparr>store_db := db'\<rparr>, Inr ev)
                  | Inl e \<Rightarrow> (s\<lparr>store_db := db', store_failed := (store_failed s \<or> \<not> owns)\<rparr>, Inl e))))"

subsection \<open>Exclusive transactions\<close>

text \<open>
  \<open>op\<close> is the callback: it acts on the store and on the world outside it, which no rollback undoes.
  \<open>lift\<close> embeds the store's errors in the errors of the caller.
\<close>

definition withExclusiveTransaction ::
  "host \<Rightarrow> (StoreError \<Rightarrow> 'x) \<Rightarrow> (EventStore \<Rightarrow> 'w \<Rightarrow> EventStore \<times> 'w \<times> ('x, 'a) result)
     \<Rightarrow> EventStore \<Rightarrow> 'w \<Rightarrow> EventStore \<times> 'w \<times> ('x, 'a) result" where
  "withExclusiveTransaction h lift op s w =
     (case assertOpen s of
       Inl e \<Rightarrow> (s, w, Inl (lift e))
     | Inr _ \<Rightarrow>
         if store_exclusive s then (s, w, Inl (lift NestedTransaction))
         else
           (case assertIntegrity h (store_db s) of
             Inl e \<Rightarrow> (s\<lparr>store_failed := False\<rparr>, w, Inl (lift e))
           | Inr _ \<Rightarrow>
               (case op (s\<lparr>store_exclusive := True, store_failed := False, store_scope := Some True\<rparr>) w of
                 (s', w', r) \<Rightarrow>
                   (let restored = s'\<lparr>store_exclusive := False, store_failed := False, store_scope := store_scope s\<rparr>;
                        rolled_back = restored\<lparr>store_db := store_db s\<rparr>
                    in case r of
                         Inl e \<Rightarrow> (rolled_back, w', Inl e)
                       | Inr x \<Rightarrow>
                           if store_failed s' then (rolled_back, w', Inl (lift FailedAppend))
                           else if store_closed s' then (rolled_back, w', Inl (lift StoreClosed))
                           else (restored, w', Inr x)))))"

subsection \<open>Reading\<close>

record EventListFilters =
  fl_type :: "jsval"
  fl_aggregateId :: "jsval"
  fl_afterSequence :: "jsval"
  fl_beforeSequence :: "jsval"
  fl_limit :: "jsval"
  fl_order :: "jsval"

definition bounded_filter :: "int \<Rightarrow> int \<Rightarrow> string \<Rightarrow> jsval \<Rightarrow> (StoreError, int option) result" where
  "bounded_filter lo hi field v =
     (case v of
       JUndefined \<Rightarrow> Inr None
     | JNum (NInt i) \<Rightarrow>
         if safe_int i \<and> lo \<le> i \<and> i \<le> hi then Inr (Some i) else Inl (InvalidEvent (BadFilter field))
     | _ \<Rightarrow> Inl (InvalidEvent (BadFilter field)))"

record ListQuery =
  q_type :: "string option"
  q_aggregateId :: "string option"
  q_after :: "int option"
  q_before :: "int option"
  q_limit :: "int option"
  q_desc :: bool

definition validateFilters :: "EventListFilters \<Rightarrow> (StoreError, ListQuery) result" where
  "validateFilters fl =
     and_then (optional_identifier (fl_type fl) ''type'') (\<lambda>ty.
     and_then (optional_identifier (fl_aggregateId fl) ''aggregateId'') (\<lambda>ag.
     and_then (bounded_filter 0 max_safe_integer ''afterSequence'' (fl_afterSequence fl)) (\<lambda>af.
     and_then (bounded_filter 0 max_safe_integer ''beforeSequence'' (fl_beforeSequence fl)) (\<lambda>be.
     and_then (bounded_filter 1 10000 ''limit'' (fl_limit fl)) (\<lambda>li.
     and_then (ensure (fl_order fl \<in> {JUndefined, JStr ''asc'', JStr ''desc''}) (InvalidEvent (BadFilter ''order'')))
       (\<lambda>_. Inr \<lparr>q_type = ty, q_aggregateId = ag, q_after = af, q_before = be, q_limit = li,
                 q_desc = (fl_order fl = JStr ''desc'')\<rparr>))))))"

definition row_matches :: "ListQuery \<Rightarrow> EventRow \<Rightarrow> bool" where
  "row_matches q r \<longleftrightarrow>
     (case q_type q of None \<Rightarrow> True | Some t \<Rightarrow> row_event_type r = t)
     \<and> (case q_aggregateId q of None \<Rightarrow> True | Some a \<Rightarrow> row_aggregate_id r = a)
     \<and> (case q_after q of None \<Rightarrow> True | Some n \<Rightarrow> row_sequence r > n)
     \<and> (case q_before q of None \<Rightarrow> True | Some n \<Rightarrow> row_sequence r < n)"

fun collect_events :: "host \<Rightarrow> EventRow list \<Rightarrow> (StoreError, StoredEvent list) result" where
  "collect_events h [] = Inr []"
| "collect_events h (r # rs) =
     and_then (rowToEvent h r) (\<lambda>e. and_then (collect_events h rs) (\<lambda>es. Inr (e # es)))"

definition select_rows :: "ListQuery \<Rightarrow> Database \<Rightarrow> EventRow list" where
  "select_rows q db =
     (let rows = filter (row_matches q) (by_sequence db);
          ordered = (if q_desc q then rev rows else rows)
      in case q_limit q of None \<Rightarrow> ordered | Some n \<Rightarrow> take (nat n) ordered)"

definition list_events :: "host \<Rightarrow> EventStore \<Rightarrow> EventListFilters \<Rightarrow> (StoreError, StoredEvent list) result" where
  "list_events h s fl =
     and_then (assertOpen s) (\<lambda>_.
     and_then (validateFilters fl) (\<lambda>q. collect_events h (select_rows q (store_db s))))"

definition getByEventId :: "host \<Rightarrow> EventStore \<Rightarrow> jsval \<Rightarrow> (StoreError, StoredEvent option) result" where
  "getByEventId h s v =
     and_then (assertOpen s) (\<lambda>_.
     and_then (validateIdentifier v ''eventId'') (\<lambda>i.
       case find_by_event_id (store_db s) i of
         None \<Rightarrow> Inr None | Some r \<Rightarrow> and_then (rowToEvent h r) (\<lambda>e. Inr (Some e))))"

definition getByIdempotencyKey :: "host \<Rightarrow> EventStore \<Rightarrow> jsval \<Rightarrow> (StoreError, StoredEvent option) result" where
  "getByIdempotencyKey h s v =
     and_then (assertOpen s) (\<lambda>_.
     and_then (validateIdentifier v ''idempotencyKey'') (\<lambda>k.
       case find_by_key (store_db s) k of
         None \<Rightarrow> Inr None | Some r \<Rightarrow> and_then (rowToEvent h r) (\<lambda>e. Inr (Some e))))"

definition verifyIntegrity :: "host \<Rightarrow> EventStore \<Rightarrow> (StoreError, IntegrityReport) result" where
  "verifyIntegrity h s = and_then (assertOpen s) (\<lambda>_. Inr (verifyIntegrityInternal h (store_db s)))"

subsection \<open>What a valid store is\<close>

definition row_ok :: "host \<Rightarrow> string \<Rightarrow> int \<Rightarrow> EventRow \<Rightarrow> bool" where
  "row_ok h prev n r \<longleftrightarrow>
     row_sequence r = n \<and> safe_int n \<and> row_previous_hash r = prev \<and> HASH_PATTERN prev
   \<and> HASH_PATTERN (row_event_hash r) \<and> computeEventHash h (row_fields r) = row_event_hash r
   \<and> (\<exists>v. json_parse h (row_payload_json r) = Some v \<and> canonicalJson h v = Inr (row_payload_json r))
   \<and> normalizeOccurredAt h (JStr (row_occurred_at r)) = Inr (row_occurred_at r)"

fun chain :: "host \<Rightarrow> string \<Rightarrow> int \<Rightarrow> EventRow list \<Rightarrow> bool" where
  "chain h prev n [] = True"
| "chain h prev n (r # rs) = (row_ok h prev n r \<and> chain h (row_event_hash r) (n + 1) rs)"

definition valid_db :: "host \<Rightarrow> Database \<Rightarrow> bool" where
  "valid_db h db \<longleftrightarrow>
     chain h GENESIS_HASH 1 (by_sequence db)
   \<and> (\<exists>m. db_metadata db = Some m \<and> md_schema_version m = SCHEMA_VERSION
         \<and> md_head_sequence m = head_sequence (by_sequence db)
         \<and> md_head_hash m = head_hash (by_sequence db))"

lemma issue_if_Nil [simp]: "issue_if b c = [] \<longleftrightarrow> \<not> b"
  by (simp add: issue_if_def)

lemma payload_issue_Nil:
  "payload_issue h s = [] \<longleftrightarrow> (\<exists>v. json_parse h s = Some v \<and> canonicalJson h v = Inr s)"
  by (auto simp: payload_issue_def split: option.splits sum.splits if_splits)

lemma time_issue_Nil: "time_issue h s = [] \<longleftrightarrow> normalizeOccurredAt h (JStr s) = Inr s"
  by (auto simp: time_issue_def split: sum.splits if_splits)

lemma row_issues_Nil: "row_issues h prev n r = [] \<longleftrightarrow> row_ok h prev n r"
  by (auto simp: row_issues_def Let_def row_ok_def payload_issue_Nil time_issue_Nil)

lemma chain_issues_Nil: "chain_issues h prev n rs = [] \<longleftrightarrow> chain h prev n rs"
  by (induction rs arbitrary: prev n) (simp_all add: row_issues_Nil)

lemma verify_valid_iff: "rep_valid (verifyIntegrityInternal h db) \<longleftrightarrow> valid_db h db"
  by (auto simp: verifyIntegrityInternal_def Let_def valid_db_def chain_issues_Nil split: option.splits)

lemma assertIntegrity_ok [simp]: "assertIntegrity h db = Inr u \<longleftrightarrow> valid_db h db"
  by (simp add: assertIntegrity_def Let_def verify_valid_iff)

lemma assertIntegrity_valid: "valid_db h db \<Longrightarrow> assertIntegrity h db = Inr ()"
  by simp

lemma chain_append:
  "chain h prev n (rs @ [r]) \<longleftrightarrow>
     chain h prev n rs \<and> row_ok h (if rs = [] then prev else row_event_hash (last rs)) (n + int (length rs)) r"
  by (induction rs arbitrary: prev n) (auto simp: algebra_simps)

lemma chain_nth: "chain h prev n rs \<Longrightarrow> i < length rs \<Longrightarrow> row_sequence (rs ! i) = n + int i"
proof (induction rs arbitrary: prev n i)
  case (Cons r rs)
  then show ?case by (cases i) (auto simp: row_ok_def)
qed simp

lemma head_hash_if: "head_hash rs = (if rs = [] then GENESIS_HASH else row_event_hash (last rs))"
  by (simp add: head_hash_def)

lemma head_sequence_chain: "chain h prev 1 rs \<Longrightarrow> head_sequence rs = int (length rs)"
  using chain_nth [of h prev 1 rs "length rs - 1"]
  by (cases rs rule: rev_cases) (simp_all add: head_sequence_def nth_append)

lemma chain_sequence_le: "chain h prev 1 rs \<Longrightarrow> r \<in> set rs \<Longrightarrow> 1 \<le> row_sequence r \<and> row_sequence r \<le> int (length rs)"
  by (auto simp: in_set_conv_nth chain_nth)

lemma set_by_sequence [simp]: "set (by_sequence db) = set (db_rows db)"
  by (simp add: by_sequence_def)

lemma length_by_sequence [simp]: "length (by_sequence db) = length (db_rows db)"
  by (simp add: by_sequence_def)

lemma by_sequence_insert:
  assumes "valid_db h db" "row_sequence r = int (length (db_rows db)) + 1"
  shows "by_sequence (insert_row db r) = by_sequence db @ [r]"
proof -
  have "\<forall>q \<in> set (db_rows db). row_sequence q \<le> row_sequence r"
    using chain_sequence_le [of h GENESIS_HASH "by_sequence db"] assms by (force simp: valid_db_def)
  then show ?thesis by (simp add: by_sequence_def insert_row_def sort_key_last)
qed

lemma genesis_pattern: "HASH_PATTERN GENESIS_HASH"
proof -
  have "is_lower_hex CHR ''0''" by (simp add: is_lower_hex_def is_digit_def in_range_def) (simp add: code_def)
  then show ?thesis unfolding HASH_PATTERN_def GENESIS_HASH_def list_all_iff set_replicate_conv_if length_replicate
    by simp
qed

lemma head_hash_pattern:
  assumes "chain h GENESIS_HASH 1 rs"
  shows "HASH_PATTERN (head_hash rs)"
proof (cases rs rule: rev_cases)
  case (snoc qs q)
  then show ?thesis using assms by (simp add: chain_append row_ok_def head_hash_def)
qed (simp add: head_hash_def genesis_pattern)

lemma hash_text_total: "\<exists>s. canonicalJson h (hash_input f) = Inr s"
proof -
  have leaf: "serialize h (Suc 0) (JStr s) = Inr (quote s)" "serialize h (Suc 0) (jint i) = Inr (num_str h (NInt i))"
      "serialize h (Suc 0) JNull = Inr ''null''" for s i
    by (simp_all add: serialize.simps MAX_CANONICAL_DEPTH_def)
  have fields: "\<exists>ps. serialize_fields h (Suc 0) fs = Inr ps" if "\<forall>(k, v) \<in> set fs. \<exists>s. serialize h (Suc 0) v = Inr s"
    for fs using that by (induction fs) auto
  have "\<forall>(k, v) \<in> set (sort_key field_order (case hash_input f of JObj fs \<Rightarrow> fs | _ \<Rightarrow> [])). \<exists>s. serialize h (Suc 0) v = Inr s"
    unfolding set_sort by (auto simp: hash_input_def leaf split: option.splits)
  from fields [OF this] obtain ps where
    "serialize_fields h (Suc 0) (sort_key field_order (case hash_input f of JObj fs \<Rightarrow> fs | _ \<Rightarrow> [])) = Inr ps" ..
  moreover obtain fs where "hash_input f = JObj fs" by (simp add: hash_input_def)
  ultimately show ?thesis by (simp add: canonicalJson_def serialize.simps [of h 0])
qed

lemma hash_text_inject:
  assumes "hash_text h f = hash_text h g" "safe_int (hf_sequence f)" "safe_int (hf_sequence g)"
  shows "f = g"
proof -
  have fs: "\<exists>fs. hash_input e = JObj fs \<and> distinct (map fst fs) \<and> (\<forall>(k, v) \<in> set fs. sort_deep v = v)" for e
    by (auto simp: hash_input_def split: option.splits)
  have wf: "wf_json h (hash_input e)" if "safe_int (hf_sequence e)" for e
    using that by (auto simp: hash_input_def SCHEMA_VERSION_def safe_int_def max_safe_integer_def split: option.splits)
  obtain s t where "canonicalJson h (hash_input f) = Inr s" "canonicalJson h (hash_input g) = Inr t"
    using hash_text_total by metis
  moreover then have "s = t" using assms(1) by (simp add: hash_text_def)
  ultimately have "sort_deep (hash_input f) = sort_deep (hash_input g)"
    using canonicalJson_inj wf assms(2,3) by blast
  moreover have "property_of (case hash_input e of JObj fs \<Rightarrow> fs | _ \<Rightarrow> []) k
      = property_of (case sort_deep (hash_input e) of JObj fs \<Rightarrow> fs | _ \<Rightarrow> []) k" for e k
  proof -
    obtain fs where e: "hash_input e = JObj fs" "distinct (map fst fs)" "\<forall>(k, v) \<in> set fs. sort_deep v = v"
      using fs by blast
    then have "map (\<lambda>(k, v). (k, sort_deep v)) fs = fs" by (intro map_idI) auto
    then have "sort_deep (hash_input e) = JObj (sort_key field_order fs)" using e by simp
    moreover have "map_of (sort_key field_order fs) = map_of fs" using e(2) by (intro map_of_same_set) simp_all
    ultimately show ?thesis using e(1) by (simp add: property_of_def)
  qed
  ultimately have same: "property_of (case hash_input f of JObj fs \<Rightarrow> fs | _ \<Rightarrow> []) k
      = property_of (case hash_input g of JObj fs \<Rightarrow> fs | _ \<Rightarrow> []) k" for k by metis
  have "hf_aggregateId f = hf_aggregateId g" "hf_eventId f = hf_eventId g" "hf_occurredAt f = hf_occurredAt g"
    "hf_payloadJson f = hf_payloadJson g" "hf_previousHash f = hf_previousHash g"
    "hf_sequence f = hf_sequence g" "hf_type f = hf_type g"
    using same [of "''aggregateId''"] same [of "''eventId''"] same [of "''occurredAt''"]
      same [of "''payloadJson''"] same [of "''previousHash''"] same [of "''sequence''"] same [of "''type''"]
    by (simp_all add: hash_input_def property_of_def)
  moreover have "hf_idempotencyKey f = hf_idempotencyKey g"
    using same [of "''idempotencyKey''"] by (auto simp: hash_input_def property_of_def split: option.splits)
  ultimately show ?thesis by (intro HashFields.equality) simp_all
qed

subsection \<open>A valid chain is pinned down by its head\<close>

definition hashed :: "host \<Rightarrow> EventRow list \<Rightarrow> string set" where
  "hashed h rs = (\<lambda>r. hash_text h (row_fields r)) ` set rs"

lemma row_determined:
  assumes "row_fields q = row_fields r" "row_event_hash q = row_event_hash r"
  shows "q = r"
  using assms by (simp add: row_fields_def)

lemma chain_pinned:
  assumes "chain h GENESIS_HASH 1 qs" "chain h GENESIS_HASH 1 rs" "length qs = length rs"
    "head_hash qs = head_hash rs" "inj_on (sha256_hex h) (hashed h qs \<union> hashed h rs)"
  shows "qs = rs"
  using assms
proof (induction qs arbitrary: rs rule: rev_induct)
  case (snoc q qs)
  from snoc.prems(3) obtain r ss where rs: "rs = ss @ [r]" by (cases rs rule: rev_cases) auto
  have len: "length qs = length ss" using snoc.prems(3) rs by simp
  have q: "chain h GENESIS_HASH 1 qs" "row_ok h (head_hash qs) (1 + int (length qs)) q"
    and r: "chain h GENESIS_HASH 1 ss" "row_ok h (head_hash ss) (1 + int (length ss)) r"
    using snoc.prems(1,2) unfolding rs chain_append head_hash_if [symmetric] by auto
  have hash: "row_event_hash q = row_event_hash r" using snoc.prems(4) rs by (simp add: head_hash_def)
  have "sha256_hex h (hash_text h (row_fields q)) = sha256_hex h (hash_text h (row_fields r))"
    using q(2) r(2) hash by (simp add: row_ok_def computeEventHash_def)
  then have "hash_text h (row_fields q) = hash_text h (row_fields r)"
    by (rule inj_onD [OF snoc.prems(5)]) (simp_all add: hashed_def rs)
  moreover have "safe_int (hf_sequence (row_fields q))" "safe_int (hf_sequence (row_fields r))"
    using q(2) r(2) by (auto simp: row_ok_def row_fields_def)
  ultimately have fields: "row_fields q = row_fields r" using hash_text_inject by blast
  then have "row_previous_hash q = row_previous_hash r" by (simp add: row_fields_def)
  then have "head_hash qs = head_hash ss" using q(2) r(2) by (simp add: row_ok_def)
  then have "qs = ss"
    using snoc.IH [OF q(1) r(1) len] inj_on_subset [OF snoc.prems(5)] by (auto simp: hashed_def rs)
  then show ?case using row_determined [OF fields hash] rs by simp
qed simp

subsection \<open>What append does\<close>

lemma move_head_inserted [simp]:
  "db_metadata db = Some m \<Longrightarrow> move_head (insert_row db r) m r =
     (\<lparr>db_rows = db_rows db @ [r],
       db_metadata = Some (m\<lparr>md_head_sequence := row_sequence r, md_head_hash := row_event_hash r\<rparr>)\<rparr>, True)"
  by (simp add: move_head_def insert_row_def)

lemma append_row_cases:
  obtains (failed) e where "append_row h db owns p uuid = (db, Inl e)"
  | (duplicate) r where "append_row h db owns p uuid = (db, Inr r)" "resolveDuplicate db p = Inr (Some r)"
  | (appended) m r where "db_metadata db = Some m" "r = next_row h p m uuid" "insertable db r"
      "resolveDuplicate db p = Inr None"
      "append_row h db owns p uuid =
         (\<lparr>db_rows = db_rows db @ [r],
           db_metadata = Some (m\<lparr>md_head_sequence := row_sequence r, md_head_hash := row_event_hash r\<rparr>)\<rparr>, Inr r)"
proof (cases "and_then (if owns then assertIntegrity h db else Inr ()) (\<lambda>_. resolveDuplicate db p)")
  case (Inl e)
  then show thesis by (intro failed) (simp add: append_row_def)
next
  case (Inr q)
  then have dup: "resolveDuplicate db p = Inr q" by auto
  show thesis
  proof (cases q)
    case (Some r)
    then show thesis using Inr dup by (intro duplicate) (simp_all add: append_row_def)
  next
    case None
    show thesis
    proof (cases "db_metadata db")
      case None
      then show thesis using Inr \<open>q = None\<close> by (intro failed) (simp add: append_row_def)
    next
      case (Some m)
      show thesis
      proof (cases "insertable db (next_row h p m uuid)")
        case True
        then show thesis using Inr dup Some \<open>q = None\<close> appended [OF Some refl True]
          by (simp add: append_row_def Let_def)
      next
        case False
        then show thesis using Inr Some \<open>q = None\<close> by (intro failed) (simp add: append_row_def Let_def)
      qed
    qed
  qed
qed

text \<open>What preparation guarantees: a canonical payload and a canonical time.\<close>

definition prepared_ok :: "host \<Rightarrow> PreparedEvent \<Rightarrow> bool" where
  "prepared_ok h p \<longleftrightarrow>
     (\<exists>v. json_parse h (pe_payloadJson p) = Some v \<and> canonicalJson h v = Inr (pe_payloadJson p))
   \<and> canonical_time h (pe_occurredAt p)"

lemma normalize_canonical:
  "normalizeOccurredAt h v = Inr s \<Longrightarrow> canonical_time h s"
  by (auto simp: normalizeOccurredAt_def canonical_time_iff dest: date_parse_valid split: jsval.splits)

lemma to_iso_not_blank: "valid_time t \<Longrightarrow> \<not> blank (to_iso t)"
proof -
  obtain c s where c: "year_text (year_from_day (t div ms_per_day)) = c # s" "code c < 128"
      "code c \<notin> {9, 10, 11, 12, 13, 32}"
  proof -
    let ?y = "year_from_day (t div ms_per_day)"
    have d: "code (digit_char (n mod 10)) < 128 \<and> code (digit_char (n mod 10)) \<notin> {9, 10, 11, 12, 13, 32}" for n
      by (simp add: digit_char_props)
    show thesis
      by (rule that [of "hd (year_text ?y)" "tl (year_text ?y)"])
        (use d in \<open>auto simp: year_text_def digits4_def digits3_def digits2_def digits6_def code_def\<close>)
  qed
  then have "to_iso t = c # tl (to_iso t)" by (simp add: to_iso_def Let_def)
  then show ?thesis using blank_ascii [OF c(3,2)] by metis
qed

lemma normalize_of_canonical: "canonical_time h s \<Longrightarrow> normalizeOccurredAt h (JStr s) = Inr s"
  by (erule canonical_timeE) (simp add: normalizeOccurredAt_def to_iso_not_blank)

lemma prepareEvent_ok:
  assumes "prepareEvent h input now = Inr p" "wf_json h input"
  shows "prepared_ok h p"
proof -
  from assms(1) obtain fs where fs: "input = JObj fs" by (auto simp: prepareEvent_def split: jsval.splits)
  from assms(1) obtain instant where
      p: "canonicalJson h (property_of fs ''payload'') = Inr (pe_payloadJson p)"
      "normalizeOccurredAt h instant = Inr (pe_occurredAt p)"
    by (auto simp: fs prepareEvent_def Let_def split: sum.splits)
  have "wf_json h (property_of fs ''payload'')"
    using assms(2) by (auto simp: fs property_of_def split: option.splits dest: map_of_SomeD)
  then show ?thesis using canonical_reserialize [OF p(1)] normalize_canonical [OF p(2)]
    by (auto simp: prepared_ok_def)
qed

lemma row_fields_next_row:
  "computeEventHash h (row_fields (next_row h p m uuid)) = row_event_hash (next_row h p m uuid)"
  by (simp add: next_row_def Let_def row_fields_def)

lemma next_row_simps [simp]:
  "row_sequence (next_row h p m uuid) = md_head_sequence m + 1"
  "row_previous_hash (next_row h p m uuid) = md_head_hash m"
  "row_payload_json (next_row h p m uuid) = pe_payloadJson p"
  "row_occurred_at (next_row h p m uuid) = pe_occurredAt p"
  "row_idempotency_key (next_row h p m uuid) = pe_idempotencyKey p"
  "row_event_type (next_row h p m uuid) = pe_type p"
  "row_aggregate_id (next_row h p m uuid) = pe_aggregateId p"
  "row_event_id (next_row h p m uuid) = (case pe_eventId p of Some i \<Rightarrow> i | None \<Rightarrow> uuid)"
  by (simp_all add: next_row_def Let_def)

definition has_room :: "Database \<Rightarrow> bool" where
  "has_room db \<longleftrightarrow> int (length (db_rows db)) < max_safe_integer"

lemma append_row_valid:
  assumes "valid_db h db" "hex_digests (sha256_hex h)" "prepared_ok h p" "has_room db"
  shows "valid_db h (fst (append_row h db owns p uuid))
    \<and> prefix (by_sequence db) (by_sequence (fst (append_row h db owns p uuid)))"
proof (cases rule: append_row_cases [of h db owns p uuid])
  case (appended m r)
  let ?db = "\<lparr>db_rows = db_rows db @ [r],
      db_metadata = Some (m\<lparr>md_head_sequence := row_sequence r, md_head_hash := row_event_hash r\<rparr>)\<rparr>"
  note chain = assms(1) [unfolded valid_db_def]
  have m: "md_schema_version m = SCHEMA_VERSION" "md_head_sequence m = int (length (db_rows db))"
      "md_head_hash m = head_hash (by_sequence db)"
    using chain appended(1) head_sequence_chain [of h GENESIS_HASH "by_sequence db"] by auto
  have seq: "row_sequence r = int (length (db_rows db)) + 1" using m appended(2) by simp
  have rows: "by_sequence ?db = by_sequence db @ [r]"
    using by_sequence_insert [OF assms(1) seq] by (simp add: by_sequence_def insert_row_def)
  have "HASH_PATTERN (row_event_hash r)"
    using assms(2) appended(2)
    by (simp add: next_row_def Let_def computeEventHash_def hex_digests_def HASH_PATTERN_def)
  moreover have "HASH_PATTERN (head_hash (by_sequence db))" using head_hash_pattern chain by blast
  moreover have "safe_int (row_sequence r)"
    using assms(4) seq by (simp add: safe_int_def has_room_def max_safe_integer_def)
  moreover have "computeEventHash h (row_fields r) = row_event_hash r"
    unfolding appended(2) by (rule row_fields_next_row)
  ultimately have "row_ok h (head_hash (by_sequence db)) (1 + int (length (db_rows db))) r"
    using assms(3) m(3) seq appended(2)
    by (simp add: row_ok_def prepared_ok_def normalize_of_canonical add.commute)
  then have "chain h GENESIS_HASH 1 (by_sequence ?db)"
    using chain unfolding rows chain_append head_hash_if [symmetric] by simp
  then have "valid_db h ?db"
    unfolding valid_db_def by (simp add: rows head_sequence_def head_hash_def m(1))
  then show ?thesis using appended(5) rows by simp
qed (use assms(1) in simp_all)

text \<open>A store outside a transaction.\<close>

definition idle :: "EventStore \<Rightarrow> bool" where
  "idle s \<longleftrightarrow> \<not> store_closed s \<and> \<not> store_exclusive s \<and> store_scope s \<noteq> Some False"

lemma assertOpen_idle: "idle s \<Longrightarrow> assertOpen s = Inr ()"
  by (simp add: assertOpen_def idle_def)

lemma append_event_valid:
  assumes "valid_db h (store_db s)" "hex_digests (sha256_hex h)" "wf_json h input" "has_room (store_db s)"
  shows "valid_db h (store_db (fst (append_event h s input now uuid)))
    \<and> prefix (by_sequence (store_db s)) (by_sequence (store_db (fst (append_event h s input now uuid))))"
proof (cases "and_then (assertOpen s) (\<lambda>_. prepareEvent h input now)")
  case (Inl e)
  then show ?thesis using assms(1) by (simp add: append_event_def)
next
  case (Inr p)
  then have "prepared_ok h p" using prepareEvent_ok assms(3) by auto
  note step = append_row_valid [OF assms(1,2) this assms(4), of "\<not> store_exclusive s" uuid]
  then show ?thesis using Inr assms(1)
    by (auto simp: append_event_def Let_def split: prod.splits sum.splits)
qed

lemma append_event_error_idle:
  assumes "idle s" "append_event h s input now uuid = (s', Inl e)" "e \<noteq> PayloadUnreadable"
  shows "s' = s"
  using assms
  by (auto simp: append_event_def Let_def idle_def rowToEvent_def or_fail_def split: prod.splits sum.splits option.splits)

text \<open>The payload of a valid store always reads, so an append never fails after its commit.\<close>

lemma rowToEvent_total: "row_ok h prev n r \<Longrightarrow> \<exists>e. rowToEvent h r = Inr e"
  by (auto simp: row_ok_def rowToEvent_def)

lemma chain_member_ok: "chain h prev n rs \<Longrightarrow> r \<in> set rs \<Longrightarrow> \<exists>prev' n'. row_ok h prev' n' r"
  by (induction rs arbitrary: prev n) auto

lemma rowToEvent_valid: "valid_db h db \<Longrightarrow> r \<in> set (db_rows db) \<Longrightarrow> \<exists>e. rowToEvent h r = Inr e"
  using chain_member_ok [of h GENESIS_HASH 1 "by_sequence db" r] rowToEvent_total
  by (auto simp: valid_db_def)

lemma find_members:
  "find_by_event_id db i = Some r \<Longrightarrow> r \<in> set (db_rows db) \<and> row_event_id r = i"
  "find_by_key db k = Some r \<Longrightarrow> r \<in> set (db_rows db) \<and> row_idempotency_key r = Some k"
  by (auto simp: find_by_event_id_def find_by_key_def find_Some_iff)

lemma resolveDuplicate_Some:
  assumes "resolveDuplicate db p = Inr (Some r)"
  shows "r \<in> set (db_rows db) \<and> same_content p r
    \<and> (pe_eventId p = None \<or> pe_eventId p = Some (row_event_id r))
    \<and> (pe_idempotencyKey p = None \<or> pe_idempotencyKey p = row_idempotency_key r)"
proof -
  define a b where "a = Option.bind (pe_eventId p) (find_by_event_id db)"
    and "b = Option.bind (pe_idempotencyKey p) (find_by_key db)"
  define c where "c = (if a \<noteq> None then a else b)"
  have "c = Some r" and props: "pe_eventId p = None \<or> pe_eventId p = Some (row_event_id r)"
      "pe_idempotencyKey p = None \<or> pe_idempotencyKey p = row_idempotency_key r" "same_content p r"
    using assms unfolding resolveDuplicate_def Let_def a_def [symmetric] b_def [symmetric] c_def [symmetric]
    by (auto split: option.splits)
  then have "a = Some r \<or> b = Some r" by (auto simp: c_def split: if_splits)
  then have "r \<in> set (db_rows db)"
    using find_members by (auto simp: a_def b_def)
  then show ?thesis using props by blast
qed

lemma input_errors:
  "validateIdentifier v f = Inl e \<Longrightarrow> \<exists>w. e = InvalidEvent w"
  "optional_identifier v f = Inl e \<Longrightarrow> \<exists>w. e = InvalidEvent w"
  "normalizeOccurredAt h v = Inl e \<Longrightarrow> \<exists>w. e = InvalidEvent w"
proof -
  show id: "validateIdentifier v f = Inl e \<Longrightarrow> \<exists>w. e = InvalidEvent w" for v
    by (cases v) (auto simp: validateIdentifier_def and_then_eq_Inl)
  show "optional_identifier v f = Inl e \<Longrightarrow> \<exists>w. e = InvalidEvent w"
    by (auto simp: optional_identifier_def and_then_eq_Inl split: if_splits dest: id)
  show "normalizeOccurredAt h v = Inl e \<Longrightarrow> \<exists>w. e = InvalidEvent w"
    by (cases v) (auto simp: normalizeOccurredAt_def and_then_eq_Inl)
qed

lemma prepareEvent_error: "prepareEvent h input now = Inl e \<Longrightarrow> \<exists>w. e = InvalidEvent w"
proof (cases input)
  case (JObj fs)
  assume "prepareEvent h input now = Inl e"
  then show ?thesis unfolding JObj prepareEvent_def jsval.case Let_def and_then_eq_Inl
    by (elim disjE exE conjE) (auto dest: input_errors split: sum.splits)
qed (simp_all add: prepareEvent_def, auto)

lemma append_event_total_read:
  assumes "valid_db h (store_db s)" "hex_digests (sha256_hex h)" "wf_json h input" "has_room (store_db s)"
  shows "snd (append_event h s input now uuid) \<noteq> Inl PayloadUnreadable"
proof (cases "and_then (assertOpen s) (\<lambda>_. prepareEvent h input now)")
  case (Inl e)
  then have "e \<noteq> PayloadUnreadable"
    by (auto simp: and_then_eq_Inl assertOpen_def dest: prepareEvent_error)
  then show ?thesis using Inl by (simp add: append_event_def)
next
  case (Inr p)
  then have ok: "prepared_ok h p" using prepareEvent_ok assms(3) by auto
  obtain db' r where row: "append_row h (store_db s) (\<not> store_exclusive s) p uuid = (db', r)" by fastforce
  note step = append_row_valid [OF assms(1,2) ok assms(4), of "\<not> store_exclusive s" uuid, unfolded row fst_conv]
  show ?thesis
  proof (cases r)
    case (Inl e)
    have "e \<noteq> PayloadUnreadable" using row unfolding Inl
      by (auto simp: append_row_def and_then_eq_Inl assertIntegrity_def resolveDuplicate_def Let_def ensure_def
          split: if_splits option.splits sum.splits prod.splits)
    then show ?thesis using Inl Inr row by (simp add: append_event_def Let_def)
  next
    case (Inr q)
    have "q \<in> set (db_rows db')"
      by (cases rule: append_row_cases [of h "store_db s" "\<not> store_exclusive s" p uuid])
        (use row Inr resolveDuplicate_Some in auto)
    then obtain e where "rowToEvent h q = Inr e" using rowToEvent_valid step by blast
    then show ?thesis using Inr \<open>and_then _ _ = Inr p\<close> row by (simp add: append_event_def Let_def)
  qed
qed

subsection \<open>Repeating an append\<close>

lemma find_rows_snoc:
  "find P (rs @ [r]) = (case find P rs of Some q \<Rightarrow> Some q | None \<Rightarrow> if P r then Some r else None)"
  by (induction rs) auto

lemma insertable_new:
  assumes "insertable db r"
  shows "find_by_event_id \<lparr>db_rows = db_rows db @ [r], db_metadata = m\<rparr> (row_event_id r) = Some r"
    "row_idempotency_key r = Some k \<Longrightarrow>
       find_by_key \<lparr>db_rows = db_rows db @ [r], db_metadata = m\<rparr> k = Some r"
proof -
  have "find (\<lambda>q. row_event_id q = row_event_id r) (db_rows db) = None"
    using assms by (auto simp: insertable_def find_None_iff list_all_iff)
  then show "find_by_event_id \<lparr>db_rows = db_rows db @ [r], db_metadata = m\<rparr> (row_event_id r) = Some r"
    by (simp add: find_by_event_id_def find_rows_snoc)
  assume k: "row_idempotency_key r = Some k"
  then have "find (\<lambda>q. row_idempotency_key q = Some k) (db_rows db) = None"
    using assms by (auto simp: insertable_def find_None_iff list_all_iff)
  then show "find_by_key \<lparr>db_rows = db_rows db @ [r], db_metadata = m\<rparr> k = Some r"
    using k by (simp add: find_by_key_def find_rows_snoc)
qed

text \<open>The same request prepared at another time.\<close>

definition retry_of :: "PreparedEvent \<Rightarrow> PreparedEvent \<Rightarrow> bool" where
  "retry_of p q \<longleftrightarrow> q = p \<or> (\<not> pe_occurredAtWasSupplied p \<and> (\<exists>t. q = p\<lparr>pe_occurredAt := t\<rparr>))"

lemma retry_simps:
  assumes "retry_of p q"
  shows "pe_eventId q = pe_eventId p" "pe_idempotencyKey q = pe_idempotencyKey p"
    "same_content q r \<longleftrightarrow> same_content p r"
  using assms by (auto simp: retry_of_def same_content_def)

lemma retry_duplicate: "retry_of p q \<Longrightarrow> resolveDuplicate db q = resolveDuplicate db p"
  unfolding resolveDuplicate_def by (simp only: retry_simps)

lemma normalize_now: "valid_time t \<Longrightarrow> normalizeOccurredAt h (JStr (to_iso t)) = Inr (to_iso t)"
  by (rule normalize_of_canonical) (auto simp: canonical_time_iff)

lemma prepare_again:
  assumes "prepareEvent h (JObj fs) now = Inr p" "property_of fs ''occurredAt'' \<noteq> JNull" "valid_time now'"
  shows "\<exists>q. prepareEvent h (JObj fs) now' = Inr q \<and> retry_of p q"
proof (cases "property_of fs ''occurredAt'' = JUndefined")
  case True
  then have "prepareEvent h (JObj fs) now' = Inr (p\<lparr>pe_occurredAt := to_iso now'\<rparr>)"
      "\<not> pe_occurredAtWasSupplied p"
    using assms(1) normalize_now [OF assms(3)] unfolding prepareEvent_def jsval.case Let_def and_then_eq_Inr
    by auto
  then show ?thesis by (auto simp: retry_of_def)
next
  case False
  then have "prepareEvent h (JObj fs) now' = prepareEvent h (JObj fs) now"
    using assms(2) by (simp add: prepareEvent_def Let_def)
  then show ?thesis using assms(1) by (auto simp: retry_of_def)
qed

lemma resolve_own_row:
  assumes "insertable db (next_row h p m uuid)" "retry_of p q" "pe_eventId p \<noteq> None \<or> pe_idempotencyKey p \<noteq> None"
  shows "resolveDuplicate \<lparr>db_rows = db_rows db @ [next_row h p m uuid], db_metadata = md\<rparr> q
    = Inr (Some (next_row h p m uuid))"
proof -
  let ?r = "next_row h p m uuid" and ?db = "\<lparr>db_rows = db_rows db @ [next_row h p m uuid], db_metadata = md\<rparr>"
  have same: "same_content p ?r" by (simp add: same_content_def)
  have id: "pe_eventId p = Some i \<Longrightarrow> find_by_event_id ?db i = Some ?r" for i
    using insertable_new(1) [OF assms(1), of md] by simp
  have key: "pe_idempotencyKey p = Some k \<Longrightarrow> find_by_key ?db k = Some ?r" for k
    using insertable_new(2) [OF assms(1), of k md] by simp
  show ?thesis using assms(3) unfolding retry_duplicate [OF assms(2)]
    by (cases "pe_eventId p"; cases "pe_idempotencyKey p")
      (simp_all add: resolveDuplicate_def Let_def id key same ensure_def)
qed

lemma append_event_Inr:
  assumes "idle s" "append_event h s input now uuid = (s', Inr ev)"
  obtains p r db' where "prepareEvent h input now = Inr p" "valid_db h (store_db s)"
    "append_row h (store_db s) True p uuid = (db', Inr r)" "rowToEvent h r = Inr ev" "s' = s\<lparr>store_db := db'\<rparr>"
proof -
  obtain p where p: "prepareEvent h input now = Inr p"
    using assms by (cases "prepareEvent h input now") (auto simp: append_event_def assertOpen_idle)
  obtain db' res where row: "append_row h (store_db s) True p uuid = (db', res)" by fastforce
  obtain r where r: "res = Inr r"
    using assms p row by (cases res) (auto simp: append_event_def assertOpen_idle idle_def Let_def)
  have "rowToEvent h r = Inr ev" "s' = s\<lparr>store_db := db'\<rparr>"
    using assms p row r by (auto simp: append_event_def assertOpen_idle idle_def Let_def split: sum.splits)
  moreover have "valid_db h (store_db s)"
    using row r by (auto simp: append_row_def and_then_eq_Inl split: sum.splits option.splits)
  ultimately show thesis using that p row r by blast
qed

lemma append_event_retry:
  assumes s: "idle s" "hex_digests (sha256_hex h)" "wf_json h (JObj fs)" "has_room (store_db s)"
    and first: "append_event h s (JObj fs) now uuid = (s', Inr ev)"
    and named: "property_of fs ''eventId'' \<noteq> JUndefined \<or> property_of fs ''idempotencyKey'' \<noteq> JUndefined"
    and time: "property_of fs ''occurredAt'' \<noteq> JNull" "valid_time now'"
  shows "append_event h s' (JObj fs) now' uuid' = (s', Inr ev)"
proof -
  obtain p r db' where p: "prepareEvent h (JObj fs) now = Inr p" and db: "valid_db h (store_db s)"
      and row: "append_row h (store_db s) True p uuid = (db', Inr r)" and ev: "rowToEvent h r = Inr ev"
      and s': "s' = s\<lparr>store_db := db'\<rparr>"
    by (rule append_event_Inr [OF s(1) first])
  obtain q where q: "prepareEvent h (JObj fs) now' = Inr q" "retry_of p q"
    using prepare_again [OF p time] by blast
  have named': "pe_eventId p \<noteq> None \<or> pe_idempotencyKey p \<noteq> None"
    using p named unfolding prepareEvent_def jsval.case Let_def and_then_eq_Inr
    by (auto simp: optional_identifier_def)
  have db': "valid_db h db'"
    using append_row_valid [OF db s(2) prepareEvent_ok [OF p s(3)] s(4), of True uuid] row by simp
  have dup: "resolveDuplicate db' q = Inr (Some r)"
  proof (cases rule: append_row_cases [of h "store_db s" True p uuid])
    case (duplicate r')
    then show ?thesis using row retry_duplicate [OF q(2)] by simp
  next
    case (appended m r')
    then show ?thesis using row resolve_own_row [OF _ q(2) named', of "store_db s" h m uuid] by auto
  qed (use row in simp)
  have "append_row h db' True q uuid' = (db', Inr r)"
    by (simp add: append_row_def assertIntegrity_valid [OF db'] dup)
  moreover have "idle s'" using s(1) s' by (simp add: idle_def)
  ultimately show ?thesis using q(1) ev s' s(1)
    by (simp add: append_event_def assertOpen_idle idle_def Let_def)
qed

subsection \<open>A new event\<close>

lemma append_event_fresh:
  assumes s: "idle s" "valid_db h (store_db s)" "hex_digests (sha256_hex h)"
    and p: "prepareEvent h (JObj fs) now = Inr p" "wf_json h (JObj fs)"
    and fresh: "resolveDuplicate (store_db s) p = Inr None" "db_metadata (store_db s) = Some m"
      "insertable (store_db s) (next_row h p m uuid)"
  obtains s' ev where "append_event h s (JObj fs) now uuid = (s', Inr ev)"
    "ev_sequence ev = int (length (db_rows (store_db s))) + 1"
    "ev_previousHash ev = head_hash (by_sequence (store_db s))"
    "ev_payload ev = sort_deep (property_of fs ''payload'')"
    "getByEventId h s' (JStr (ev_eventId ev)) =
       and_then (validateIdentifier (JStr (ev_eventId ev)) ''eventId'') (\<lambda>_. Inr (Some ev))"
    "db_rows (store_db s') = db_rows (store_db s) @ [next_row h p m uuid]"
proof -
  let ?r = "next_row h p m uuid"
  let ?db = "\<lparr>db_rows = db_rows (store_db s) @ [?r],
    db_metadata = Some (m\<lparr>md_head_sequence := row_sequence ?r, md_head_hash := row_event_hash ?r\<rparr>)\<rparr>"
  have payload: "canonicalJson h (property_of fs ''payload'') = Inr (pe_payloadJson p)"
    using p(1) by (auto simp: prepareEvent_def Let_def split: sum.splits)
  have "wf_json h (property_of fs ''payload'')"
    using p(2) by (auto simp: property_of_def split: option.splits dest: map_of_SomeD)
  then have parse: "json_parse h (pe_payloadJson p) = Some (sort_deep (property_of fs ''payload''))"
    by (rule json_parse_serialized [OF payload])
  then obtain ev where ev: "rowToEvent h ?r = Inr ev" "ev_payload ev = sort_deep (property_of fs ''payload'')"
      "ev_sequence ev = md_head_sequence m + 1" "ev_previousHash ev = md_head_hash m" "ev_eventId ev = row_event_id ?r"
    by (simp add: rowToEvent_def)
  have m: "md_head_sequence m = int (length (db_rows (store_db s)))" "md_head_hash m = head_hash (by_sequence (store_db s))"
    using s(2) fresh(2) head_sequence_chain [of h GENESIS_HASH "by_sequence (store_db s)"]
    by (auto simp: valid_db_def)
  have "append_row h (store_db s) True p uuid = (?db, Inr ?r)"
    using fresh by (simp add: append_row_def assertIntegrity_valid [OF s(2)] Let_def)
  then have append: "append_event h s (JObj fs) now uuid = (s\<lparr>store_db := ?db\<rparr>, Inr ev)"
    using s(1) p(1) ev(1) by (simp add: append_event_def assertOpen_idle idle_def Let_def)
  have get: "getByEventId h (s\<lparr>store_db := ?db\<rparr>) (JStr (ev_eventId ev)) =
       and_then (validateIdentifier (JStr (ev_eventId ev)) ''eventId'') (\<lambda>_. Inr (Some ev))"
  proof -
    have open_s: "assertOpen (s\<lparr>store_db := ?db\<rparr>) = Inr ()" using s(1) by (simp add: assertOpen_def idle_def)
    have found: "find_by_event_id ?db (ev_eventId ev) = Some ?r" using insertable_new(1) [OF fresh(3)] ev(5) by metis
    show ?thesis
    proof (cases "validateIdentifier (JStr (ev_eventId ev)) ''eventId''")
      case (Inl e)
      then show ?thesis using open_s by (simp add: getByEventId_def)
    next
      case (Inr i)
      then have "i = ev_eventId ev" by (simp add: validateIdentifier_def)
      then show ?thesis using Inr open_s found ev(1) by (simp add: getByEventId_def)
    qed
  qed
  show thesis by (rule that [OF append _ _ _ get]) (simp_all add: ev m)
qed

subsection \<open>Exclusive transactions: all or nothing\<close>

lemma exclusive_error:
  assumes "withExclusiveTransaction h lift op s w = (s', w', Inl e)"
  shows "store_db s' = store_db s"
  using assms by (auto simp: withExclusiveTransaction_def Let_def split: sum.splits if_splits prod.splits)

lemma exclusive_commit:
  assumes "withExclusiveTransaction h lift op s w = (s', w', Inr x)"
  obtains s1 where "op (s\<lparr>store_exclusive := True, store_failed := False, store_scope := Some True\<rparr>) w = (s1, w', Inr x)"
    "\<not> store_failed s1" "\<not> store_closed s1" "valid_db h (store_db s)" "\<not> store_closed s" "\<not> store_exclusive s"
    "store_scope s \<noteq> Some False"
    "s' = s1\<lparr>store_exclusive := False, store_failed := False, store_scope := store_scope s\<rparr>"
  using assms
  by (auto simp: withExclusiveTransaction_def assertOpen_def Let_def split: sum.splits if_splits prod.splits)

text \<open>Inside a transaction a second one is refused before it touches anything.\<close>

lemma exclusive_nested:
  assumes "store_exclusive s" "assertOpen s = Inr ()"
  shows "withExclusiveTransaction h lift op s w = (s, w, Inl (lift NestedTransaction))"
  using assms by (simp add: withExclusiveTransaction_def)

text \<open>An append that fails after preparation poisons the transaction it runs in.\<close>

lemma append_poisons:
  assumes "store_exclusive s" "assertOpen s = Inr ()" "prepareEvent h input now = Inr p"
    "snd (append_event h s input now uuid) = Inl e"
  shows "store_failed (fst (append_event h s input now uuid))"
  using assms by (auto simp: append_event_def Let_def split: prod.splits sum.splits)

lemma append_keeps_failed:
  "store_failed s \<Longrightarrow> store_failed (fst (append_event h s input now uuid))"
  by (auto simp: append_event_def Let_def split: prod.splits sum.splits)

lemma append_flags [simp]:
  "store_closed (fst (append_event h s input now uuid)) = store_closed s"
  "store_exclusive (fst (append_event h s input now uuid)) = store_exclusive s"
  "store_scope (fst (append_event h s input now uuid)) = store_scope s"
  by (auto simp: append_event_def Let_def split: prod.splits sum.splits)

subsection \<open>Listing\<close>

lemma collect_events_length: "collect_events h rs = Inr es \<Longrightarrow> map ev_sequence es = map row_sequence rs"
  by (induction rs arbitrary: es) (auto simp: rowToEvent_def)

lemma collect_events_total: "\<forall>r \<in> set rs. \<exists>e. rowToEvent h r = Inr e \<Longrightarrow> \<exists>es. collect_events h rs = Inr es"
  by (induction rs) auto

lemma select_rows_subset: "set (select_rows q db) \<subseteq> set (db_rows db)"
  by (auto simp: select_rows_def Let_def split: option.splits if_splits dest: in_set_takeD)

lemma list_events_total:
  assumes "assertOpen s = Inr ()" "validateFilters fl = Inr q" "valid_db h (store_db s)"
  shows "\<exists>es. list_events h s fl = Inr es \<and> map ev_sequence es = map row_sequence (select_rows q (store_db s))"
proof -
  have "\<forall>r \<in> set (select_rows q (store_db s)). \<exists>e. rowToEvent h r = Inr e"
    using rowToEvent_valid [OF assms(3)] select_rows_subset by blast
  then obtain es where "collect_events h (select_rows q (store_db s)) = Inr es"
    using collect_events_total by blast
  then show ?thesis using assms(1,2) by (simp add: list_events_def collect_events_length)
qed

lemma chain_sequences: "chain h prev n rs \<Longrightarrow> map row_sequence rs = map (\<lambda>i. n + int i) [0..<length rs]"
  by (rule nth_equalityI) (simp_all add: chain_nth)

subsection \<open>The store as an append-only log\<close>

interpretation store_log: append_only
  "\<lambda>s. by_sequence (store_db s)"
  "\<lambda>s (input, now, uuid). fst (append_event h s input now uuid)"
  "\<lambda>s. hex_digests (sha256_hex h) \<and> valid_db h (store_db s)"
  "\<lambda>s (input, _ :: int, _ :: string). wf_json h input \<and> has_room (store_db s)"
  for h
proof (unfold_locales, goal_cases)
  case (1 s i)
  then show ?case using append_event_valid by (cases i) auto
next
  case (2 s i)
  then show ?case using append_event_valid by (cases i) auto
qed

type_synonym append_request = "jsval \<times> int \<times> string"

definition append_all :: "host \<Rightarrow> EventStore \<Rightarrow> append_request list \<Rightarrow> EventStore" where
  "append_all h s is = foldl (\<lambda>s (input, now, uuid). fst (append_event h s input now uuid)) s is"

lemma append_event_rows:
  "length (db_rows (store_db (fst (append_event h s input now uuid)))) \<le> Suc (length (db_rows (store_db s)))"
proof (cases "and_then (assertOpen s) (\<lambda>_. prepareEvent h input now)")
  case (Inr p)
  have "length (db_rows (fst (append_row h (store_db s) (\<not> store_exclusive s) p uuid))) \<le> Suc (length (db_rows (store_db s)))"
    by (cases rule: append_row_cases [of h "store_db s" "\<not> store_exclusive s" p uuid]) auto
  then show ?thesis using Inr by (auto simp: append_event_def Let_def split: prod.splits sum.splits)
qed (simp add: append_event_def)

lemma append_all_admissible:
  "list_all (\<lambda>(input, _, _). wf_json h input) is \<Longrightarrow>
     int (length (db_rows (store_db s)) + length is) \<le> max_safe_integer \<Longrightarrow> store_log.all_admissible h s is"
proof (induction "is" arbitrary: s)
  case (Cons i "is")
  obtain input now uuid where i: "i = (input, now, uuid)" by (cases i)
  show ?case
    using Cons.prems Cons.IH [of "fst (append_event h s input now uuid)"] append_event_rows [of h s input now uuid]
    unfolding i store_log.all_admissible.simps by (simp add: has_room_def)
qed (unfold store_log.all_admissible.simps, rule TrueI)

lemma append_all_extends:
  assumes "valid_db h (store_db s)" "hex_digests (sha256_hex h)" "list_all (\<lambda>(input, _, _). wf_json h input) is"
    "int (length (db_rows (store_db s)) + length is) \<le> max_safe_integer"
  shows "valid_db h (store_db (append_all h s is))
    \<and> prefix (by_sequence (store_db s)) (by_sequence (store_db (append_all h s is)))"
  using store_log.run_keeps [of h s "is"] append_all_admissible [OF assms(3,4)] assms(1,2)
  by (simp add: append_all_def)

lemma open_store_valid:
  assumes "open_store h file = Inr s"
  shows "idle s \<and> valid_db h (store_db s)"
  using assms by (auto simp: open_store_def Let_def idle_def)

lemma open_new_store: "\<exists>s. open_store h None = Inr s \<and> db_rows (store_db s) = []"
proof -
  have "valid_db h (initializeSchema None)"
    by (simp add: initializeSchema_def valid_db_def by_sequence_def head_sequence_def head_hash_def)
  then show ?thesis by (simp add: open_store_def Let_def assertIntegrity_valid initializeSchema_def)
qed

end
