(* ===== verification/RuntimeReplay.thy ===== *)
theory RuntimeReplay
  imports RuntimeSchemas EventStore
begin

text \<open>
  The reading side of \<open>packages/runtime/src/sqlite-runtime-controller.ts\<close>: the decision rules of the
  boundaries and \<open>replayRuntimeStore\<close>, which rebuilds the state of the runtime authority from its audit log
  and refuses a log that the controller could not have written. The lemmas show that replay is a fold that can be
  continued at the end of the log, and what an accepted log says about modes, revisions and
  decisions.
\<close>

subsection \<open>Errors, requests and state\<close>

datatype RuntimeConflictCode =
  AUTHORIZATION_ALREADY_USED | INVALID_TRANSITION | CONFLICT_PROCESS_SUPERSEDED | REQUEST_CONFLICT | STALE_STATE

datatype RuntimeError =
    RuntimeValidation
  | RuntimeConflict RuntimeConflictCode
  | RuntimeIntegrity
  | BoundaryDenied RuntimeBoundaryReceipt
  | RuntimeStore StoreError
  | CallbackThrew

record RuntimeState =
  rs_mode :: RuntimeMode
  rs_modeChangedAt :: string
  rs_modeEventHash :: string
  rs_modeEventSequence :: int
  rs_processInstanceId :: string
  rs_revision :: int

record RequestedBoundary =
  rq_actionId :: string
  rq_authorizationId :: string
  rq_boundary :: RuntimeBoundary
  rq_expiresAt :: string
  rq_requestedAt :: string
  rq_requestedMode :: RuntimeMode
  rq_requestedProcessInstanceId :: string
  rq_requestedRevision :: int

datatype RuntimePayload = StopEvent StopPayload | TransitionEvent TransitionPayload | BoundaryEvent BoundaryPayload

record RuntimeAuditEvent =
  au_eventHash :: string
  au_eventId :: string
  au_idempotencyKey :: string
  au_occurredAt :: string
  au_payload :: RuntimePayload
  au_previousHash :: string
  au_sequence :: int

text \<open>What the replay loop accumulates; the sets of ids as lists.\<close>

record ReplayResult =
  rp_events :: "RuntimeAuditEvent list"
  rp_lastAuditAt :: "string option"
  rp_requestIds :: "string list"
  rp_authorizationIds :: "string list"
  rp_state :: "RuntimeState option"

definition RUNTIME_AGGREGATE_ID :: string where
  "RUNTIME_AGGREGATE_ID = ''runtime:authority''"

definition RUNTIME_STOP_EVENT_TYPE :: string where
  "RUNTIME_STOP_EVENT_TYPE = ''runtime.stop.enforced.v1''"

definition RUNTIME_TRANSITION_EVENT_TYPE :: string where
  "RUNTIME_TRANSITION_EVENT_TYPE = ''runtime.mode.transitioned.v1''"

definition RUNTIME_BOUNDARY_EVENT_TYPE :: string where
  "RUNTIME_BOUNDARY_EVENT_TYPE = ''runtime.boundary.checked.v1''"

definition AUTHORIZATION_TTL_MS :: int where
  "AUTHORIZATION_TTL_MS = 30000"

definition PERMANENTLY_DENIED_RUNTIME_BOUNDARIES :: "RuntimeBoundary list" where
  "PERMANENTLY_DENIED_RUNTIME_BOUNDARIES =
     [PolicyApprovalBoundary, PaidRead, WalletSign, ExecutionAdapter, TransactionBroadcast, ExternalPublish]"

definition stop_key :: "string \<Rightarrow> string" where
  "stop_key i = ''runtime-stop-v1:'' @ i"

definition transition_key :: "string \<Rightarrow> string" where
  "transition_key i = ''runtime-transition-v1:'' @ i"

definition boundary_key :: "string \<Rightarrow> string" where
  "boundary_key i = ''runtime-boundary-v1:'' @ i"

subsection \<open>Rules\<close>

text \<open>\<open>Date.parse(a) < Date.parse(b)\<close>, false when either is not a date.\<close>

definition date_less :: "host \<Rightarrow> string \<Rightarrow> string \<Rightarrow> bool" where
  "date_less h a b = (case (date_parse h a, date_parse h b) of (Some x, Some y) \<Rightarrow> x < y | _ \<Rightarrow> False)"

definition date_at_least :: "host \<Rightarrow> string \<Rightarrow> string \<Rightarrow> bool" where
  "date_at_least h a b = (case (date_parse h a, date_parse h b) of (Some x, Some y) \<Rightarrow> x \<ge> y | _ \<Rightarrow> False)"

definition authorizationExpiry :: "host \<Rightarrow> string \<Rightarrow> (RuntimeError, string) result" where
  "authorizationExpiry h requestedAt =
     (case date_parse h requestedAt of
       None \<Rightarrow> Inl RuntimeValidation
     | Some t \<Rightarrow> if valid_time (t + AUTHORIZATION_TTL_MS) then Inr (to_iso (t + AUTHORIZATION_TTL_MS))
                 else Inl RuntimeValidation)"

fun isModeTransitionAllowed :: "RuntimeMode \<Rightarrow> RuntimeMode \<Rightarrow> bool" where
  "isModeTransitionAllowed STOPPED RESEARCH = True"
| "isModeTransitionAllowed RESEARCH PROPOSE_ONLY = True"
| "isModeTransitionAllowed PROPOSE_ONLY RESEARCH = True"
| "isModeTransitionAllowed _ _ = False"

definition isPermanentlyDeniedBoundary :: "RuntimeBoundary \<Rightarrow> bool" where
  "isPermanentlyDeniedBoundary b \<longleftrightarrow> b \<in> set PERMANENTLY_DENIED_RUNTIME_BOUNDARIES"

definition isLocalCommitBoundary :: "RuntimeBoundary \<Rightarrow> bool" where
  "isLocalCommitBoundary b \<longleftrightarrow> b = AttentionRefresh \<or> b = WatchlistImport"

definition modeAllowsBoundary :: "RuntimeMode \<Rightarrow> RuntimeBoundary \<Rightarrow> bool" where
  "modeAllowsBoundary m b =
     (if isLocalCommitBoundary b then m = RESEARCH
      else if b = ResearchCollection then m \<noteq> STOPPED
      else if b = ProposalPersist then m = PROPOSE_ONLY
      else False)"

definition boundaryReason :: "host \<Rightarrow> RequestedBoundary \<Rightarrow> RuntimeState \<Rightarrow> string \<Rightarrow> BoundaryReason" where
  "boundaryReason h rq st checkedAt =
     (if isPermanentlyDeniedBoundary (rq_boundary rq) then PERMANENTLY_FORBIDDEN
      else if rq_requestedProcessInstanceId rq \<noteq> rs_processInstanceId st then PROCESS_SUPERSEDED
      else if rq_requestedMode rq \<noteq> rs_mode st \<or> rq_requestedRevision rq \<noteq> rs_revision st then STALE_REVISION
      else if date_at_least h checkedAt (rq_expiresAt rq) then EXPIRED
      else if \<not> modeAllowsBoundary (rs_mode st) (rq_boundary rq) then MODE_NOT_ALLOWED
      else ALLOWED)"

definition boundaryCompletionReason :: "RequestedBoundary \<Rightarrow> RuntimeState \<Rightarrow> BoundaryReason" where
  "boundaryCompletionReason rq st =
     (if rq_boundary rq \<noteq> ResearchCollection then PERMANENTLY_FORBIDDEN
      else if rq_requestedProcessInstanceId rq \<noteq> rs_processInstanceId st then PROCESS_SUPERSEDED
      else if rq_requestedMode rq \<noteq> rs_mode st \<or> rq_requestedRevision rq \<noteq> rs_revision st then STALE_REVISION
      else if \<not> modeAllowsBoundary (rs_mode st) (rq_boundary rq) then MODE_NOT_ALLOWED
      else ALLOWED)"

subsection \<open>Replay\<close>

definition state_after :: "StoredEvent \<Rightarrow> RuntimeMode \<Rightarrow> string \<Rightarrow> int \<Rightarrow> RuntimeState" where
  "state_after ev m pid revision =
     \<lparr>rs_mode = m, rs_modeChangedAt = ev_occurredAt ev, rs_modeEventHash = ev_eventHash ev,
      rs_modeEventSequence = ev_sequence ev, rs_processInstanceId = pid, rs_revision = revision\<rparr>"

primrec payload_key :: "RuntimePayload \<Rightarrow> string" where
  "payload_key (StopEvent p) = stop_key (sp_requestId p)"
| "payload_key (TransitionEvent p) = transition_key (tp_requestId p)"
| "payload_key (BoundaryEvent p) = boundary_key (bp_authorizationId p)"

definition audit_event :: "StoredEvent \<Rightarrow> RuntimePayload \<Rightarrow> RuntimeAuditEvent" where
  "audit_event ev p =
     \<lparr>au_eventHash = ev_eventHash ev, au_eventId = ev_eventId ev, au_idempotencyKey = payload_key p,
      au_occurredAt = ev_occurredAt ev, au_payload = p, au_previousHash = ev_previousHash ev,
      au_sequence = ev_sequence ev\<rparr>"

text \<open>\<open>parsedEventPayload\<close> and \<open>assertEventIdentity\<close>: the payload of the type's schema, under its own key.\<close>

definition event_payload :: "host \<Rightarrow> StoredEvent \<Rightarrow> RuntimePayload option" where
  "event_payload h ev =
     (if ev_type ev = RUNTIME_STOP_EVENT_TYPE
      then map_option StopEvent (RuntimeStopEventPayloadSchema (ev_payload ev))
      else if ev_type ev = RUNTIME_TRANSITION_EVENT_TYPE
      then map_option TransitionEvent (RuntimeTransitionEventPayloadSchema (ev_payload ev))
      else if ev_type ev = RUNTIME_BOUNDARY_EVENT_TYPE
      then map_option BoundaryEvent (RuntimeBoundaryEventPayloadSchema h (ev_payload ev))
      else None)"

definition stop_consistent :: "RuntimeState option \<Rightarrow> StopPayload \<Rightarrow> bool" where
  "stop_consistent s p =
     (case s of
       None \<Rightarrow> sp_cause p = Startup \<and> sp_from p = None \<and> sp_previousRevision p = 0 \<and> sp_revision p = 1
             \<and> sp_requestId p = sp_processInstanceId p
     | Some st \<Rightarrow> sp_from p = Some (rs_mode st) \<and> sp_previousRevision p = rs_revision st
             \<and> sp_revision p = rs_revision st + 1
             \<and> (sp_cause p = Operator \<longrightarrow> sp_processInstanceId p = rs_processInstanceId st)
             \<and> (sp_cause p = Startup \<longrightarrow> sp_requestId p = sp_processInstanceId p))"

definition transition_consistent :: "RuntimeState option \<Rightarrow> TransitionPayload \<Rightarrow> bool" where
  "transition_consistent s p =
     (case s of
       None \<Rightarrow> False
     | Some st \<Rightarrow> tp_processInstanceId p = rs_processInstanceId st \<and> tp_from p = rs_mode st
             \<and> tp_expectedMode p = rs_mode st \<and> tp_previousRevision p = rs_revision st
             \<and> tp_expectedRevision p = rs_revision st \<and> tp_revision p = rs_revision st + 1
             \<and> isModeTransitionAllowed (rs_mode st) (tp_to p))"

definition requested_of :: "BoundaryPayload \<Rightarrow> RequestedBoundary" where
  "requested_of p =
     \<lparr>rq_actionId = bp_actionId p, rq_authorizationId = bp_authorizationId p, rq_boundary = bp_boundary p,
      rq_expiresAt = bp_expiresAt p, rq_requestedAt = bp_requestedAt p, rq_requestedMode = bp_requestedMode p,
      rq_requestedProcessInstanceId = bp_requestedProcessInstanceId p,
      rq_requestedRevision = bp_requestedRevision p\<rparr>"

definition boundary_consistent ::
  "host \<Rightarrow> RuntimeState option \<Rightarrow> string \<Rightarrow> BoundaryPayload \<Rightarrow> (RuntimeError, unit) result" where
  "boundary_consistent h s occurredAt p =
     (case s of
       None \<Rightarrow> Inl RuntimeIntegrity
     | Some st \<Rightarrow>
         and_then (ensure (bp_checkedMode p = rs_mode st \<and> bp_checkedRevision p = rs_revision st
                      \<and> bp_checkedProcessInstanceId p = rs_processInstanceId st) RuntimeIntegrity) (\<lambda>_.
         and_then (authorizationExpiry h (bp_requestedAt p)) (\<lambda>expiry.
         and_then (ensure (bp_expiresAt p = expiry \<and> \<not> date_less h occurredAt (bp_requestedAt p))
                     RuntimeIntegrity) (\<lambda>_.
         (let expected = boundaryReason h (requested_of p) st occurredAt
          in ensure (bp_reason p = expected \<and> bp_allowed p = (expected = ALLOWED)) RuntimeIntegrity)))))"

definition replay_payload ::
  "host \<Rightarrow> ReplayResult \<Rightarrow> StoredEvent \<Rightarrow> RuntimePayload \<Rightarrow> (RuntimeError, ReplayResult) result" where
  "replay_payload h acc ev p =
     (case p of
       StopEvent s \<Rightarrow>
         and_then (ensure (sp_requestId s \<notin> set (rp_requestIds acc)) RuntimeIntegrity) (\<lambda>_.
         and_then (ensure (stop_consistent (rp_state acc) s) RuntimeIntegrity) (\<lambda>_.
           Inr (acc\<lparr>rp_requestIds := sp_requestId s # rp_requestIds acc,
                    rp_state := Some (state_after ev STOPPED (sp_processInstanceId s) (sp_revision s))\<rparr>)))
     | TransitionEvent t \<Rightarrow>
         and_then (ensure (tp_requestId t \<notin> set (rp_requestIds acc)) RuntimeIntegrity) (\<lambda>_.
         and_then (ensure (transition_consistent (rp_state acc) t) RuntimeIntegrity) (\<lambda>_.
           Inr (acc\<lparr>rp_requestIds := tp_requestId t # rp_requestIds acc,
                    rp_state := Some (state_after ev (tp_to t) (tp_processInstanceId t) (tp_revision t))\<rparr>)))
     | BoundaryEvent b \<Rightarrow>
         and_then (ensure (bp_authorizationId b \<notin> set (rp_authorizationIds acc)) RuntimeIntegrity) (\<lambda>_.
         and_then (boundary_consistent h (rp_state acc) (ev_occurredAt ev) b) (\<lambda>_.
           Inr (acc\<lparr>rp_authorizationIds := bp_authorizationId b # rp_authorizationIds acc\<rparr>))))"

definition replay_event :: "host \<Rightarrow> ReplayResult \<Rightarrow> StoredEvent \<Rightarrow> (RuntimeError, ReplayResult) result" where
  "replay_event h acc ev =
     and_then (ensure (ev_aggregateId ev = RUNTIME_AGGREGATE_ID) RuntimeIntegrity) (\<lambda>_.
     and_then (ensure (RuntimeUuidSchema (ev_eventId ev)) RuntimeIntegrity) (\<lambda>_.
     and_then (ensure (case rp_lastAuditAt acc of None \<Rightarrow> True | Some l \<Rightarrow> \<not> date_less h (ev_occurredAt ev) l)
                 RuntimeIntegrity) (\<lambda>_.
     and_then (or_fail (event_payload h ev) RuntimeIntegrity) (\<lambda>p.
     and_then (ensure (ev_idempotencyKey ev = Some (payload_key p)) RuntimeIntegrity) (\<lambda>_.
     and_then (replay_payload h acc ev p) (\<lambda>acc'.
       Inr (acc'\<lparr>rp_events := rp_events acc @ [audit_event ev p], rp_lastAuditAt := Some (ev_occurredAt ev)\<rparr>)))))))"

definition replay_start :: ReplayResult where
  "replay_start = \<lparr>rp_events = [], rp_lastAuditAt = None, rp_requestIds = [], rp_authorizationIds = [], rp_state = None\<rparr>"

fun replay_events :: "host \<Rightarrow> ReplayResult \<Rightarrow> StoredEvent list \<Rightarrow> (RuntimeError, ReplayResult) result" where
  "replay_events h acc [] = Inr acc"
| "replay_events h acc (ev # evs) = and_then (replay_event h acc ev) (\<lambda>acc'. replay_events h acc' evs)"

definition ascending :: EventListFilters where
  "ascending = \<lparr>fl_type = JUndefined, fl_aggregateId = JUndefined, fl_afterSequence = JUndefined,
     fl_beforeSequence = JUndefined, fl_limit = JUndefined, fl_order = JStr ''asc''\<rparr>"

definition lift_store :: "(StoreError, 'a) result \<Rightarrow> (RuntimeError, 'a) result" where
  "lift_store r = (case r of Inl e \<Rightarrow> Inl (RuntimeStore e) | Inr x \<Rightarrow> Inr x)"

definition replayRuntimeStore :: "host \<Rightarrow> EventStore \<Rightarrow> (RuntimeError, ReplayResult) result" where
  "replayRuntimeStore h s =
     and_then (lift_store (list_events h s ascending)) (\<lambda>evs. replay_events h replay_start evs)"

subsection \<open>Replay is a fold over the log\<close>

lemma replay_events_append:
  "replay_events h acc (xs @ ys) = and_then (replay_events h acc xs) (\<lambda>acc'. replay_events h acc' ys)"
proof (induction xs arbitrary: acc)
  case (Cons x xs)
  then show ?case by (cases "replay_event h acc x") simp_all
qed simp

lemma replay_event_Inr:
  "replay_event h acc ev = Inr acc' \<longleftrightarrow>
     ev_aggregateId ev = RUNTIME_AGGREGATE_ID \<and> RuntimeUuidSchema (ev_eventId ev)
   \<and> (case rp_lastAuditAt acc of None \<Rightarrow> True | Some l \<Rightarrow> \<not> date_less h (ev_occurredAt ev) l)
   \<and> (\<exists>p acc''. event_payload h ev = Some p \<and> ev_idempotencyKey ev = Some (payload_key p)
        \<and> replay_payload h acc ev p = Inr acc''
        \<and> acc' = acc''\<lparr>rp_events := rp_events acc @ [audit_event ev p], rp_lastAuditAt := Some (ev_occurredAt ev)\<rparr>)"
  by (auto simp: replay_event_def)

text \<open>The invariant of replay: what its result says about the events it accepted.\<close>

definition state_ok :: "RuntimeState \<Rightarrow> bool" where
  "state_ok st \<longleftrightarrow> RuntimeUuidSchema (rs_processInstanceId st) \<and> 1 \<le> rs_revision st"

definition replay_ok :: "host \<Rightarrow> StoredEvent list \<Rightarrow> ReplayResult \<Rightarrow> bool" where
  "replay_ok h evs acc \<longleftrightarrow>
     length (rp_events acc) = length evs
   \<and> rp_lastAuditAt acc = (if evs = [] then None else Some (ev_occurredAt (last evs)))
   \<and> (\<forall>i \<in> set (rp_authorizationIds acc). \<exists>ev \<in> set evs. ev_idempotencyKey ev = Some (boundary_key i))
   \<and> (\<forall>st. rp_state acc = Some st \<longrightarrow> state_ok st \<and> rs_revision st \<le> int (length evs))
   \<and> (rp_state acc = None \<longleftrightarrow> evs = [])"

lemma event_payload_cases:
  assumes "event_payload h ev = Some p"
  obtains s where "p = StopEvent s" "RuntimeStopEventPayloadSchema (ev_payload ev) = Some s"
  | t where "p = TransitionEvent t" "RuntimeTransitionEventPayloadSchema (ev_payload ev) = Some t"
  | b where "p = BoundaryEvent b" "RuntimeBoundaryEventPayloadSchema h (ev_payload ev) = Some b"
  using assms by (auto simp: event_payload_def split: if_splits)

lemma payload_uuids:
  "RuntimeStopEventPayloadSchema v = Some s \<Longrightarrow> RuntimeUuidSchema (sp_processInstanceId s)"
  "RuntimeTransitionEventPayloadSchema v = Some t \<Longrightarrow> RuntimeUuidSchema (tp_processInstanceId t)"
  by (auto simp: RuntimeStopEventPayloadSchema_def RuntimeTransitionEventPayloadSchema_def parse_simps)

lemma replay_event_ok:
  assumes "replay_ok h evs acc" "replay_event h acc ev = Inr acc'"
  shows "replay_ok h (evs @ [ev]) acc'"
proof -
  from assms(2) obtain p acc'' where p: "event_payload h ev = Some p" "ev_idempotencyKey ev = Some (payload_key p)"
      "replay_payload h acc ev p = Inr acc''"
      and acc': "acc' = acc''\<lparr>rp_events := rp_events acc @ [audit_event ev p], rp_lastAuditAt := Some (ev_occurredAt ev)\<rparr>"
    by (auto simp: replay_event_Inr)
  from p(1) show ?thesis
  proof (cases rule: event_payload_cases)
    case (1 s)
    then show ?thesis using assms(1) p(3) acc' payload_uuids(1) [OF 1(2)]
      by (auto simp: replay_ok_def replay_payload_def stop_consistent_def state_after_def state_ok_def
          split: option.splits)
  next
    case (2 t)
    then show ?thesis using assms(1) p(3) acc' payload_uuids(2) [OF 2(2)]
      by (auto simp: replay_ok_def replay_payload_def transition_consistent_def state_after_def state_ok_def
          split: option.splits)
  next
    case (3 b)
    then show ?thesis using assms(1) p(2,3) acc'
      by (auto simp: replay_ok_def replay_payload_def boundary_consistent_def split: option.splits)
  qed
qed

lemma replay_events_ok: "replay_events h replay_start evs = Inr acc \<Longrightarrow> replay_ok h evs acc"
proof (induction evs arbitrary: acc rule: rev_induct)
  case Nil
  then show ?case by (auto simp: replay_ok_def replay_start_def)
next
  case (snoc ev evs)
  then obtain acc0 where "replay_events h replay_start evs = Inr acc0" "replay_event h acc0 ev = Inr acc"
    by (auto simp: replay_events_append)
  then show ?case using snoc.IH replay_event_ok by blast
qed

subsection \<open>What a decision means\<close>

lemma boundaryReason_ALLOWED:
  "boundaryReason h rq st checkedAt = ALLOWED \<longleftrightarrow>
     \<not> isPermanentlyDeniedBoundary (rq_boundary rq) \<and> rq_requestedProcessInstanceId rq = rs_processInstanceId st
   \<and> rq_requestedMode rq = rs_mode st \<and> rq_requestedRevision rq = rs_revision st
   \<and> \<not> date_at_least h checkedAt (rq_expiresAt rq) \<and> modeAllowsBoundary (rs_mode st) (rq_boundary rq)"
  by (auto simp: boundaryReason_def)

lemma stopped_allows_nothing [simp]: "\<not> modeAllowsBoundary STOPPED b"
  by (simp add: modeAllowsBoundary_def)

lemma permanently_denied_never_allowed:
  "isPermanentlyDeniedBoundary b \<Longrightarrow> \<not> modeAllowsBoundary m b"
  by (auto simp: isPermanentlyDeniedBoundary_def PERMANENTLY_DENIED_RUNTIME_BOUNDARIES_def modeAllowsBoundary_def
      isLocalCommitBoundary_def)

text \<open>The mode is entered one step at a time: proposals only after research, and STOP from anywhere.\<close>

lemma isModeTransitionAllowed_iff:
  "isModeTransitionAllowed m n \<longleftrightarrow> (m, n) \<in> {(STOPPED, RESEARCH), (RESEARCH, PROPOSE_ONLY), (PROPOSE_ONLY, RESEARCH)}"
  by (cases m; cases n) simp_all

end
