(* ===== verification/RuntimeController.thy ===== *)
theory RuntimeController
  imports RuntimeReplay "HOL-Library.Log_Nat"
begin

text \<open>
  The operations of \<open>SqliteRuntimeController\<close>
  (\<open>packages/runtime/src/sqlite-runtime-controller.ts\<close>). A controller is a process instance id and a
  connection to the runtime store; an operation is one exclusive transaction that replays the log,
  decides, and appends at most one event. \<open>act\<close> is the body of such a transaction: it acts on the
  store and on the world outside it (\<open>'w\<close>), which only callbacks touch. The readings of the two
  clocks and the ids the store generates are arguments; a clock that throws reads \<open>None\<close>. The receiver is
  an authentic controller by construction. Callbacks act on the world alone; a commit callback is a script that
  may call its checkpoint any number of times and go on in every case.
\<close>

subsection \<open>Transaction bodies\<close>

type_synonym ('w, 'a) act = "EventStore \<Rightarrow> 'w \<Rightarrow> EventStore \<times> 'w \<times> (RuntimeError, 'a) result"

definition act_then :: "('w, 'a) act \<Rightarrow> ('a \<Rightarrow> ('w, 'b) act) \<Rightarrow> ('w, 'b) act" where
  "act_then m f = (\<lambda>s w. case m s w of (s', w', r) \<Rightarrow> (case r of Inl e \<Rightarrow> (s', w', Inl e) | Inr x \<Rightarrow> f x s' w'))"

definition act_result :: "(RuntimeError, 'a) result \<Rightarrow> ('w, 'a) act" where
  "act_result r = (\<lambda>s w. (s, w, r))"

definition act_read :: "(EventStore \<Rightarrow> (RuntimeError, 'a) result) \<Rightarrow> ('w, 'a) act" where
  "act_read f = (\<lambda>s w. (s, w, f s))"

definition act_call :: "('a \<Rightarrow> 'w \<Rightarrow> 'w \<times> bool) \<Rightarrow> 'a \<Rightarrow> ('w, unit) act" where
  "act_call f x = (\<lambda>s w. case f x w of (w', returned) \<Rightarrow> (s, w', ensure returned CallbackThrew))"

definition exclusively :: "host \<Rightarrow> ('w, 'a) act \<Rightarrow> ('w, 'a) act" where
  "exclusively h = withExclusiveTransaction h RuntimeStore"

definition find_event :: "host \<Rightarrow> string \<Rightarrow> ('w, StoredEvent option) act" where
  "find_event h k = act_read (\<lambda>s. lift_store (getByIdempotencyKey h s (JStr k)))"

primrec payload_type :: "RuntimePayload \<Rightarrow> string" where
  "payload_type (StopEvent _) = RUNTIME_STOP_EVENT_TYPE"
| "payload_type (TransitionEvent _) = RUNTIME_TRANSITION_EVENT_TYPE"
| "payload_type (BoundaryEvent _) = RUNTIME_BOUNDARY_EVENT_TYPE"

primrec payload_json :: "RuntimePayload \<Rightarrow> jsval" where
  "payload_json (StopEvent p) = stop_json p"
| "payload_json (TransitionEvent p) = transition_json p"
| "payload_json (BoundaryEvent p) = boundary_json p"

text \<open>The event is given its time, so the store reads no clock (its argument is not used).\<close>

definition runtime_event :: "RuntimePayload \<Rightarrow> string \<Rightarrow> (string \<times> jsval) list" where
  "runtime_event p occurredAt =
     [(''aggregateId'', JStr RUNTIME_AGGREGATE_ID), (''idempotencyKey'', JStr (payload_key p)),
      (''occurredAt'', JStr occurredAt), (''payload'', payload_json p), (''type'', JStr (payload_type p))]"

definition append_payload :: "host \<Rightarrow> RuntimePayload \<Rightarrow> string \<Rightarrow> string \<Rightarrow> ('w, StoredEvent) act" where
  "append_payload h p occurredAt uuid =
     (\<lambda>s w. case append_event h s (JObj (runtime_event p occurredAt)) 0 uuid of (s', r) \<Rightarrow> (s', w, lift_store r))"

subsection \<open>Clocks\<close>

record ClockReading =
  wall_clock :: "jsval option"
  monotonic_clock :: "jsval option"

definition readRuntimeClock :: "host \<Rightarrow> ClockReading \<Rightarrow> (RuntimeError, string) result" where
  "readRuntimeClock h c =
     or_fail (Option.bind (wall_clock c) (parseRuntimeInput (z_string (RuntimeCanonicalTimestampSchema h))))
       RuntimeValidation"

fun finite_value :: "jsnum \<Rightarrow> rat option" where
  "finite_value (NInt i) = Some (of_int i)"
| "finite_value (NFrac r) = Some r"
| "finite_value _ = None"

definition readMonotonicClock :: "ClockReading \<Rightarrow> (RuntimeError, rat) result" where
  "readMonotonicClock c =
     (case monotonic_clock c of
       Some (JNum n) \<Rightarrow>
         (case finite_value n of
           Some r \<Rightarrow> if 0 \<le> r then Inr r else Inl RuntimeValidation
         | None \<Rightarrow> Inl RuntimeValidation)
     | _ \<Rightarrow> Inl RuntimeValidation)"

text \<open>Rounding to binary64 (to nearest, ties to even) of a number at least 1; \<open>None\<close> is infinity.\<close>

definition round_half_even :: "rat \<Rightarrow> int" where
  "round_half_even q =
     (let n = \<lfloor>q\<rfloor>; d = q - of_int n
      in if d < 1 / 2 then n else if d > 1 / 2 then n + 1 else if even n then n else n + 1)"

definition binary64 :: "rat \<Rightarrow> rat option" where
  "binary64 r =
     (let e = int (floorlog 2 (nat \<lfloor>r\<rfloor>)) - 53;
          unit = (if 0 \<le> e then 2 ^ nat e else 1 / 2 ^ nat (- e));
          v = of_int (round_half_even (r / unit)) * unit
      in if v < 2 ^ 1024 then Some v else None)"

definition authorizationMonotonicExpiry :: "rat \<Rightarrow> (RuntimeError, rat) result" where
  "authorizationMonotonicExpiry requestedAt = or_fail (binary64 (requestedAt + of_int AUTHORIZATION_TTL_MS)) RuntimeValidation"

definition nonRegressingStopTime :: "host \<Rightarrow> string \<Rightarrow> ReplayResult \<Rightarrow> string" where
  "nonRegressingStopTime h v replay =
     (case rp_lastAuditAt replay of None \<Rightarrow> v | Some l \<Rightarrow> if date_less h v l then l else v)"

definition nonRegressingBoundaryTime :: "host \<Rightarrow> string \<Rightarrow> ReplayResult \<Rightarrow> string option \<Rightarrow> string" where
  "nonRegressingBoundaryTime h v replay minimum =
     (let effective = nonRegressingStopTime h v replay
      in case minimum of None \<Rightarrow> effective | Some m \<Rightarrow> if date_less h effective m then m else effective)"

definition assertNonRegressingTime :: "host \<Rightarrow> string \<Rightarrow> ReplayResult \<Rightarrow> (RuntimeError, unit) result" where
  "assertNonRegressingTime h v replay =
     ensure (case rp_lastAuditAt replay of None \<Rightarrow> True | Some l \<Rightarrow> \<not> date_less h v l) (RuntimeConflict STALE_STATE)"

definition assertUnusedRequestId :: "ReplayResult \<Rightarrow> string \<Rightarrow> (RuntimeError, unit) result" where
  "assertUnusedRequestId replay i = ensure (i \<notin> set (rp_requestIds replay)) (RuntimeConflict REQUEST_CONFLICT)"

subsection \<open>Snapshots\<close>

record RuntimeCapabilities =
  cap_executionAdapter :: bool
  cap_externalPublish :: bool
  cap_paidRead :: bool
  cap_policyApproval :: bool
  cap_proposalPersistence :: bool
  cap_researchCollection :: bool
  cap_transactionBroadcast :: bool
  cap_walletSign :: bool

record RuntimeSnapshot =
  sn_headHash :: string
  sn_headSequence :: int
  sn_capabilities :: RuntimeCapabilities
  sn_mode :: RuntimeMode
  sn_modeChangedAt :: string
  sn_processInstanceId :: string
  sn_revision :: int

definition capabilitiesFor :: "RuntimeMode \<Rightarrow> RuntimeCapabilities" where
  "capabilitiesFor m =
     \<lparr>cap_executionAdapter = False, cap_externalPublish = False, cap_paidRead = False,
      cap_policyApproval = False, cap_proposalPersistence = (m = PROPOSE_ONLY),
      cap_researchCollection = (m \<noteq> STOPPED), cap_transactionBroadcast = False, cap_walletSign = False\<rparr>"

definition snapshotFromState :: "RuntimeState \<Rightarrow> string \<Rightarrow> int \<Rightarrow> RuntimeSnapshot" where
  "snapshotFromState st headHash headSequence =
     \<lparr>sn_headHash = headHash, sn_headSequence = headSequence, sn_capabilities = capabilitiesFor (rs_mode st),
      sn_mode = rs_mode st, sn_modeChangedAt = rs_modeChangedAt st,
      sn_processInstanceId = rs_processInstanceId st, sn_revision = rs_revision st\<rparr>"

definition currentSnapshot :: "ReplayResult \<Rightarrow> (RuntimeError, RuntimeSnapshot) result" where
  "currentSnapshot replay =
     (case rp_state replay of
       Some st \<Rightarrow>
         if rp_events replay = [] then Inl RuntimeIntegrity
         else Inr (snapshotFromState st (au_eventHash (last (rp_events replay))) (au_sequence (last (rp_events replay))))
     | None \<Rightarrow> Inl RuntimeIntegrity)"

definition snapshotFromModeEvent :: "StoredEvent \<Rightarrow> RuntimeMode \<Rightarrow> string \<Rightarrow> int \<Rightarrow> RuntimeSnapshot" where
  "snapshotFromModeEvent ev m pid revision =
     snapshotFromState (state_after ev m pid revision) (ev_eventHash ev) (ev_sequence ev)"

definition current_state :: "ReplayResult \<Rightarrow> (RuntimeError, RuntimeState) result" where
  "current_state replay = or_fail (rp_state replay) RuntimeIntegrity"

subsection \<open>Opening\<close>

record RuntimeController =
  ct_processInstanceId :: string
  ct_store :: EventStore

definition startup_payload :: "ReplayResult \<Rightarrow> string \<Rightarrow> StopPayload" where
  "startup_payload replay pid =
     (let previousRevision = (case rp_state replay of None \<Rightarrow> 0 | Some st \<Rightarrow> rs_revision st)
      in \<lparr>sp_cause = Startup, sp_from = map_option rs_mode (rp_state replay),
          sp_previousRevision = previousRevision, sp_processInstanceId = pid, sp_requestId = pid,
          sp_revision = previousRevision + 1\<rparr>)"

definition startup :: "host \<Rightarrow> OpenRuntimeInput \<Rightarrow> string \<Rightarrow> (unit, StoredEvent) act" where
  "startup h inp uuid =
     act_then (act_read (replayRuntimeStore h)) (\<lambda>replay.
     act_then (find_event h (stop_key (in_processInstanceId inp))) (\<lambda>existing.
     act_then (act_result (ensure (existing = None) (RuntimeConflict REQUEST_CONFLICT))) (\<lambda>_.
     act_then (act_result (assertUnusedRequestId replay (in_processInstanceId inp))) (\<lambda>_.
       append_payload h (StopEvent (startup_payload replay (in_processInstanceId inp)))
         (nonRegressingStopTime h (in_openedAt inp) replay) uuid))))"

text \<open>The file the path names, before and after; a store that cannot be opened is left as it is.\<close>

definition open_runtime ::
  "host \<Rightarrow> Database option \<Rightarrow> jsval \<Rightarrow> string \<Rightarrow> Database option \<times> (RuntimeError, RuntimeController) result" where
  "open_runtime h file inputValue uuid =
     (case parseRuntimeInput (OpenRuntimeInputSchema h) inputValue of
       None \<Rightarrow> (file, Inl RuntimeValidation)
     | Some inp \<Rightarrow>
         (case open_store h file of
           Inl e \<Rightarrow> (file, Inl (RuntimeStore e))
         | Inr s \<Rightarrow>
             (case exclusively h (startup h inp uuid) s () of
               (s', _, Inl e) \<Rightarrow> (Some (store_db s'), Inl e)
             | (s', _, Inr _) \<Rightarrow>
                 (Some (store_db s'),
                  Inr \<lparr>ct_processInstanceId = in_processInstanceId inp, ct_store = s'\<rparr>))))"

subsection \<open>Snapshots and the audit\<close>

definition getSnapshot :: "host \<Rightarrow> (unit, RuntimeSnapshot) act" where
  "getSnapshot h = exclusively h
     (act_then (act_read (replayRuntimeStore h)) (\<lambda>replay. act_result (currentSnapshot replay)))"

definition listAudit :: "host \<Rightarrow> (unit, RuntimeAuditEvent list) act" where
  "listAudit h = exclusively h
     (act_then (act_read (replayRuntimeStore h)) (\<lambda>replay. act_result (Inr (rp_events replay))))"

subsection \<open>Transitions\<close>

definition parsed_transition :: "StoredEvent \<Rightarrow> (RuntimeError, TransitionPayload) result" where
  "parsed_transition ev = or_fail (RuntimeTransitionEventPayloadSchema (ev_payload ev)) RuntimeIntegrity"

definition parsed_stop :: "StoredEvent \<Rightarrow> (RuntimeError, StopPayload) result" where
  "parsed_stop ev = or_fail (RuntimeStopEventPayloadSchema (ev_payload ev)) RuntimeIntegrity"

definition retried_transition ::
  "string \<Rightarrow> RuntimeTransitionInput \<Rightarrow> ReplayResult \<Rightarrow> StoredEvent \<Rightarrow> (RuntimeError, RuntimeSnapshot) result" where
  "retried_transition pid inp replay existing =
     and_then (ensure (ev_type existing = RUNTIME_TRANSITION_EVENT_TYPE) (RuntimeConflict REQUEST_CONFLICT)) (\<lambda>_.
     and_then (parsed_transition existing) (\<lambda>p.
     and_then (ensure (tp_processInstanceId p = pid \<and> tp_expectedMode p = in_expectedMode inp
                  \<and> tp_expectedRevision p = in_expectedRevision inp \<and> tp_to p = in_targetMode inp)
                 (RuntimeConflict REQUEST_CONFLICT)) (\<lambda>_.
     and_then (ensure (case rp_state replay of
                    None \<Rightarrow> False
                  | Some st \<Rightarrow> rs_processInstanceId st = tp_processInstanceId p \<and> rs_mode st = tp_to p
                             \<and> rs_revision st = tp_revision p)
                 (RuntimeConflict REQUEST_CONFLICT)) (\<lambda>_.
       currentSnapshot replay))))"

definition transition_checks ::
  "host \<Rightarrow> string \<Rightarrow> RuntimeTransitionInput \<Rightarrow> ReplayResult \<Rightarrow> (RuntimeError, TransitionPayload) result" where
  "transition_checks h pid inp replay =
     and_then (assertUnusedRequestId replay (in_transitionId inp)) (\<lambda>_.
     and_then (current_state replay) (\<lambda>st.
     and_then (ensure (rs_processInstanceId st = pid) (RuntimeConflict CONFLICT_PROCESS_SUPERSEDED)) (\<lambda>_.
     and_then (assertNonRegressingTime h (in_transitionAt inp) replay) (\<lambda>_.
     and_then (ensure (rs_mode st = in_expectedMode inp \<and> rs_revision st = in_expectedRevision inp)
                 (RuntimeConflict STALE_STATE)) (\<lambda>_.
     and_then (ensure (isModeTransitionAllowed (rs_mode st) (in_targetMode inp))
                 (RuntimeConflict INVALID_TRANSITION)) (\<lambda>_.
       Inr \<lparr>tp_expectedMode = in_expectedMode inp, tp_expectedRevision = in_expectedRevision inp,
            tp_from = rs_mode st, tp_previousRevision = rs_revision st,
            tp_processInstanceId = rs_processInstanceId st, tp_requestId = in_transitionId inp,
            tp_revision = rs_revision st + 1, tp_to = in_targetMode inp\<rparr>))))))"

definition transition_body :: "host \<Rightarrow> string \<Rightarrow> RuntimeTransitionInput \<Rightarrow> string \<Rightarrow> (unit, RuntimeSnapshot) act" where
  "transition_body h pid inp uuid =
     act_then (act_read (replayRuntimeStore h)) (\<lambda>replay.
     act_then (find_event h (transition_key (in_transitionId inp))) (\<lambda>existing.
       case existing of
         Some ev \<Rightarrow> act_result (retried_transition pid inp replay ev)
       | None \<Rightarrow>
           act_then (act_result (transition_checks h pid inp replay)) (\<lambda>p.
           act_then (append_payload h (TransitionEvent p) (in_transitionAt inp) uuid) (\<lambda>ev.
             act_result (Inr (snapshotFromModeEvent ev (tp_to p) (tp_processInstanceId p) (tp_revision p)))))))"

definition transition :: "host \<Rightarrow> string \<Rightarrow> jsval \<Rightarrow> string \<Rightarrow> (unit, RuntimeSnapshot) act" where
  "transition h pid inputValue uuid =
     act_then (act_result (or_fail (parseRuntimeInput (RuntimeTransitionInputSchema h) inputValue) RuntimeValidation))
       (\<lambda>inp. exclusively h (transition_body h pid inp uuid))"

subsection \<open>Stopping\<close>

definition retried_stop :: "ReplayResult \<Rightarrow> StoredEvent \<Rightarrow> (RuntimeError, RuntimeSnapshot) result" where
  "retried_stop replay existing =
     and_then (ensure (ev_type existing = RUNTIME_STOP_EVENT_TYPE) (RuntimeConflict REQUEST_CONFLICT)) (\<lambda>_.
     and_then (parsed_stop existing) (\<lambda>p.
     and_then (ensure (sp_cause p = Operator
                  \<and> (case rp_state replay of
                      None \<Rightarrow> False
                    | Some st \<Rightarrow> rs_mode st = STOPPED \<and> rs_processInstanceId st = sp_processInstanceId p
                               \<and> rs_revision st = sp_revision p))
                 (RuntimeConflict REQUEST_CONFLICT)) (\<lambda>_.
       currentSnapshot replay)))"

definition operator_stop :: "RuntimeStopInput \<Rightarrow> RuntimeState \<Rightarrow> StopPayload" where
  "operator_stop inp st =
     \<lparr>sp_cause = Operator, sp_from = Some (rs_mode st), sp_previousRevision = rs_revision st,
      sp_processInstanceId = rs_processInstanceId st, sp_requestId = in_stopId inp,
      sp_revision = rs_revision st + 1\<rparr>"

definition stop_body :: "host \<Rightarrow> RuntimeStopInput \<Rightarrow> string \<Rightarrow> (unit, RuntimeSnapshot) act" where
  "stop_body h inp uuid =
     act_then (act_read (replayRuntimeStore h)) (\<lambda>replay.
     act_then (find_event h (stop_key (in_stopId inp))) (\<lambda>existing.
       case existing of
         Some ev \<Rightarrow> act_result (retried_stop replay ev)
       | None \<Rightarrow>
           act_then (act_result (assertUnusedRequestId replay (in_stopId inp))) (\<lambda>_.
           act_then (act_result (current_state replay)) (\<lambda>st.
           act_then (append_payload h (StopEvent (operator_stop inp st))
                       (nonRegressingStopTime h (in_stopAt inp) replay) uuid) (\<lambda>ev.
             act_result (Inr (snapshotFromModeEvent ev STOPPED (rs_processInstanceId st) (rs_revision st + 1))))))))"

definition stop_runtime :: "host \<Rightarrow> jsval \<Rightarrow> string \<Rightarrow> (unit, RuntimeSnapshot) act" where
  "stop_runtime h inputValue uuid =
     act_then (act_result (or_fail (parseRuntimeInput (RuntimeStopInputSchema h) inputValue) RuntimeValidation))
       (\<lambda>inp. exclusively h (stop_body h inp uuid))"

subsection \<open>Boundary checks\<close>

record IssuedBoundary = RequestedBoundary +
  is_monotonicIssuedAt :: rat
  is_monotonicExpiresAt :: rat

abbreviation requested :: "IssuedBoundary \<Rightarrow> RequestedBoundary" where
  "requested i \<equiv> RequestedBoundary.truncate i"

definition boundaryReceipt :: "StoredEvent \<Rightarrow> BoundaryPayload \<Rightarrow> RuntimeBoundaryReceipt" where
  "boundaryReceipt ev p =
     \<lparr>rc_actionId = bp_actionId p, rc_authorizationId = bp_authorizationId p, rc_boundary = bp_boundary p,
      rc_checkedAt = ev_occurredAt ev, rc_allowed = bp_allowed p, rc_eventHash = ev_eventHash ev,
      rc_eventSequence = ev_sequence ev, rc_mode = bp_checkedMode p, rc_modeRevision = bp_checkedRevision p,
      rc_processInstanceId = bp_checkedProcessInstanceId p, rc_reason = bp_reason p\<rparr>"

definition check_payload :: "host \<Rightarrow> RequestedBoundary \<Rightarrow> RuntimeState \<Rightarrow> string \<Rightarrow> BoundaryPayload" where
  "check_payload h rq st checkedAt =
     (let reason = boundaryReason h rq st checkedAt
      in \<lparr>bp_actionId = rq_actionId rq, bp_authorizationId = rq_authorizationId rq, bp_boundary = rq_boundary rq,
          bp_checkedMode = rs_mode st, bp_checkedProcessInstanceId = rs_processInstanceId st,
          bp_checkedRevision = rs_revision st, bp_allowed = (reason = ALLOWED), bp_expiresAt = rq_expiresAt rq,
          bp_reason = reason, bp_requestedAt = rq_requestedAt rq, bp_requestedMode = rq_requestedMode rq,
          bp_requestedProcessInstanceId = rq_requestedProcessInstanceId rq,
          bp_requestedRevision = rq_requestedRevision rq\<rparr>)"

definition appendBoundaryCheck ::
  "host \<Rightarrow> ReplayResult \<Rightarrow> RequestedBoundary \<Rightarrow> string \<Rightarrow> string \<Rightarrow> ('w, RuntimeBoundaryReceipt) act" where
  "appendBoundaryCheck h replay rq checkedAt uuid =
     act_then (act_result (current_state replay)) (\<lambda>st.
     act_then (find_event h (boundary_key (rq_authorizationId rq))) (\<lambda>existing.
     act_then (act_result (ensure (existing = None) (RuntimeConflict AUTHORIZATION_ALREADY_USED))) (\<lambda>_.
     act_then (act_result (assertNonRegressingTime h checkedAt replay)) (\<lambda>_.
     act_then (act_result (ensure (\<not> date_less h checkedAt (rq_requestedAt rq)) (RuntimeConflict STALE_STATE))) (\<lambda>_.
     act_then (append_payload h (BoundaryEvent (check_payload h rq st checkedAt)) checkedAt uuid) (\<lambda>ev.
       act_result (Inr (boundaryReceipt ev (check_payload h rq st checkedAt)))))))))"

definition issue :: "RuntimeBoundaryInput \<Rightarrow> string \<Rightarrow> RuntimeState \<Rightarrow> string \<Rightarrow> string \<Rightarrow> rat \<Rightarrow> rat \<Rightarrow> IssuedBoundary" where
  "issue inp pid st requestedAt expiresAt issuedAt monotonicExpiresAt =
     \<lparr>rq_actionId = in_actionId inp, rq_authorizationId = in_authorizationId inp, rq_boundary = in_boundary inp,
      rq_expiresAt = expiresAt, rq_requestedAt = requestedAt, rq_requestedMode = rs_mode st,
      rq_requestedProcessInstanceId = pid, rq_requestedRevision = rs_revision st,
      is_monotonicIssuedAt = issuedAt, is_monotonicExpiresAt = monotonicExpiresAt\<rparr>"

definition request_body ::
  "host \<Rightarrow> string \<Rightarrow> RuntimeBoundaryInput \<Rightarrow> ClockReading \<Rightarrow> string
     \<Rightarrow> (unit, IssuedBoundary \<times> RuntimeBoundaryReceipt option) act" where
  "request_body h pid inp clock uuid =
     act_then (act_read (replayRuntimeStore h)) (\<lambda>replay.
     act_then (act_result (current_state replay)) (\<lambda>st.
     act_then (find_event h (boundary_key (in_authorizationId inp))) (\<lambda>existing.
     act_then (act_result (ensure (existing = None) (RuntimeConflict AUTHORIZATION_ALREADY_USED))) (\<lambda>_.
     act_then (act_result (readRuntimeClock h clock)) (\<lambda>clockAt.
     act_then (act_result (readMonotonicClock clock)) (\<lambda>monotonicAt.
       (let requestedAt = nonRegressingBoundaryTime h clockAt replay None in
        act_then (act_result (authorizationExpiry h requestedAt)) (\<lambda>expiresAt.
        act_then (act_result (authorizationMonotonicExpiry monotonicAt)) (\<lambda>monotonicExpiresAt.
          (let rq = issue inp pid st requestedAt expiresAt monotonicAt monotonicExpiresAt in
           if boundaryReason h (requested rq) st requestedAt = ALLOWED then act_result (Inr (rq, None))
           else act_then (appendBoundaryCheck h replay (requested rq) requestedAt uuid) (\<lambda>receipt.
                  act_result (Inr (rq, Some receipt)))))))))))))"

definition denied_receipt :: "IssuedBoundary \<times> RuntimeBoundaryReceipt option \<Rightarrow> (RuntimeError, IssuedBoundary) result" where
  "denied_receipt r = (case r of (rq, None) \<Rightarrow> Inr rq | (_, Some receipt) \<Rightarrow> Inl (BoundaryDenied receipt))"

definition requestBoundaryAuthorization ::
  "host \<Rightarrow> string \<Rightarrow> jsval \<Rightarrow> ClockReading \<Rightarrow> string \<Rightarrow> (unit, IssuedBoundary) act" where
  "requestBoundaryAuthorization h pid inputValue clock uuid =
     act_then (act_result (or_fail (parseRuntimeInput RuntimeBoundaryAuthorizationInputSchema inputValue) RuntimeValidation))
       (\<lambda>inp. act_then (exclusively h (request_body h pid inp clock uuid)) (\<lambda>r. act_result (denied_receipt r)))"

subsection \<open>Consumption\<close>

definition outside_lifetime :: "IssuedBoundary \<Rightarrow> rat \<Rightarrow> bool" where
  "outside_lifetime rq monotonicAt \<longleftrightarrow>
     monotonicAt < is_monotonicIssuedAt rq \<or> monotonicAt \<ge> is_monotonicExpiresAt rq"

definition check_time :: "host \<Rightarrow> IssuedBoundary \<Rightarrow> ReplayResult \<Rightarrow> string \<Rightarrow> rat \<Rightarrow> string" where
  "check_time h rq replay clockAt monotonicAt =
     (let checkedAt = nonRegressingBoundaryTime h clockAt replay (Some (rq_requestedAt rq))
      in if outside_lifetime rq monotonicAt \<and> date_less h checkedAt (rq_expiresAt rq) then rq_expiresAt rq
         else checkedAt)"

definition check_body :: "host \<Rightarrow> IssuedBoundary \<Rightarrow> ClockReading \<Rightarrow> string \<Rightarrow> ('w, RuntimeBoundaryReceipt) act" where
  "check_body h rq clock uuid =
     act_then (act_read (replayRuntimeStore h)) (\<lambda>replay.
     act_then (act_result (readRuntimeClock h clock)) (\<lambda>clockAt.
     act_then (act_result (readMonotonicClock clock)) (\<lambda>monotonicAt.
       appendBoundaryCheck h replay (requested rq) (check_time h rq replay clockAt monotonicAt) uuid)))"

definition allowed_receipt :: "RuntimeBoundaryReceipt \<Rightarrow> (RuntimeError, RuntimeBoundaryReceipt) result" where
  "allowed_receipt r = (if rc_allowed r then Inr r else Inl (BoundaryDenied r))"

definition consumeBoundaryAuthorization ::
  "host \<Rightarrow> IssuedBoundary \<Rightarrow> ClockReading \<Rightarrow> string \<Rightarrow> ('w, RuntimeBoundaryReceipt) act" where
  "consumeBoundaryAuthorization h rq clock uuid =
     act_then (exclusively h (check_body h rq clock uuid)) (\<lambda>r. act_result (allowed_receipt r))"

definition consumeAndDispatch ::
  "host \<Rightarrow> IssuedBoundary \<Rightarrow> (RuntimeBoundaryReceipt \<Rightarrow> 'w \<Rightarrow> 'w \<times> bool) \<Rightarrow> ClockReading \<Rightarrow> string
     \<Rightarrow> ('w, RuntimeBoundaryReceipt) act" where
  "consumeAndDispatch h rq dispatch clock uuid =
     act_then (exclusively h
       (act_then (check_body h rq clock uuid) (\<lambda>checked.
        act_then (if rc_allowed checked then act_call dispatch checked else act_result (Inr ())) (\<lambda>_.
          act_result (Inr checked)))))
       (\<lambda>r. act_result (allowed_receipt r))"

subsection \<open>Completion\<close>

record RuntimeCompletionFacts =
  cf_actionId :: string
  cf_authorizationId :: string
  cf_checkedAt :: string
  cf_allowed :: bool
  cf_mode :: RuntimeMode
  cf_modeRevision :: int
  cf_processInstanceId :: string
  cf_reason :: BoundaryReason

definition boundaryCompletionFacts :: "IssuedBoundary \<Rightarrow> RuntimeState \<Rightarrow> string \<Rightarrow> RuntimeCompletionFacts" where
  "boundaryCompletionFacts rq st checkedAt =
     (let reason = boundaryCompletionReason (requested rq) st
      in \<lparr>cf_actionId = rq_actionId rq, cf_authorizationId = rq_authorizationId rq, cf_checkedAt = checkedAt,
          cf_allowed = (reason = ALLOWED), cf_mode = rs_mode st, cf_modeRevision = rs_revision st,
          cf_processInstanceId = rs_processInstanceId st, cf_reason = reason\<rparr>)"

definition durable_check :: "IssuedBoundary \<Rightarrow> BoundaryPayload \<Rightarrow> bool" where
  "durable_check rq p \<longleftrightarrow>
     bp_actionId p = rq_actionId rq \<and> bp_authorizationId p = rq_authorizationId rq
   \<and> bp_boundary p = ResearchCollection \<and> bp_allowed p \<and> bp_reason p = ALLOWED
   \<and> bp_expiresAt p = rq_expiresAt rq \<and> bp_requestedAt p = rq_requestedAt rq
   \<and> bp_requestedMode p = rq_requestedMode rq
   \<and> bp_requestedProcessInstanceId p = rq_requestedProcessInstanceId rq
   \<and> bp_requestedRevision p = rq_requestedRevision rq \<and> bp_checkedMode p = rq_requestedMode rq
   \<and> bp_checkedProcessInstanceId p = rq_requestedProcessInstanceId rq
   \<and> bp_checkedRevision p = rq_requestedRevision rq"

definition assertDurableAllowedBoundary :: "host \<Rightarrow> IssuedBoundary \<Rightarrow> ('w, unit) act" where
  "assertDurableAllowedBoundary h rq =
     act_then (find_event h (boundary_key (rq_authorizationId rq))) (\<lambda>found. act_result
       (case found of
         None \<Rightarrow> Inl RuntimeIntegrity
       | Some ev \<Rightarrow>
           and_then (ensure (ev_aggregateId ev = RUNTIME_AGGREGATE_ID \<and> ev_type ev = RUNTIME_BOUNDARY_EVENT_TYPE
                        \<and> ev_idempotencyKey ev = Some (boundary_key (rq_authorizationId rq))) RuntimeIntegrity) (\<lambda>_.
           and_then (or_fail (RuntimeBoundaryEventPayloadSchema h (ev_payload ev)) RuntimeIntegrity) (\<lambda>p.
             ensure (durable_check rq p) RuntimeIntegrity))))"

definition guardBoundaryCompletion ::
  "host \<Rightarrow> IssuedBoundary \<Rightarrow> (RuntimeCompletionFacts \<Rightarrow> 'w \<Rightarrow> 'w \<times> bool) \<Rightarrow> ClockReading
     \<Rightarrow> ('w, RuntimeCompletionFacts) act" where
  "guardBoundaryCompletion h rq completion clock =
     exclusively h
       (act_then (act_read (replayRuntimeStore h)) (\<lambda>replay.
        act_then (assertDurableAllowedBoundary h rq) (\<lambda>_.
        act_then (act_result (current_state replay)) (\<lambda>st.
        act_then (act_result (readRuntimeClock h clock)) (\<lambda>clockAt.
          (let facts = boundaryCompletionFacts rq st
                 (nonRegressingBoundaryTime h clockAt replay (Some (rq_requestedAt rq))) in
           act_then (if cf_allowed facts then act_call completion facts else act_result (Inr ())) (\<lambda>_.
             act_result (Inr facts))))))))"

subsection \<open>Local commits\<close>

text \<open>A commit callback: it acts on the world, calls the checkpoint and goes on with its result, or finishes.\<close>

datatype ('w, 'r) commit_script =
    Finish 'r
  | Perform "'w \<Rightarrow> 'w" "('w, 'r) commit_script"
  | CallCheckpoint "(RuntimeError, string) result \<Rightarrow> ('w, 'r) commit_script"

datatype checkpoint_state = Unused | Valid | Failed

definition assertFresh :: "host \<Rightarrow> IssuedBoundary \<Rightarrow> ReplayResult \<Rightarrow> ClockReading \<Rightarrow> (RuntimeError, string) result" where
  "assertFresh h rq replay clock =
     and_then (current_state replay) (\<lambda>st.
     and_then (readRuntimeClock h clock) (\<lambda>clockAt.
     and_then (readMonotonicClock clock) (\<lambda>monotonicAt.
       (let checkedAt = nonRegressingBoundaryTime h clockAt replay (Some (rq_requestedAt rq)) in
        and_then (ensure (boundaryReason h (requested rq) st checkedAt = ALLOWED \<and> \<not> outside_lifetime rq monotonicAt)
                    (RuntimeConflict STALE_STATE)) (\<lambda>_. Inr checkedAt)))))"

text \<open>\<open>clocks n\<close> is what the clocks say when they are read for the n-th time.\<close>

primrec run_commit ::
  "host \<Rightarrow> IssuedBoundary \<Rightarrow> (nat \<Rightarrow> ClockReading) \<Rightarrow> ('w, 'r) commit_script \<Rightarrow> nat \<Rightarrow> checkpoint_state
     \<Rightarrow> EventStore \<Rightarrow> 'w \<Rightarrow> 'w \<times> checkpoint_state \<times> 'r" where
  "run_commit h rq clocks (Finish r) n st s w = (w, st, r)"
| "run_commit h rq clocks (Perform f k) n st s w = run_commit h rq clocks k n st s (f w)"
| "run_commit h rq clocks (CallCheckpoint k) n st s w =
     (if st \<noteq> Unused then run_commit h rq clocks (k (Inl (RuntimeConflict STALE_STATE))) n Failed s w
      else (case and_then (replayRuntimeStore h s) (\<lambda>replay. assertFresh h rq replay (clocks n)) of
              Inl e \<Rightarrow> run_commit h rq clocks (k (Inl e)) (Suc n) Failed s w
            | Inr t \<Rightarrow> run_commit h rq clocks (k (Inr t)) (Suc n) Valid s w))"

definition act_commit ::
  "host \<Rightarrow> IssuedBoundary \<Rightarrow> (nat \<Rightarrow> ClockReading) \<Rightarrow> ('w, bool) commit_script \<Rightarrow> ('w, unit) act" where
  "act_commit h rq clocks script =
     (\<lambda>s w. case run_commit h rq clocks script 2 Unused s w of
       (w', st, returned) \<Rightarrow>
         (s, w', and_then (ensure returned CallbackThrew) (\<lambda>_. ensure (st = Valid) RuntimeValidation)))"

definition consumeLocalCommit ::
  "host \<Rightarrow> IssuedBoundary \<Rightarrow> (RuntimeBoundaryReceipt \<Rightarrow> ('w, bool) commit_script) \<Rightarrow> (nat \<Rightarrow> ClockReading) \<Rightarrow> string
     \<Rightarrow> ('w, RuntimeBoundaryReceipt) act" where
  "consumeLocalCommit h rq commit clocks uuid =
     act_then (consumeBoundaryAuthorization h rq (clocks 0) uuid) (\<lambda>receipt. exclusively h
       (act_then (act_read (replayRuntimeStore h)) (\<lambda>replay.
        act_then (act_result (ensure (rp_state replay \<noteq> None \<and> isLocalCommitBoundary (rq_boundary rq)) RuntimeIntegrity)) (\<lambda>_.
        act_then (find_event h (boundary_key (rq_authorizationId rq))) (\<lambda>durable.
        act_then (act_result (ensure (map_option ev_eventHash durable = Some (rc_eventHash receipt)) RuntimeIntegrity)) (\<lambda>_.
        act_then (act_result (assertFresh h rq replay (clocks 1))) (\<lambda>_.
        act_then (act_commit h rq clocks (commit receipt)) (\<lambda>_.
          act_result (Inr receipt)))))))))"

subsection \<open>Persisted receipts\<close>

definition MAX_PERSISTED_ATTENTION_REFRESH_RECEIPTS :: nat where
  "MAX_PERSISTED_ATTENTION_REFRESH_RECEIPTS = 1000"

definition parsePersistedAttentionRefreshReceipts ::
  "host \<Rightarrow> jsval \<Rightarrow> (RuntimeError, RuntimeBoundaryReceipt list) result" where
  "parsePersistedAttentionRefreshReceipts h inputValue =
     (case inputValue of
       JArr vs \<Rightarrow>
         and_then (ensure (length vs \<le> MAX_PERSISTED_ATTENTION_REFRESH_RECEIPTS) RuntimeValidation) (\<lambda>_.
           or_fail (collect (parseRuntimeInput (RuntimeAllowedAttentionRefreshReceiptSchema h)) vs) RuntimeValidation)
     | _ \<Rightarrow> Inl RuntimeValidation)"

definition assertExactAttentionRefreshReceipt ::
  "host \<Rightarrow> StoredEvent option \<Rightarrow> RuntimeBoundaryReceipt \<Rightarrow> (RuntimeError, unit) result" where
  "assertExactAttentionRefreshReceipt h found receipt =
     (case found of
       None \<Rightarrow> Inl RuntimeIntegrity
     | Some ev \<Rightarrow>
         and_then (ensure (ev_aggregateId ev = RUNTIME_AGGREGATE_ID \<and> ev_type ev = RUNTIME_BOUNDARY_EVENT_TYPE
                      \<and> ev_idempotencyKey ev = Some (boundary_key (rc_authorizationId receipt))) RuntimeIntegrity) (\<lambda>_.
         and_then (or_fail (RuntimeBoundaryEventPayloadSchema h (ev_payload ev)) RuntimeIntegrity) (\<lambda>p.
           ensure (boundaryReceipt ev p = receipt) RuntimeIntegrity)))"

fun assert_receipts :: "host \<Rightarrow> RuntimeBoundaryReceipt list \<Rightarrow> (unit, unit) act" where
  "assert_receipts h [] = act_result (Inr ())"
| "assert_receipts h (r # rs) =
     act_then (find_event h (boundary_key (rc_authorizationId r))) (\<lambda>found.
     act_then (act_result (assertExactAttentionRefreshReceipt h found r)) (\<lambda>_. assert_receipts h rs))"

definition verifyPersistedAttentionRefreshReceipts ::
  "host \<Rightarrow> jsval \<Rightarrow> (unit, RuntimeBoundaryReceipt list) act" where
  "verifyPersistedAttentionRefreshReceipts h inputValue =
     act_then (act_result (parsePersistedAttentionRefreshReceipts h inputValue)) (\<lambda>receipts. exclusively h
       (act_then (act_read (replayRuntimeStore h)) (\<lambda>_.
        act_then (assert_receipts h receipts) (\<lambda>_. act_result (Inr receipts)))))"

definition verifyPersistedAttentionRefreshReceipt :: "host \<Rightarrow> jsval \<Rightarrow> (unit, RuntimeBoundaryReceipt) act" where
  "verifyPersistedAttentionRefreshReceipt h inputValue =
     act_then (verifyPersistedAttentionRefreshReceipts h (JArr [inputValue])) (\<lambda>rs.
       act_result (case rs of [] \<Rightarrow> Inl RuntimeIntegrity | r # _ \<Rightarrow> Inr r))"

end
