(* ===== verification/RuntimeSafety.thy ===== *)
theory RuntimeSafety
  imports RuntimeController
begin

text \<open>
  Why the runtime authority is safe. Every operation leaves the log as it was or extends it by one event that
  the replay accepts (\<open>runtime_grows\<close>); the theory derives this of each operation from one
  lemma about appending a payload, and from it the facts the root theory states: revisions only grow,
  a STOP ends every authorization issued before it, an authorization id is checked once, and callbacks run
  only behind an allowed, current and durable check.
\<close>

subsection \<open>Timestamps and sorted payloads\<close>

lemma js_length_ascii: "list_all (\<lambda>c. code c < 128) s \<Longrightarrow> js_length s = length s"
  by (induction s) (auto simp: js_length_def)

lemma to_iso_ascii: "list_all (\<lambda>c. code c < 128) (to_iso t)"
proof -
  let ?ascii = "list_all (\<lambda>c. code c < 128)"
  have d: "code (digit_char (n mod 10)) < 128" for n by (simp add: digit_char_props)
  have digits: "?ascii (digits2 n)" "?ascii (digits3 n)" "?ascii (digits4 n)" "?ascii (digits6 n)" for n
    by (simp_all add: digits2_def digits3_def digits4_def digits6_def d)
  have c: "code CHR ''-'' < 128" "code CHR ''T'' < 128" "code CHR '':'' < 128" "code CHR ''.'' < 128"
    "code CHR ''Z'' < 128" "code CHR ''+'' < 128" by (simp_all add: code_def)
  then have "?ascii (year_text y)" for y by (simp add: year_text_def digits)
  then show ?thesis by (simp add: to_iso_def Let_def digits c)
qed

lemma timestamp_iff [simp]: "RuntimeCanonicalTimestampSchema h s \<longleftrightarrow> canonical_time h s"
proof
  assume "canonical_time h s"
  then obtain t where "valid_time t" "s = to_iso t" by (auto simp: canonical_time_iff)
  then have "js_length s = length s" "length s \<le> 27"
    using js_length_ascii [OF to_iso_ascii] by (auto simp: length_to_iso length_year_text)
  then show "RuntimeCanonicalTimestampSchema h s"
    using \<open>canonical_time h s\<close> by (simp add: RuntimeCanonicalTimestampSchema_def)
qed (simp add: RuntimeCanonicalTimestampSchema_def)

text \<open>A flat object, its keys distinct, reads the same after canonical JSON has sorted them.\<close>

lemma z_object_sorted:
  assumes "distinct (map fst fs)" "\<forall>(k, v) \<in> set fs. sort_deep v = v"
  shows "z_object keys (sort_deep (JObj fs)) = z_object keys (JObj fs)"
proof -
  have "map (\<lambda>(k, v). (k, sort_deep v)) fs = fs" using assms(2) by (intro map_idI) auto
  then have s: "sort_deep (JObj fs) = JObj (sort_key field_order fs)" by simp
  show ?thesis unfolding s by (rule z_object_permuted) (use assms(1) in simp_all)
qed

lemma stop_sorted: "RuntimeStopEventPayloadSchema (sort_deep (stop_json p)) = RuntimeStopEventPayloadSchema (stop_json p)"
  unfolding RuntimeStopEventPayloadSchema_def stop_json_def
  by (subst z_object_sorted) (simp_all split: option.splits)

lemma transition_sorted:
  "RuntimeTransitionEventPayloadSchema (sort_deep (transition_json p)) = RuntimeTransitionEventPayloadSchema (transition_json p)"
  unfolding RuntimeTransitionEventPayloadSchema_def transition_json_def
  by (subst z_object_sorted) simp_all

lemma boundary_sorted:
  "RuntimeBoundaryEventPayloadSchema h (sort_deep (boundary_json p)) = RuntimeBoundaryEventPayloadSchema h (boundary_json p)"
  unfolding RuntimeBoundaryEventPayloadSchema_def boundary_json_def
  by (subst z_object_sorted) simp_all

primrec payload_bounds :: "host \<Rightarrow> RuntimePayload \<Rightarrow> bool" where
  "payload_bounds h (StopEvent p) = stop_bounds p"
| "payload_bounds h (TransitionEvent p) = transition_bounds p"
| "payload_bounds h (BoundaryEvent p) = boundary_bounds h p"

lemma payload_wf: "payload_bounds h p \<Longrightarrow> wf_json h (payload_json p)"
  by (cases p)
    (auto simp: stop_json_def transition_json_def boundary_json_def stop_bounds_def transition_bounds_def
      boundary_bounds_def safe_int_def max_safe_integer_def split: option.splits)

lemma event_types_distinct [simp]:
  "RUNTIME_TRANSITION_EVENT_TYPE \<noteq> RUNTIME_STOP_EVENT_TYPE" "RUNTIME_BOUNDARY_EVENT_TYPE \<noteq> RUNTIME_STOP_EVENT_TYPE"
  "RUNTIME_BOUNDARY_EVENT_TYPE \<noteq> RUNTIME_TRANSITION_EVENT_TYPE"
  by (simp_all add: RUNTIME_TRANSITION_EVENT_TYPE_def RUNTIME_STOP_EVENT_TYPE_def RUNTIME_BOUNDARY_EVENT_TYPE_def)

lemma event_payload_read:
  assumes "payload_bounds h p" "ev_type ev = payload_type p" "ev_payload ev = sort_deep (payload_json p)"
  shows "event_payload h ev = Some p"
  using assms
  by (cases p)
    (simp_all add: event_payload_def stop_sorted transition_sorted boundary_sorted stop_reparse transition_reparse
      boundary_reparse del: sort_deep.simps)

subsection \<open>The log and its audit\<close>

definition audit :: "host \<Rightarrow> Database \<Rightarrow> (RuntimeError, ReplayResult) result" where
  "audit h db = and_then (lift_store (collect_events h (by_sequence db))) (replay_events h replay_start)"

lemma lift_store_simps [simp]: "lift_store (Inr x) = Inr x" "lift_store (Inl e) = Inl (RuntimeStore e)"
  by (simp_all add: lift_store_def)

lemma lift_store_Inr [simp]: "lift_store r = Inr x \<longleftrightarrow> r = Inr x"
  by (cases r) simp_all

lemma replayRuntimeStore_open: "assertOpen s = Inr () \<Longrightarrow> replayRuntimeStore h s = audit h (store_db s)"
  by (simp add: replayRuntimeStore_def audit_def list_events_def validateFilters_def ascending_def
      optional_identifier_def bounded_filter_def select_rows_def row_matches_def Let_def)

lemma collect_events_append:
  "collect_events h (xs @ ys) = and_then (collect_events h xs) (\<lambda>es. and_then (collect_events h ys) (\<lambda>fs. Inr (es @ fs)))"
proof (induction xs)
  case Nil
  then show ?case by (cases "collect_events h ys") simp_all
next
  case (Cons x xs)
  then show ?case
    by (cases "rowToEvent h x"; cases "collect_events h xs"; cases "collect_events h ys") simp_all
qed

definition extends_by :: "host \<Rightarrow> Database \<Rightarrow> StoredEvent \<Rightarrow> Database \<Rightarrow> bool" where
  "extends_by h db ev db' \<longleftrightarrow>
     valid_db h db' \<and> (\<exists>r. by_sequence db' = by_sequence db @ [r] \<and> rowToEvent h r = Inr ev)"

lemma audit_extended:
  "extends_by h db ev db' \<Longrightarrow> audit h db = Inr acc \<Longrightarrow> audit h db' = replay_event h acc ev"
  by (cases "replay_event h acc ev") (auto simp: extends_by_def audit_def collect_events_append replay_events_append)

lemma audit_events:
  assumes "audit h db = Inr acc"
  obtains evs where "collect_events h (by_sequence db) = Inr evs" "replay_events h replay_start evs = Inr acc"
    "replay_ok h evs acc" "length evs = length (db_rows db)"
proof -
  from assms obtain evs where evs: "collect_events h (by_sequence db) = Inr evs"
      "replay_events h replay_start evs = Inr acc" by (auto simp: audit_def)
  have "length evs = length (db_rows db)"
    using collect_events_length [OF evs(1)] by (metis length_map length_by_sequence)
  then show thesis using that evs replay_events_ok by blast
qed

lemma rowToEvent_fields:
  assumes "rowToEvent h r = Inr e"
  shows "ev_aggregateId e = row_aggregate_id r" "ev_eventHash e = row_event_hash r" "ev_eventId e = row_event_id r"
    "ev_idempotencyKey e = row_idempotency_key r" "ev_occurredAt e = row_occurred_at r"
    "ev_previousHash e = row_previous_hash r" "ev_sequence e = row_sequence r" "ev_type e = row_event_type r"
    "json_parse h (row_payload_json r) = Some (ev_payload e)"
  using assms by (auto simp: rowToEvent_def)

lemma collect_member: "collect_events h rs = Inr es \<Longrightarrow> e \<in> set es \<Longrightarrow> \<exists>r \<in> set rs. rowToEvent h r = Inr e"
  by (induction rs arbitrary: es) auto

lemma audit_authorization_ids:
  assumes "audit h db = Inr acc" "find_by_key db (boundary_key i) = None"
  shows "i \<notin> set (rp_authorizationIds acc)"
proof
  assume "i \<in> set (rp_authorizationIds acc)"
  obtain evs where evs: "collect_events h (by_sequence db) = Inr evs" "replay_ok h evs acc"
    using audit_events [OF assms(1)] by blast
  then obtain ev where ev: "ev \<in> set evs" "ev_idempotencyKey ev = Some (boundary_key i)"
    using \<open>i \<in> _\<close> by (auto simp: replay_ok_def)
  then obtain r where "r \<in> set (db_rows db)" "rowToEvent h r = Inr ev"
    using collect_member [OF evs(1)] by auto
  then have "row_idempotency_key r = Some (boundary_key i)" using ev(2) by (auto simp: rowToEvent_def)
  then show False using assms(2) \<open>r \<in> _\<close> by (auto simp: find_by_key_def find_None_iff)
qed

subsection \<open>Appending a payload\<close>

lemma runtime_event_fields [simp]:
  "property_of (runtime_event p t) ''type'' = JStr (payload_type p)"
  "property_of (runtime_event p t) ''aggregateId'' = JStr RUNTIME_AGGREGATE_ID"
  "property_of (runtime_event p t) ''eventId'' = JUndefined"
  "property_of (runtime_event p t) ''idempotencyKey'' = JStr (payload_key p)"
  "property_of (runtime_event p t) ''payload'' = payload_json p"
  "property_of (runtime_event p t) ''occurredAt'' = JStr t"
  by (simp_all add: runtime_event_def property_of_def)

lemma runtime_event_wf: "payload_bounds h p \<Longrightarrow> wf_json h (JObj (runtime_event p t))"
  by (simp add: runtime_event_def payload_wf)

lemma prepared_runtime_event:
  assumes "prepareEvent h (JObj (runtime_event p t)) now = Inr pe" "canonical_time h t"
  shows "pe_eventId pe = None" "pe_idempotencyKey pe = Some (payload_key p)" "pe_type pe = payload_type p"
    "pe_aggregateId pe = RUNTIME_AGGREGATE_ID" "pe_occurredAt pe = t"
    "canonicalJson h (payload_json p) = Inr (pe_payloadJson pe)"
proof -
  have id: "validateIdentifier (JStr s) f = Inr i \<Longrightarrow> i = s" for s f i
    by (auto simp: validateIdentifier_def)
  show "pe_eventId pe = None" "pe_idempotencyKey pe = Some (payload_key p)" "pe_type pe = payload_type p"
      "pe_aggregateId pe = RUNTIME_AGGREGATE_ID" "pe_occurredAt pe = t"
      "canonicalJson h (payload_json p) = Inr (pe_payloadJson pe)"
    using assms(1) normalize_of_canonical [OF assms(2)]
    by (auto simp: prepareEvent_def Let_def optional_identifier_def dest: id split: sum.splits)
qed

lemma append_payload_extends:
  assumes s: "store_exclusive s" "valid_db h (store_db s)" "has_room (store_db s)" "hex_digests (sha256_hex h)"
    and p: "payload_bounds h p" "canonical_time h t" "find_by_key (store_db s) (payload_key p) = None"
    and run: "append_payload h p t uuid s w = (s', w', Inr ev)"
  shows "extends_by h (store_db s) ev (store_db s')" "s' = s\<lparr>store_db := store_db s'\<rparr>" "w' = w"
    "ev_aggregateId ev = RUNTIME_AGGREGATE_ID" "ev_eventId ev = uuid" "ev_occurredAt ev = t"
    "ev_idempotencyKey ev = Some (payload_key p)" "event_payload h ev = Some p"
proof -
  have app: "append_event h s (JObj (runtime_event p t)) 0 uuid = (s', Inr ev)" and w: "w' = w"
    using run by (auto simp: append_payload_def split: prod.splits)
  obtain pe where open_s: "assertOpen s = Inr ()" and pe: "prepareEvent h (JObj (runtime_event p t)) 0 = Inr pe"
    using app by (cases "assertOpen s"; cases "prepareEvent h (JObj (runtime_event p t)) 0")
      (auto simp: append_event_def)
  note fields = prepared_runtime_event [OF pe p(2)]
  obtain db' r where row: "append_row h (store_db s) False pe uuid = (db', Inr r)" and ev: "rowToEvent h r = Inr ev"
      and s': "s' = s\<lparr>store_db := db'\<rparr>"
    using app s(1) open_s pe
    by (cases "append_row h (store_db s) False pe uuid"; cases "snd (append_row h (store_db s) False pe uuid)")
      (auto simp: append_event_def Let_def split: sum.splits)
  have dup: "resolveDuplicate (store_db s) pe = Inr None"
    using fields(1,2) p(3) by (simp add: resolveDuplicate_def)
  obtain m where m: "r = next_row h pe m uuid"
      "db_rows db' = db_rows (store_db s) @ [r]" "db_metadata (store_db s) = Some m"
    by (cases rule: append_row_cases [of h "store_db s" False pe uuid]) (use row dup in auto)
  have ok: "prepared_ok h pe" by (rule prepareEvent_ok [OF pe runtime_event_wf [OF p(1)]])
  have valid: "valid_db h db'" "prefix (by_sequence (store_db s)) (by_sequence db')"
    using append_row_valid [OF s(2,4) ok s(3), of False uuid] row by auto
  have "row_sequence r = int (length (db_rows (store_db s))) + 1"
    using s(2) m(1,3) head_sequence_chain [of h GENESIS_HASH "by_sequence (store_db s)"] by (auto simp: valid_db_def)
  then have "by_sequence db' = by_sequence (store_db s) @ [r]"
    using by_sequence_insert [OF s(2), of r] m(2) by (simp add: by_sequence_def insert_row_def)
  then show "extends_by h (store_db s) ev (store_db s')" using valid(1) ev s' by (auto simp: extends_by_def)
  show "s' = s\<lparr>store_db := store_db s'\<rparr>" "w' = w" using s' w by simp_all
  show "ev_aggregateId ev = RUNTIME_AGGREGATE_ID" "ev_eventId ev = uuid" "ev_occurredAt ev = t"
    "ev_idempotencyKey ev = Some (payload_key p)"
    using ev fields by (auto simp: rowToEvent_def m(1))
  have "json_parse h (pe_payloadJson pe) = Some (sort_deep (payload_json p))"
    by (rule json_parse_serialized [OF fields(6) payload_wf [OF p(1)]])
  then have "ev_payload ev = sort_deep (payload_json p)" "ev_type ev = payload_type p"
    using ev fields by (auto simp: rowToEvent_def m(1))
  then show "event_payload h ev = Some p" using event_payload_read [OF p(1)] by blast
qed

subsection \<open>One accepted event\<close>

definition runtime_grows :: "host \<Rightarrow> Database \<Rightarrow> Database \<Rightarrow> bool" where
  "runtime_grows h db db' \<longleftrightarrow>
     db' = db \<or> (\<exists>ev acc acc'. audit h db = Inr acc \<and> extends_by h db ev db' \<and> replay_event h acc ev = Inr acc')"

text \<open>What the body of a transaction starts from.\<close>

definition ready :: "host \<Rightarrow> EventStore \<Rightarrow> bool" where
  "ready h s \<longleftrightarrow> store_exclusive s \<and> assertOpen s = Inr () \<and> valid_db h (store_db s) \<and> has_room (store_db s)
     \<and> hex_digests (sha256_hex h)"

lemma ready_replay [simp]: "ready h s \<Longrightarrow> replayRuntimeStore h s = audit h (store_db s)"
  by (simp add: ready_def replayRuntimeStore_open)

definition follows_audit :: "host \<Rightarrow> string \<Rightarrow> ReplayResult \<Rightarrow> bool" where
  "follows_audit h t replay \<longleftrightarrow> (case rp_lastAuditAt replay of None \<Rightarrow> True | Some l \<Rightarrow> \<not> date_less h t l)"

lemma append_payload_grows:
  assumes s: "ready h s" "audit h (store_db s) = Inr acc" "RuntimeUuidSchema uuid"
    and p: "payload_bounds h p" "canonical_time h t" "find_by_key (store_db s) (payload_key p) = None" "follows_audit h t acc"
    and accepted: "\<And>ev. ev_occurredAt ev = t \<Longrightarrow> \<exists>acc''. replay_payload h acc ev p = Inr acc''"
    and run: "append_payload h p t uuid s w = (s', w', Inr ev)"
  obtains acc'' where "runtime_grows h (store_db s) (store_db s')" "replay_payload h acc ev p = Inr acc''"
    "audit h (store_db s') = Inr (acc''\<lparr>rp_events := rp_events acc @ [audit_event ev p], rp_lastAuditAt := Some t\<rparr>)"
    "extends_by h (store_db s) ev (store_db s')" "s' = s\<lparr>store_db := store_db s'\<rparr>" "w' = w"
    "event_payload h ev = Some p" "ev_occurredAt ev = t"
proof -
  have ext: "extends_by h (store_db s) ev (store_db s')" "s' = s\<lparr>store_db := store_db s'\<rparr>" "w' = w"
    "ev_aggregateId ev = RUNTIME_AGGREGATE_ID" "ev_eventId ev = uuid" "ev_occurredAt ev = t"
    "ev_idempotencyKey ev = Some (payload_key p)" "event_payload h ev = Some p"
    using append_payload_extends [OF _ _ _ _ p(1,2,3) run] s(1) by (auto simp: ready_def)
  obtain acc'' where acc'': "replay_payload h acc ev p = Inr acc''" using accepted [OF ext(6)] by blast
  define acc' where "acc' = acc''\<lparr>rp_events := rp_events acc @ [audit_event ev p], rp_lastAuditAt := Some t\<rparr>"
  have "replay_event h acc ev = Inr acc'"
    using ext s(3) p(4) acc'' by (simp add: replay_event_Inr acc'_def follows_audit_def split: option.splits)
  moreover from this have "audit h (store_db s') = Inr acc'" using audit_extended [OF ext(1) s(2)] by simp
  ultimately show thesis using that acc'' ext s(2) unfolding acc'_def runtime_grows_def by blast
qed

subsection \<open>Success of a body\<close>

lemma act_then_Inr [simp]:
  "act_then m f s w = (s', w', Inr x) \<longleftrightarrow> (\<exists>s1 w1 y. m s w = (s1, w1, Inr y) \<and> f y s1 w1 = (s', w', Inr x))"
  by (auto simp: act_then_def split: prod.splits sum.splits)

lemma act_simps [simp]:
  "act_result r s w = (s', w', q) \<longleftrightarrow> s' = s \<and> w' = w \<and> r = q"
  "act_read f s w = (s', w', q) \<longleftrightarrow> s' = s \<and> w' = w \<and> f s = q"
  by (auto simp: act_result_def act_read_def)

lemma act_call_Inr [simp]:
  "act_call f x s w = (s', w', Inr u) \<longleftrightarrow> s' = s \<and> f x w = (w', True)"
  by (auto simp: act_call_def split: prod.splits)

lemma find_event_None:
  "find_event h k s w = (s', w', Inr None) \<Longrightarrow> s' = s \<and> w' = w \<and> find_by_key (store_db s) k = None"
  by (auto simp: find_event_def getByIdempotencyKey_def validateIdentifier_def split: option.splits)

lemma find_event_Some:
  "find_event h k s w = (s', w', Inr (Some ev)) \<Longrightarrow>
     s' = s \<and> w' = w \<and> (\<exists>r. find_by_key (store_db s) k = Some r \<and> rowToEvent h r = Inr ev)"
  by (auto simp: find_event_def getByIdempotencyKey_def validateIdentifier_def split: option.splits)

lemma find_event_same: "find_event h k s w = (s', w', r) \<Longrightarrow> s' = s \<and> w' = w"
  by (simp add: find_event_def)

subsection \<open>Times\<close>

lemma canonical_last:
  assumes "valid_db h db" "audit h db = Inr acc" "rp_lastAuditAt acc = Some l"
  shows "canonical_time h l"
proof -
  obtain evs where evs: "collect_events h (by_sequence db) = Inr evs" "replay_ok h evs acc"
    using audit_events [OF assms(2)] by blast
  then have "evs \<noteq> []" "l = ev_occurredAt (last evs)" using assms(3) by (auto simp: replay_ok_def split: if_splits)
  then obtain r where r: "r \<in> set (by_sequence db)" "rowToEvent h r = Inr (last evs)"
    using collect_member [OF evs(1), of "last evs"] by auto
  then obtain prev n where "row_ok h prev n r"
    using assms(1) chain_member_ok by (metis valid_db_def)
  then have "normalizeOccurredAt h (JStr l) = Inr l"
    using rowToEvent_fields [OF r(2)] \<open>l = _\<close> by (simp add: row_ok_def)
  then show ?thesis by (rule normalize_canonical)
qed

lemma stop_time:
  assumes "valid_db h db" "audit h db = Inr acc" "canonical_time h t"
  shows "canonical_time h (nonRegressingStopTime h t acc)" "follows_audit h (nonRegressingStopTime h t acc) acc"
  using assms canonical_last [OF assms(1,2)]
  by (auto simp: nonRegressingStopTime_def follows_audit_def date_less_def split: option.splits)

lemma boundary_time:
  assumes "valid_db h db" "audit h db = Inr acc" "canonical_time h t" "\<forall>m. minimum = Some m \<longrightarrow> canonical_time h m"
  shows "canonical_time h (nonRegressingBoundaryTime h t acc minimum)"
  using stop_time(1) [OF assms(1-3)] assms(4)
  by (auto simp: nonRegressingBoundaryTime_def Let_def split: option.splits)

lemma clock_canonical: "readRuntimeClock h c = Inr t \<Longrightarrow> canonical_time h t"
  by (auto simp: readRuntimeClock_def parseRuntimeInput_def parse_simps split: if_splits)

lemma expiry_time:
  assumes "authorizationExpiry h t = Inr x"
  obtains n where "date_parse h t = Some n" "valid_time (n + AUTHORIZATION_TTL_MS)" "x = to_iso (n + AUTHORIZATION_TTL_MS)"
    "canonical_time h x"
  using assms by (auto simp: authorizationExpiry_def canonical_time_iff split: option.splits if_splits)

subsection \<open>A boundary check\<close>

definition request_ok :: "host \<Rightarrow> RequestedBoundary \<Rightarrow> bool" where
  "request_ok h rq \<longleftrightarrow>
     RuntimeSafeIdentifierSchema (rq_actionId rq) \<and> RuntimeUuidSchema (rq_authorizationId rq)
   \<and> RuntimeUuidSchema (rq_requestedProcessInstanceId rq)
   \<and> 1 \<le> rq_requestedRevision rq \<and> rq_requestedRevision rq \<le> max_safe_integer
   \<and> canonical_time h (rq_requestedAt rq) \<and> authorizationExpiry h (rq_requestedAt rq) = Inr (rq_expiresAt rq)"

lemma audit_state:
  assumes "audit h db = Inr acc" "rp_state acc = Some st" "has_room db"
  shows "RuntimeUuidSchema (rs_processInstanceId st)" "1 \<le> rs_revision st" "rs_revision st + 1 \<le> max_safe_integer"
proof -
  obtain evs where evs: "replay_ok h evs acc" "length evs = length (db_rows db)"
    using audit_events [OF assms(1)] by blast
  then show "RuntimeUuidSchema (rs_processInstanceId st)" "1 \<le> rs_revision st" "rs_revision st + 1 \<le> max_safe_integer"
    using assms(2,3) by (auto simp: replay_ok_def state_ok_def has_room_def)
qed

lemma check_payload_bounds:
  assumes "request_ok h rq" "audit h db = Inr acc" "rp_state acc = Some st" "has_room db"
  shows "payload_bounds h (BoundaryEvent (check_payload h rq st t))"
proof -
  have "authorizationExpiry h (rq_requestedAt rq) = Inr (rq_expiresAt rq)" using assms(1) by (simp add: request_ok_def)
  then have "canonical_time h (rq_expiresAt rq)" by (rule expiry_time)
  then show ?thesis using assms(1) audit_state [OF assms(2-4)]
    by (simp add: check_payload_def Let_def boundary_bounds_def request_ok_def)
qed

lemma requested_of_check [simp]: "requested_of (check_payload h rq st t) = rq"
  by (cases rq) (simp add: requested_of_def check_payload_def Let_def)

lemma check_payload_simps [simp]:
  "bp_authorizationId (check_payload h rq st t) = rq_authorizationId rq"
  "bp_requestedAt (check_payload h rq st t) = rq_requestedAt rq"
  "bp_expiresAt (check_payload h rq st t) = rq_expiresAt rq"
  "bp_checkedMode (check_payload h rq st t) = rs_mode st"
  "bp_checkedRevision (check_payload h rq st t) = rs_revision st"
  "bp_checkedProcessInstanceId (check_payload h rq st t) = rs_processInstanceId st"
  "bp_reason (check_payload h rq st t) = boundaryReason h rq st t"
  "bp_allowed (check_payload h rq st t) \<longleftrightarrow> boundaryReason h rq st t = ALLOWED"
  by (simp_all add: check_payload_def Let_def)

lemma check_accepted:
  assumes "request_ok h rq" "rp_state acc = Some st" "rq_authorizationId rq \<notin> set (rp_authorizationIds acc)"
    "\<not> date_less h (ev_occurredAt ev) (rq_requestedAt rq)"
  shows "replay_payload h acc ev (BoundaryEvent (check_payload h rq st (ev_occurredAt ev)))
    = Inr (acc\<lparr>rp_authorizationIds := rq_authorizationId rq # rp_authorizationIds acc\<rparr>)"
  using assms by (simp add: replay_payload_def boundary_consistent_def request_ok_def)

lemma appendBoundaryCheck_grows:
  assumes s: "ready h s" "audit h (store_db s) = Inr acc" "RuntimeUuidSchema uuid"
    and rq: "request_ok h rq" "canonical_time h t"
    and run: "appendBoundaryCheck h acc rq t uuid s w = (s', w', Inr rc)"
  obtains st ev where "rp_state acc = Some st" "runtime_grows h (store_db s) (store_db s')"
    "s' = s\<lparr>store_db := store_db s'\<rparr>" "w' = w" "rc = boundaryReceipt ev (check_payload h rq st t)"
    "find_by_key (store_db s) (boundary_key (rq_authorizationId rq)) = None"
    "extends_by h (store_db s) ev (store_db s')" "event_payload h ev = Some (BoundaryEvent (check_payload h rq st t))"
    "audit h (store_db s') =
       Inr (acc\<lparr>rp_events := rp_events acc @ [audit_event ev (BoundaryEvent (check_payload h rq st t))],
         rp_lastAuditAt := Some t, rp_authorizationIds := rq_authorizationId rq # rp_authorizationIds acc\<rparr>)"
proof -
  obtain st ev where st: "rp_state acc = Some st"
      and none: "find_by_key (store_db s) (boundary_key (rq_authorizationId rq)) = None"
      and time: "follows_audit h t acc" "\<not> date_less h t (rq_requestedAt rq)"
      and app: "append_payload h (BoundaryEvent (check_payload h rq st t)) t uuid s w = (s', w', Inr ev)"
      and rc: "rc = boundaryReceipt ev (check_payload h rq st t)"
    using run by (auto simp: appendBoundaryCheck_def current_state_def assertNonRegressingTime_def follows_audit_def
        dest!: find_event_None)
  have room: "has_room (store_db s)" using s(1) by (simp add: ready_def)
  have unused: "rq_authorizationId rq \<notin> set (rp_authorizationIds acc)"
    by (rule audit_authorization_ids [OF s(2) none])
  have key: "find_by_key (store_db s) (payload_key (BoundaryEvent (check_payload h rq st t))) = None"
    using none by simp
  have accepted: "replay_payload h acc e (BoundaryEvent (check_payload h rq st t))
      = Inr (acc\<lparr>rp_authorizationIds := rq_authorizationId rq # rp_authorizationIds acc\<rparr>)" if "ev_occurredAt e = t" for e
    using check_accepted [OF rq(1) st unused, of e] time(2) that by simp
  obtain acc'' where "runtime_grows h (store_db s) (store_db s')"
      "replay_payload h acc ev (BoundaryEvent (check_payload h rq st t)) = Inr acc''"
      "audit h (store_db s') = Inr (acc''\<lparr>rp_events := rp_events acc @
         [audit_event ev (BoundaryEvent (check_payload h rq st t))], rp_lastAuditAt := Some t\<rparr>)"
      "extends_by h (store_db s) ev (store_db s')" "s' = s\<lparr>store_db := store_db s'\<rparr>" "w' = w"
      "event_payload h ev = Some (BoundaryEvent (check_payload h rq st t))" "ev_occurredAt ev = t"
    by (rule append_payload_grows [OF s check_payload_bounds [OF rq(1) s(2) st room] rq(2) key time(1) _ app])
      (use accepted in blast)+
  then show thesis using that [OF st _ _ _ rc none] accepted [of ev] by auto
qed

subsection \<open>Stops and transitions\<close>

lemma stop_accepted:
  assumes "sp_requestId p \<notin> set (rp_requestIds acc)" "stop_consistent (rp_state acc) p"
  shows "replay_payload h acc ev (StopEvent p) = Inr (acc\<lparr>rp_requestIds := sp_requestId p # rp_requestIds acc,
    rp_state := Some (state_after ev STOPPED (sp_processInstanceId p) (sp_revision p))\<rparr>)"
  using assms by (simp add: replay_payload_def)

text \<open>The state a STOP or a transition leaves: its mode, its process and the next revision.\<close>

definition moved_to :: "host \<Rightarrow> Database \<Rightarrow> ReplayResult \<Rightarrow> RuntimeMode \<Rightarrow> string \<Rightarrow> bool" where
  "moved_to h db acc m pid \<longleftrightarrow>
     (\<exists>acc' st. audit h db = Inr acc' \<and> rp_state acc' = Some st \<and> rs_mode st = m \<and> rs_processInstanceId st = pid
        \<and> rs_revision st = (case rp_state acc of None \<Rightarrow> 0 | Some old \<Rightarrow> rs_revision old) + 1
        \<and> rp_authorizationIds acc' = rp_authorizationIds acc)"

lemma append_stop_grows:
  assumes s: "ready h s" "audit h (store_db s) = Inr acc" "RuntimeUuidSchema uuid"
    and p: "stop_consistent (rp_state acc) p" "stop_bounds p" "sp_requestId p \<notin> set (rp_requestIds acc)"
      "sp_revision p = (case rp_state acc of None \<Rightarrow> 0 | Some old \<Rightarrow> rs_revision old) + 1"
      "find_by_key (store_db s) (stop_key (sp_requestId p)) = None" "canonical_time h t"
    and run: "append_payload h (StopEvent p) (nonRegressingStopTime h t acc) uuid s w = (s', w', Inr ev)"
  shows "runtime_grows h (store_db s) (store_db s')" "s' = s\<lparr>store_db := store_db s'\<rparr>" "w' = w"
    "moved_to h (store_db s') acc STOPPED (sp_processInstanceId p)"
proof -
  have valid: "valid_db h (store_db s)" using s(1) by (simp add: ready_def)
  note time = stop_time [OF valid s(2) p(6)]
  obtain acc'' where out: "runtime_grows h (store_db s) (store_db s')" "s' = s\<lparr>store_db := store_db s'\<rparr>" "w' = w"
      "replay_payload h acc ev (StopEvent p) = Inr acc''"
      "audit h (store_db s') = Inr (acc''\<lparr>rp_events := rp_events acc @ [audit_event ev (StopEvent p)],
         rp_lastAuditAt := Some (nonRegressingStopTime h t acc)\<rparr>)"
    by (rule append_payload_grows [OF s _ time(1) _ time(2) _ run]) (use p stop_accepted in auto)
  show "runtime_grows h (store_db s) (store_db s')" "s' = s\<lparr>store_db := store_db s'\<rparr>" "w' = w" by (rule out)+
  show "moved_to h (store_db s') acc STOPPED (sp_processInstanceId p)"
    using out(4,5) p(4) stop_accepted [OF p(3,1), of h ev] by (auto simp: moved_to_def state_after_def)
qed

lemma stop_input:
  "RuntimeStopInputSchema h v = Some inp \<Longrightarrow> canonical_time h (in_stopAt inp) \<and> RuntimeUuidSchema (in_stopId inp)"
  by (auto simp: RuntimeStopInputSchema_def parse_simps)

lemma open_input:
  "OpenRuntimeInputSchema h v = Some inp \<Longrightarrow> canonical_time h (in_openedAt inp) \<and> RuntimeUuidSchema (in_processInstanceId inp)"
  by (auto simp: OpenRuntimeInputSchema_def parse_simps)

lemma started_mode_Some: "started_mode_schema v = Some m \<Longrightarrow> m \<noteq> STOPPED"
  by (auto simp: started_mode_schema_def z_enum_def split: jsval.splits if_splits)

lemma transition_input:
  "RuntimeTransitionInputSchema h v = Some inp \<Longrightarrow> canonical_time h (in_transitionAt inp)
     \<and> RuntimeUuidSchema (in_transitionId inp) \<and> 1 \<le> in_expectedRevision inp
     \<and> in_expectedRevision inp \<le> max_safe_integer - 1 \<and> in_targetMode inp \<noteq> STOPPED"
  by (auto simp: RuntimeTransitionInputSchema_def parse_simps dest: started_mode_Some)

lemma parsed_input: "parseRuntimeInput schema v = Some x \<Longrightarrow> schema v = Some x"
  by (simp add: parseRuntimeInput_def split: if_splits)

lemma startup_grows:
  assumes s: "ready h s" "RuntimeUuidSchema uuid" "OpenRuntimeInputSchema h v = Some inp"
    and run: "startup h inp uuid s w = (s', w', Inr ev)"
  obtains acc where "audit h (store_db s) = Inr acc" "runtime_grows h (store_db s) (store_db s')"
    "s' = s\<lparr>store_db := store_db s'\<rparr>" "moved_to h (store_db s') acc STOPPED (in_processInstanceId inp)"
proof -
  obtain acc where acc: "audit h (store_db s) = Inr acc"
      and none: "find_by_key (store_db s) (stop_key (in_processInstanceId inp)) = None"
      and unused: "in_processInstanceId inp \<notin> set (rp_requestIds acc)"
      and app: "append_payload h (StopEvent (startup_payload acc (in_processInstanceId inp)))
         (nonRegressingStopTime h (in_openedAt inp) acc) uuid s w = (s', w', Inr ev)"
    using run s(1) by (auto simp: startup_def assertUnusedRequestId_def dest!: find_event_None)
  have room: "has_room (store_db s)" using s(1) by (simp add: ready_def)
  let ?p = "startup_payload acc (in_processInstanceId inp)"
  have consistent: "stop_consistent (rp_state acc) ?p"
    by (simp add: stop_consistent_def startup_payload_def Let_def split: option.splits)
  have bounds: "stop_bounds ?p"
    using audit_state [OF acc _ room] open_input [OF s(3)]
    by (auto simp: stop_bounds_def startup_payload_def Let_def max_safe_integer_def split: option.splits)
  have p: "sp_requestId ?p = in_processInstanceId inp" "sp_processInstanceId ?p = in_processInstanceId inp"
      "sp_revision ?p = (case rp_state acc of None \<Rightarrow> 0 | Some old \<Rightarrow> rs_revision old) + 1"
    by (simp_all add: startup_payload_def Let_def)
  note grown = append_stop_grows [OF s(1) acc s(2) consistent bounds _ p(3) _ _ app, unfolded p,
      OF unused none conjunct1 [OF open_input [OF s(3)]]]
  show thesis by (rule that [OF acc grown(1,2,4)])
qed

lemma stop_body_grows:
  assumes s: "ready h s" "RuntimeUuidSchema uuid" "RuntimeStopInputSchema h v = Some inp"
    and run: "stop_body h inp uuid s w = (s', w', Inr sn)"
  obtains acc st where "audit h (store_db s) = Inr acc" "rp_state acc = Some st"
    "runtime_grows h (store_db s) (store_db s')" "s' = s\<lparr>store_db := store_db s'\<rparr>"
    "s' = s \<and> rs_mode st = STOPPED \<or> moved_to h (store_db s') acc STOPPED (rs_processInstanceId st)"
    "sn_mode sn = STOPPED"
proof -
  obtain acc existing where acc: "audit h (store_db s) = Inr acc"
      and found: "find_event h (stop_key (in_stopId inp)) s w = (s, w, Inr existing)"
      and rest: "(case existing of
         Some ev \<Rightarrow> act_result (retried_stop acc ev)
       | None \<Rightarrow>
           act_then (act_result (assertUnusedRequestId acc (in_stopId inp))) (\<lambda>_.
           act_then (act_result (current_state acc)) (\<lambda>st.
           act_then (append_payload h (StopEvent (operator_stop inp st))
                       (nonRegressingStopTime h (in_stopAt inp) acc) uuid) (\<lambda>ev.
             act_result (Inr (snapshotFromModeEvent ev STOPPED (rs_processInstanceId st) (rs_revision st + 1))))))) s w
         = (s', w', Inr sn)"
    using run s(1) find_event_same [of h "stop_key (in_stopId inp)" s w] by (fastforce simp: stop_body_def)
  show thesis
  proof (cases existing)
    case (Some ev)
    then have retry: "s' = s" "retried_stop acc ev = Inr sn" using rest by simp_all
    then obtain p st where "rp_state acc = Some st" "rs_mode st = STOPPED" "currentSnapshot acc = Inr sn"
      by (auto simp: retried_stop_def parsed_stop_def split: option.splits)
    then show thesis using retry
      by (intro that [OF acc, of st]) (auto simp: runtime_grows_def currentSnapshot_def snapshotFromState_def split: if_splits)
  next
    case None
    have none: "find_by_key (store_db s) (stop_key (in_stopId inp)) = None"
      using find_event_None [OF found [unfolded None]] by simp
    obtain st ev where st: "rp_state acc = Some st" and unused: "in_stopId inp \<notin> set (rp_requestIds acc)"
        and app: "append_payload h (StopEvent (operator_stop inp st))
           (nonRegressingStopTime h (in_stopAt inp) acc) uuid s w = (s', w', Inr ev)"
        and sn: "sn = snapshotFromModeEvent ev STOPPED (rs_processInstanceId st) (rs_revision st + 1)"
      using rest None by (auto simp: assertUnusedRequestId_def current_state_def)
    have room: "has_room (store_db s)" using s(1) by (simp add: ready_def)
    let ?p = "operator_stop inp st"
    have consistent: "stop_consistent (rp_state acc) ?p" by (simp add: stop_consistent_def operator_stop_def st)
    have bounds: "stop_bounds ?p"
      using audit_state [OF acc st room] stop_input [OF s(3)] by (simp add: stop_bounds_def operator_stop_def)
    have p: "sp_requestId ?p = in_stopId inp" "sp_processInstanceId ?p = rs_processInstanceId st"
        "sp_revision ?p = (case rp_state acc of None \<Rightarrow> 0 | Some old \<Rightarrow> rs_revision old) + 1"
      by (simp_all add: operator_stop_def st)
    note grown = append_stop_grows [OF s(1) acc s(2) consistent bounds _ p(3) _ _ app, unfolded p,
        OF unused none conjunct1 [OF stop_input [OF s(3)]]]
    show thesis
      by (rule that [OF acc st grown(1,2) disjI2 [OF grown(4)]])
        (simp add: sn snapshotFromModeEvent_def snapshotFromState_def state_after_def)
  qed
qed

lemma retried_transition_Inr:
  assumes "retried_transition pid inp acc ev = Inr sn"
  shows "\<exists>st. rp_state acc = Some st \<and> rs_mode st = in_targetMode inp \<and> rs_processInstanceId st = pid
    \<and> currentSnapshot acc = Inr sn"
  using assms unfolding retried_transition_def and_then_eq_Inr by (cases "rp_state acc") auto

lemma transition_body_grows:
  assumes s: "ready h s" "RuntimeUuidSchema uuid" "RuntimeTransitionInputSchema h v = Some inp"
    and run: "transition_body h pid inp uuid s w = (s', w', Inr sn)"
  obtains acc st where "audit h (store_db s) = Inr acc" "rp_state acc = Some st"
    "runtime_grows h (store_db s) (store_db s')" "s' = s\<lparr>store_db := store_db s'\<rparr>" "rs_processInstanceId st = pid"
    "s' = s \<and> rs_mode st = in_targetMode inp
     \<or> rs_mode st = in_expectedMode inp \<and> rs_revision st = in_expectedRevision inp
       \<and> isModeTransitionAllowed (rs_mode st) (in_targetMode inp) \<and> moved_to h (store_db s') acc (in_targetMode inp) pid"
    "sn_mode sn = in_targetMode inp"
proof -
  obtain acc existing where acc: "audit h (store_db s) = Inr acc"
      and found: "find_event h (transition_key (in_transitionId inp)) s w = (s, w, Inr existing)"
      and rest: "(case existing of
         Some ev \<Rightarrow> act_result (retried_transition pid inp acc ev)
       | None \<Rightarrow>
           act_then (act_result (transition_checks h pid inp acc)) (\<lambda>p.
           act_then (append_payload h (TransitionEvent p) (in_transitionAt inp) uuid) (\<lambda>ev.
             act_result (Inr (snapshotFromModeEvent ev (tp_to p) (tp_processInstanceId p) (tp_revision p)))))) s w
         = (s', w', Inr sn)"
    using run s(1) find_event_same [of h "transition_key (in_transitionId inp)" s w]
    by (fastforce simp: transition_body_def)
  show thesis
  proof (cases existing)
    case (Some ev)
    then have retry: "s' = s" "retried_transition pid inp acc ev = Inr sn" using rest by simp_all
    then obtain st where "rp_state acc = Some st" "rs_mode st = in_targetMode inp" "rs_processInstanceId st = pid"
        "currentSnapshot acc = Inr sn" using retried_transition_Inr by blast
    then show thesis using retry
      by (intro that [OF acc, of st]) (auto simp: runtime_grows_def currentSnapshot_def snapshotFromState_def split: if_splits)
  next
    case None
    have none: "find_by_key (store_db s) (transition_key (in_transitionId inp)) = None"
      using find_event_None [OF found [unfolded None]] by simp
    obtain p ev where checks: "transition_checks h pid inp acc = Inr p"
        and app: "append_payload h (TransitionEvent p) (in_transitionAt inp) uuid s w = (s', w', Inr ev)"
        and sn: "sn = snapshotFromModeEvent ev (tp_to p) (tp_processInstanceId p) (tp_revision p)"
      using rest None by auto
    obtain st where st: "rp_state acc = Some st" "rs_processInstanceId st = pid" "rs_mode st = in_expectedMode inp"
        "rs_revision st = in_expectedRevision inp" "isModeTransitionAllowed (rs_mode st) (in_targetMode inp)"
        and unused: "in_transitionId inp \<notin> set (rp_requestIds acc)" and time: "follows_audit h (in_transitionAt inp) acc"
        and p: "p = \<lparr>tp_expectedMode = in_expectedMode inp, tp_expectedRevision = in_expectedRevision inp,
            tp_from = rs_mode st, tp_previousRevision = rs_revision st,
            tp_processInstanceId = rs_processInstanceId st, tp_requestId = in_transitionId inp,
            tp_revision = rs_revision st + 1, tp_to = in_targetMode inp\<rparr>"
      using checks by (auto simp: transition_checks_def assertUnusedRequestId_def current_state_def
          assertNonRegressingTime_def follows_audit_def)
    have room: "has_room (store_db s)" using s(1) by (simp add: ready_def)
    note inp = transition_input [OF s(3)]
    have bounds: "payload_bounds h (TransitionEvent p)"
      using audit_state [OF acc st(1) room] inp by (simp add: transition_bounds_def p)
    have accepted: "replay_payload h acc e (TransitionEvent p) = Inr (acc\<lparr>rp_requestIds := tp_requestId p # rp_requestIds acc,
        rp_state := Some (state_after e (tp_to p) (tp_processInstanceId p) (tp_revision p))\<rparr>)" for e
      using st unused by (simp add: replay_payload_def transition_consistent_def p)
    obtain acc'' where out: "runtime_grows h (store_db s) (store_db s')" "s' = s\<lparr>store_db := store_db s'\<rparr>"
        "replay_payload h acc ev (TransitionEvent p) = Inr acc''"
        "audit h (store_db s') = Inr (acc''\<lparr>rp_events := rp_events acc @ [audit_event ev (TransitionEvent p)],
           rp_lastAuditAt := Some (in_transitionAt inp)\<rparr>)"
      by (rule append_payload_grows [OF s(1) acc s(2) bounds _ _ time _ app]) (use inp none p accepted in auto)
    have "moved_to h (store_db s') acc (in_targetMode inp) pid"
      using out(3,4) accepted st by (auto simp: moved_to_def state_after_def p)
    then have "rs_mode st = in_expectedMode inp \<and> rs_revision st = in_expectedRevision inp
       \<and> isModeTransitionAllowed (rs_mode st) (in_targetMode inp) \<and> moved_to h (store_db s') acc (in_targetMode inp) pid"
      using st by simp
    then show thesis
      by (rule that [OF acc st(1) out(1,2) st(2) disjI2])
        (simp add: sn snapshotFromModeEvent_def snapshotFromState_def state_after_def p)
  qed
qed

end
