(* ===== verification/RuntimeSystem.thy ===== *)
theory RuntimeSystem
  imports RuntimeSafety
begin

text \<open>
  The runtime authority as a system: any number of processes over one store, each call one of the controller's
  operations on its own connection. \<open>runtime_step\<close> is one call; the lemmas show that the log only grows by events the
  replay accepts, that revisions only grow, and that callbacks run only behind an allowed check
  of the current state.
\<close>

subsection \<open>Transactions\<close>

abbreviation opened :: "EventStore \<Rightarrow> EventStore" where
  "opened s \<equiv> s\<lparr>store_exclusive := True, store_failed := False, store_scope := Some True\<rparr>"

lemma opened_ready:
  "idle s \<Longrightarrow> valid_db h (store_db s) \<Longrightarrow> has_room (store_db s) \<Longrightarrow> hex_digests (sha256_hex h) \<Longrightarrow> ready h (opened s)"
  by (simp add: ready_def idle_def assertOpen_def)

lemma exclusively_Inr:
  assumes "exclusively h m s w = (s', w', Inr x)"
  obtains s1 where "m (opened s) w = (s1, w', Inr x)" "valid_db h (store_db s)" "store_db s' = store_db s1"
proof -
  have "withExclusiveTransaction h RuntimeStore m s w = (s', w', Inr x)" using assms by (simp add: exclusively_def)
  then show thesis by (rule exclusive_commit) (use that in simp)
qed

lemma exclusively_Inl: "exclusively h m s w = (s', w', Inl e) \<Longrightarrow> store_db s' = store_db s"
  unfolding exclusively_def by (rule exclusive_error)

text \<open>Whatever a transaction does to the world, its body did, started on the valid tables.\<close>

lemma exclusively_world:
  assumes "exclusively h m s w = (s', w', r)" "w' \<noteq> w"
  obtains s1 r1 where "m (opened s) w = (s1, w', r1)" "valid_db h (store_db s)" "\<not> store_exclusive s" "assertOpen s = Inr ()"
proof -
  obtain s1 w1 r1 where m: "m (opened s) w = (s1, w1, r1)" by (cases "m (opened s) w") auto
  have "w1 = w'" "valid_db h (store_db s)" "\<not> store_exclusive s" "assertOpen s = Inr ()"
    using assms m by (auto simp: exclusively_def withExclusiveTransaction_def Let_def split: sum.splits if_splits)
  then show thesis using that m by simp
qed

lemma exclusively_grows:
  assumes "idle s" "has_room (store_db s)" "hex_digests (sha256_hex h)"
    and body: "\<And>s1 w1 x. ready h (opened s) \<Longrightarrow> m (opened s) w = (s1, w1, Inr x) \<Longrightarrow> runtime_grows h (store_db s) (store_db s1)"
  shows "runtime_grows h (store_db s) (store_db (fst (exclusively h m s w)))"
proof -
  obtain s' w' r where run: "exclusively h m s w = (s', w', r)" by (cases "exclusively h m s w") auto
  show ?thesis
  proof (cases r)
    case (Inl e)
    then show ?thesis using exclusively_Inl [OF run [unfolded Inl]] run by (simp add: runtime_grows_def)
  next
    case (Inr x)
    obtain s1 where s1: "m (opened s) w = (s1, w', Inr x)" "valid_db h (store_db s)" "store_db s' = store_db s1"
      by (rule exclusively_Inr [OF run [unfolded Inr]])
    show ?thesis using body [OF opened_ready s1(1)] assms(1-3) s1(2,3) run by simp
  qed
qed

text \<open>Bodies that leave the world alone.\<close>

definition worldless :: "('w, 'a) act \<Rightarrow> bool" where
  "worldless m \<longleftrightarrow> (\<forall>s w. fst (snd (m s w)) = w)"

lemma worldlessD: "worldless m \<Longrightarrow> m s w = (s', w', r) \<Longrightarrow> w' = w"
  by (metis worldless_def fst_conv snd_conv)

lemma worldless_then: "worldless m \<Longrightarrow> (\<And>x. worldless (f x)) \<Longrightarrow> worldless (act_then m f)"
  by (auto simp: worldless_def act_then_def split: prod.splits sum.splits) (metis fst_conv snd_conv)+

lemma worldless_basic:
  "worldless (act_result r)" "worldless (act_read g)" "worldless (find_event h k)" "worldless (append_payload h p t uuid)"
  by (auto simp: worldless_def act_result_def act_read_def find_event_def append_payload_def split: prod.splits)

lemmas worldless_intros = worldless_then worldless_basic

lemma worldless_check: "worldless (check_body h rq clock uuid)"
  unfolding check_body_def appendBoundaryCheck_def by (intro worldless_intros)

lemma act_then_cases:
  assumes "act_then m f s w = (s', w', r)"
  obtains e where "m s w = (s', w', Inl e)" "r = Inl e"
  | s1 w1 x where "m s w = (s1, w1, Inr x)" "f x s1 w1 = (s', w', r)"
  using assms by (auto simp: act_then_def split: prod.splits sum.splits)

text \<open>When the world changed, everything worldless before the change succeeded.\<close>

lemma world_changed:
  assumes "act_then m f s w = (s', w', r)" "w' \<noteq> w" "worldless m"
  obtains s1 x where "m s w = (s1, w, Inr x)" "f x s1 w = (s', w', r)"
  using assms(1) by (rule act_then_cases) (use assms(2,3) worldlessD that in metis)+

lemma world_changed_result:
  "act_then (act_result q) f s w = (s', w', r) \<Longrightarrow> w' \<noteq> w \<Longrightarrow> \<exists>x. q = Inr x \<and> f x s w = (s', w', r)"
  by (cases q) (auto simp: act_then_def act_result_def)

lemma world_changed_read:
  "act_then (act_read g) f s w = (s', w', r) \<Longrightarrow> w' \<noteq> w \<Longrightarrow> \<exists>x. g s = Inr x \<and> f x s w = (s', w', r)"
  by (cases "g s") (auto simp: act_then_def act_read_def)

subsection \<open>Requests and checks\<close>

lemma boundary_input:
  "RuntimeBoundaryAuthorizationInputSchema v = Some inp \<Longrightarrow>
     RuntimeSafeIdentifierSchema (in_actionId inp) \<and> RuntimeUuidSchema (in_authorizationId inp)"
  by (auto simp: RuntimeBoundaryAuthorizationInputSchema_def parse_simps)

lemma truncate_simps [simp]:
  "rq_boundary (requested rq) = rq_boundary rq" "rq_authorizationId (requested rq) = rq_authorizationId rq"
  "rq_requestedProcessInstanceId (requested rq) = rq_requestedProcessInstanceId rq"
  "rq_requestedMode (requested rq) = rq_requestedMode rq" "rq_requestedRevision (requested rq) = rq_requestedRevision rq"
  "rq_expiresAt (requested rq) = rq_expiresAt rq" "rq_requestedAt (requested rq) = rq_requestedAt rq"
  by (simp_all add: RequestedBoundary.truncate_def)

lemma requested_issue: "requested (issue inp pid st t x m n) =
    \<lparr>rq_actionId = in_actionId inp, rq_authorizationId = in_authorizationId inp, rq_boundary = in_boundary inp,
     rq_expiresAt = x, rq_requestedAt = t, rq_requestedMode = rs_mode st,
     rq_requestedProcessInstanceId = pid, rq_requestedRevision = rs_revision st\<rparr>"
  by (simp add: issue_def RequestedBoundary.truncate_def)

lemma request_body_grows:
  assumes s: "ready h s" "RuntimeUuidSchema uuid" "RuntimeUuidSchema pid"
      "RuntimeBoundaryAuthorizationInputSchema v = Some inp"
    and run: "request_body h pid inp clock uuid s w = (s', w', Inr (rq, receipt))"
  obtains acc st where "audit h (store_db s) = Inr acc" "rp_state acc = Some st" "request_ok h (requested rq)"
    "rq_requestedRevision rq = rs_revision st" "rq_requestedProcessInstanceId rq = pid"
    "rq_requestedMode rq = rs_mode st" "rq_boundary rq = in_boundary inp"
    "runtime_grows h (store_db s) (store_db s')"
    "receipt = None \<Longrightarrow> s' = s \<and> boundaryReason h (requested rq) st (rq_requestedAt rq) = ALLOWED
       \<and> find_by_key (store_db s) (boundary_key (rq_authorizationId rq)) = None"
proof -
  obtain acc st clockAt m n x where acc: "audit h (store_db s) = Inr acc" and st: "rp_state acc = Some st"
      and none: "find_by_key (store_db s) (boundary_key (in_authorizationId inp)) = None"
      and clockAt: "readRuntimeClock h clock = Inr clockAt"
      and x: "authorizationExpiry h (nonRegressingBoundaryTime h clockAt acc None) = Inr x"
      and rq: "(let rq = issue inp pid st (nonRegressingBoundaryTime h clockAt acc None) x m n;
             t = nonRegressingBoundaryTime h clockAt acc None in
           if boundaryReason h (requested rq) st t = ALLOWED then act_result (Inr (rq, None))
           else act_then (appendBoundaryCheck h acc (requested rq) t uuid) (\<lambda>receipt.
                  act_result (Inr (rq, Some receipt)))) s w = (s', w', Inr (rq, receipt))"
    using run s(1) by (auto simp: request_body_def current_state_def Let_def dest!: find_event_None)
  define t where "t = nonRegressingBoundaryTime h clockAt acc None"
  have rq_eq: "rq = issue inp pid st t x m n"
    using rq by (auto simp: Let_def t_def split: if_splits)
  have valid: "valid_db h (store_db s)" and room: "has_room (store_db s)" using s(1) by (simp_all add: ready_def)
  have time: "canonical_time h t"
    using boundary_time [OF valid acc clock_canonical [OF clockAt]] by (simp add: t_def)
  have ok: "request_ok h (requested rq)"
    using boundary_input [OF s(4)] audit_state [OF acc st room] time x s(3)
    by (simp add: rq_eq requested_issue request_ok_def t_def)
  have fields: "rq_requestedRevision rq = rs_revision st" "rq_requestedProcessInstanceId rq = pid"
      "rq_requestedMode rq = rs_mode st" "rq_boundary rq = in_boundary inp" "rq_requestedAt rq = t"
      "rq_authorizationId rq = in_authorizationId inp"
    by (simp_all add: rq_eq issue_def)
  show thesis
  proof (cases "boundaryReason h (requested rq) st t = ALLOWED")
    case True
    then have "s' = s" using rq by (simp add: Let_def t_def [symmetric] rq_eq)
    then show thesis using that [OF acc st ok] fields True none by (simp add: runtime_grows_def)
  next
    case False
    then obtain rc s1 w1 where check: "appendBoundaryCheck h acc (requested rq) t uuid s w = (s1, w1, Inr rc)"
        "s1 = s'" "receipt = Some rc"
      using rq by (auto simp: Let_def t_def [symmetric] rq_eq)
    have "runtime_grows h (store_db s) (store_db s')"
      by (rule appendBoundaryCheck_grows [OF s(1) acc s(2) ok time check(1)]) (simp add: check(2))
    then show thesis using that [OF acc st ok] fields check(3) by simp
  qed
qed

lemma check_body_Inr:
  assumes "ready h s" "check_body h rq clock uuid s w = (s', w', Inr rc)"
  obtains acc st t ev clockAt monotonicAt where "audit h (store_db s) = Inr acc" "rp_state acc = Some st"
    "find_by_key (store_db s) (boundary_key (rq_authorizationId rq)) = None"
    "readRuntimeClock h clock = Inr clockAt" "readMonotonicClock clock = Inr monotonicAt"
    "t = check_time h rq acc clockAt monotonicAt"
    "rc = boundaryReceipt ev (check_payload h (requested rq) st t)"
    "appendBoundaryCheck h acc (requested rq) t uuid s w = (s', w', Inr rc)"
proof -
  obtain acc clockAt monotonicAt where acc: "audit h (store_db s) = Inr acc"
      and clocks: "readRuntimeClock h clock = Inr clockAt" "readMonotonicClock clock = Inr monotonicAt"
      and check: "appendBoundaryCheck h acc (requested rq) (check_time h rq acc clockAt monotonicAt) uuid s w
        = (s', w', Inr rc)"
    using assms by (auto simp: check_body_def)
  obtain st ev where "rp_state acc = Some st"
      "find_by_key (store_db s) (boundary_key (rq_authorizationId rq)) = None"
      "rc = boundaryReceipt ev (check_payload h (requested rq) st (check_time h rq acc clockAt monotonicAt))"
    using check by (auto simp: appendBoundaryCheck_def current_state_def dest!: find_event_None)
  then show thesis using that acc clocks check by blast
qed

lemma check_time_canonical:
  assumes "valid_db h db" "audit h db = Inr acc" "canonical_time h clockAt" "request_ok h (requested rq)"
  shows "canonical_time h (check_time h rq acc clockAt m)"
proof -
  have "authorizationExpiry h (rq_requestedAt rq) = Inr (rq_expiresAt rq)" "canonical_time h (rq_requestedAt rq)"
    using assms(4) by (simp_all add: request_ok_def)
  moreover from this(1) have "canonical_time h (rq_expiresAt rq)" by (rule expiry_time)
  ultimately show ?thesis using boundary_time [OF assms(1-3), of "Some (rq_requestedAt rq)"]
    by (simp add: check_time_def Let_def)
qed

lemma check_body_grows:
  assumes s: "ready h s" "RuntimeUuidSchema uuid" "request_ok h (requested rq)"
    and run: "check_body h rq clock uuid s w = (s', w', Inr rc)"
  shows "runtime_grows h (store_db s) (store_db s')" "s' = s\<lparr>store_db := store_db s'\<rparr>"
    "\<exists>acc'. audit h (store_db s') = Inr acc' \<and> rq_authorizationId rq \<in> set (rp_authorizationIds acc')"
proof -
  obtain acc st t ev clockAt m where acc: "audit h (store_db s) = Inr acc"
      and clock: "readRuntimeClock h clock = Inr clockAt" and t: "t = check_time h rq acc clockAt m"
      and check: "appendBoundaryCheck h acc (requested rq) t uuid s w = (s', w', Inr rc)"
    by (rule check_body_Inr [OF s(1) run])
  have valid: "valid_db h (store_db s)" using s(1) by (simp add: ready_def)
  have time: "canonical_time h t"
    unfolding t by (rule check_time_canonical [OF valid acc clock_canonical [OF clock] s(3)])
  note grown = appendBoundaryCheck_grows [OF s(1) acc s(2,3) time check]
  show "runtime_grows h (store_db s) (store_db s')" by (rule grown)
  show "s' = s\<lparr>store_db := store_db s'\<rparr>" by (rule grown)
  show "\<exists>acc'. audit h (store_db s') = Inr acc' \<and> rq_authorizationId rq \<in> set (rp_authorizationIds acc')"
    by (rule grown) simp
qed

subsection \<open>Callbacks\<close>

text \<open>What the state of the store says when a check is allowed.\<close>

definition grants :: "host \<Rightarrow> Database \<Rightarrow> IssuedBoundary \<Rightarrow> string \<Rightarrow> bool" where
  "grants h db rq t \<longleftrightarrow>
     (\<exists>acc st. audit h db = Inr acc \<and> rp_state acc = Some st \<and> boundaryReason h (requested rq) st t = ALLOWED)"

lemma grants_revision:
  "grants h db rq t \<Longrightarrow> audit h db = Inr acc \<Longrightarrow> rp_state acc = Some st \<Longrightarrow>
     rs_revision st = rq_requestedRevision rq \<and> rs_mode st = rq_requestedMode rq
   \<and> rs_processInstanceId st = rq_requestedProcessInstanceId rq \<and> modeAllowsBoundary (rs_mode st) (rq_boundary rq)
   \<and> \<not> date_at_least h t (rq_expiresAt rq)"
  by (auto simp: grants_def boundaryReason_ALLOWED)

lemma check_allowed:
  assumes "ready h s" "check_body h rq clock uuid s w = (s', w', Inr rc)" "rc_allowed rc"
  obtains t where "grants h (store_db s) rq t" "find_by_key (store_db s) (boundary_key (rq_authorizationId rq)) = None"
    "rc_authorizationId rc = rq_authorizationId rq"
  by (rule check_body_Inr [OF assms(1,2)])
    (use assms(3) that in \<open>auto simp: grants_def boundaryReceipt_def\<close>)

lemma dispatch_world:
  assumes s: "idle s" "has_room (store_db s)" "hex_digests (sha256_hex h)"
    and run: "consumeAndDispatch h rq dispatch clock uuid s w = (s', w', r)" "w' \<noteq> w"
  obtains rc t where "w' = fst (dispatch rc w)" "rc_allowed rc" "rc_authorizationId rc = rq_authorizationId rq"
    "grants h (store_db s) rq t" "find_by_key (store_db s) (boundary_key (rq_authorizationId rq)) = None"
proof -
  let ?body = "act_then (check_body h rq clock uuid) (\<lambda>checked.
        act_then (if rc_allowed checked then act_call dispatch checked else act_result (Inr ())) (\<lambda>_.
          act_result (Inr checked)))"
  obtain s2 r2 where excl: "exclusively h ?body s w = (s2, w', r2)"
    using run(1) unfolding consumeAndDispatch_def by (rule act_then_cases) auto
  obtain s1 r1 where body: "?body (opened s) w = (s1, w', r1)" and valid: "valid_db h (store_db s)"
    by (rule exclusively_world [OF excl run(2)])
  have ready: "ready h (opened s)" by (rule opened_ready [OF s(1) valid s(2,3)])
  from body show thesis
  proof (cases rule: act_then_cases)
    case (1 e)
    then show thesis using worldlessD [OF worldless_check 1(1)] run(2) by simp
  next
    case (2 s3 w3 rc)
    have w3: "w3 = w" using worldlessD [OF worldless_check 2(1)] .
    have "rc_allowed rc \<and> w' = fst (dispatch rc w)"
      using 2(2) run(2) unfolding w3
      by (auto simp: act_then_def act_call_def act_result_def split: if_splits prod.splits sum.splits)
    then show thesis
      using check_allowed [OF ready 2(1)[unfolded w3]] that by auto
  qed
qed

lemma completion_world:
  assumes s: "idle s" "has_room (store_db s)" "hex_digests (sha256_hex h)"
    and run: "guardBoundaryCompletion h rq completion clock s w = (s', w', r)" "w' \<noteq> w"
  obtains row ev p acc st where "find_by_key (store_db s) (boundary_key (rq_authorizationId rq)) = Some row"
    "rowToEvent h row = Inr ev" "RuntimeBoundaryEventPayloadSchema h (ev_payload ev) = Some p" "durable_check rq p"
    "audit h (store_db s) = Inr acc" "rp_state acc = Some st" "boundaryCompletionReason (requested rq) st = ALLOWED"
proof -
  let ?body = "act_then (act_read (replayRuntimeStore h)) (\<lambda>replay.
        act_then (assertDurableAllowedBoundary h rq) (\<lambda>_.
        act_then (act_result (current_state replay)) (\<lambda>st.
        act_then (act_result (readRuntimeClock h clock)) (\<lambda>clockAt.
          (let facts = boundaryCompletionFacts rq st
                 (nonRegressingBoundaryTime h clockAt replay (Some (rq_requestedAt rq))) in
           act_then (if cf_allowed facts then act_call completion facts else act_result (Inr ())) (\<lambda>_.
             act_result (Inr facts)))))))"
  have excl: "exclusively h ?body s w = (s', w', r)" using run(1) by (simp add: guardBoundaryCompletion_def)
  obtain s1 r1 where body: "?body (opened s) w = (s1, w', r1)" and valid: "valid_db h (store_db s)"
    by (rule exclusively_world [OF excl run(2)])
  have ready: "ready h (opened s)" by (rule opened_ready [OF s(1) valid s(2,3)])
  obtain acc where acc: "audit h (store_db s) = Inr acc"
      and body: "act_then (assertDurableAllowedBoundary h rq) (\<lambda>_.
        act_then (act_result (current_state acc)) (\<lambda>st.
        act_then (act_result (readRuntimeClock h clock)) (\<lambda>clockAt.
          (let facts = boundaryCompletionFacts rq st
                 (nonRegressingBoundaryTime h clockAt acc (Some (rq_requestedAt rq))) in
           act_then (if cf_allowed facts then act_call completion facts else act_result (Inr ())) (\<lambda>_.
             act_result (Inr facts)))))) (opened s) w = (s1, w', r1)"
    using world_changed_read [OF body run(2)] ready by auto
  have "worldless (assertDurableAllowedBoundary h rq)"
    unfolding assertDurableAllowedBoundary_def by (intro worldless_intros)
  note w_durable = this
  obtain s2 where durable: "assertDurableAllowedBoundary h rq (opened s) w = (s2, w, Inr ())"
      and body: "act_then (act_result (current_state acc)) (\<lambda>st.
        act_then (act_result (readRuntimeClock h clock)) (\<lambda>clockAt.
          (let facts = boundaryCompletionFacts rq st
                 (nonRegressingBoundaryTime h clockAt acc (Some (rq_requestedAt rq))) in
           act_then (if cf_allowed facts then act_call completion facts else act_result (Inr ())) (\<lambda>_.
             act_result (Inr facts))))) s2 w = (s1, w', r1)"
    by (rule world_changed [OF body run(2) w_durable]) simp
  obtain row ev p where row: "find_by_key (store_db s) (boundary_key (rq_authorizationId rq)) = Some row"
      "rowToEvent h row = Inr ev" "RuntimeBoundaryEventPayloadSchema h (ev_payload ev) = Some p" "durable_check rq p"
    using durable by (auto simp: assertDurableAllowedBoundary_def dest!: find_event_Some split: option.splits)
  obtain st where st: "current_state acc = Inr st"
      and body: "act_then (act_result (readRuntimeClock h clock)) (\<lambda>clockAt.
          (let facts = boundaryCompletionFacts rq st
                 (nonRegressingBoundaryTime h clockAt acc (Some (rq_requestedAt rq))) in
           act_then (if cf_allowed facts then act_call completion facts else act_result (Inr ())) (\<lambda>_.
             act_result (Inr facts)))) s2 w = (s1, w', r1)"
    using world_changed_result [OF body run(2)] by blast
  obtain clockAt where body: "(let facts = boundaryCompletionFacts rq st
                 (nonRegressingBoundaryTime h clockAt acc (Some (rq_requestedAt rq))) in
           act_then (if cf_allowed facts then act_call completion facts else act_result (Inr ())) (\<lambda>_.
             act_result (Inr facts))) s2 w = (s1, w', r1)"
    using world_changed_result [OF body run(2)] by blast
  define facts where "facts = boundaryCompletionFacts rq st (nonRegressingBoundaryTime h clockAt acc (Some (rq_requestedAt rq)))"
  have "cf_allowed facts"
    using body run(2) by (auto simp: facts_def [symmetric] Let_def act_then_def act_result_def split: if_splits)
  then have "boundaryCompletionReason (requested rq) st = ALLOWED"
    by (simp add: facts_def boundaryCompletionFacts_def Let_def)
  then show thesis using that [OF row acc] st by (simp add: current_state_def)
qed

subsection \<open>Local commits\<close>

primrec checkpoint_calls ::
  "host \<Rightarrow> IssuedBoundary \<Rightarrow> (nat \<Rightarrow> ClockReading) \<Rightarrow> ('w, 'r) commit_script \<Rightarrow> nat \<Rightarrow> checkpoint_state
     \<Rightarrow> EventStore \<Rightarrow> nat" where
  "checkpoint_calls h rq clocks (Finish r) n st s = 0"
| "checkpoint_calls h rq clocks (Perform f k) n st s = checkpoint_calls h rq clocks k n st s"
| "checkpoint_calls h rq clocks (CallCheckpoint k) n st s = Suc
     (if st \<noteq> Unused then checkpoint_calls h rq clocks (k (Inl (RuntimeConflict STALE_STATE))) n Failed s
      else (case and_then (replayRuntimeStore h s) (\<lambda>replay. assertFresh h rq replay (clocks n)) of
              Inl e \<Rightarrow> checkpoint_calls h rq clocks (k (Inl e)) (Suc n) Failed s
            | Inr t \<Rightarrow> checkpoint_calls h rq clocks (k (Inr t)) (Suc n) Valid s))"

lemma failed_stays: "fst (snd (run_commit h rq clocks c n Failed s w)) = Failed"
  by (induction c arbitrary: n w) simp_all

lemma valid_calls: "fst (snd (run_commit h rq clocks c n Valid s w)) = Valid \<Longrightarrow> checkpoint_calls h rq clocks c n Valid s = 0"
  by (induction c arbitrary: n w) (auto simp: failed_stays)

text \<open>A script ends valid only after exactly one checkpoint, and that one found the authority fresh.\<close>

lemma one_checkpoint:
  assumes "fst (snd (run_commit h rq clocks c n Unused s w)) = Valid"
  shows "checkpoint_calls h rq clocks c n Unused s = 1
    \<and> (\<exists>replay t. replayRuntimeStore h s = Inr replay \<and> assertFresh h rq replay (clocks n) = Inr t)"
  using assms
proof (induction c arbitrary: w)
  case (CallCheckpoint k)
  then show ?case
    by (cases "and_then (replayRuntimeStore h s) (\<lambda>replay. assertFresh h rq replay (clocks n))")
      (auto simp: failed_stays valid_calls)
qed simp_all

lemma assertFresh_grants:
  assumes "assertFresh h rq acc clock = Inr t" "audit h db = Inr acc"
  shows "grants h db rq t" "\<exists>m. readMonotonicClock clock = Inr m \<and> \<not> outside_lifetime rq m"
  using assms by (auto simp: assertFresh_def current_state_def grants_def Let_def)

lemma consume_Inr:
  assumes s: "idle s" "has_room (store_db s)" "hex_digests (sha256_hex h)"
    and run: "consumeBoundaryAuthorization h rq clock uuid s w = (s', w', Inr rc)"
  obtains t s1 where "grants h (store_db s) rq t" "w' = w" "rc_allowed rc" "rc_authorizationId rc = rq_authorizationId rq"
    "find_by_key (store_db s) (boundary_key (rq_authorizationId rq)) = None"
    "check_body h rq clock uuid (opened s) w = (s1, w, Inr rc)" "ready h (opened s)" "store_db s' = store_db s1"
proof -
  obtain s2 w2 where excl: "exclusively h (check_body h rq clock uuid) s w = (s', w', Inr rc)" and rc: "rc_allowed rc"
    using run by (auto simp: consumeBoundaryAuthorization_def allowed_receipt_def split: if_splits)
  obtain s1 where body: "check_body h rq clock uuid (opened s) w = (s1, w', Inr rc)"
      and valid: "valid_db h (store_db s)" and db: "store_db s' = store_db s1"
    by (rule exclusively_Inr [OF excl])
  have ready: "ready h (opened s)" by (rule opened_ready [OF s(1) valid s(2,3)])
  have w: "w' = w" by (rule worldlessD [OF worldless_check body])
  show thesis
    by (rule check_allowed [OF ready body rc]) (use that rc w body ready db in auto)
qed

lemma commit_world:
  assumes s: "idle s" "has_room (store_db s)" "hex_digests (sha256_hex h)"
    and run: "consumeLocalCommit h rq commit clocks uuid s w = (s', w', r)" "w' \<noteq> w"
  obtains s2 rc t u m where "consumeBoundaryAuthorization h rq (clocks 0) uuid s w = (s2, w, Inr rc)"
    "grants h (store_db s) rq t" "grants h (store_db s2) rq u" "isLocalCommitBoundary (rq_boundary rq)"
    "readMonotonicClock (clocks 1) = Inr m" "\<not> outside_lifetime rq m"
proof -
  let ?body = "\<lambda>receipt. act_then (act_read (replayRuntimeStore h)) (\<lambda>replay.
        act_then (act_result (ensure (rp_state replay \<noteq> None \<and> isLocalCommitBoundary (rq_boundary rq)) RuntimeIntegrity)) (\<lambda>_.
        act_then (find_event h (boundary_key (rq_authorizationId rq))) (\<lambda>durable.
        act_then (act_result (ensure (map_option ev_eventHash durable = Some (rc_eventHash receipt)) RuntimeIntegrity)) (\<lambda>_.
        act_then (act_result (assertFresh h rq replay (clocks 1))) (\<lambda>_.
        act_then (act_commit h rq clocks (commit receipt)) (\<lambda>_.
          act_result (Inr receipt)))))))"
  have worldless: "worldless (consumeBoundaryAuthorization h rq (clocks 0) uuid)"
  proof -
    have "worldless (exclusively h (check_body h rq (clocks 0) uuid))"
      unfolding worldless_def
      by (metis exclusively_world prod.exhaust_sel worldlessD [OF worldless_check])
    then show ?thesis unfolding consumeBoundaryAuthorization_def by (intro worldless_intros)
  qed
  obtain s2 rc where first: "consumeBoundaryAuthorization h rq (clocks 0) uuid s w = (s2, w, Inr rc)"
      and excl: "exclusively h (?body rc) s2 w = (s', w', r)"
    by (rule world_changed [OF run(1) [unfolded consumeLocalCommit_def] run(2) worldless]) (rule that)
  obtain t where t: "grants h (store_db s) rq t" by (rule consume_Inr [OF s first])
  obtain s3 r3 where body: "?body rc (opened s2) w = (s3, w', r3)" and open2: "assertOpen s2 = Inr ()"
    by (rule exclusively_world [OF excl run(2)])
  have "assertOpen (opened s2) = Inr ()" using open2 by (simp add: assertOpen_def)
  then have replay: "replayRuntimeStore h (opened s2) = audit h (store_db s2)"
    by (simp add: replayRuntimeStore_open)
  obtain acc where acc: "audit h (store_db s2) = Inr acc" and body:
      "act_then (act_result (ensure (rp_state acc \<noteq> None \<and> isLocalCommitBoundary (rq_boundary rq)) RuntimeIntegrity)) (\<lambda>_.
        act_then (find_event h (boundary_key (rq_authorizationId rq))) (\<lambda>durable.
        act_then (act_result (ensure (map_option ev_eventHash durable = Some (rc_eventHash rc)) RuntimeIntegrity)) (\<lambda>_.
        act_then (act_result (assertFresh h rq acc (clocks 1))) (\<lambda>_.
        act_then (act_commit h rq clocks (commit rc)) (\<lambda>_.
          act_result (Inr rc)))))) (opened s2) w = (s3, w', r3)"
    using world_changed_read [OF body run(2)] replay by auto
  have "local": "isLocalCommitBoundary (rq_boundary rq)" and body:
      "act_then (find_event h (boundary_key (rq_authorizationId rq))) (\<lambda>durable.
        act_then (act_result (ensure (map_option ev_eventHash durable = Some (rc_eventHash rc)) RuntimeIntegrity)) (\<lambda>_.
        act_then (act_result (assertFresh h rq acc (clocks 1))) (\<lambda>_.
        act_then (act_commit h rq clocks (commit rc)) (\<lambda>_.
          act_result (Inr rc))))) (opened s2) w = (s3, w', r3)"
    using world_changed_result [OF body run(2)] by auto
  obtain s4 and durable :: "StoredEvent option" where body:
      "act_then (act_result (ensure (map_option ev_eventHash durable = Some (rc_eventHash rc)) RuntimeIntegrity)) (\<lambda>_.
        act_then (act_result (assertFresh h rq acc (clocks 1))) (\<lambda>_.
        act_then (act_commit h rq clocks (commit rc)) (\<lambda>_.
          act_result (Inr rc)))) s4 w = (s3, w', r3)"
    by (rule world_changed [OF body run(2) worldless_basic(3)]) (rule that)
  obtain u where "assertFresh h rq acc (clocks 1) = Inr u"
    using world_changed_result [OF body run(2)] run(2) by (auto dest: world_changed_result)
  then show thesis using that [OF first t _ "local"] assertFresh_grants [OF _ acc] by blast
qed

subsection \<open>What the calls do to the log\<close>

definition connection :: "Database \<Rightarrow> EventStore" where
  "connection db = \<lparr>store_db = db, store_closed = False, store_exclusive = False, store_failed = False, store_scope = None\<rparr>"

lemma connection_simps [simp]: "store_db (connection db) = db" "idle (connection db)"
  by (simp_all add: connection_def idle_def)

lemma opened_db [simp]: "store_db (opened s) = store_db s"
  by simp

lemma fst_act_then_pure:
  "(\<And>x s w. fst (f x s w) = s) \<Longrightarrow> fst (act_then m f s w) = fst (m s w)"
  by (cases "m s w") (auto simp: act_then_def split: sum.splits)

lemma act_result_then [simp]:
  "act_then (act_result (Inr x)) f = f x" "act_then (act_result (Inl e)) f = act_result (Inl e)"
  by (simp_all add: act_then_def act_result_def)

lemma fst_act_result [simp]: "fst (act_result r s w) = s"
  by (simp add: act_result_def)

lemma transition_grows:
  assumes s: "idle s" "has_room (store_db s)" "hex_digests (sha256_hex h)" "RuntimeUuidSchema uuid"
  shows "runtime_grows h (store_db s) (store_db (fst (transition h pid v uuid s w)))"
proof (cases "parseRuntimeInput (RuntimeTransitionInputSchema h) v")
  case (Some inp)
  have "runtime_grows h (store_db s) (store_db (fst (exclusively h (transition_body h pid inp uuid) s w)))"
  proof (rule exclusively_grows [OF s(1-3)])
    fix s1 w1 sn assume run: "ready h (opened s)" "transition_body h pid inp uuid (opened s) w = (s1, w1, Inr sn)"
    show "runtime_grows h (store_db s) (store_db s1)"
      by (rule transition_body_grows [OF run(1) s(4) parsed_input [OF Some] run(2)]) (unfold opened_db, assumption)
  qed
  then show ?thesis using Some by (simp add: transition_def)
qed (simp add: transition_def runtime_grows_def)

lemma stop_grows:
  assumes s: "idle s" "has_room (store_db s)" "hex_digests (sha256_hex h)" "RuntimeUuidSchema uuid"
  shows "runtime_grows h (store_db s) (store_db (fst (stop_runtime h v uuid s w)))"
proof (cases "parseRuntimeInput (RuntimeStopInputSchema h) v")
  case (Some inp)
  have "runtime_grows h (store_db s) (store_db (fst (exclusively h (stop_body h inp uuid) s w)))"
  proof (rule exclusively_grows [OF s(1-3)])
    fix s1 w1 sn assume run: "ready h (opened s)" "stop_body h inp uuid (opened s) w = (s1, w1, Inr sn)"
    show "runtime_grows h (store_db s) (store_db s1)"
      by (rule stop_body_grows [OF run(1) s(4) parsed_input [OF Some] run(2)]) (unfold opened_db, assumption)
  qed
  then show ?thesis using Some by (simp add: stop_runtime_def)
qed (simp add: stop_runtime_def runtime_grows_def)

lemma request_grows:
  assumes s: "idle s" "has_room (store_db s)" "hex_digests (sha256_hex h)" "RuntimeUuidSchema uuid"
    and more: "RuntimeUuidSchema pid"
  shows "runtime_grows h (store_db s) (store_db (fst (requestBoundaryAuthorization h pid v clock uuid s w)))"
proof (cases "parseRuntimeInput RuntimeBoundaryAuthorizationInputSchema v")
  case (Some inp)
  have "runtime_grows h (store_db s) (store_db (fst (exclusively h (request_body h pid inp clock uuid) s w)))"
  proof (rule exclusively_grows [OF s(1-3)])
    fix s1 w1 and x :: "IssuedBoundary \<times> RuntimeBoundaryReceipt option"
    assume run: "ready h (opened s)" "request_body h pid inp clock uuid (opened s) w = (s1, w1, Inr x)"
    obtain rq receipt where "x = (rq, receipt)" by (cases x)
    show "runtime_grows h (store_db s) (store_db s1)"
      by (rule request_body_grows [OF run(1) s(4) more parsed_input [OF Some] run(2) [unfolded \<open>x = _\<close>]])
        (unfold opened_db, assumption)
  qed
  then show ?thesis using Some
    by (simp add: requestBoundaryAuthorization_def fst_act_then_pure)
qed (simp add: requestBoundaryAuthorization_def runtime_grows_def)

lemma consume_grows:
  assumes s: "idle s" "has_room (store_db s)" "hex_digests (sha256_hex h)" "RuntimeUuidSchema uuid"
    and more: "request_ok h (requested rq)"
  shows "runtime_grows h (store_db s) (store_db (fst (consumeBoundaryAuthorization h rq clock uuid s w)))"
proof -
  have "runtime_grows h (store_db s) (store_db (fst (exclusively h (check_body h rq clock uuid) s w)))"
  proof (rule exclusively_grows [OF s(1-3)])
    fix s1 w1 x assume "ready h (opened s)" "check_body h rq clock uuid (opened s) w = (s1, w1, Inr x)"
    then show "runtime_grows h (store_db s) (store_db s1)"
      using check_body_grows(1) [OF _ s(4) more] by (metis opened_db)
  qed
  then show ?thesis by (simp add: consumeBoundaryAuthorization_def fst_act_then_pure)
qed

lemma dispatch_grows:
  assumes s: "idle s" "has_room (store_db s)" "hex_digests (sha256_hex h)" "RuntimeUuidSchema uuid"
    and more: "request_ok h (requested rq)"
  shows "runtime_grows h (store_db s) (store_db (fst (consumeAndDispatch h rq dispatch clock uuid s w)))"
proof -
  let ?body = "act_then (check_body h rq clock uuid) (\<lambda>checked.
        act_then (if rc_allowed checked then act_call dispatch checked else act_result (Inr ())) (\<lambda>_.
          act_result (Inr checked)))"
  have "runtime_grows h (store_db s) (store_db (fst (exclusively h ?body s w)))"
  proof (rule exclusively_grows [OF s(1-3)])
    fix s1 w1 x assume ready: "ready h (opened s)" and body: "?body (opened s) w = (s1, w1, Inr x)"
    then obtain s2 w2 rc where "check_body h rq clock uuid (opened s) w = (s2, w2, Inr rc)" "s1 = s2"
      by (auto split: if_splits)
    then show "runtime_grows h (store_db s) (store_db s1)"
      using check_body_grows(1) [OF ready s(4) more] by (metis opened_db)
  qed
  then show ?thesis by (simp add: consumeAndDispatch_def fst_act_then_pure)
qed

text \<open>Bodies that leave the store alone.\<close>

definition storeless :: "('w, 'a) act \<Rightarrow> bool" where
  "storeless m \<longleftrightarrow> (\<forall>s w. fst (m s w) = s)"

lemma storeless_then: "storeless m \<Longrightarrow> (\<And>x. storeless (f x)) \<Longrightarrow> storeless (act_then m f)"
  unfolding storeless_def using fst_act_then_pure by metis

lemma storeless_basic:
  "storeless (act_result r)" "storeless (act_read g)" "storeless (find_event h k)" "storeless (act_call f x)"
  "storeless (act_commit h rq clocks c)"
  by (auto simp: storeless_def act_result_def act_read_def find_event_def act_call_def act_commit_def split: prod.splits)

lemma storeless_if: "storeless m \<Longrightarrow> storeless m' \<Longrightarrow> storeless (if b then m else m')"
  by simp

lemmas storeless_intros = storeless_then storeless_basic storeless_if

lemma exclusively_storeless:
  assumes "storeless m"
  shows "store_db (fst (exclusively h m s w)) = store_db s"
proof -
  obtain s' w' r where run: "exclusively h m s w = (s', w', r)" by (cases "exclusively h m s w") auto
  show ?thesis
  proof (cases r)
    case (Inl e)
    then show ?thesis using exclusively_Inl [OF run [unfolded Inl]] run by simp
  next
    case (Inr x)
    obtain s1 where s1: "m (opened s) w = (s1, w', Inr x)" "store_db s' = store_db s1"
      by (rule exclusively_Inr [OF run [unfolded Inr]])
    have "fst (m (opened s) w) = opened s" using assms by (simp add: storeless_def)
    then show ?thesis using s1 run by simp
  qed
qed

lemma reads_keep_store:
  "store_db (fst (getSnapshot h s w)) = store_db s" "store_db (fst (listAudit h s w)) = store_db s"
  "store_db (fst (guardBoundaryCompletion h rq completion clock s v)) = store_db s"
  unfolding getSnapshot_def listAudit_def guardBoundaryCompletion_def assertDurableAllowedBoundary_def Let_def
  by (rule exclusively_storeless, intro storeless_intros)+

lemma commit_store:
  "store_db (fst (consumeLocalCommit h rq commit clocks uuid s w))
    = store_db (fst (consumeBoundaryAuthorization h rq (clocks 0) uuid s w))"
proof -
  obtain s' w' r where run: "consumeBoundaryAuthorization h rq (clocks 0) uuid s w = (s', w', r)"
    by (cases "consumeBoundaryAuthorization h rq (clocks 0) uuid s w") auto
  show ?thesis
  proof (cases r)
    case (Inl e)
    then show ?thesis using run by (simp add: consumeLocalCommit_def act_then_def)
  next
    case (Inr rc)
    show ?thesis unfolding consumeLocalCommit_def act_then_def [of "consumeBoundaryAuthorization h rq (clocks 0) uuid"] run Inr
      by (simp, rule exclusively_storeless, intro storeless_intros)
  qed
qed

lemma open_grows:
  assumes "has_room db" "hex_digests (sha256_hex h)" "RuntimeUuidSchema uuid"
    "open_runtime h (Some db) v uuid = (Some db', r)" "valid_db h db"
  shows "runtime_grows h db db'"
proof (cases "parseRuntimeInput (OpenRuntimeInputSchema h) v")
  case None
  then show ?thesis using assms(4) by (simp add: open_runtime_def runtime_grows_def)
next
  case (Some inp)
  show ?thesis
  proof (cases "open_store h (Some db)")
    case (Inl e)
    then show ?thesis using assms(4) Some by (simp add: open_runtime_def runtime_grows_def)
  next
    case (Inr s)
    have idle: "idle s" and valid: "valid_db h (store_db s)" using open_store_valid [OF Inr] by simp_all
    have fresh: "store_db s = initializeSchema (Some db)"
      using Inr by (auto simp: open_store_def Let_def)
    have db: "store_db (fst (exclusively h (startup h inp uuid) s ())) = db'"
      using assms(4) Some Inr by (auto simp: open_runtime_def split: prod.splits sum.splits)
    have db_s: "store_db s = db" using fresh assms(5) by (auto simp: initializeSchema_def valid_db_def Let_def)
    have "runtime_grows h (store_db s) (store_db (fst (exclusively h (startup h inp uuid) s ())))"
    proof (rule exclusively_grows [OF idle _ assms(2)])
      show "has_room (store_db s)" using assms(1) db_s by simp
      fix s1 w1 x assume run: "ready h (opened s)" "startup h inp uuid (opened s) () = (s1, w1, Inr x)"
      show "runtime_grows h (store_db s) (store_db s1)"
        by (rule startup_grows [OF run(1) assms(3) parsed_input [OF Some] run(2)]) (unfold opened_db, assumption)
    qed
    then show ?thesis using db db_s by simp
  qed
qed

subsection \<open>Time only moves forward\<close>

lemma replay_payload_forward:
  assumes "replay_payload h acc ev p = Inr acc'" "rp_state acc = Some st"
  obtains st' where "rp_state acc' = Some st'" "st' = st \<or> rs_revision st' = rs_revision st + 1"
    "set (rp_authorizationIds acc) \<subseteq> set (rp_authorizationIds acc')"
proof (cases p)
  case (StopEvent q)
  then show thesis using assms that
    by (auto simp: replay_payload_def stop_consistent_def state_after_def)
next
  case (TransitionEvent q)
  then show thesis using assms that
    by (auto simp: replay_payload_def transition_consistent_def state_after_def)
next
  case (BoundaryEvent q)
  then show thesis using assms by (intro that [of st]) (auto simp: replay_payload_def)
qed

lemma replay_event_forward:
  assumes "replay_event h acc ev = Inr acc'" "rp_state acc = Some st"
  obtains st' where "rp_state acc' = Some st'" "st' = st \<or> rs_revision st' = rs_revision st + 1"
    "set (rp_authorizationIds acc) \<subseteq> set (rp_authorizationIds acc')"
proof -
  obtain p acc'' where p: "replay_payload h acc ev p = Inr acc''" and same: "rp_state acc' = rp_state acc''"
      "rp_authorizationIds acc' = rp_authorizationIds acc''"
    using assms(1) by (auto simp: replay_event_Inr)
  show thesis by (rule replay_payload_forward [OF p assms(2)]) (use that same in auto)
qed

definition moves_on :: "host \<Rightarrow> Database \<Rightarrow> Database \<Rightarrow> bool" where
  "moves_on h db db' \<longleftrightarrow>
     prefix (by_sequence db) (by_sequence db')
   \<and> (\<forall>acc st. audit h db = Inr acc \<longrightarrow> rp_state acc = Some st \<longrightarrow>
       (\<exists>acc' st'. audit h db' = Inr acc' \<and> rp_state acc' = Some st'
          \<and> (st' = st \<or> rs_revision st < rs_revision st')
          \<and> set (rp_authorizationIds acc) \<subseteq> set (rp_authorizationIds acc')))"

lemma moves_on_refl: "moves_on h db db"
  by (simp add: moves_on_def)

lemma moves_on_trans:
  assumes "moves_on h a b" "moves_on h b c"
  shows "moves_on h a c"
  unfolding moves_on_def
proof (intro conjI allI impI)
  show "prefix (by_sequence a) (by_sequence c)"
    using assms unfolding moves_on_def by (meson prefix_order.trans)
  fix acc st assume "audit h a = Inr acc" "rp_state acc = Some st"
  then obtain acc1 st1 where one: "audit h b = Inr acc1" "rp_state acc1 = Some st1"
      "st1 = st \<or> rs_revision st < rs_revision st1" "set (rp_authorizationIds acc) \<subseteq> set (rp_authorizationIds acc1)"
    using assms(1) unfolding moves_on_def by blast
  then obtain acc2 st2 where "audit h c = Inr acc2" "rp_state acc2 = Some st2"
      "st2 = st1 \<or> rs_revision st1 < rs_revision st2" "set (rp_authorizationIds acc1) \<subseteq> set (rp_authorizationIds acc2)"
    using assms(2) unfolding moves_on_def by blast
  then show "\<exists>acc' st'. audit h c = Inr acc' \<and> rp_state acc' = Some st'
      \<and> (st' = st \<or> rs_revision st < rs_revision st') \<and> set (rp_authorizationIds acc) \<subseteq> set (rp_authorizationIds acc')"
    using one by (intro exI [of _ acc2] exI [of _ st2]) auto
qed

lemma runtime_grows_forward:
  assumes "runtime_grows h db db'"
  shows "moves_on h db db'"
proof (cases "db' = db")
  case False
  then obtain ev acc acc' where step: "audit h db = Inr acc" "extends_by h db ev db'" "replay_event h acc ev = Inr acc'"
    using assms by (auto simp: runtime_grows_def)
  have "audit h db' = Inr acc'" using audit_extended [OF step(2,1)] step(3) by simp
  moreover have "prefix (by_sequence db) (by_sequence db')" using step(2) by (auto simp: extends_by_def)
  moreover have "\<exists>st'. rp_state acc' = Some st' \<and> (st' = st \<or> rs_revision st < rs_revision st')
      \<and> set (rp_authorizationIds acc) \<subseteq> set (rp_authorizationIds acc')" if "rp_state acc = Some st" for st
    by (rule replay_event_forward [OF step(3) that]) auto
  ultimately show ?thesis using step(1) by (auto simp: moves_on_def)
qed (simp add: moves_on_refl)

lemma runtime_grows_valid:
  "runtime_grows h db db' \<Longrightarrow> valid_db h db \<Longrightarrow> audit h db = Inr acc \<Longrightarrow> valid_db h db' \<and> (\<exists>acc'. audit h db' = Inr acc')"
  unfolding runtime_grows_def by (metis audit_extended extends_by_def)

subsection \<open>The system\<close>

datatype 'w RuntimeCall =
    OpenCall jsval string
  | TransitionCall string jsval string
  | StopCall jsval string
  | RequestCall string jsval ClockReading string
  | ConsumeCall IssuedBoundary ClockReading string
  | DispatchCall IssuedBoundary "RuntimeBoundaryReceipt \<Rightarrow> 'w \<Rightarrow> 'w \<times> bool" ClockReading string
  | CommitCall IssuedBoundary "RuntimeBoundaryReceipt \<Rightarrow> ('w, bool) commit_script" "nat \<Rightarrow> ClockReading" string
  | CompleteCall IssuedBoundary "RuntimeCompletionFacts \<Rightarrow> 'w \<Rightarrow> 'w \<times> bool" ClockReading

record 'w RuntimeSystem =
  sys_db :: Database
  sys_issued :: "IssuedBoundary list"
  sys_world :: 'w

fun call_uuid :: "'w RuntimeCall \<Rightarrow> string option" where
  "call_uuid (OpenCall _ u) = Some u"
| "call_uuid (TransitionCall _ _ u) = Some u"
| "call_uuid (StopCall _ u) = Some u"
| "call_uuid (RequestCall _ _ _ u) = Some u"
| "call_uuid (ConsumeCall _ _ u) = Some u"
| "call_uuid (DispatchCall _ _ _ u) = Some u"
| "call_uuid (CommitCall _ _ _ u) = Some u"
| "call_uuid (CompleteCall _ _ _) = None"

fun call_authorization :: "'w RuntimeCall \<Rightarrow> IssuedBoundary option" where
  "call_authorization (ConsumeCall rq _ _) = Some rq"
| "call_authorization (DispatchCall rq _ _ _) = Some rq"
| "call_authorization (CommitCall rq _ _ _) = Some rq"
| "call_authorization (CompleteCall rq _ _) = Some rq"
| "call_authorization _ = None"

text \<open>One call, each operation on a fresh connection; a granted request is added to the issued ones.\<close>

fun runtime_exec :: "host \<Rightarrow> 'w RuntimeCall \<Rightarrow> 'w RuntimeSystem \<Rightarrow> 'w RuntimeSystem" where
  "runtime_exec h (OpenCall v u) y =
     (case open_runtime h (Some (sys_db y)) v u of (Some db', _) \<Rightarrow> y\<lparr>sys_db := db'\<rparr> | (None, _) \<Rightarrow> y)"
| "runtime_exec h (TransitionCall pid v u) y =
     y\<lparr>sys_db := store_db (fst (transition h pid v u (connection (sys_db y)) ()))\<rparr>"
| "runtime_exec h (StopCall v u) y = y\<lparr>sys_db := store_db (fst (stop_runtime h v u (connection (sys_db y)) ()))\<rparr>"
| "runtime_exec h (RequestCall pid v c u) y =
     (case requestBoundaryAuthorization h pid v c u (connection (sys_db y)) () of
       (s', _, Inl _) \<Rightarrow> y\<lparr>sys_db := store_db s'\<rparr>
     | (s', _, Inr rq) \<Rightarrow> y\<lparr>sys_db := store_db s', sys_issued := rq # sys_issued y\<rparr>)"
| "runtime_exec h (ConsumeCall rq c u) y =
     y\<lparr>sys_db := store_db (fst (consumeBoundaryAuthorization h rq c u (connection (sys_db y)) ()))\<rparr>"
| "runtime_exec h (DispatchCall rq f c u) y =
     (case consumeAndDispatch h rq f c u (connection (sys_db y)) (sys_world y) of
       (s', w', _) \<Rightarrow> y\<lparr>sys_db := store_db s', sys_world := w'\<rparr>)"
| "runtime_exec h (CommitCall rq f c u) y =
     (case consumeLocalCommit h rq f c u (connection (sys_db y)) (sys_world y) of
       (s', w', _) \<Rightarrow> y\<lparr>sys_db := store_db s', sys_world := w'\<rparr>)"
| "runtime_exec h (CompleteCall rq f c) y =
     (case guardBoundaryCompletion h rq f c (connection (sys_db y)) (sys_world y) of
       (s', w', _) \<Rightarrow> y\<lparr>sys_db := store_db s', sys_world := w'\<rparr>)"

text \<open>
  The calls that can be made: process ids are the ones opening accepted, generated ids are version 4 identifiers, only
  issued authorizations are used, and sequence numbers have not run out.
\<close>

fun call_process :: "'w RuntimeCall \<Rightarrow> string option" where
  "call_process (RequestCall pid _ _ _) = Some pid"
| "call_process _ = None"

definition callable :: "'w RuntimeSystem \<Rightarrow> 'w RuntimeCall \<Rightarrow> bool" where
  "callable y c \<longleftrightarrow>
     has_room (sys_db y)
   \<and> (\<forall>u. call_uuid c = Some u \<longrightarrow> RuntimeUuidSchema u)
   \<and> (\<forall>p. call_process c = Some p \<longrightarrow> RuntimeUuidSchema p)
   \<and> (\<forall>rq. call_authorization c = Some rq \<longrightarrow> rq \<in> set (sys_issued y))"

definition runtime_ok :: "host \<Rightarrow> 'w RuntimeSystem \<Rightarrow> bool" where
  "runtime_ok h y \<longleftrightarrow>
     valid_db h (sys_db y) \<and> (\<exists>acc. audit h (sys_db y) = Inr acc)
   \<and> (\<forall>rq \<in> set (sys_issued y). request_ok h (requested rq)
        \<and> (\<exists>acc st. audit h (sys_db y) = Inr acc \<and> rp_state acc = Some st \<and> rq_requestedRevision rq \<le> rs_revision st))"

lemma runtime_exec_grows:
  assumes "hex_digests (sha256_hex h)" "runtime_ok h y" "callable y c"
  shows "runtime_grows h (sys_db y) (sys_db (runtime_exec h c y))"
proof -
  have y: "idle (connection (sys_db y))" "has_room (store_db (connection (sys_db y)))" "hex_digests (sha256_hex h)"
    using assms by (simp_all add: callable_def)
  have rq: "call_authorization c = Some rq \<Longrightarrow> request_ok h (requested rq)" for rq
    using assms(2,3) by (auto simp: callable_def runtime_ok_def)
  have u: "call_uuid c = Some u \<Longrightarrow> RuntimeUuidSchema u" for u using assms(3) by (simp add: callable_def)
  show ?thesis
  proof (cases c)
    case (OpenCall v u)
    obtain f r where o: "open_runtime h (Some (sys_db y)) v u = (f, r)" by fastforce
    show ?thesis
    proof (cases f)
      case None
      then show ?thesis using OpenCall o by (simp add: runtime_grows_def)
    next
      case (Some db')
      have "runtime_grows h (sys_db y) db'"
        by (rule open_grows [OF _ assms(1) _ o [unfolded Some]])
          (use assms OpenCall in \<open>auto simp: callable_def runtime_ok_def\<close>)
      then show ?thesis using OpenCall o Some by simp
    qed
  next
    case (TransitionCall pid v i)
    then show ?thesis using transition_grows [OF y u, of i pid v "()"] by simp
  next
    case (StopCall v i)
    then show ?thesis using stop_grows [OF y u, of i v "()"] by simp
  next
    case (RequestCall pid v clk i)
    have "RuntimeUuidSchema pid" using assms(3) RequestCall by (simp add: callable_def)
    then show ?thesis using RequestCall request_grows [OF y u, of i pid v clk "()"]
      by (auto split: prod.splits sum.splits)
  next
    case (ConsumeCall q clk i)
    then show ?thesis using consume_grows [OF y u, of i q clk "()"] rq by simp
  next
    case (DispatchCall q f clk i)
    then show ?thesis using dispatch_grows [OF y u, of i q f clk "sys_world y"] rq by (auto split: prod.splits)
  next
    case (CommitCall q f clks i)
    then show ?thesis using consume_grows [OF y u, of i q "clks 0" "sys_world y"] rq
        commit_store [of h q f clks i "connection (sys_db y)" "sys_world y"]
      by (auto split: prod.splits)
  next
    case (CompleteCall q f clk)
    then show ?thesis using reads_keep_store(3) [of h q f clk "connection (sys_db y)" "sys_world y"]
      by (auto simp: runtime_grows_def split: prod.splits)
  qed
qed

lemma runtime_exec_ok:
  assumes "hex_digests (sha256_hex h)" "runtime_ok h y" "callable y c"
  shows "runtime_ok h (runtime_exec h c y)" "moves_on h (sys_db y) (sys_db (runtime_exec h c y))"
proof -
  let ?y' = "runtime_exec h c y"
  note grows = runtime_exec_grows [OF assms]
  show on: "moves_on h (sys_db y) (sys_db ?y')" by (rule runtime_grows_forward [OF grows])
  obtain acc where acc: "valid_db h (sys_db y)" "audit h (sys_db y) = Inr acc"
    using assms(2) by (auto simp: runtime_ok_def)
  have old: "request_ok h (requested rq) \<and> (\<exists>acc st. audit h (sys_db ?y') = Inr acc \<and> rp_state acc = Some st
      \<and> rq_requestedRevision rq \<le> rs_revision st)" if rq: "rq \<in> set (sys_issued y)" for rq
  proof -
    obtain st where "request_ok h (requested rq)" "rp_state acc = Some st" "rq_requestedRevision rq \<le> rs_revision st"
      using assms(2) [unfolded runtime_ok_def] rq acc(2) by fastforce
    moreover from this obtain acc' st' where "audit h (sys_db ?y') = Inr acc'" "rp_state acc' = Some st'"
        "st' = st \<or> rs_revision st < rs_revision st'"
      using on acc(2) by (fastforce simp: moves_on_def)
    ultimately show ?thesis by fastforce
  qed
  have new: "rq \<in> set (sys_issued y) \<or> request_ok h (requested rq) \<and> (\<exists>acc st. audit h (sys_db ?y') = Inr acc
      \<and> rp_state acc = Some st \<and> rq_requestedRevision rq \<le> rs_revision st)" if "rq \<in> set (sys_issued ?y')" for rq
  proof (cases c)
    case (RequestCall pid v clk u)
    obtain s' w' r where run: "requestBoundaryAuthorization h pid v clk u (connection (sys_db y)) () = (s', w', r)"
      by (cases "requestBoundaryAuthorization h pid v clk u (connection (sys_db y)) ()") auto
    show ?thesis
    proof (cases r)
      case (Inl e)
      then show ?thesis using that run RequestCall by simp
    next
      case (Inr q)
      obtain inp where inp: "parseRuntimeInput RuntimeBoundaryAuthorizationInputSchema v = Some inp"
          and excl: "exclusively h (request_body h pid inp clk u) (connection (sys_db y)) () = (s', w', Inr (q, None))"
        using run unfolding Inr requestBoundaryAuthorization_def
        by (auto simp: denied_receipt_def split: option.splits)
      obtain s1 where body: "request_body h pid inp clk u (opened (connection (sys_db y))) () = (s1, w', Inr (q, None))"
          and db: "store_db s' = store_db s1"
        by (rule exclusively_Inr [OF excl])
      have ready: "ready h (opened (connection (sys_db y)))"
        by (rule opened_ready) (use acc(1) assms(1,3) in \<open>simp_all add: callable_def\<close>)
      have ids: "RuntimeUuidSchema u" "RuntimeUuidSchema pid" using assms(3) RequestCall by (simp_all add: callable_def)
      obtain acc1 st where "audit h (sys_db y) = Inr acc1" "rp_state acc1 = Some st" "request_ok h (requested q)"
          "rq_requestedRevision q = rs_revision st" "store_db s1 = sys_db y"
        by (rule request_body_grows [OF ready ids parsed_input [OF inp] body]) simp
      then show ?thesis using that run Inr RequestCall db by auto
    qed
  qed (use that in \<open>auto split: prod.splits option.splits\<close>)
  show "runtime_ok h ?y'"
    using old new runtime_grows_valid [OF grows acc] unfolding runtime_ok_def by blast
qed

text \<open>A run of the system: any calls in any order.\<close>

inductive runtime_run :: "host \<Rightarrow> 'w RuntimeSystem \<Rightarrow> 'w RuntimeSystem \<Rightarrow> bool" for h where
  start: "runtime_run h y y"
| call: "runtime_run h y z \<Longrightarrow> callable z c \<Longrightarrow> runtime_run h y (runtime_exec h c z)"

inductive_cases runtime_runE: "runtime_run h y z"

lemma runtime_run_ok:
  assumes "runtime_run h y z" "hex_digests (sha256_hex h)" "runtime_ok h y"
  shows "runtime_ok h z \<and> moves_on h (sys_db y) (sys_db z)"
  using assms(1,3)
proof induction
  case (start y)
  then show ?case by (simp add: moves_on_refl)
next
  case (call y z c)
  then show ?case using runtime_exec_ok [OF assms(2), of z c] moves_on_trans by blast
qed

definition new_system :: "'w \<Rightarrow> 'w RuntimeSystem" where
  "new_system w = \<lparr>sys_db = initializeSchema None, sys_issued = [], sys_world = w\<rparr>"

lemma new_system_ok: "runtime_ok h (new_system w)"
proof -
  have "valid_db h (initializeSchema None)"
    by (simp add: initializeSchema_def valid_db_def by_sequence_def head_sequence_def head_hash_def)
  then show ?thesis
    by (simp add: runtime_ok_def new_system_def audit_def initializeSchema_def by_sequence_def)
qed

text \<open>Where authority moved past an authorization, no call that uses it reaches the world.\<close>

lemma stale_world:
  assumes ok: "hex_digests (sha256_hex h)" "runtime_ok h y" "callable y c" "call_authorization c = Some rq"
    and past: "audit h (sys_db y) = Inr acc" "rp_state acc = Some st" "rs_revision st \<noteq> rq_requestedRevision rq"
  shows "sys_world (runtime_exec h c y) = sys_world y"
proof (rule ccontr)
  assume changed: "sys_world (runtime_exec h c y) \<noteq> sys_world y"
  have y: "idle (connection (sys_db y))" "has_room (store_db (connection (sys_db y)))" "hex_digests (sha256_hex h)"
    using ok by (simp_all add: callable_def)
  have stale: "\<not> grants h (sys_db y) rq t" for t using grants_revision [OF _ past(1,2)] past(3) by blast
  show False
  proof (cases c)
    case (DispatchCall q f clk u)
    have q: "q = rq" using DispatchCall ok(4) by simp
    obtain s' w' r where run: "consumeAndDispatch h rq f clk u (connection (sys_db y)) (sys_world y) = (s', w', r)"
      by (cases "consumeAndDispatch h rq f clk u (connection (sys_db y)) (sys_world y)") auto
    then have "w' \<noteq> sys_world y" using changed DispatchCall q by simp
    from y run this show False by (rule dispatch_world) (use stale in auto)
  next
    case (CommitCall q f clks u)
    have q: "q = rq" using CommitCall ok(4) by simp
    obtain s' w' r where run: "consumeLocalCommit h rq f clks u (connection (sys_db y)) (sys_world y) = (s', w', r)"
      by (cases "consumeLocalCommit h rq f clks u (connection (sys_db y)) (sys_world y)") auto
    then have "w' \<noteq> sys_world y" using changed CommitCall q by simp
    from y run this show False by (rule commit_world) (use stale in auto)
  next
    case (CompleteCall q f clk)
    have q: "q = rq" using CompleteCall ok(4) by simp
    obtain s' w' r where run: "guardBoundaryCompletion h rq f clk (connection (sys_db y)) (sys_world y) = (s', w', r)"
      by (cases "guardBoundaryCompletion h rq f clk (connection (sys_db y)) (sys_world y)") auto
    then have "w' \<noteq> sys_world y" using changed CompleteCall q by simp
    from y run this show False
      by (rule completion_world) (use past in \<open>auto simp: boundaryCompletionReason_def split: if_splits\<close>)
  qed (use changed ok(4) in simp_all)
qed

subsection \<open>The authority's log\<close>

interpretation runtime_log: append_only
  "\<lambda>y. by_sequence (sys_db y)" "\<lambda>y c. runtime_exec h c y"
  "\<lambda>y. hex_digests (sha256_hex h) \<and> runtime_ok h y" callable for h
proof (unfold_locales, goal_cases)
  case (1 y c)
  then show ?case using runtime_exec_ok(1) by blast
next
  case (2 y c)
  then show ?case using runtime_exec_ok(2) [of h y c] by (simp add: moves_on_def)
qed

end
