(* ===== verification/BoundaryAuthorization.thy ===== *)
theory BoundaryAuthorization
  imports RuntimeSystem
begin

text \<open>
  \<open>packages/runtime/src/boundary-authorization.ts\<close>: the one-shot authorization object a granted request returns. Its
  membership in the three weak sets is three flags; its methods take the flags, the store and the
  world and return them. A callback argument that is not a synchronous function is \<open>NotSynchronous\<close>; a
  callback returns, with a thenable or not, or throws. The lemmas show that every attempt is final: one
  consumption, one dispatch, one completion, whatever the outcome of each.
\<close>

datatype callback_outcome = Returned bool | Threw

datatype 'f callback_argument = NotSynchronous | Synchronous 'f

record AuthorizationObject =
  az_issued :: IssuedBoundary
  az_consumed :: bool
  az_dispatched :: bool
  az_completed :: bool

definition createRuntimeBoundaryAuthorization :: "IssuedBoundary \<Rightarrow> AuthorizationObject" where
  "createRuntimeBoundaryAuthorization rq =
     \<lparr>az_issued = rq, az_consumed = False, az_dispatched = False, az_completed = False\<rparr>"

datatype AuthorizationMethod = Consume | ConsumeAndCommit | ConsumeAndDispatch | GuardCompletion

definition methods_of :: "RuntimeBoundary \<Rightarrow> AuthorizationMethod list" where
  "methods_of b =
     (if isLocalCommitBoundary b then [ConsumeAndCommit]
      else if b = ResearchCollection then [ConsumeAndDispatch, GuardCompletion]
      else [Consume])"

definition claim :: "AuthorizationObject \<Rightarrow> (RuntimeError, AuthorizationObject) result" where
  "claim a =
     and_then (ensure (\<not> az_consumed a) (RuntimeConflict AUTHORIZATION_ALREADY_USED)) (\<lambda>_.
       Inr (a\<lparr>az_consumed := True\<rparr>))"

definition single_callback :: "'f callback_argument list \<Rightarrow> (RuntimeError, 'f) result" where
  "single_callback args = (case args of [Synchronous f] \<Rightarrow> Inr f | _ \<Rightarrow> Inl RuntimeValidation)"

definition assertSynchronousResult :: "bool \<Rightarrow> (RuntimeError, 'a) result \<Rightarrow> (RuntimeError, 'a) result" where
  "assertSynchronousResult thenable r = and_then r (\<lambda>x. and_then (ensure (\<not> thenable) RuntimeValidation) (\<lambda>_. Inr x))"

definition authorization_consume ::
  "host \<Rightarrow> nat \<Rightarrow> ClockReading \<Rightarrow> string \<Rightarrow> AuthorizationObject \<Rightarrow> EventStore \<Rightarrow> 'w
     \<Rightarrow> AuthorizationObject \<times> EventStore \<times> 'w \<times> (RuntimeError, RuntimeBoundaryReceipt) result" where
  "authorization_consume h argumentCount clock uuid a s w =
     (case claim a of
       Inl e \<Rightarrow> (a, s, w, Inl e)
     | Inr a' \<Rightarrow>
         if argumentCount \<noteq> 0 then (a', s, w, Inl RuntimeValidation)
         else (a', consumeBoundaryAuthorization h (az_issued a) clock uuid s w))"

text \<open>The callback handed to the controller keeps what the given one did: whether it ran, and returned a thenable.\<close>

definition watched :: "('a \<Rightarrow> 'w \<Rightarrow> 'w \<times> callback_outcome) \<Rightarrow> 'a \<Rightarrow> 'w \<times> bool \<times> bool \<Rightarrow> ('w \<times> bool \<times> bool) \<times> bool" where
  "watched f x v =
     (case f x (fst v) of
       (w', Returned thenable) \<Rightarrow> ((w', True, thenable), True)
     | (w', Threw) \<Rightarrow> ((w', True, False), False))"

definition authorization_dispatch ::
  "host \<Rightarrow> (RuntimeBoundaryReceipt \<Rightarrow> 'w \<Rightarrow> 'w \<times> callback_outcome) callback_argument list \<Rightarrow> ClockReading \<Rightarrow> string
     \<Rightarrow> AuthorizationObject \<Rightarrow> EventStore \<Rightarrow> 'w
     \<Rightarrow> AuthorizationObject \<times> EventStore \<times> 'w \<times> (RuntimeError, RuntimeBoundaryReceipt) result" where
  "authorization_dispatch h args clock uuid a s w =
     (case claim a of
       Inl e \<Rightarrow> (a, s, w, Inl e)
     | Inr a' \<Rightarrow>
         (case single_callback args of
           Inl e \<Rightarrow> (a', s, w, Inl e)
         | Inr f \<Rightarrow>
             (case consumeAndDispatch h (az_issued a) (watched f) clock uuid s (w, False, False) of
               (s', (w', invoked, thenable), r) \<Rightarrow>
                 (if invoked then a'\<lparr>az_dispatched := True\<rparr> else a', s', w', assertSynchronousResult thenable r))))"

primrec watched_commit :: "('w, callback_outcome) commit_script \<Rightarrow> ('w \<times> bool, bool) commit_script" where
  "watched_commit (Finish outcome) =
     (case outcome of
       Returned thenable \<Rightarrow> Perform (\<lambda>(w, _). (w, thenable)) (Finish True)
     | Threw \<Rightarrow> Finish False)"
| "watched_commit (Perform f k) = Perform (\<lambda>(w, t). (f w, t)) (watched_commit k)"
| "watched_commit (CallCheckpoint k) = CallCheckpoint (\<lambda>r. watched_commit (k r))"

definition authorization_commit ::
  "host \<Rightarrow> (RuntimeBoundaryReceipt \<Rightarrow> ('w, callback_outcome) commit_script) callback_argument list
     \<Rightarrow> (nat \<Rightarrow> ClockReading) \<Rightarrow> string \<Rightarrow> AuthorizationObject \<Rightarrow> EventStore \<Rightarrow> 'w
     \<Rightarrow> AuthorizationObject \<times> EventStore \<times> 'w \<times> (RuntimeError, RuntimeBoundaryReceipt) result" where
  "authorization_commit h args clocks uuid a s w =
     (case claim a of
       Inl e \<Rightarrow> (a, s, w, Inl e)
     | Inr a' \<Rightarrow>
         (case single_callback args of
           Inl e \<Rightarrow> (a', s, w, Inl e)
         | Inr f \<Rightarrow>
             (case consumeLocalCommit h (az_issued a) (\<lambda>receipt. watched_commit (f receipt)) clocks uuid s (w, False) of
               (s', (w', thenable), r) \<Rightarrow> (a', s', w', assertSynchronousResult thenable r))))"

definition authorization_guard ::
  "host \<Rightarrow> (RuntimeCompletionFacts \<Rightarrow> 'w \<Rightarrow> 'w \<times> callback_outcome) callback_argument list \<Rightarrow> ClockReading
     \<Rightarrow> AuthorizationObject \<Rightarrow> EventStore \<Rightarrow> 'w
     \<Rightarrow> AuthorizationObject \<times> EventStore \<times> 'w \<times> (RuntimeError, RuntimeCompletionFacts) result" where
  "authorization_guard h args clock a s w =
     (if az_completed a then (a, s, w, Inl (RuntimeConflict AUTHORIZATION_ALREADY_USED))
      else
        (let a' = a\<lparr>az_completed := True\<rparr> in
         if \<not> az_dispatched a then (a', s, w, Inl (RuntimeConflict STALE_STATE))
         else
           (case single_callback args of
             Inl e \<Rightarrow> (a', s, w, Inl e)
           | Inr f \<Rightarrow>
               (case guardBoundaryCompletion h (az_issued a) (watched f) clock s (w, False, False) of
                 (s', (w', _, thenable), r) \<Rightarrow> (a', s', w', assertSynchronousResult thenable r)))))"

subsection \<open>Every attempt is final\<close>

lemma claim_Inr [simp]: "claim a = Inr a' \<longleftrightarrow> \<not> az_consumed a \<and> a' = a\<lparr>az_consumed := True\<rparr>"
  by (auto simp: claim_def)

lemma claim_consumed: "az_consumed a \<Longrightarrow> claim a = Inl (RuntimeConflict AUTHORIZATION_ALREADY_USED)"
  by (simp add: claim_def)

lemma consumed_is_final:
  assumes "az_consumed a"
  shows "authorization_consume h n c u a s w = (a, s, w, Inl (RuntimeConflict AUTHORIZATION_ALREADY_USED))"
    "authorization_dispatch h args c u a s v = (a, s, v, Inl (RuntimeConflict AUTHORIZATION_ALREADY_USED))"
    "authorization_commit h cargs cs u a s x = (a, s, x, Inl (RuntimeConflict AUTHORIZATION_ALREADY_USED))"
  by (simp_all add: authorization_consume_def authorization_dispatch_def authorization_commit_def
      claim_consumed [OF assms])

lemma flags_after:
  "az_consumed (fst (authorization_consume h n c u a s w))"
  "az_consumed (fst (authorization_dispatch h args c u a s v))"
  "az_consumed (fst (authorization_commit h cargs cs u a s x))"
  "az_completed (fst (authorization_guard h gargs c a s y))"
  by (auto simp: authorization_consume_def authorization_dispatch_def authorization_commit_def
      authorization_guard_def Let_def claim_def ensure_def split: sum.splits prod.splits)

lemma flags_result:
  "authorization_consume h n c u a s w = (a', q) \<Longrightarrow> az_consumed a'"
  "authorization_dispatch h args c u a s v = (a', q') \<Longrightarrow> az_consumed a'"
  "authorization_commit h cargs cs u a s x = (a', q'') \<Longrightarrow> az_consumed a'"
  using flags_after(1) [of h n c u a s w] flags_after(2) [of h args c u a s v] flags_after(3) [of h cargs cs u a s x]
  by simp_all

text \<open>The dispatched flag is set by a dispatch whose callback ran, and the callback ran behind an allowed check.\<close>

lemma dispatched_means_granted:
  assumes s: "idle s" "has_room (store_db s)" "hex_digests (sha256_hex h)"
    and run: "authorization_dispatch h args clock uuid a s w = (a', s', w', r)" "az_dispatched a'" "\<not> az_dispatched a"
  shows "\<exists>t. grants h (store_db s) (az_issued a) t
    \<and> find_by_key (store_db s) (boundary_key (rq_authorizationId (az_issued a))) = None"
proof -
  have fresh: "\<not> az_consumed a"
    using run by (auto simp: consumed_is_final)
  obtain f where f: "single_callback args = Inr f"
    using run fresh by (cases "single_callback args") (auto simp: authorization_dispatch_def claim_def)
  obtain s2 w2 invoked thenable r2 where d: "consumeAndDispatch h (az_issued a) (watched f) clock uuid s (w, False, False)
      = (s2, (w2, invoked, thenable), r2)" by (metis prod_cases3)
  have "invoked" using run fresh f d by (auto simp: authorization_dispatch_def claim_def split: if_splits)
  then have "(w2, invoked, thenable) \<noteq> (w, False, False)" by simp
  from s d this show ?thesis by (rule dispatch_world) blast
qed

subsection \<open>Sequences of calls\<close>

text \<open>Calls on one object, each against the store as it then is.\<close>

datatype 'w AuthorizationCall =
    ConsumeWith EventStore nat ClockReading string
  | DispatchWith EventStore "(RuntimeBoundaryReceipt \<Rightarrow> 'w \<Rightarrow> 'w \<times> callback_outcome) callback_argument list" ClockReading string
  | CommitWith EventStore "(RuntimeBoundaryReceipt \<Rightarrow> ('w, callback_outcome) commit_script) callback_argument list"
      "nat \<Rightarrow> ClockReading" string
  | GuardWith EventStore "(RuntimeCompletionFacts \<Rightarrow> 'w \<Rightarrow> 'w \<times> callback_outcome) callback_argument list" ClockReading

fun authorization_call :: "host \<Rightarrow> 'w AuthorizationCall \<Rightarrow> AuthorizationObject \<times> 'w \<Rightarrow> AuthorizationObject \<times> 'w" where
  "authorization_call h (ConsumeWith s n c u) (a, w) = (case authorization_consume h n c u a s w of (a', _, w', _) \<Rightarrow> (a', w'))"
| "authorization_call h (DispatchWith s f c u) (a, w) = (case authorization_dispatch h f c u a s w of (a', _, w', _) \<Rightarrow> (a', w'))"
| "authorization_call h (CommitWith s f c u) (a, w) = (case authorization_commit h f c u a s w of (a', _, w', _) \<Rightarrow> (a', w'))"
| "authorization_call h (GuardWith s f c) (a, w) = (case authorization_guard h f c a s w of (a', _, w', _) \<Rightarrow> (a', w'))"

fun is_completion :: "'w AuthorizationCall \<Rightarrow> bool" where
  "is_completion (GuardWith _ _ _) = True"
| "is_completion _ = False"

text \<open>How many of the calls that \<open>P\<close> selects changed the world.\<close>

fun effects :: "host \<Rightarrow> ('w AuthorizationCall \<Rightarrow> bool) \<Rightarrow> 'w AuthorizationCall list \<Rightarrow> AuthorizationObject \<times> 'w \<Rightarrow> nat" where
  "effects h P [] v = 0"
| "effects h P (c # cs) v =
     (let v' = authorization_call h c v in (if P c \<and> snd v' \<noteq> snd v then 1 else 0) + effects h P cs v')"

lemma call_consumption:
  assumes "\<not> is_completion c"
  shows "az_consumed (fst (authorization_call h c v))" "az_consumed (fst v) \<Longrightarrow> authorization_call h c v = v"
proof -
  obtain a w where v: "v = (a, w)" by (cases v)
  show "az_consumed (fst (authorization_call h c v))"
    using assms unfolding v by (cases c) (auto split: prod.splits dest: flags_result)
  show "az_consumed (fst v) \<Longrightarrow> authorization_call h c v = v"
    using assms unfolding v by (cases c) (simp_all add: consumed_is_final)
qed

lemma call_completion:
  assumes "is_completion c"
  shows "az_completed (fst (authorization_call h c v))" "az_completed (fst v) \<Longrightarrow> authorization_call h c v = v"
    "az_consumed (fst (authorization_call h c v)) = az_consumed (fst v)"
    "az_dispatched (fst (authorization_call h c v)) = az_dispatched (fst v)"
    "\<not> az_dispatched (fst v) \<Longrightarrow> snd (authorization_call h c v) = snd v"
proof -
  obtain a w where v: "v = (a, w)" by (cases v)
  obtain s f clk where c: "c = GuardWith s f clk" using assms by (cases c) auto
  obtain a' s' w' r where g: "authorization_guard h f clk a s w = (a', s', w', r)" by (metis prod_cases4)
  have "az_completed a'" using flags_after(4) [of h f clk a s w] g by simp
  moreover have "az_completed a \<longrightarrow> a' = a \<and> w' = w" "az_consumed a' = az_consumed a" "az_dispatched a' = az_dispatched a"
      "\<not> az_dispatched a \<longrightarrow> w' = w"
    using g by (auto simp: authorization_guard_def Let_def split: if_splits sum.splits prod.splits)
  ultimately show "az_completed (fst (authorization_call h c v))"
    "az_completed (fst v) \<Longrightarrow> authorization_call h c v = v"
    "az_consumed (fst (authorization_call h c v)) = az_consumed (fst v)"
    "az_dispatched (fst (authorization_call h c v)) = az_dispatched (fst v)"
    "\<not> az_dispatched (fst v) \<Longrightarrow> snd (authorization_call h c v) = snd v"
    by (auto simp: v c g)
qed

lemma call_keeps_completed:
  "az_completed (fst v) \<Longrightarrow> az_completed (fst (authorization_call h c v))"
proof (cases "is_completion c")
  case False
  moreover assume "az_completed (fst v)"
  moreover obtain a w where "v = (a, w)" by (cases v)
  ultimately show ?thesis
    by (cases c) (auto simp: authorization_consume_def authorization_dispatch_def authorization_commit_def claim_def
        ensure_def split: prod.splits sum.splits)
qed (simp add: call_completion)

lemma one_consumption: "effects h (\<lambda>c. \<not> is_completion c) cs v \<le> (if az_consumed (fst v) then 0 else 1)"
proof (induction cs arbitrary: v)
  case (Cons c cs)
  show ?case
  proof (cases "is_completion c")
    case True
    then show ?thesis using Cons.IH [of "authorization_call h c v"] by (simp add: Let_def call_completion)
  next
    case False
    then show ?thesis using Cons.IH [of "authorization_call h c v"] call_consumption [OF False]
      by (cases "az_consumed (fst v)") (auto simp: Let_def)
  qed
qed simp

lemma one_completion: "effects h is_completion cs v \<le> (if az_completed (fst v) then 0 else 1)"
proof (induction cs arbitrary: v)
  case (Cons c cs)
  show ?case
  proof (cases "is_completion c")
    case True
    then show ?thesis using Cons.IH [of "authorization_call h c v"] call_completion(1,2) [OF True]
      by (cases "az_completed (fst v)") (auto simp: Let_def)
  next
    case False
    then show ?thesis using Cons.IH [of "authorization_call h c v"] call_keeps_completed [of v h c]
      by (auto simp: Let_def split: if_splits)
  qed
qed simp

end
