(* ===== verification/Samples.thy ===== *)
theory Samples
  imports PolicyKernel ImprovementLoop Proposals Eip712 BoundaryAuthorization
begin

text \<open>
  Concrete inputs at which the properties of the root theory are exercised: a host whose digests are
  computable (Keccak stands for the length and the last hex characters of the text, SHA-256 for the hex characters from
  the place where an event's hash text has its id), a policy and an intent it permits with its evidence. The
  lemmas evaluate the model on them.
\<close>

subsection \<open>A host\<close>

definition padded_hex :: "string \<Rightarrow> string" where
  "padded_hex s = take 64 (filter is_lower_hex s @ replicate 64 CHR ''0'')"

definition sample_digest :: "string \<Rightarrow> string" where
  "sample_digest s = padded_hex (nat_str (length s) @ rev s)"

definition sample_event_digest :: "string \<Rightarrow> string" where
  "sample_event_digest s = padded_hex (drop 59 s)"

definition sample_host :: host where
  "sample_host =
     \<lparr>sha256_hex = sample_event_digest, keccak256_hex = sample_digest, locale_le = (\<le>), num_text = (\<lambda>_. ''0''),
      num_read = (\<lambda>_. None), zod_datetime = (\<lambda>s. parse_canonical s \<noteq> None), parse_url = (\<lambda>_. None),
      legacy_date = (\<lambda>_. None)\<rparr>"

lemma list_all_replicate [simp]: "list_all P (replicate n x) \<longleftrightarrow> n = 0 \<or> P x"
  by (induction n) auto

lemma sample_chars [simp]:
  "is_lower_hex CHR ''0''" "is_lower_hex CHR ''1''" "is_lower_hex CHR ''2''" "is_lower_hex CHR ''a''"
  "is_lower_hex CHR ''b''" "is_lower_hex CHR ''c''" "is_lower_hex CHR ''d''" "is_lower_hex CHR ''e''"
  by (simp_all add: is_lower_hex_def is_digit_def in_range_def) (simp_all add: code_def)

lemma padded_hex_hex: "list_all is_lower_hex (padded_hex s)" "length (padded_hex s) = 64"
proof -
  have "list_all is_lower_hex (filter is_lower_hex s @ replicate 64 CHR ''0'')" by (simp add: list_all_iff)
  then show "list_all is_lower_hex (padded_hex s)"
    unfolding padded_hex_def list_all_iff by (meson in_set_takeD)
  show "length (padded_hex s) = 64" by (simp add: padded_hex_def)
qed

lemmas sample_digest_hex = padded_hex_hex [of "nat_str (length s) @ rev s" for s, folded sample_digest_def]

lemma sample_digests [simp]: "hex_digests (sha256_hex sample_host)" "hex_digests (keccak256_hex sample_host)"
  by (simp_all add: hex_digests_def sample_host_def sample_digest_def sample_event_digest_def padded_hex_hex)

lemma sample_timestamp [simp]: "valid_time t \<Longrightarrow> TimestampSchema sample_host (to_iso t)"
  by (simp add: TimestampSchema_def sample_host_def parse_to_iso)

subsection \<open>A policy, an intent and its evidence\<close>

definition sample_address :: "char \<Rightarrow> string" where
  "sample_address c = ''0x'' @ replicate 40 c"

definition sample_bytes32 :: "char \<Rightarrow> string" where
  "sample_bytes32 c = ''0x'' @ replicate 64 c"

definition sample_id :: "char \<Rightarrow> string" where
  "sample_id c = ''sha256:'' @ replicate 64 c"

lemma sample_formats [simp]:
  "EvmAddressSchema (sample_address c) \<longleftrightarrow> is_hex c" "Bytes32Schema (sample_bytes32 c) \<longleftrightarrow> is_hex c"
  "Sha256IdSchema (sample_id c) \<longleftrightarrow> is_lower_hex c" "is_lower_hex c \<Longrightarrow> is_hex c"
  by (simp_all add: EvmAddressSchema_def sample_address_def Bytes32Schema_def sample_bytes32_def Sha256IdSchema_def
      sample_id_def fixed_digits_def lower_hex_is_hex)

lemma sample_inject [simp]: "sample_id c = sample_id d \<longleftrightarrow> c = d"
  by (simp add: sample_id_def)

lemma parse_values [simp]:
  "z_string p (JStr s) = (if p s then Some s else None)" "z_int q (jint i) = (if safe_int i \<and> q i then Some i else None)"
  "z_unit (JNum n) = (if unit_num n then Some n else None)" "z_bool (JBool b) = Some b"
  by (simp_all add: z_string_def z_int_def z_unit_def z_bool_def)

definition sample_asset :: "char \<Rightarrow> AssetContract" where
  "sample_asset c = \<lparr>ac_chainId = 1, ac_address = sample_address c\<rparr>"

definition sample_key :: string where
  "sample_key = assetKey 1 (sample_address CHR ''c'')"

definition sample_config :: PolicyConfig where
  "sample_config =
     \<lparr>cfg_policyVersion = ''kernel-1'', allowedChains = [1],
      allowedMarketplaceTargets = [sample_asset CHR ''a''], allowedCollections = [sample_asset CHR ''b''],
      allowedPaymentAssets = [sample_asset CHR ''c''], allowedRecipients = [sample_asset CHR ''d''],
      maxPerTransactionByAsset = [(sample_key, ''100'')], maxDailySpendByAsset = [(sample_key, ''150'')],
      maxEvidenceAgeSeconds = 600, maxClockSkewSeconds = 5, minIndependentEvidenceClusters = 2,
      requireCanonicalMarketplaceEvidence = False\<rparr>"

definition sample_kernel :: PolicyKernel where
  "sample_kernel =
     \<lparr>policy = sample_config, policyHash = canonicalHash sample_host (policy_json sample_config),
      processedIntentIds = [], processedNonces = [], dailySpend = []\<rparr>"

lemma sample_amounts [simp]:
  "PositiveAtomicAmountSchema ''100''" "PositiveAtomicAmountSchema ''150''" "PositiveAtomicAmountSchema ''90''"
  "AtomicAmountSchema ''7''" "read_nat ''100'' = 100" "read_nat ''150'' = 150" "read_nat ''90'' = 90"
proof -
  have d: "is_digit CHR ''0''" "is_digit CHR ''1''" "is_digit CHR ''5''" "is_digit CHR ''9''" "is_digit CHR ''7''"
    by (simp_all add: is_digit_def in_range_def) (simp_all add: code_def)
  have v: "digit_val CHR ''0'' = 0" "digit_val CHR ''1'' = 1" "digit_val CHR ''5'' = 5" "digit_val CHR ''9'' = 9"
      "digit_val CHR ''7'' = 7" by (simp_all add: digit_val_def code_def)
  show "PositiveAtomicAmountSchema ''100''" "PositiveAtomicAmountSchema ''150''" "PositiveAtomicAmountSchema ''90''"
    "AtomicAmountSchema ''7''" "read_nat ''100'' = 100" "read_nat ''150'' = 150" "read_nat ''90'' = 90"
    by (simp_all add: PositiveAtomicAmountSchema_def AtomicAmountSchema_def unsigned_decimal_def read_nat_def
        MAX_UINT256_def d v)
qed

lemma sample_key_ok [simp]: "asset_key_format sample_key"
  unfolding sample_key_def by (rule assetKey_format) simp_all

lemma sample_labels [simp]:
  "labelled ''kernel-'' 64 ''kernel-1''" "labelled ''rsi-'' 64 ''rsi-1''" "labelled ''rsi-intent:'' 96 ''rsi-intent:one''"
proof -
  have c: "label_char CHR ''1''" "label_char CHR ''o''" "label_char CHR ''n''" "label_char CHR ''e''"
    by (simp_all add: label_char_def is_alnum_def is_digit_def in_range_def) (simp_all add: code_def)
  then show "labelled ''kernel-'' 64 ''kernel-1''" "labelled ''rsi-'' 64 ''rsi-1''"
    "labelled ''rsi-intent:'' 96 ''rsi-intent:one''" by (simp_all add: labelled_def)
qed

lemma sample_asset_parses [simp]: "is_hex c \<Longrightarrow> AssetContractSchema (asset_json (sample_asset c)) = Some (sample_asset c)"
  by (simp add: AssetContractSchema_def asset_json_def sample_asset_def z_object_JObj parse_simps positive_def
      safe_int_def max_safe_integer_def)

lemma sample_kernel_new: "new_kernel sample_host (policy_json sample_config) None = Inr sample_kernel"
proof -
  have "PolicyConfigSchema (policy_json sample_config) = Some sample_config"
    by (simp add: PolicyConfigSchema_def policy_json_def sample_config_def limits_json_def z_object_JObj z_array_def
        z_record_def parse_simps positive_def safe_int_def max_safe_integer_def)
  then show ?thesis by (simp add: new_kernel_def sample_kernel_def Let_def)
qed

definition sample_now :: int where
  "sample_now = 1767225660000"

definition sample_intent :: ExecutionIntent where
  "sample_intent =
     \<lparr>intentId = ''rsi-intent:one'', strategyVersion = ''rsi-1'', policyVersion = ''kernel-1'',
      intent_policyHash = policyHash sample_kernel, evidenceIds = [sample_id CHR ''1'', sample_id CHR ''2''],
      createdAt = to_iso 1767225600000, expiresAt = to_iso 1767226200000,
      action = \<lparr>chainId = 1, targetContract = sample_address CHR ''a'', collectionContract = sample_address CHR ''b'',
        tokenId = ''7'', paymentAsset = sample_address CHR ''c'', maxTotalSpend = ''90'',
        recipient = sample_address CHR ''d'', orderHash = sample_bytes32 CHR ''e'', nonce = sample_bytes32 CHR ''1''\<rparr>\<rparr>"

lemma sample_times [simp]: "valid_time 1767225600000" "valid_time 1767226200000" "valid_time 1767229200000" "valid_time sample_now"
  by (simp_all add: valid_time_def max_time_def sample_now_def)

lemma canonicalHash_format: "hex_digests (sha256_hex h) \<Longrightarrow> Bytes32Schema (canonicalHash h v)"
  by (auto simp: canonicalHash_def Bytes32Schema_def fixed_digits_def hex_digests_def list_all_iff intro: lower_hex_is_hex)

lemma sample_hash [simp]: "Bytes32Schema (policyHash sample_kernel)"
  by (simp add: sample_kernel_def canonicalHash_format)

lemma sample_intent_parses: "ExecutionIntentSchema sample_host (intent_json sample_intent) = Some sample_intent"
  by (simp add: ExecutionIntentSchema_def intent_json_def action_json_def sample_intent_def NftPurchaseActionSchema_def
      z_object_JObj z_array_def parse_simps positive_def safe_int_def max_safe_integer_def)

definition sample_observation :: "char \<Rightarrow> jsval" where
  "sample_observation c = JObj
     [(''observationId'', JStr (sample_id c)),
      (''source'', JObj [(''kind'', JStr ''manual''), (''providerId'', JStr ''one'')]),
      (''acquiredAt'', JStr (to_iso 1767225600000)), (''observedAt'', JStr (to_iso 1767225600000)),
      (''validUntil'', JStr (to_iso 1767229200000)),
      (''raw'', JObj [(''contentHash'', JStr (sample_id c)), (''contentType'', JStr ''a/b''), (''byteLength'', jint 1)]),
      (''claims'', JArr [JObj [(''type'', JStr ''listing''),
         (''asset'', JObj [(''chainId'', jint 1), (''address'', JStr (sample_address CHR ''b'')), (''tokenId'', JStr ''7'')]),
         (''confidence'', jint 1)]]),
      (''integrity'', JObj [(''coordinationClusterId'', JStr [c]), (''accountAnomalyScore'', jint 0),
         (''homographFlags'', JArr []), (''injectionFlags'', JArr []), (''independentEvidenceIds'', JArr [])])]"

definition sample_seen :: "char \<Rightarrow> Observation" where
  "sample_seen c =
     \<lparr>observationId = sample_id c, obs_source = \<lparr>src_kind = SrcManual, src_providerId = ''one'', src_providerOrigin = None\<rparr>,
      acquiredAt = to_iso 1767225600000, observedAt = to_iso 1767225600000, validUntil = to_iso 1767229200000,
      obs_raw = \<lparr>raw_contentHash = sample_id c, raw_contentType = ''a/b'', raw_byteLength = 1\<rparr>, obs_origin = None,
      obs_order = None,
      obs_claims = [\<lparr>claim_type = Listing,
        claim_asset = \<lparr>nft_chainId = 1, nft_address = sample_address CHR ''b'', nft_tokenId = ''7''\<rparr>,
        claim_confidence = NInt 1\<rparr>],
      integrity = \<lparr>coordinationClusterId = [c], accountAnomalyScore = NInt 0, homographFlags = [], injectionFlags = [],
        independentEvidenceIds = []\<rparr>\<rparr>"

lemma sample_observation_parses:
  assumes "c \<in> {CHR ''1'', CHR ''2''}"
  shows "ObservationSchema sample_host (sample_observation c) = Some (sample_seen c)"
proof -
  have chars: "is_alnum CHR ''1''" "is_alnum CHR ''2''" "is_alnum CHR ''o''" "is_alnum CHR ''n''" "is_alnum CHR ''e''"
      "is_alnum CHR ''a''" "is_alnum CHR ''b''" "\<not> is_alnum CHR ''/''"
    by (simp_all add: is_alnum_def is_digit_def in_range_def) (simp_all add: code_def)
  show ?thesis using assms
    by (auto simp: ObservationSchema_def sample_observation_def sample_seen_def z_object_JObj z_array_def parse_simps
        source_schema_def raw_schema_def integrity_schema_def EvidenceClaimSchema_def NftAssetSchema_def
        ObservationSourceKindSchema_def z_enum_def SafeLabelSchema_def MediaTypeSchema_def js_length_def code_def media_char_def label_char_def
        positive_def safe_int_def max_safe_integer_def chars)
qed

lemma sample_collect:
  "collect (ObservationSchema sample_host) [sample_observation CHR ''1'', sample_observation CHR ''2'']
     = Some [sample_seen CHR ''1'', sample_seen CHR ''2'']"
  using sample_observation_parses by simp

lemma sample_cited: "cited sample_intent [sample_seen CHR ''1'', sample_seen CHR ''2''] = {sample_seen CHR ''1'', sample_seen CHR ''2''}"
  by (auto simp: cited_def sample_intent_def sample_seen_def)

lemma sample_within: "within_limits sample_kernel sample_intent sample_now"
  by (simp add: within_limits_def sample_kernel_def sample_config_def sample_intent_def sample_key_def spent_def)

lemma sample_sound: "c \<in> {CHR ''1'', CHR ''2''} \<Longrightarrow> sound_evidence sample_host sample_config sample_intent sample_now (sample_seen c)"
  by (auto simp: sound_evidence_def Let_def evidence_time_invalid_def evidence_stale_def evidence_flagged_def claimMatchesIntent_def
      sample_seen_def sample_config_def sample_intent_def later_def not_before_def plus_ms_def sample_now_def)

lemma sample_permitted:
  "policy_permits sample_host sample_kernel sample_intent [sample_seen CHR ''1'', sample_seen CHR ''2''] sample_now"
proof -
  have "card ((\<lambda>ob. coordinationClusterId (integrity ob)) ` {sample_seen CHR ''1'', sample_seen CHR ''2''}) = 2"
    by (simp add: sample_seen_def)
  moreover have "policy sample_kernel = sample_config" "processedIntentIds sample_kernel = []"
      "processedNonces sample_kernel = []" "intent_policyHash sample_intent = policyHash sample_kernel"
    by (simp_all add: sample_kernel_def sample_intent_def)
  moreover have "observationId (sample_seen c) = sample_id c" for c by (simp add: sample_seen_def)
  ultimately show ?thesis using sample_within sample_sound
    unfolding policy_permits_def sample_cited
    by (simp add: sample_config_def sample_intent_def includesContract_def sample_asset_def later_def not_before_def
        sample_now_def)
qed

definition sample_request :: policy_request where
  "sample_request = (intent_json sample_intent, [sample_observation CHR ''1'', sample_observation CHR ''2''], sample_now)"

lemma sample_approved:
  "authorize sample_host sample_kernel (intent_json sample_intent) [sample_observation CHR ''1'', sample_observation CHR ''2''] sample_now
     = (approve sample_kernel sample_intent sample_now, Approved (approval sample_host sample_kernel sample_intent sample_now))"
proof (cases rule: authorize_cases [of sample_host "intent_json sample_intent"
      "[sample_observation CHR ''1'', sample_observation CHR ''2'']" sample_kernel sample_now])
  case (approved i obs)
  then show ?thesis by (simp add: sample_intent_parses)
next
  case (rejected r)
  moreover have "\<exists>a. snd (authorize sample_host sample_kernel (intent_json sample_intent)
      [sample_observation CHR ''1'', sample_observation CHR ''2''] sample_now) = Approved a"
    unfolding authorize_approved_iff using sample_intent_parses sample_collect sample_permitted by blast
  ultimately show ?thesis by simp
qed

lemma sample_run:
  "authorize_run sample_host sample_kernel [sample_request]
     = (approve sample_kernel sample_intent sample_now, [Approved (approval sample_host sample_kernel sample_intent sample_now)])"
  by (simp add: sample_request_def sample_approved)

lemma sample_limits [simp]:
  "map_of (maxDailySpendByAsset (policy sample_kernel)) (key_asset (dailySpendKey sample_intent sample_now)) = Some ''150''"
  by (simp add: sample_kernel_def sample_config_def sample_key_def sample_intent_def)

lemma sample_counts:
  "length (processedIntentIds (approve sample_kernel sample_intent sample_now)) = 1"
  "length (processedNonces (approve sample_kernel sample_intent sample_now)) = 1"
  by (simp_all add: approve_def Let_def add_if_new_def sample_kernel_def)

lemma sample_year: "four_digit_year sample_now"
  by (simp add: four_digit_year_def sample_now_def year_from_day_def Let_def day_from_year_def ms_per_day_def)

end
