(* ===== verification/SampleTraces.thy ===== *)
theory SampleTraces
  imports Samples
begin

text \<open>
  A run of the improvement loop from its proposal to its promotion, a research proposal, and two intents that
  sign alike: the inputs at which the
  properties of these components are exercised.
\<close>

subsection \<open>A promotion\<close>

definition sample_strategy :: "string \<Rightarrow> int \<Rightarrow> Strategy" where
  "sample_strategy v hold =
     \<lparr>strat_version = v,
      sourceWeights = \<lparr>weight_x = NInt 1, weight_x402 = NInt 1, weight_opensea = NInt 1, weight_onchain = NInt 1\<rparr>,
      opportunityThreshold = NInt 0, maxHoldSeconds = hold, exitLossBps = 100, exitGainBps = 100, queryTerms = [''nft'']\<rparr>"

lemma labelled_two [simp]: "labelled ''rsi-'' 64 ''rsi-2''"
proof -
  have "label_char CHR ''2''" by (simp add: label_char_def is_alnum_def is_digit_def in_range_def) (simp add: code_def)
  then show ?thesis by (simp add: labelled_def)
qed

lemma sample_lengths [simp]: "js_length ''nft'' = 3" "js_length ''ok'' = 2"
  by code_simp+

lemma sample_strategy_parses:
  assumes "v \<in> {''rsi-1'', ''rsi-2''}" "hold \<in> {600, 900}"
  shows "StrategySchema (strategy_json (sample_strategy v hold)) = Some (sample_strategy v hold)"
  using assms
  by (auto simp: StrategySchema_def strategy_json_def sample_strategy_def weights_json_def SourceWeightsSchema_def
      query_terms_schema_def z_object_JObj z_array_def z_between_def parse_simps safe_int_def max_safe_integer_def)

definition sample_loop :: ImprovementLoop where
  "sample_loop = \<lparr>champion = sample_strategy ''rsi-1'' 600, candidates = [],
     loop_options = \<lparr>maxCanaryAllocationBps = 100, maxCanaryDrawdownBps = 500, minEvaluationSampleSize = 10\<rparr>\<rparr>"

lemma sample_loop_new: "new_loop sample_host (strategy_json (sample_strategy ''rsi-1'' 600)) [] = Inr sample_loop"
  by (simp add: new_loop_def sample_strategy_parses spread_def DEFAULT_OPTIONS_def ImprovementLoopOptionsSchema_def
      z_object_JObj z_between_def parse_simps safe_int_def max_safe_integer_def sample_loop_def)

definition sample_patch :: jsval where
  "sample_patch = JObj [(''maxHoldSeconds'', jint 900)]"

definition sample_candidate_id :: string where
  "sample_candidate_id = candidateId sample_host
     (candidate_content (sample_strategy ''rsi-1'' 600) (sample_bytes32 CHR ''e'') (sample_strategy ''rsi-2'' 900))"

definition sample_candidate :: "CandidateStage \<Rightarrow> Evaluation option \<Rightarrow> CandidateStrategy" where
  "sample_candidate st r =
     \<lparr>cand_id = sample_candidate_id, cand_stage = st, cand_baseVersion = ''rsi-1'', cand_strategy = sample_strategy ''rsi-2'' 900,
      cand_patch = \<lparr>patch_sourceWeights = None, patch_opportunityThreshold = None, patch_maxHoldSeconds = Some 900,
        patch_exitLossBps = None, patch_exitGainBps = None, patch_queryTerms = None\<rparr>,
      cand_evidenceRoot = sample_bytes32 CHR ''e'', cand_createdAt = to_iso sample_now, cand_rejectionReason = None,
      cand_evaluation = r\<rparr>"

definition sample_stage :: "CandidateStage \<Rightarrow> Evaluation option \<Rightarrow> ImprovementLoop" where
  "sample_stage st r = sample_loop\<lparr>candidates := [(sample_candidate_id, sample_candidate st r)]\<rparr>"

definition sample_evaluation :: Evaluation where
  "sample_evaluation = \<lparr>ev_sampleSize = 10, ev_recommendPromotion = True, ev_notes = ''ok''\<rparr>"

definition sample_calls :: "LoopCall list" where
  "sample_calls =
     [CallPropose ''rsi-2'' sample_patch (JStr (sample_bytes32 CHR ''e'')) (Some sample_now),
      CallAttack sample_candidate_id
        (JObj [(''passed'', JBool True), (''hardInvariantEscapes'', jint 0), (''notes'', JStr ''ok'')]),
      CallStart sample_candidate_id (NInt 100),
      CallCanary sample_candidate_id
        (JObj [(''hardInvariantEscapes'', jint 0), (''maxDrawdownBps'', jint 500), (''notes'', JStr ''ok'')]),
      CallEvaluate sample_candidate_id
        (JObj [(''sampleSize'', jint 10), (''recommendPromotion'', JBool True), (''notes'', JStr ''ok'')]),
      CallPromote sample_candidate_id]"

definition sample_events :: "LoopEvent list" where
  "sample_events = map (\<lambda>c. (c, Inr sample_candidate_id)) sample_calls"

lemma sample_proposed:
  "loop_exec sample_host sample_loop (sample_calls ! 0) = (sample_stage Proposed None, Inr sample_candidate_id)"
proof -
  have next_one: "merge_strategy (sample_strategy ''rsi-1'' 600) (cand_patch (sample_candidate Proposed None)) ''rsi-2''
      = sample_strategy ''rsi-2'' 900"
    by (simp add: merge_strategy_def sample_strategy_def sample_candidate_def or_else_def merge_weights_def)
  have patch: "StrategyPatchSchema sample_patch = Some (cand_patch (sample_candidate Proposed None))"
    by (simp add: StrategyPatchSchema_def sample_patch_def sample_candidate_def z_object_JObj z_optional_def z_between_def
        parse_simps safe_int_def max_safe_integer_def)
  have erases: "\<not> erases_field sample_patch" by (simp add: erases_field_def sample_patch_def erased_def)
  have root: "z_string EvidenceRootSchema (JStr (sample_bytes32 CHR ''e'')) = Some (sample_bytes32 CHR ''e'')"
    using sample_formats(2) [of "CHR ''e''"] by (simp add: EvidenceRootSchema_def Bytes32Schema_def)
  have "new_candidate sample_host (champion sample_loop) ''rsi-2'' sample_patch (JStr (sample_bytes32 CHR ''e'')) (Some sample_now)
      = Inr (sample_candidate Proposed None)"
    using next_one patch erases root
    by (simp add: new_candidate_def next_strategy_def sample_strategy_parses sample_loop_def)
      (simp add: sample_candidate_def sample_candidate_id_def sample_strategy_def)
  then show ?thesis
    by (simp add: sample_calls_def propose_def outcome_def sample_stage_def sample_loop_def sample_candidate_def)
qed

lemma sample_steps:
  "loop_exec sample_host (sample_stage Proposed None) (sample_calls ! 1) = (sample_stage AttackPassed None, Inr sample_candidate_id)"
  "loop_exec sample_host (sample_stage AttackPassed None) (sample_calls ! 2) = (sample_stage CanaryActive None, Inr sample_candidate_id)"
  "loop_exec sample_host (sample_stage CanaryActive None) (sample_calls ! 3) = (sample_stage CanaryComplete None, Inr sample_candidate_id)"
  "loop_exec sample_host (sample_stage CanaryComplete None) (sample_calls ! 4)
     = (sample_stage Evaluated (Some sample_evaluation), Inr sample_candidate_id)"
  "loop_exec sample_host (sample_stage Evaluated (Some sample_evaluation)) (sample_calls ! 5)
     = (sample_stage Promoted (Some sample_evaluation)\<lparr>champion := sample_strategy ''rsi-2'' 900\<rparr>, Inr sample_candidate_id)"
  by (simp_all add: sample_calls_def outcome_def recordAttackResult_def startLiveCanary_def recordCanaryResult_def
      recordEvaluation_def promote_def requireStage_def put_candidate_def AttackResultSchema_def CanaryResultSchema_def
      EvaluationResultSchema_def notes_schema_def z_object_JObj z_between_def parse_simps safe_int_def max_safe_integer_def
      sample_stage_def sample_loop_def sample_candidate_def sample_evaluation_def sample_strategy_def Let_def)

lemma loop_trace_snoc:
  "loop_trace h l es m \<Longrightarrow> loop_exec h m c = (m', r) \<Longrightarrow> es' = es @ [(c, r)] \<Longrightarrow> loop_trace h l es' m'"
  by (simp add: loop_trace.call)

lemma sample_trace:
  "loop_trace sample_host sample_loop sample_events
     (sample_stage Promoted (Some sample_evaluation)\<lparr>champion := sample_strategy ''rsi-2'' 900\<rparr>)"
  by (rule loop_trace_snoc [OF loop_trace_snoc [OF loop_trace_snoc [OF loop_trace_snoc [OF loop_trace_snoc
    [OF loop_trace_snoc [OF loop_trace.start sample_proposed refl] sample_steps(1) refl] sample_steps(2) refl]
    sample_steps(3) refl] sample_steps(4) refl] sample_steps(5)])
    (simp add: sample_events_def sample_calls_def)

subsection \<open>A proposal\<close>

definition sample_proposal :: jsval where
  "sample_proposal = JObj
     [(''schemaVersion'', jint 1), (''proposalId'', JStr ''rsi-proposal:one''), (''strategyVersion'', JStr ''rsi-1''),
      (''createdAt'', JStr (to_iso 1767225600000)), (''expiresAt'', JStr (to_iso 1767226200000)),
      (''asset'', JObj [(''chainId'', jint 1), (''address'', JStr (sample_address CHR ''b'')), (''tokenId'', JStr ''7'')]),
      (''evidenceIds'', JArr [JStr (sample_id CHR ''1''), JStr (sample_id CHR ''2'')]),
      (''provenance'', JObj [(''providerIds'', JArr [JStr ''one'']), (''sourceKinds'', JArr [JStr ''manual'']),
         (''independentClusterCount'', jint 2)]),
      (''flags'', JObj [(''scam'', JArr []), (''injection'', JArr []), (''homograph'', JArr [])]),
      (''scorecard'', JObj [(''confidence'', jint 1), (''marketSupport'', jint 1), (''opportunity'', jint 1),
         (''provenanceQuality'', jint 1), (''risk'', jint 0)]),
      (''disposition'', JObj [(''kind'', JStr ''abstain''), (''reason'', JStr ''stale_evidence'')])]"

definition sample_accepted :: ResearchProposal where
  "sample_accepted =
     \<lparr>prop_proposalId = ''rsi-proposal:one'', prop_strategyVersion = ''rsi-1'', prop_createdAt = to_iso 1767225600000,
      prop_expiresAt = to_iso 1767226200000,
      prop_asset = \<lparr>nft_chainId = 1, nft_address = sample_address CHR ''b'', nft_tokenId = ''7''\<rparr>,
      prop_evidenceIds = [sample_id CHR ''1'', sample_id CHR ''2''],
      prop_provenance = \<lparr>prov_providerIds = [''one''], prov_sourceKinds = [SrcManual], prov_independentClusterCount = 2\<rparr>,
      prop_flags = \<lparr>flag_scam = [], flag_injection = [], flag_homograph = []\<rparr>,
      prop_scorecard = \<lparr>score_confidence = NInt 1, score_marketSupport = NInt 1, score_opportunity = NInt 1,
        score_provenanceQuality = NInt 1, score_risk = NInt 0\<rparr>,
      prop_disposition = Abstain StaleEvidence\<rparr>"

lemma sample_proposal_parses: "ResearchProposalV1Schema sample_host sample_proposal = Some sample_accepted"
proof -
  have chars: "is_alnum CHR ''o''" "is_alnum CHR ''n''" "is_alnum CHR ''e''" "label_char CHR ''o''" "label_char CHR ''n''"
      "label_char CHR ''e''"
    by (simp_all add: label_char_def is_alnum_def is_digit_def in_range_def) (simp_all add: code_def)
  then have "labelled ''rsi-proposal:'' 96 ''rsi-proposal:one''" by (simp add: labelled_def)
  then show ?thesis
    by (simp add: ResearchProposalV1Schema_def sample_proposal_def sample_accepted_def z_object_JObj z_array_def parse_simps
        z_number_literal_def NftAssetSchema_def unique_array_def provenance_schema_def flags_schema_def
        UniqueSafeLabelsSchema_def scorecard_schema_def ResearchProposalDispositionSchema_def kind_of_def
        ResearchProposalAbstentionReasonSchema_def z_enum_def z_between_def ObservationSourceKindSchema_def SafeLabelSchema_def
        proposal_consistent_def expires_after_creation_def z_refine_def positive_def safe_int_def max_safe_integer_def chars)
qed

subsection \<open>Two intents that sign alike\<close>

definition sample_twin :: ExecutionIntent where
  "sample_twin = sample_intent\<lparr>evidenceIds := [sample_id CHR ''2'', sample_id CHR ''1''], createdAt := to_iso 1767225660000\<rparr>"

lemma sample_twin_parses: "ExecutionIntentSchema sample_host (intent_json sample_twin) = Some sample_twin"
  by (simp add: ExecutionIntentSchema_def intent_json_def action_json_def sample_intent_def sample_twin_def NftPurchaseActionSchema_def
      z_object_JObj z_array_def parse_simps positive_def safe_int_def max_safe_integer_def valid_time_def max_time_def)

lemma sample_digest_starts:
  "sample_digest s = take 64 (nat_str (length s) @ filter is_lower_hex (rev s) @ replicate 64 CHR ''0'')"
proof -
  have "filter is_lower_hex (nat_str n) = nat_str n" for n
    using nat_str_digits [of n] by (simp add: filter_id_conv list_all_iff is_lower_hex_def)
  then show ?thesis by (simp add: sample_digest_def padded_hex_def)
qed

lemma sample_counts_text [simp]:
  "nat_str 5 = ''5''" "nat_str 8 = ''8''" "nat_str 14 = ''14''" "nat_str 64 = ''64''" "nat_str 71 = ''71''"
  by code_simp+

lemma length_hex_bytes: "length (hex_bytes s) = length s div 2"
  by (induction s rule: hex_bytes.induct) auto

lemma length_root_bytes: "hex_digests (keccak256_hex h) \<Longrightarrow> length (root_bytes h xs) = 32 * length xs"
proof -
  assume "hex_digests (keccak256_hex h)"
  then have "length (drop 2 (textHash h x)) = 64" for x by (simp add: textHash_def keccak256_def hex_digests_def)
  then have "length (concat (map (drop 2) (map (textHash h) (sort xs)))) = 64 * length xs"
    using length_concat_map [of "\<lambda>x. drop 2 (textHash h x)" 64 "sort xs"] by (simp add: comp_def)
  then show ?thesis by (simp add: root_bytes_def concatHex_def Let_def length_hex_bytes)
qed

lemma sample_no_collision:
  "inj_on (keccak256_hex sample_host) (hashed_texts sample_host sample_intent \<union> hashed_texts sample_host sample_twin)"
proof -
  let ?root = "root_bytes sample_host (evidenceIds sample_intent)"
  have same: "root_bytes sample_host (evidenceIds sample_twin) = ?root"
  proof -
    have "mset (evidenceIds sample_twin) = mset (evidenceIds sample_intent)" by (simp add: sample_twin_def sample_intent_def)
    then have "sort (evidenceIds sample_twin) = sort (evidenceIds sample_intent)"
      by (metis properties_for_sort mset_sort sorted_sort)
    then show ?thesis by (simp add: root_bytes_def)
  qed
  have "length ?root = 64" using length_root_bytes [of sample_host "evidenceIds sample_intent"] by (simp add: sample_intent_def)
  then obtain c where root: "take 3 (sample_digest ?root) = [CHR ''6'', CHR ''4'', c]"
    by (cases "filter is_lower_hex (rev ?root) @ replicate 64 CHR ''0''") (auto simp: sample_digest_starts)
  have texts: "take 3 (sample_digest (sample_id CHR ''1'')) = ''711''" "take 3 (sample_digest (sample_id CHR ''2'')) = ''712''"
      "take 3 (sample_digest ''rsi-intent:one'') = ''14e''" "take 3 (sample_digest ''rsi-1'') = ''510''"
      "take 3 (sample_digest ''kernel-1'') = ''81e''"
    by code_simp+
  have all: "hashed_texts sample_host sample_intent \<union> hashed_texts sample_host sample_twin
      = {?root, ''rsi-intent:one'', ''rsi-1'', ''kernel-1'', sample_id CHR ''1'', sample_id CHR ''2''}"
    using same by (auto simp: hashed_texts_def intent_texts_def sample_twin_def sample_intent_def)
  show ?thesis unfolding all
  proof (rule inj_onI)
    fix x y
    assume "x \<in> {?root, ''rsi-intent:one'', ''rsi-1'', ''kernel-1'', sample_id CHR ''1'', sample_id CHR ''2''}"
      "y \<in> {?root, ''rsi-intent:one'', ''rsi-1'', ''kernel-1'', sample_id CHR ''1'', sample_id CHR ''2''}"
      "keccak256_hex sample_host x = keccak256_hex sample_host y"
    moreover from this have "take 3 (sample_digest x) = take 3 (sample_digest y)" by (simp add: sample_host_def)
    ultimately show "x = y" using root texts by (elim insertE emptyE; hypsubst) simp_all
  qed
qed

definition sample_typed_data :: IntentTypedData where
  "sample_typed_data =
     \<lparr>typed_domain = \<lparr>domain_name = ''RSI Policy Gateway'', domain_version = ''1'', domain_chainId = 1,
        verifyingContract = sample_address CHR ''a''\<rparr>, typed_types = EXECUTION_INTENT_TYPES,
      typed_message = intent_message sample_host sample_intent 1767226200000\<rparr>"

lemma sample_signs:
  "executionIntentTypedData sample_host (intent_json sample_intent) (JStr (sample_address CHR ''a'')) = Inr sample_typed_data"
  "executionIntentTypedData sample_host (intent_json sample_twin) (JStr (sample_address CHR ''a'')) = Inr sample_typed_data"
proof -
  have "evidenceRoot sample_host (evidenceIds sample_twin) = evidenceRoot sample_host (evidenceIds sample_intent)"
    by (rule evidenceRoot_mset) (simp add: sample_twin_def sample_intent_def)
  then have "intent_message sample_host sample_twin 1767226200000 = intent_message sample_host sample_intent 1767226200000"
    by (simp add: intent_message_def sample_twin_def)
  then show "executionIntentTypedData sample_host (intent_json sample_intent) (JStr (sample_address CHR ''a'')) = Inr sample_typed_data"
    "executionIntentTypedData sample_host (intent_json sample_twin) (JStr (sample_address CHR ''a'')) = Inr sample_typed_data"
    by (simp_all add: executionIntentTypedData_def sample_intent_parses sample_twin_parses sample_typed_data_def)
      (simp_all add: sample_twin_def sample_intent_def)
qed

end
