(* ===== verification/RuntimeProgress.thy ===== *)
theory RuntimeProgress
  imports RuntimeSystem Evidence
begin

text \<open>
  What an append of the runtime authority needs to succeed. A runtime payload always serialises, to a text far below the
  store's limit; with a valid key, a time not before the last one and a fresh id the event is then prepared and
  inserted; and an exclusive operation whose body succeeds commits. \<open>RuntimeLiveness\<close> and \<open>RuntimeOutcomes\<close> rest on it.
\<close>

subsection \<open>Flat objects serialise to bounded text\<close>

fun flat_leaf :: "jsval \<Rightarrow> bool" where
  "flat_leaf (JStr s) = (length s \<le> 128)"
| "flat_leaf (JNum (NInt i)) = safe_int i"
| "flat_leaf JNull = True"
| "flat_leaf _ = False"

definition flat_fields :: "(string \<times> jsval) list \<Rightarrow> bool" where
  "flat_fields fs \<longleftrightarrow> list_all (\<lambda>(k, v). length k \<le> 32 \<and> flat_leaf v) fs"

lemma length_escape: "length (escape_char c) \<le> 6"
  by (simp add: escape_char_def)

lemma length_quote: "length (quote s) \<le> 6 * length s + 2"
proof -
  have "length (concat (map escape_char s)) \<le> 6 * length s"
  proof (induction s)
    case (Cons c s)
    then show ?case using length_escape [of c] by simp
  qed simp
  then show ?thesis by (simp add: quote_def)
qed

lemma length_int_str: "safe_int i \<Longrightarrow> length (int_str i) \<le> 17"
proof -
  assume "safe_int i"
  then have "nat (- i) < 10 ^ 16" "nat i < 10 ^ 16" by (auto simp: safe_int_def max_safe_integer_def nat_less_iff)
  then have "length (nat_str (nat (- i))) \<le> 16" "length (nat_str (nat i)) \<le> 16" by (simp_all add: length_nat_str)
  then show ?thesis by (simp add: int_str_def)
qed

lemma leaf_text: "flat_leaf v \<Longrightarrow> \<exists>s. serialize h (Suc 0) v = Inr s \<and> length s \<le> 770"
proof (induction v rule: flat_leaf.induct)
  case (1 s)
  then show ?case using length_quote [of s] by (simp add: serialize.simps MAX_CANONICAL_DEPTH_def)
next
  case (2 i)
  then show ?case using length_int_str [of i] by (simp add: serialize.simps MAX_CANONICAL_DEPTH_def)
qed (simp_all add: serialize.simps MAX_CANONICAL_DEPTH_def)

lemma fields_text:
  "flat_fields fs \<Longrightarrow> \<exists>ss. serialize_fields h (Suc 0) fs = Inr ss \<and> length ss = length fs \<and> list_all (\<lambda>s. length s \<le> 965) ss"
proof (induction fs)
  case (Cons f fs)
  obtain k v where f: "f = (k, v)" by (cases f)
  obtain s where s: "serialize h (Suc 0) v = Inr s" "length s \<le> 770"
    using leaf_text Cons.prems f by (auto simp: flat_fields_def)
  obtain ss where "serialize_fields h (Suc 0) fs = Inr ss" "length ss = length fs" "list_all (\<lambda>s. length s \<le> 965) ss"
    using Cons by (auto simp: flat_fields_def)
  then show ?case using s length_quote [of k] Cons.prems by (simp add: f flat_fields_def)
qed simp

lemma commas_bound: "list_all (\<lambda>s. length s \<le> n) ss \<Longrightarrow> length (commas ss) \<le> (n + 1) * length ss"
  by (induction ss rule: commas.induct) auto

lemma flat_object_text:
  assumes "flat_fields fs"
  shows "\<exists>s. canonicalJson h (JObj fs) = Inr s \<and> length s \<le> 966 * length fs + 2"
proof -
  have "flat_fields (sort_key field_order fs)" using assms by (simp add: flat_fields_def list_all_iff)
  then obtain ss where ss: "serialize_fields h (Suc 0) (sort_key field_order fs) = Inr ss" "length ss = length fs"
      "list_all (\<lambda>s. length s \<le> 965) ss" using fields_text [of "sort_key field_order fs" h] by auto
  then show ?thesis using commas_bound [OF ss(3)]
    by (simp add: canonicalJson_def serialize.simps [of h 0] MAX_CANONICAL_DEPTH_def)
qed

subsection \<open>Runtime payloads are flat\<close>

lemma time_length: "canonical_time h s \<Longrightarrow> length s \<le> 27"
  by (auto simp: canonical_time_iff length_to_iso length_year_text)

lemma uuid_length: "RuntimeUuidSchema s \<Longrightarrow> length s = 36"
  by (simp add: RuntimeUuidSchema_def)

lemma identifier_length: "RuntimeSafeIdentifierSchema s \<Longrightarrow> length s \<le> 128"
  by (auto simp: RuntimeSafeIdentifierSchema_def split: list.splits)

lemma text_lengths [simp]:
  "length (mode_text m) \<le> 128" "length (boundary_text b) \<le> 128" "length (boundary_reason_text r) \<le> 128"
  "length (cause_text c) \<le> 128" "length (decision_text d) \<le> 128"
  by (cases m, simp_all, cases b, simp_all, cases r, simp_all, cases c, simp_all add: decision_text_def)

lemma payload_text:
  assumes "payload_bounds h p"
  shows "\<exists>s. canonicalJson h (payload_json p) = Inr s \<and> length s \<le> MAX_PAYLOAD_BYTES"
proof -
  obtain fs where fs: "payload_json p = JObj fs" "flat_fields fs" "length fs \<le> 14"
  proof (cases p)
    case (StopEvent q)
    then show thesis using assms that
      by (cases "sp_from q")
        (auto simp: stop_json_def flat_fields_def stop_bounds_def safe_revision uuid_length safe_int_def max_safe_integer_def)
  next
    case (TransitionEvent q)
    then show thesis using assms that
      by (auto simp: transition_json_def flat_fields_def transition_bounds_def uuid_length safe_int_def max_safe_integer_def)
  next
    case (BoundaryEvent q)
    then show thesis using assms that
      by (auto simp: boundary_json_def flat_fields_def boundary_bounds_def uuid_length safe_int_def max_safe_integer_def
          identifier_length dest!: time_length)
  qed
  obtain s where s: "canonicalJson h (JObj fs) = Inr s" "length s \<le> 966 * length fs + 2"
    using flat_object_text [OF fs(2)] by blast
  have "966 * length fs \<le> 966 * 14" using fs(3) by (rule mult_le_mono2)
  then show ?thesis using s fs(1) by (simp add: MAX_PAYLOAD_BYTES_def)
qed

subsection \<open>Identifiers\<close>

lemma slice_nth: "list_all P (take n (drop k s)) \<Longrightarrow> k \<le> i \<Longrightarrow> i < k + n \<Longrightarrow> i < length s \<Longrightarrow> P (s ! i)"
  by (auto simp: list_all_length dest!: spec [of _ "i - k"])

lemma hex_not_nul: "is_lower_hex c \<Longrightarrow> c \<noteq> CHR 0x00"
  by (auto simp: is_lower_hex_def is_digit_def in_range_def code_def)

lemma uuid_no_nul:
  assumes "RuntimeUuidSchema s"
  shows "CHR 0x00 \<notin> set s"
proof
  let ?ok = "\<lambda>c. c \<noteq> CHR 0x00"
  have ok: "list_all ?ok xs" if "list_all is_lower_hex xs" for xs
    using that hex_not_nul by (auto simp: list_all_iff)
  have slices: "list_all ?ok (take 8 (drop 0 s))" "list_all ?ok (take 4 (drop 9 s))" "list_all ?ok (take 3 (drop 15 s))"
      "list_all ?ok (take 3 (drop 20 s))" "list_all ?ok (take 12 (drop 24 s))"
    using assms by (auto simp: RuntimeUuidSchema_def intro: ok)
  have points: "?ok (s ! 8)" "?ok (s ! 13)" "?ok (s ! 14)" "?ok (s ! 18)" "?ok (s ! 19)" "?ok (s ! 23)"
    using assms by (auto simp: RuntimeUuidSchema_def)
  assume "CHR 0x00 \<in> set s"
  then obtain i where i: "i < length s" "s ! i = CHR 0x00" by (auto simp: in_set_conv_nth)
  then have "i < 36" using assms by (simp add: RuntimeUuidSchema_def)
  then have "i < 8 \<or> i = 8 \<or> 9 \<le> i \<and> i < 13 \<or> i = 13 \<or> i = 14 \<or> 15 \<le> i \<and> i < 18 \<or> i = 18 \<or> i = 19
      \<or> 20 \<le> i \<and> i < 23 \<or> i = 23 \<or> 24 \<le> i \<and> i < 36" by linarith
  then show False
    using i points slice_nth [OF slices(1), of i] slice_nth [OF slices(2), of i] slice_nth [OF slices(3), of i]
      slice_nth [OF slices(4), of i] slice_nth [OF slices(5), of i] by auto
qed

definition keyed :: "RuntimePayload \<Rightarrow> bool" where
  "keyed p \<longleftrightarrow> RuntimeUuidSchema (case p of StopEvent q \<Rightarrow> sp_requestId q | TransitionEvent q \<Rightarrow> tp_requestId q
     | BoundaryEvent q \<Rightarrow> bp_authorizationId q)"

lemma bounds_keyed: "payload_bounds h p \<Longrightarrow> keyed p"
  by (cases p) (simp_all add: keyed_def stop_bounds_def transition_bounds_def boundary_bounds_def)

lemma not_blank_r: "\<not> blank (CHR ''r'' # s)"
  by (rule blank_ascii) (simp_all add: code_def)

lemma runtime_identifier:
  assumes "CHR 0x00 \<notin> set s" "length s \<le> 400"
  shows "validateIdentifier (JStr (CHR ''r'' # s)) f = Inr (CHR ''r'' # s)"
  using assms not_blank_r [of s] unfolding validateIdentifier_def MAX_IDENTIFIER_BYTES_def by simp

lemma key_identifier:
  assumes "keyed p"
  shows "validateIdentifier (JStr (payload_key p)) f = Inr (payload_key p)"
proof -
  have key: "validateIdentifier (JStr (k i)) f = Inr (k i)"
    if "RuntimeUuidSchema i" "k \<in> {stop_key, transition_key, boundary_key}" for k i
    using that(2) uuid_no_nul [OF that(1)] uuid_length [OF that(1)]
    by (elim insertE emptyE) (simp_all only: stop_key_def transition_key_def boundary_key_def append.simps,
      (rule runtime_identifier; simp)+)
  show ?thesis using assms key [of _ stop_key] key [of _ transition_key] key [of _ boundary_key]
    by (cases p) (auto simp: keyed_def)
qed

lemma fixed_identifiers:
  "validateIdentifier (JStr (payload_type p)) f = Inr (payload_type p)"
  "validateIdentifier (JStr RUNTIME_AGGREGATE_ID) f = Inr RUNTIME_AGGREGATE_ID"
  by (cases p; simp only: payload_type.simps RUNTIME_STOP_EVENT_TYPE_def RUNTIME_TRANSITION_EVENT_TYPE_def
      RUNTIME_BOUNDARY_EVENT_TYPE_def; rule runtime_identifier; simp)
    (simp only: RUNTIME_AGGREGATE_ID_def, rule runtime_identifier, simp_all)

subsection \<open>Appending succeeds\<close>

lemma prepared_payload:
  assumes "payload_bounds h p" "canonical_time h t"
  shows "\<exists>pe. prepareEvent h (JObj (runtime_event p t)) now = Inr pe"
proof -
  obtain s where s: "canonicalJson h (payload_json p) = Inr s" "length s \<le> MAX_PAYLOAD_BYTES"
    using payload_text [OF assms(1)] by blast
  show ?thesis
    by (simp add: prepareEvent_def Let_def optional_identifier_def key_identifier [OF bounds_keyed [OF assms(1)]]
        fixed_identifiers s normalize_of_canonical [OF assms(2)])
qed

subsection \<open>Transactions that succeed\<close>

lemma find_event_absent:
  assumes "assertOpen s = Inr ()" "validateIdentifier (JStr k) ''idempotencyKey'' = Inr k" "find_by_key (store_db s) k = None"
  shows "find_event h k s w = (s, w, Inr None)"
  using assms by (simp add: find_event_def act_read_def getByIdempotencyKey_def)

lemma exclusively_succeeds:
  assumes "idle s" "valid_db h (store_db s)" "m (opened s) w = (s1, w1, Inr x)" "s1 = opened s\<lparr>store_db := store_db s1\<rparr>"
  shows "exclusively h m s w = (s\<lparr>store_failed := False, store_db := store_db s1\<rparr>, w1, Inr x)"
proof -
  obtain db where "s1 = opened s\<lparr>store_db := db\<rparr>" using assms(4) by blast
  then show ?thesis using assms(1-3)
    by (simp add: exclusively_def withExclusiveTransaction_def assertOpen_idle idle_def assertIntegrity_valid Let_def)
qed

end
