(* ===== verification/RuntimeLiveness.thy ===== *)
theory RuntimeLiveness
  imports RuntimeProgress
begin

text \<open>
  That the runtime authority does what it may. Where the generated id is fresh and the input is what the
  state asks for, opening, moving between modes, requesting an authorization and dispatching behind it all succeed, and
  \<open>logged\<close> says what the log gained. These are the converses of the safety lemmas.
\<close>

subsection \<open>Fresh identifiers\<close>

text \<open>
  What a generated id has to be for its event to be insertable: not the id of a stored event, and with no digest of
  the aggregate equal to a stored digest.
\<close>

definition fresh_id :: "host \<Rightarrow> Database \<Rightarrow> string \<Rightarrow> bool" where
  "fresh_id h db uuid \<longleftrightarrow>
     (\<forall>r \<in> set (db_rows db). row_event_id r \<noteq> uuid)
   \<and> (\<forall>f. hf_eventId f = uuid \<longrightarrow> hf_aggregateId f = RUNTIME_AGGREGATE_ID
        \<longrightarrow> (\<forall>r \<in> set (db_rows db). row_event_hash r \<noteq> computeEventHash h f))"

lemma fresh_empty [simp]: "db_rows db = [] \<Longrightarrow> fresh_id h db uuid"
  by (simp add: fresh_id_def)

lemma valid_sequences:
  assumes "valid_db h db" "r \<in> set (db_rows db)"
  shows "row_sequence r \<le> int (length (db_rows db))"
proof -
  have "map row_sequence (by_sequence db) = map (\<lambda>i. 1 + int i) [0..<length (by_sequence db)]"
    by (rule chain_sequences [of h GENESIS_HASH]) (use assms(1) in \<open>simp add: valid_db_def\<close>)
  moreover have "row_sequence r \<in> set (map row_sequence (by_sequence db))" using assms(2) by (simp add: by_sequence_def)
  ultimately show ?thesis by (auto simp: by_sequence_def)
qed

lemma valid_metadata:
  assumes "valid_db h db" "db_metadata db = Some m"
  shows "md_head_sequence m = int (length (db_rows db))" "length (md_head_hash m) = 64"
proof -
  have chain: "chain h GENESIS_HASH 1 (by_sequence db)" "md_head_sequence m = head_sequence (by_sequence db)"
      "md_head_hash m = head_hash (by_sequence db)" using assms by (auto simp: valid_db_def)
  show "md_head_sequence m = int (length (db_rows db))"
    using chain head_sequence_chain [OF chain(1)] by (simp add: by_sequence_def)
  show "length (md_head_hash m) = 64"
  proof (cases "by_sequence db = []")
    case True
    then show ?thesis using chain(3) by (simp add: head_hash_def GENESIS_HASH_def)
  next
    case False
    then have "last (by_sequence db) \<in> set (by_sequence db)" by (rule last_in_set)
    from chain_member_ok [OF chain(1) this] show ?thesis using chain(3) False
      by (auto simp: head_hash_def row_ok_def HASH_PATTERN_def fixed_digits_def)
  qed
qed

lemma append_payload_succeeds:
  assumes s: "ready h s" and p: "payload_bounds h p" "canonical_time h t" "find_by_key (store_db s) (payload_key p) = None"
    and id: "RuntimeUuidSchema uuid" "fresh_id h (store_db s) uuid"
  shows "\<exists>s' ev. append_payload h p t uuid s w = (s', w, Inr ev)"
proof -
  obtain pe where pe: "prepareEvent h (JObj (runtime_event p t)) 0 = Inr pe" using prepared_payload [OF p(1,2)] by blast
  note fields = prepared_runtime_event [OF pe p(2)]
  have dup: "resolveDuplicate (store_db s) pe = Inr None"
    using fields(1,2) p(3) by (simp add: resolveDuplicate_def)
  have valid: "valid_db h (store_db s)" and hex: "hex_digests (sha256_hex h)" using s by (simp_all add: ready_def)
  then obtain m where m: "db_metadata (store_db s) = Some m" by (auto simp: valid_db_def)
  let ?r = "next_row h pe m uuid"
  have "insertable (store_db s) ?r"
  proof -
    have key: "row_idempotency_key q \<noteq> Some (payload_key p)" if "q \<in> set (db_rows (store_db s))" for q
      using p(3) that by (auto simp: find_by_key_def find_None_iff)
    have seq: "row_sequence q \<noteq> md_head_sequence m + 1" if "q \<in> set (db_rows (store_db s))" for q
      using valid_sequences [OF valid that] valid_metadata(1) [OF valid m] by simp
    have hash: "row_event_hash q \<noteq> row_event_hash ?r" if "q \<in> set (db_rows (store_db s))" for q
      using id(2) that fields(1,4) by (simp add: fresh_id_def next_row_def Let_def)
    have "uuid \<noteq> []" using id(1) by (auto simp: RuntimeUuidSchema_def)
    then show ?thesis
      using key seq hash id(2) fields valid_metadata(2) [OF valid m] hex
      by (cases p) (auto simp: insertable_def list_all_iff fresh_id_def next_row_def Let_def computeEventHash_def hex_digests_def
          RUNTIME_AGGREGATE_ID_def RUNTIME_STOP_EVENT_TYPE_def RUNTIME_TRANSITION_EVENT_TYPE_def RUNTIME_BOUNDARY_EVENT_TYPE_def)
  qed
  then obtain db' where row: "append_row h (store_db s) False pe uuid = (db', Inr ?r)"
    using dup m by (simp add: append_row_def Let_def)
  have "json_parse h (pe_payloadJson pe) = Some (sort_deep (payload_json p))"
    by (rule json_parse_serialized [OF fields(6) payload_wf [OF p(1)]])
  then obtain ev where "rowToEvent h ?r = Inr ev" by (simp add: rowToEvent_def next_row_def Let_def)
  then show ?thesis using row s pe by (simp add: ready_def append_payload_def append_event_def Let_def)
qed

lemma append_logs:
  assumes s: "ready h s" "audit h (store_db s) = Inr acc"
    and p: "payload_bounds h p" "canonical_time h t" "find_by_key (store_db s) (payload_key p) = None" "follows_audit h t acc"
    and id: "RuntimeUuidSchema uuid" "fresh_id h (store_db s) uuid"
    and accepted: "\<And>ev. ev_occurredAt ev = t \<Longrightarrow> \<exists>acc''. replay_payload h acc ev p = Inr acc''"
  obtains s' ev acc'' where "append_payload h p t uuid s w = (s', w, Inr ev)" "replay_payload h acc ev p = Inr acc''"
    "audit h (store_db s') = Inr (acc''\<lparr>rp_events := rp_events acc @ [audit_event ev p], rp_lastAuditAt := Some t\<rparr>)"
    "extends_by h (store_db s) ev (store_db s')" "s' = s\<lparr>store_db := store_db s'\<rparr>"
    "ev_eventId ev = uuid" "ev_idempotencyKey ev = Some (payload_key p)" "ev_aggregateId ev = RUNTIME_AGGREGATE_ID"
proof -
  obtain s' ev where run: "append_payload h p t uuid s w = (s', w, Inr ev)"
    using append_payload_succeeds [OF s(1) p(1-3) id, of w] by blast
  obtain acc'' where "replay_payload h acc ev p = Inr acc''"
    "audit h (store_db s') = Inr (acc''\<lparr>rp_events := rp_events acc @ [audit_event ev p], rp_lastAuditAt := Some t\<rparr>)"
    "extends_by h (store_db s) ev (store_db s')" "s' = s\<lparr>store_db := store_db s'\<rparr>"
    by (rule append_payload_grows [OF s id(1) p accepted run])
  note parts = this
  have "ev_eventId ev = uuid" "ev_idempotencyKey ev = Some (payload_key p)" "ev_aggregateId ev = RUNTIME_AGGREGATE_ID"
    using append_payload_extends(4,5,7) [OF _ _ _ _ p(1,2,3) run] s(1) by (auto simp: ready_def)
  then show thesis by (rule that [OF run parts])
qed

text \<open>An event's own row: what the log gained.\<close>

definition logged :: "Database \<Rightarrow> (string \<times> string \<times> string option) list" where
  "logged db = map (\<lambda>r. (row_aggregate_id r, row_event_id r, row_idempotency_key r)) (by_sequence db)"

lemma logged_extended: "extends_by h db ev db' \<Longrightarrow> logged db' = logged db @ [(ev_aggregateId ev, ev_eventId ev, ev_idempotencyKey ev)]"
  using rowToEvent_fields(1,3,4) by (fastforce simp: extends_by_def logged_def)

lemma logged_find: "(\<forall>a i k. (a, i, Some k) \<in> set (logged db) \<longrightarrow> k \<noteq> key) \<Longrightarrow> find_by_key db key = None"
  by (force simp: logged_def find_by_key_def find_None_iff by_sequence_def)

subsection \<open>Starting\<close>

lemma startup_succeeds:
  assumes s: "ready h s" "audit h (store_db s) = Inr acc" "OpenRuntimeInputSchema h v = Some inp"
    and id: "RuntimeUuidSchema uuid" "fresh_id h (store_db s) uuid"
    and new: "find_by_key (store_db s) (stop_key (in_processInstanceId inp)) = None"
      "in_processInstanceId inp \<notin> set (rp_requestIds acc)"
  obtains s' ev acc' st where "startup h inp uuid s w = (s', w, Inr ev)" "s' = s\<lparr>store_db := store_db s'\<rparr>"
    "audit h (store_db s') = Inr acc'" "rp_requestIds acc' = in_processInstanceId inp # rp_requestIds acc"
    "rp_lastAuditAt acc' = Some (nonRegressingStopTime h (in_openedAt inp) acc)" "rp_state acc' = Some st"
    "rs_mode st = STOPPED" "rs_processInstanceId st = in_processInstanceId inp"
    "rs_revision st = (case rp_state acc of None \<Rightarrow> 0 | Some old \<Rightarrow> rs_revision old) + 1"
    "extends_by h (store_db s) ev (store_db s')"
    "logged (store_db s') = logged (store_db s) @ [(RUNTIME_AGGREGATE_ID, uuid, Some (stop_key (in_processInstanceId inp)))]"
proof -
  note inp = open_input [OF s(3)]
  have open_s: "assertOpen s = Inr ()" and room: "has_room (store_db s)" and valid: "valid_db h (store_db s)"
    using s(1) by (simp_all add: ready_def)
  let ?p = "startup_payload acc (in_processInstanceId inp)"
  let ?t = "nonRegressingStopTime h (in_openedAt inp) acc"
  have bounds: "payload_bounds h (StopEvent ?p)"
    using audit_state [OF s(2) _ room] inp
    by (auto simp: stop_bounds_def startup_payload_def Let_def max_safe_integer_def split: option.splits)
  have key: "validateIdentifier (JStr (stop_key (in_processInstanceId inp))) ''idempotencyKey'' = Inr (stop_key (in_processInstanceId inp))"
    using key_identifier [OF bounds_keyed [OF bounds], of "''idempotencyKey''"] by (simp add: startup_payload_def Let_def)
  have accepted: "replay_payload h acc e (StopEvent ?p) = Inr (acc\<lparr>rp_requestIds := sp_requestId ?p # rp_requestIds acc,
      rp_state := Some (state_after e STOPPED (sp_processInstanceId ?p) (sp_revision ?p))\<rparr>)" for e
    by (rule stop_accepted)
      (use new(2) in \<open>auto simp: startup_payload_def stop_consistent_def Let_def split: option.splits\<close>)
  note time = stop_time [OF valid s(2) conjunct1 [OF inp]]
  have none: "find_by_key (store_db s) (payload_key (StopEvent ?p)) = None" using new(1) by (simp add: startup_payload_def Let_def)
  obtain s' ev acc'' where app: "append_payload h (StopEvent ?p) ?t uuid s w = (s', w, Inr ev)"
      "replay_payload h acc ev (StopEvent ?p) = Inr acc''"
      "audit h (store_db s') = Inr (acc''\<lparr>rp_events := rp_events acc @ [audit_event ev (StopEvent ?p)], rp_lastAuditAt := Some ?t\<rparr>)"
      "extends_by h (store_db s) ev (store_db s')" "s' = s\<lparr>store_db := store_db s'\<rparr>"
      "ev_eventId ev = uuid" "ev_idempotencyKey ev = Some (payload_key (StopEvent ?p))" "ev_aggregateId ev = RUNTIME_AGGREGATE_ID"
    by (rule append_logs [OF s(1,2) bounds time(1) none time(2) id, of w]) (use accepted in auto)
  have body: "startup h inp uuid s w = (s', w, Inr ev)"
    using s(1,2) new(2) find_event_absent [OF open_s key new(1), of h w] app(1)
    by (simp add: startup_def assertUnusedRequestId_def ensure_def)
  let ?st = "state_after ev STOPPED (sp_processInstanceId ?p) (sp_revision ?p)"
  have acc'': "acc'' = acc\<lparr>rp_requestIds := sp_requestId ?p # rp_requestIds acc, rp_state := Some ?st\<rparr>"
    using app(2) accepted [of ev] by simp
  have log: "logged (store_db s') = logged (store_db s) @ [(RUNTIME_AGGREGATE_ID, uuid, Some (stop_key (in_processInstanceId inp)))]"
    using logged_extended [OF app(4)] app(6-8) by (simp add: startup_payload_def Let_def)
  show thesis
    by (rule that [of s' ev _ ?st, OF body app(5) app(3) _ _ _ _ _ _ app(4) log])
      (simp_all add: acc'' startup_payload_def Let_def state_after_def)
qed

subsection \<open>Moving between modes\<close>

lemma transition_body_succeeds:
  assumes s: "ready h s" "audit h (store_db s) = Inr acc" "RuntimeTransitionInputSchema h v = Some inp"
    and id: "RuntimeUuidSchema uuid" "fresh_id h (store_db s) uuid"
    and st: "rp_state acc = Some st" "rs_mode st = in_expectedMode inp" "rs_revision st = in_expectedRevision inp"
      "isModeTransitionAllowed (rs_mode st) (in_targetMode inp)"
    and new: "find_by_key (store_db s) (transition_key (in_transitionId inp)) = None"
      "in_transitionId inp \<notin> set (rp_requestIds acc)" "follows_audit h (in_transitionAt inp) acc"
  obtains s' sn ev acc' st' where "transition_body h (rs_processInstanceId st) inp uuid s w = (s', w, Inr sn)"
    "s' = s\<lparr>store_db := store_db s'\<rparr>" "audit h (store_db s') = Inr acc'" "rp_state acc' = Some st'"
    "rs_mode st' = in_targetMode inp" "rs_revision st' = rs_revision st + 1" "rs_processInstanceId st' = rs_processInstanceId st"
    "rp_lastAuditAt acc' = Some (in_transitionAt inp)" "rp_requestIds acc' = in_transitionId inp # rp_requestIds acc"
    "extends_by h (store_db s) ev (store_db s')"
    "logged (store_db s') = logged (store_db s) @ [(RUNTIME_AGGREGATE_ID, uuid, Some (transition_key (in_transitionId inp)))]"
proof -
  note inp = transition_input [OF s(3)]
  have open_s: "assertOpen s = Inr ()" and room: "has_room (store_db s)" using s(1) by (simp_all add: ready_def)
  define p where "p = \<lparr>tp_expectedMode = in_expectedMode inp, tp_expectedRevision = in_expectedRevision inp,
            tp_from = rs_mode st, tp_previousRevision = rs_revision st,
            tp_processInstanceId = rs_processInstanceId st, tp_requestId = in_transitionId inp,
            tp_revision = rs_revision st + 1, tp_to = in_targetMode inp\<rparr>"
  have checks: "transition_checks h (rs_processInstanceId st) inp acc = Inr p"
    using st new(2,3) by (simp add: transition_checks_def assertUnusedRequestId_def current_state_def
        assertNonRegressingTime_def follows_audit_def p_def ensure_def split: option.splits)
  have bounds: "payload_bounds h (TransitionEvent p)"
    using audit_state [OF s(2) st(1) room] inp by (simp add: transition_bounds_def p_def)
  have key: "validateIdentifier (JStr (transition_key (in_transitionId inp))) ''idempotencyKey''
      = Inr (transition_key (in_transitionId inp))"
    using key_identifier [OF bounds_keyed [OF bounds], of "''idempotencyKey''"] by (simp add: p_def)
  have accepted: "replay_payload h acc e (TransitionEvent p) = Inr (acc\<lparr>rp_requestIds := tp_requestId p # rp_requestIds acc,
      rp_state := Some (state_after e (tp_to p) (tp_processInstanceId p) (tp_revision p))\<rparr>)" for e
    using st new(2) by (simp add: replay_payload_def transition_consistent_def p_def)
  have none: "find_by_key (store_db s) (payload_key (TransitionEvent p)) = None" using new(1) by (simp add: p_def)
  obtain s' ev acc'' where app: "append_payload h (TransitionEvent p) (in_transitionAt inp) uuid s w = (s', w, Inr ev)"
      "replay_payload h acc ev (TransitionEvent p) = Inr acc''"
      "audit h (store_db s') = Inr (acc''\<lparr>rp_events := rp_events acc @ [audit_event ev (TransitionEvent p)],
         rp_lastAuditAt := Some (in_transitionAt inp)\<rparr>)"
      "extends_by h (store_db s) ev (store_db s')" "s' = s\<lparr>store_db := store_db s'\<rparr>"
      "ev_eventId ev = uuid" "ev_idempotencyKey ev = Some (payload_key (TransitionEvent p))" "ev_aggregateId ev = RUNTIME_AGGREGATE_ID"
    by (rule append_logs [OF s(1,2) bounds conjunct1 [OF inp] none new(3) id, of w]) (use accepted in auto)
  have body: "transition_body h (rs_processInstanceId st) inp uuid s w
      = (s', w, Inr (snapshotFromModeEvent ev (tp_to p) (tp_processInstanceId p) (tp_revision p)))"
    using s(1,2) checks find_event_absent [OF open_s key new(1), of h w] app(1) by (simp add: transition_body_def)
  let ?st = "state_after ev (tp_to p) (tp_processInstanceId p) (tp_revision p)"
  have acc'': "acc'' = acc\<lparr>rp_requestIds := tp_requestId p # rp_requestIds acc, rp_state := Some ?st\<rparr>"
    using app(2) accepted [of ev] by simp
  have log: "logged (store_db s') = logged (store_db s) @ [(RUNTIME_AGGREGATE_ID, uuid, Some (transition_key (in_transitionId inp)))]"
    using logged_extended [OF app(4)] app(6-8) by (simp add: p_def)
  show thesis
    by (rule that [of s' _ _ ?st ev, OF body app(5) app(3) _ _ _ _ _ _ app(4) log])
      (simp_all add: acc'' p_def state_after_def)
qed

subsection \<open>Authorizations are granted and honoured\<close>

lemma request_body_succeeds:
  assumes s: "ready h s" "audit h (store_db s) = Inr acc" "RuntimeBoundaryAuthorizationInputSchema v = Some inp"
    and st: "rp_state acc = Some st" "modeAllowsBoundary (rs_mode st) (in_boundary inp)"
    and new: "find_by_key (store_db s) (boundary_key (in_authorizationId inp)) = None"
    and clock: "readRuntimeClock h clock = Inr clockAt" "readMonotonicClock clock = Inr m"
      "authorizationExpiry h (nonRegressingBoundaryTime h clockAt acc None) = Inr x" "authorizationMonotonicExpiry m = Inr n"
  shows "request_body h (rs_processInstanceId st) inp clock uuid s w =
    (s, w, Inr (issue inp (rs_processInstanceId st) st (nonRegressingBoundaryTime h clockAt acc None) x m n, None))"
proof -
  have open_s: "assertOpen s = Inr ()" using s(1) by (simp add: ready_def)
  have "keyed (BoundaryEvent (check_payload h
      (requested (issue inp (rs_processInstanceId st) st (nonRegressingBoundaryTime h clockAt acc None) x m n)) st x))"
    using boundary_input [OF s(3)] by (simp add: keyed_def requested_issue)
  from key_identifier [OF this, of "''idempotencyKey''"]
  have key: "validateIdentifier (JStr (boundary_key (in_authorizationId inp))) ''idempotencyKey''
      = Inr (boundary_key (in_authorizationId inp))" by (simp add: requested_issue)
  have "\<not> date_at_least h (nonRegressingBoundaryTime h clockAt acc None) x"
    by (rule expiry_time [OF clock(3)]) (simp add: date_at_least_def AUTHORIZATION_TTL_MS_def)
  moreover have "\<not> isPermanentlyDeniedBoundary (in_boundary inp)" using st(2) permanently_denied_never_allowed by blast
  ultimately have "boundaryReason h (requested (issue inp (rs_processInstanceId st) st
      (nonRegressingBoundaryTime h clockAt acc None) x m n)) st (nonRegressingBoundaryTime h clockAt acc None) = ALLOWED"
    using st(2) by (simp add: boundaryReason_ALLOWED requested_issue)
  then show ?thesis
    using s(1,2) st(1) clock find_event_absent [OF open_s key new, of h w]
    by (simp add: request_body_def current_state_def Let_def)
qed

lemma date_less_irrefl [simp]: "\<not> date_less h t t"
  by (simp add: date_less_def split: option.splits)

lemma boundary_time_bounds:
  assumes "valid_db h db" "audit h db = Inr acc" "canonical_time h t" "canonical_time h m"
  shows "follows_audit h (nonRegressingBoundaryTime h t acc (Some m)) acc"
    "\<not> date_less h (nonRegressingBoundaryTime h t acc (Some m)) m"
  using stop_time(2) [OF assms(1-3)] canonical_last [OF assms(1,2)] stop_time(1) [OF assms(1-3)] assms(4)
  by (auto simp: nonRegressingBoundaryTime_def Let_def follows_audit_def date_less_def elim!: canonical_timeE
      split: option.splits if_splits)

lemma check_body_succeeds:
  assumes s: "ready h s" "audit h (store_db s) = Inr acc" "request_ok h (requested rq)"
    and id: "RuntimeUuidSchema uuid" "fresh_id h (store_db s) uuid"
    and st: "rp_state acc = Some st" and new: "find_by_key (store_db s) (boundary_key (rq_authorizationId rq)) = None"
    and clock: "readRuntimeClock h clock = Inr clockAt" "readMonotonicClock clock = Inr m" "\<not> outside_lifetime rq m"
    and allowed: "boundaryReason h (requested rq) st (nonRegressingBoundaryTime h clockAt acc (Some (rq_requestedAt rq))) = ALLOWED"
  obtains s' rc where "check_body h rq clock uuid s w = (s', w, Inr rc)" "rc_allowed rc"
    "rc_authorizationId rc = rq_authorizationId rq" "s' = s\<lparr>store_db := store_db s'\<rparr>"
    "runtime_grows h (store_db s) (store_db s')"
proof -
  have open_s: "assertOpen s = Inr ()" and room: "has_room (store_db s)" and valid: "valid_db h (store_db s)"
    using s(1) by (simp_all add: ready_def)
  define t where "t = nonRegressingBoundaryTime h clockAt acc (Some (rq_requestedAt rq))"
  let ?p = "check_payload h (requested rq) st t"
  have asked: "canonical_time h (rq_requestedAt rq)" using s(3) by (simp add: request_ok_def)
  note time = boundary_time_bounds [OF valid s(2) clock_canonical [OF clock(1)] asked, folded t_def]
  have iso: "canonical_time h t"
    using boundary_time [OF valid s(2) clock_canonical [OF clock(1)], of "Some (rq_requestedAt rq)"] asked by (simp add: t_def)
  note bounds = check_payload_bounds [OF s(3,2) st room, of t]
  have key: "validateIdentifier (JStr (boundary_key (rq_authorizationId rq))) ''idempotencyKey'' = Inr (boundary_key (rq_authorizationId rq))"
    using key_identifier [OF bounds_keyed [OF bounds], of "''idempotencyKey''"] by simp
  have unused: "rq_authorizationId (requested rq) \<notin> set (rp_authorizationIds acc)"
    using audit_authorization_ids [OF s(2) new] by simp
  have none: "find_by_key (store_db s) (payload_key (BoundaryEvent ?p)) = None" using new by simp
  obtain s' ev where app: "append_payload h (BoundaryEvent ?p) t uuid s w = (s', w, Inr ev)"
      "s' = s\<lparr>store_db := store_db s'\<rparr>"
    by (rule append_logs [OF s(1,2) bounds iso none time(1) id, of w])
      (use check_accepted [OF s(3) st unused] time(2) in auto)
  have "check_time h rq acc clockAt m = t" using clock(3) by (simp add: check_time_def t_def)
  then have check: "check_body h rq clock uuid s w = (s', w, Inr (boundaryReceipt ev ?p))"
    using s(1,2) st clock(1,2) time find_event_absent [OF open_s key new, of h w] app(1)
    by (simp add: check_body_def appendBoundaryCheck_def current_state_def assertNonRegressingTime_def follows_audit_def
        ensure_def split: option.splits)
  show thesis
    by (rule that [OF check _ _ app(2) check_body_grows(1) [OF s(1) id(1) s(3) check]])
      (use allowed in \<open>simp_all add: boundaryReceipt_def t_def\<close>)
qed

subsection \<open>The monotonic clock\<close>

lemma round_half_even_int [simp]: "round_half_even (of_int n) = n"
  by (simp add: round_half_even_def)

lemma binary64_exact:
  assumes "0 \<le> n" "n < 2 ^ 53"
  shows "binary64 (of_int n) = Some (of_int n)"
proof -
  have "nat n < 2 ^ 53" using assms(2) by (simp only: nat_less_numeral_power_cancel_iff)
  then have "floorlog 2 (nat n) \<le> 53" by (rule floorlog_leI) simp_all
  then obtain k where k: "floorlog 2 (nat n) + k = 53" by (metis le_add_diff_inverse)
  have scale: "(if 0 \<le> int (floorlog 2 (nat n)) - 53 then 2 ^ nat (int (floorlog 2 (nat n)) - 53)
      else 1 / 2 ^ nat (- (int (floorlog 2 (nat n)) - 53))) = (1 / 2 ^ k :: rat)"
    using k by (cases "k = 0") auto
  have "round_half_even (of_int n / (1 / 2 ^ k)) = n * 2 ^ k"
    using round_half_even_int [of "n * 2 ^ k"] by simp
  then have v: "of_int (round_half_even (of_int n / (1 / 2 ^ k))) * (1 / 2 ^ k) = (of_int n :: rat)" by simp
  have "of_int n < (2 :: rat) ^ 1024"
  proof -
    have "n < 2 ^ 1024" using assms(2) by simp
    then have "(of_int n :: rat) < of_int (2 ^ 1024)" by (simp only: of_int_less_iff)
    then show ?thesis by simp
  qed
  then show ?thesis unfolding binary64_def floor_of_int Let_def scale v by (rule if_P)
qed

subsection \<open>The operations\<close>

lemma open_succeeds:
  assumes src: "open_store h file = Inr s" "has_room (store_db s)" "hex_digests (sha256_hex h)" "audit h (store_db s) = Inr acc"
    and v: "parseRuntimeInput (OpenRuntimeInputSchema h) v = Some inp"
    and id: "RuntimeUuidSchema uuid" "fresh_id h (store_db s) uuid"
    and new: "find_by_key (store_db s) (stop_key (in_processInstanceId inp)) = None"
      "in_processInstanceId inp \<notin> set (rp_requestIds acc)"
  obtains db ct acc' st where "open_runtime h file v uuid = (Some db, Inr ct)" "ct_processInstanceId ct = in_processInstanceId inp"
    "audit h db = Inr acc'" "rp_requestIds acc' = in_processInstanceId inp # rp_requestIds acc"
    "rp_lastAuditAt acc' = Some (nonRegressingStopTime h (in_openedAt inp) acc)" "rp_state acc' = Some st"
    "rs_mode st = STOPPED" "rs_processInstanceId st = in_processInstanceId inp"
    "rs_revision st = (case rp_state acc of None \<Rightarrow> 0 | Some old \<Rightarrow> rs_revision old) + 1"
    "logged db = logged (store_db s) @ [(RUNTIME_AGGREGATE_ID, uuid, Some (stop_key (in_processInstanceId inp)))]" "valid_db h db"
proof -
  have ok: "idle s" "valid_db h (store_db s)" using open_store_valid [OF src(1)] by simp_all
  have ready: "ready h (opened s)" by (rule opened_ready [OF ok src(2,3)])
  obtain s1 ev acc' st where run: "startup h inp uuid (opened s) () = (s1, (), Inr ev)" "s1 = opened s\<lparr>store_db := store_db s1\<rparr>"
    and facts: "audit h (store_db s1) = Inr acc'" "rp_requestIds acc' = in_processInstanceId inp # rp_requestIds acc"
    "rp_lastAuditAt acc' = Some (nonRegressingStopTime h (in_openedAt inp) acc)" "rp_state acc' = Some st"
    "rs_mode st = STOPPED" "rs_processInstanceId st = in_processInstanceId inp"
    "rs_revision st = (case rp_state acc of None \<Rightarrow> 0 | Some old \<Rightarrow> rs_revision old) + 1"
    "extends_by h (store_db (opened s)) ev (store_db s1)"
    "logged (store_db s1) = logged (store_db (opened s)) @ [(RUNTIME_AGGREGATE_ID, uuid, Some (stop_key (in_processInstanceId inp)))]"
    by (rule startup_succeeds [OF ready _ parsed_input [OF v] id(1), of acc "()"]) (use src(4) id(2) new in simp_all)
  note ran = exclusively_succeeds [of s h "startup h inp uuid" "()" s1 "()" ev, OF ok run]
  let ?s' = "s\<lparr>store_failed := False, store_db := store_db s1\<rparr>"
  have op: "open_runtime h file v uuid
      = (Some (store_db s1), Inr \<lparr>ct_processInstanceId = in_processInstanceId inp, ct_store = ?s'\<rparr>)"
    unfolding open_runtime_def v option.case src(1) sum.case ran prod.case by simp
  show thesis
    by (rule that [OF op _ facts(1-7)]) (use facts(8,9) in \<open>simp_all add: extends_by_def\<close>)
qed

lemma transition_succeeds:
  assumes s: "idle s" "valid_db h (store_db s)" "has_room (store_db s)" "hex_digests (sha256_hex h)"
      "audit h (store_db s) = Inr acc"
    and v: "parseRuntimeInput (RuntimeTransitionInputSchema h) v = Some inp"
    and id: "RuntimeUuidSchema uuid" "fresh_id h (store_db s) uuid"
    and st: "rp_state acc = Some st" "rs_mode st = in_expectedMode inp" "rs_revision st = in_expectedRevision inp"
      "isModeTransitionAllowed (rs_mode st) (in_targetMode inp)"
    and new: "find_by_key (store_db s) (transition_key (in_transitionId inp)) = None"
      "in_transitionId inp \<notin> set (rp_requestIds acc)" "follows_audit h (in_transitionAt inp) acc"
  obtains s' sn acc' st' where "transition h (rs_processInstanceId st) v uuid s w = (s', w, Inr sn)"
    "audit h (store_db s') = Inr acc'" "rp_state acc' = Some st'"
    "rs_mode st' = in_targetMode inp" "rs_revision st' = rs_revision st + 1" "rs_processInstanceId st' = rs_processInstanceId st"
    "rp_lastAuditAt acc' = Some (in_transitionAt inp)" "rp_requestIds acc' = in_transitionId inp # rp_requestIds acc"
    "valid_db h (store_db s')"
    "logged (store_db s') = logged (store_db s) @ [(RUNTIME_AGGREGATE_ID, uuid, Some (transition_key (in_transitionId inp)))]"
proof -
  have ready: "ready h (opened s)" by (rule opened_ready [OF s(1-4)])
  obtain s1 sn ev acc' st' where run: "transition_body h (rs_processInstanceId st) inp uuid (opened s) w = (s1, w, Inr sn)"
      "s1 = opened s\<lparr>store_db := store_db s1\<rparr>"
    and facts: "audit h (store_db s1) = Inr acc'" "rp_state acc' = Some st'"
    "rs_mode st' = in_targetMode inp" "rs_revision st' = rs_revision st + 1" "rs_processInstanceId st' = rs_processInstanceId st"
    "rp_lastAuditAt acc' = Some (in_transitionAt inp)" "rp_requestIds acc' = in_transitionId inp # rp_requestIds acc"
    "extends_by h (store_db (opened s)) ev (store_db s1)"
    "logged (store_db s1) = logged (store_db (opened s)) @ [(RUNTIME_AGGREGATE_ID, uuid, Some (transition_key (in_transitionId inp)))]"
    by (rule transition_body_succeeds [OF ready _ parsed_input [OF v] id(1) _ st, of w]) (use s(5) id(2) new in simp_all)
  note ran = exclusively_succeeds [of s h "transition_body h (rs_processInstanceId st) inp uuid" w s1 w sn, OF s(1,2) run]
  have op: "transition h (rs_processInstanceId st) v uuid s w
      = (s\<lparr>store_failed := False, store_db := store_db s1\<rparr>, w, Inr sn)"
    unfolding transition_def act_then_def act_result_def v or_fail_def option.case prod.case sum.case ran ..
  show thesis
    by (rule that [of "s\<lparr>store_failed := False, store_db := store_db s1\<rparr>" sn acc' st', OF op])
      (use facts in \<open>simp_all add: extends_by_def\<close>)
qed

lemma request_succeeds:
  assumes s: "idle s" "valid_db h (store_db s)" "has_room (store_db s)" "hex_digests (sha256_hex h)"
      "audit h (store_db s) = Inr acc"
    and v: "parseRuntimeInput RuntimeBoundaryAuthorizationInputSchema v = Some inp"
    and st: "rp_state acc = Some st" "modeAllowsBoundary (rs_mode st) (in_boundary inp)"
    and new: "find_by_key (store_db s) (boundary_key (in_authorizationId inp)) = None"
    and clock: "readRuntimeClock h clock = Inr clockAt" "readMonotonicClock clock = Inr m"
      "authorizationExpiry h (nonRegressingBoundaryTime h clockAt acc None) = Inr x" "authorizationMonotonicExpiry m = Inr n"
  shows "requestBoundaryAuthorization h (rs_processInstanceId st) v clock uuid s w =
    (s\<lparr>store_failed := False\<rparr>, w,
     Inr (issue inp (rs_processInstanceId st) st (nonRegressingBoundaryTime h clockAt acc None) x m n))"
proof -
  have ready: "ready h (opened s)" by (rule opened_ready [OF s(1-4)])
  let ?rq = "issue inp (rs_processInstanceId st) st (nonRegressingBoundaryTime h clockAt acc None) x m n"
  have body: "request_body h (rs_processInstanceId st) inp clock uuid (opened s) w = (opened s, w, Inr (?rq, None))"
    by (rule request_body_succeeds [OF ready _ parsed_input [OF v] st _ clock]) (use s(5) new in simp_all)
  have "exclusively h (request_body h (rs_processInstanceId st) inp clock uuid) s w
      = (s\<lparr>store_failed := False, store_db := store_db (opened s)\<rparr>, w, Inr (?rq, None))"
    by (rule exclusively_succeeds [of s h "request_body h (rs_processInstanceId st) inp clock uuid" w "opened s" w "(?rq, None)",
        OF s(1,2) body]) simp
  then show ?thesis using v by (simp add: requestBoundaryAuthorization_def act_then_def act_result_def denied_receipt_def)
qed

lemma dispatch_succeeds:
  assumes s: "idle s" "valid_db h (store_db s)" "has_room (store_db s)" "hex_digests (sha256_hex h)"
      "audit h (store_db s) = Inr acc" "request_ok h (requested rq)"
    and id: "RuntimeUuidSchema uuid" "fresh_id h (store_db s) uuid"
    and st: "rp_state acc = Some st" and new: "find_by_key (store_db s) (boundary_key (rq_authorizationId rq)) = None"
    and clock: "readRuntimeClock h clock = Inr clockAt" "readMonotonicClock clock = Inr m" "\<not> outside_lifetime rq m"
    and allowed: "boundaryReason h (requested rq) st (nonRegressingBoundaryTime h clockAt acc (Some (rq_requestedAt rq))) = ALLOWED"
    and runs: "\<And>rc. rc_allowed rc \<Longrightarrow> rc_authorizationId rc = rq_authorizationId rq \<Longrightarrow> dispatch rc w = (w', True)"
  obtains s' rc where "consumeAndDispatch h rq dispatch clock uuid s w = (s', w', Inr rc)" "rc_allowed rc"
    "rc_authorizationId rc = rq_authorizationId rq" "runtime_grows h (store_db s) (store_db s')"
proof -
  have ready: "ready h (opened s)" by (rule opened_ready [OF s(1-4)])
  obtain s1 rc where check: "check_body h rq clock uuid (opened s) w = (s1, w, Inr rc)" "rc_allowed rc"
      "rc_authorizationId rc = rq_authorizationId rq" "s1 = opened s\<lparr>store_db := store_db s1\<rparr>"
      "runtime_grows h (store_db (opened s)) (store_db s1)"
    by (rule check_body_succeeds [OF ready _ s(6) id(1) _ st _ clock allowed, of w]) (use s(5) id(2) new in simp_all)
  let ?body = "act_then (check_body h rq clock uuid) (\<lambda>checked.
        act_then (if rc_allowed checked then act_call dispatch checked else act_result (Inr ())) (\<lambda>_. act_result (Inr checked)))"
  have body: "?body (opened s) w = (s1, w', Inr rc)"
    by (simp only: act_then_Inr) (use check(1,2) runs [OF check(2,3)] in auto)
  note ran = exclusively_succeeds [of s h ?body w s1 w' rc, OF s(1,2) body check(4)]
  have "consumeAndDispatch h rq dispatch clock uuid s w = (s\<lparr>store_failed := False, store_db := store_db s1\<rparr>, w', Inr rc)"
    unfolding consumeAndDispatch_def act_then_def [of "exclusively h ?body"] ran prod.case sum.case
    using check(2) by (simp add: act_result_def allowed_receipt_def)
  then show thesis by (rule that [OF _ check(2,3)]) (use check(5) in simp)
qed

end
