(* ===== verification/RuntimeOutcomes.thy ===== *)
theory RuntimeOutcomes
  imports RuntimeLiveness
begin

text \<open>
  What single calls come to: a STOP takes effect in every mode, a call on an authorization the authority moved past leaves a
  denial at most, a local commit returns only behind one checkpoint that found the authority fresh, and does return where it does.
\<close>

subsection \<open>Stopping\<close>

lemma stop_body_succeeds:
  assumes s: "ready h s" "audit h (store_db s) = Inr acc" "RuntimeStopInputSchema h v = Some inp"
    and id: "RuntimeUuidSchema uuid" "fresh_id h (store_db s) uuid" and st: "rp_state acc = Some st"
    and new: "find_by_key (store_db s) (stop_key (in_stopId inp)) = None" "in_stopId inp \<notin> set (rp_requestIds acc)"
  obtains s' sn acc' st' where "stop_body h inp uuid s w = (s', w, Inr sn)" "s' = s\<lparr>store_db := store_db s'\<rparr>"
    "audit h (store_db s') = Inr acc'" "rp_state acc' = Some st'" "rs_mode st' = STOPPED"
    "rs_processInstanceId st' = rs_processInstanceId st" "rs_revision st' = rs_revision st + 1"
    "currentSnapshot acc' = Inr sn" "in_stopId inp \<in> set (rp_requestIds acc')"
proof -
  note inp = stop_input [OF s(3)]
  have open_s: "assertOpen s = Inr ()" and room: "has_room (store_db s)" and valid: "valid_db h (store_db s)"
    using s(1) by (simp_all add: ready_def)
  let ?p = "operator_stop inp st"
  let ?t = "nonRegressingStopTime h (in_stopAt inp) acc"
  have bounds: "payload_bounds h (StopEvent ?p)"
    using audit_state [OF s(2) st room] inp by (simp add: stop_bounds_def operator_stop_def)
  have key: "validateIdentifier (JStr (stop_key (in_stopId inp))) ''idempotencyKey'' = Inr (stop_key (in_stopId inp))"
    using key_identifier [OF bounds_keyed [OF bounds], of "''idempotencyKey''"] by (simp add: operator_stop_def)
  have accepted: "replay_payload h acc e (StopEvent ?p) = Inr (acc\<lparr>rp_requestIds := sp_requestId ?p # rp_requestIds acc,
      rp_state := Some (state_after e STOPPED (sp_processInstanceId ?p) (sp_revision ?p))\<rparr>)" for e
    by (rule stop_accepted) (use new(2) st in \<open>simp_all add: operator_stop_def stop_consistent_def\<close>)
  note time = stop_time [OF valid s(2) conjunct1 [OF inp]]
  have none: "find_by_key (store_db s) (payload_key (StopEvent ?p)) = None" using new(1) by (simp add: operator_stop_def)
  obtain s' ev acc'' where app: "append_payload h (StopEvent ?p) ?t uuid s w = (s', w, Inr ev)"
      "replay_payload h acc ev (StopEvent ?p) = Inr acc''"
      "audit h (store_db s') = Inr (acc''\<lparr>rp_events := rp_events acc @ [audit_event ev (StopEvent ?p)], rp_lastAuditAt := Some ?t\<rparr>)"
      "s' = s\<lparr>store_db := store_db s'\<rparr>"
    by (rule append_logs [OF s(1,2) bounds time(1) none time(2) id, of w]) (use accepted in auto)
  let ?st = "state_after ev STOPPED (rs_processInstanceId st) (rs_revision st + 1)"
  have acc'': "acc'' = acc\<lparr>rp_requestIds := in_stopId inp # rp_requestIds acc, rp_state := Some ?st\<rparr>"
    using app(2) accepted [of ev] by (simp add: operator_stop_def)
  have body: "stop_body h inp uuid s w
      = (s', w, Inr (snapshotFromModeEvent ev STOPPED (rs_processInstanceId st) (rs_revision st + 1)))"
    using s(1,2) st new(2) find_event_absent [OF open_s key new(1), of h w] app(1)
    by (simp add: stop_body_def assertUnusedRequestId_def current_state_def ensure_def)
  show thesis
    by (rule that [of s' _ _ ?st, OF body app(4,3)])
      (simp_all add: acc'' state_after_def currentSnapshot_def snapshotFromModeEvent_def audit_event_def)
qed

lemma stop_succeeds:
  assumes s: "idle s" "valid_db h (store_db s)" "has_room (store_db s)" "hex_digests (sha256_hex h)"
      "audit h (store_db s) = Inr acc"
    and v: "parseRuntimeInput (RuntimeStopInputSchema h) v = Some inp"
    and id: "RuntimeUuidSchema uuid" "fresh_id h (store_db s) uuid" and st: "rp_state acc = Some st"
    and new: "find_by_key (store_db s) (stop_key (in_stopId inp)) = None" "in_stopId inp \<notin> set (rp_requestIds acc)"
  obtains s' sn acc' st' where "stop_runtime h v uuid s w = (s', w, Inr sn)" "audit h (store_db s') = Inr acc'"
    "rp_state acc' = Some st'" "rs_mode st' = STOPPED" "rs_processInstanceId st' = rs_processInstanceId st"
    "rs_revision st' = rs_revision st + 1" "currentSnapshot acc' = Inr sn" "in_stopId inp \<in> set (rp_requestIds acc')"
proof -
  have ready: "ready h (opened s)" by (rule opened_ready [OF s(1-4)])
  obtain s1 sn acc' st' where run: "stop_body h inp uuid (opened s) w = (s1, w, Inr sn)" "s1 = opened s\<lparr>store_db := store_db s1\<rparr>"
    and facts: "audit h (store_db s1) = Inr acc'" "rp_state acc' = Some st'" "rs_mode st' = STOPPED"
      "rs_processInstanceId st' = rs_processInstanceId st" "rs_revision st' = rs_revision st + 1" "currentSnapshot acc' = Inr sn"
      "in_stopId inp \<in> set (rp_requestIds acc')"
    by (rule stop_body_succeeds [OF ready _ parsed_input [OF v] id(1) _ st, of w]) (use s(5) id(2) new in simp_all)
  note ran = exclusively_succeeds [of s h "stop_body h inp uuid" w s1 w sn, OF s(1,2) run]
  have op: "stop_runtime h v uuid s w = (s\<lparr>store_failed := False, store_db := store_db s1\<rparr>, w, Inr sn)"
    unfolding stop_runtime_def act_then_def act_result_def v or_fail_def option.case prod.case sum.case ran ..
  show thesis
    by (rule that [of "s\<lparr>store_failed := False, store_db := store_db s1\<rparr>" sn acc' st', OF op])
      (use facts in simp_all)
qed

subsection \<open>Stale authorizations\<close>

text \<open>The log gained one event: a check of this authorization that was denied.\<close>

definition denial_logged :: "host \<Rightarrow> Database \<Rightarrow> IssuedBoundary \<Rightarrow> RuntimeState \<Rightarrow> Database \<Rightarrow> bool" where
  "denial_logged h db rq st db' \<longleftrightarrow>
     (\<exists>ev p. extends_by h db ev db' \<and> event_payload h ev = Some (BoundaryEvent p) \<and> requested_of p = requested rq
        \<and> \<not> bp_allowed p \<and> bp_reason p \<noteq> ALLOWED \<and> bp_checkedRevision p = rs_revision st
        \<and> bp_checkedProcessInstanceId p = rs_processInstanceId st)"

text \<open>Nothing but a denial was logged, and the state of the authority is what it was.\<close>

definition denied_at_most :: "host \<Rightarrow> Database \<Rightarrow> IssuedBoundary \<Rightarrow> RuntimeState \<Rightarrow> Database \<Rightarrow> bool" where
  "denied_at_most h db rq st db' \<longleftrightarrow> (db' = db \<or> denial_logged h db rq st db')
     \<and> (\<exists>acc. audit h db' = Inr acc \<and> rp_state acc = Some st)"

lemma denied_refl: "audit h db = Inr acc \<Longrightarrow> rp_state acc = Some st \<Longrightarrow> denied_at_most h db rq st db"
  by (simp add: denied_at_most_def)

lemma stale_check:
  assumes s: "ready h s" "audit h (store_db s) = Inr acc" "rp_state acc = Some st"
    and rq: "RuntimeUuidSchema uuid" "request_ok h (requested rq)" "rs_revision st \<noteq> rq_requestedRevision rq"
    and run: "check_body h rq clock uuid s w = (s', w', Inr rc)"
  shows "\<not> rc_allowed rc" "denied_at_most h (store_db s) rq st (store_db s')"
proof -
  have valid: "valid_db h (store_db s)" using s(1) by (simp add: ready_def)
  obtain t clockAt m where clock: "readRuntimeClock h clock = Inr clockAt" and t: "t = check_time h rq acc clockAt m"
      and check: "appendBoundaryCheck h acc (requested rq) t uuid s w = (s', w', Inr rc)"
    by (rule check_body_Inr [OF s(1) run]) (use s(2) in auto)
  have time: "canonical_time h t"
    unfolding t by (rule check_time_canonical [OF valid s(2) clock_canonical [OF clock] rq(2)])
  have denied: "boundaryReason h (requested rq) st t \<noteq> ALLOWED" using rq(3) by (auto simp: boundaryReason_ALLOWED)
  obtain ev where ev: "rc = boundaryReceipt ev (check_payload h (requested rq) st t)" "extends_by h (store_db s) ev (store_db s')"
      "event_payload h ev = Some (BoundaryEvent (check_payload h (requested rq) st t))"
      "audit h (store_db s') = Inr (acc\<lparr>rp_events := rp_events acc @
         [audit_event ev (BoundaryEvent (check_payload h (requested rq) st t))],
         rp_lastAuditAt := Some t, rp_authorizationIds := rq_authorizationId (requested rq) # rp_authorizationIds acc\<rparr>)"
    by (rule appendBoundaryCheck_grows [OF s(1,2) rq(1,2) time check]) (use s(3) in auto)
  show "\<not> rc_allowed rc" using denied by (simp add: ev(1) boundaryReceipt_def)
  show "denied_at_most h (store_db s) rq st (store_db s')"
    using ev(2-4) denied s(3) by (auto simp: denied_at_most_def denial_logged_def intro!: exI [of _ ev])
qed

lemma exclusively_outcome:
  assumes "idle s" "has_room (store_db s)" "hex_digests (sha256_hex h)" "Q (store_db s)"
    and body: "\<And>s1 w1 x. ready h (opened s) \<Longrightarrow> m (opened s) w = (s1, w1, Inr x) \<Longrightarrow> Q (store_db s1)"
  shows "Q (store_db (fst (exclusively h m s w)))"
proof -
  obtain s' w' r where run: "exclusively h m s w = (s', w', r)" by (cases "exclusively h m s w") auto
  show ?thesis
  proof (cases r)
    case (Inl e)
    then show ?thesis using exclusively_Inl [OF run [unfolded Inl]] run assms(4) by simp
  next
    case (Inr x)
    obtain s1 where s1: "m (opened s) w = (s1, w', Inr x)" "valid_db h (store_db s)" "store_db s' = store_db s1"
      by (rule exclusively_Inr [OF run [unfolded Inr]])
    show ?thesis using body [OF opened_ready s1(1)] assms(1-3) s1(2,3) run by simp
  qed
qed

lemma stale_store:
  assumes s: "idle s" "has_room (store_db s)" "hex_digests (sha256_hex h)"
    and acc: "audit h (store_db s) = Inr acc" "rp_state acc = Some st"
    and rq: "RuntimeUuidSchema uuid" "request_ok h (requested rq)" "rs_revision st \<noteq> rq_requestedRevision rq"
  shows "denied_at_most h (store_db s) rq st (store_db (fst (consumeBoundaryAuthorization h rq clock uuid s w)))"
    "denied_at_most h (store_db s) rq st (store_db (fst (consumeAndDispatch h rq dispatch clock uuid s w)))"
    "denied_at_most h (store_db s) rq st (store_db (fst (consumeLocalCommit h rq commit clocks uuid s w)))"
proof -
  note refl = denied_refl [OF acc]
  have checked: "denied_at_most h (store_db s) rq st (store_db s1) \<and> \<not> rc_allowed rc"
    if "ready h (opened s)" "check_body h rq clk uuid (opened s) w = (s1, w1, Inr rc)" for clk s1 w1 rc
    using stale_check [OF that(1) _ acc(2) rq that(2)] acc(1) by simp
  have consumed: "denied_at_most h (store_db s) rq st (store_db (fst (consumeBoundaryAuthorization h rq clk uuid s w)))" for clk
    unfolding consumeBoundaryAuthorization_def
    by (subst fst_act_then_pure, simp) (rule exclusively_outcome [where Q = "denied_at_most h (store_db s) rq st", OF s refl], use checked in blast)
  then show "denied_at_most h (store_db s) rq st (store_db (fst (consumeBoundaryAuthorization h rq clock uuid s w)))" .
  show "denied_at_most h (store_db s) rq st (store_db (fst (consumeAndDispatch h rq dispatch clock uuid s w)))"
    unfolding consumeAndDispatch_def
    by (subst fst_act_then_pure, simp) (rule exclusively_outcome [where Q = "denied_at_most h (store_db s) rq st", OF s refl], use checked in fastforce)
  have "\<not> grants h (store_db s) rq t" for t using grants_revision [OF _ acc] rq(3) by blast
  then have "consumeBoundaryAuthorization h rq (clocks 0) uuid s w \<noteq> (s2, w2, Inr rc)" for s2 w2 rc
    using consume_Inr [OF s, of rq "clocks 0" uuid w s2 w2 rc] by blast
  then have "fst (consumeLocalCommit h rq commit clocks uuid s w) = fst (consumeBoundaryAuthorization h rq (clocks 0) uuid s w)"
    by (auto simp: consumeLocalCommit_def act_then_def split: prod.splits sum.splits)
  then show "denied_at_most h (store_db s) rq st (store_db (fst (consumeLocalCommit h rq commit clocks uuid s w)))"
    using consumed by simp
qed

lemma stale_call:
  assumes ok: "hex_digests (sha256_hex h)" "runtime_ok h y" "callable y c" "call_authorization c = Some rq"
    and past: "audit h (sys_db y) = Inr acc" "rp_state acc = Some st" "rs_revision st \<noteq> rq_requestedRevision rq"
  shows "denied_at_most h (sys_db y) rq st (sys_db (runtime_exec h c y))" "sys_issued (runtime_exec h c y) = sys_issued y"
proof -
  let ?s = "connection (sys_db y)"
  have s: "idle ?s" "has_room (store_db ?s)" "audit h (store_db ?s) = Inr acc" using ok(3) past(1) by (simp_all add: callable_def)
  have rq: "request_ok h (requested rq)" using ok(2-4) by (auto simp: callable_def runtime_ok_def)
  have u: "call_uuid c = Some u \<Longrightarrow> RuntimeUuidSchema u" for u using ok(3) by (simp add: callable_def)
  note stale = stale_store [OF s(1,2) ok(1) s(3) past(2) _ rq past(3)]
  show "sys_issued (runtime_exec h c y) = sys_issued y" using ok(4) by (cases c) (auto split: prod.splits)
  show "denied_at_most h (sys_db y) rq st (sys_db (runtime_exec h c y))"
  proof (cases c)
    case (ConsumeCall q clk i)
    then show ?thesis using stale(1) [OF u, of i clk "()"] ok(4) by simp
  next
    case (DispatchCall q f clk i)
    then show ?thesis using stale(2) [OF u, of i f clk "sys_world y"] ok(4) by (auto split: prod.splits)
  next
    case (CommitCall q f clks i)
    then show ?thesis using stale(3) [OF u, of i f clks "sys_world y"] ok(4) by (auto split: prod.splits)
  next
    case (CompleteCall q f clk)
    then show ?thesis using reads_keep_store(3) [of h q f clk ?s "sys_world y"] denied_refl [OF past(1,2), of rq] ok(4)
      by (auto split: prod.splits)
  qed (use ok(4) in simp_all)
qed

subsection \<open>Local commits\<close>

text \<open>What a commit that returned a receipt went through after its consumption: one checkpoint, at which the authority was fresh.\<close>

definition committed_behind_checkpoint ::
    "host \<Rightarrow> IssuedBoundary \<Rightarrow> (nat \<Rightarrow> ClockReading) \<Rightarrow> ('w, bool) commit_script \<Rightarrow> EventStore \<Rightarrow> 'w \<Rightarrow> 'w \<Rightarrow> bool" where
  "committed_behind_checkpoint h rq clocks script s w w' \<longleftrightarrow>
     isLocalCommitBoundary (rq_boundary rq) \<and> checkpoint_calls h rq clocks script 2 Unused s = 1
   \<and> run_commit h rq clocks script 2 Unused s w = (w', Valid, True)
   \<and> (\<exists>u m. grants h (store_db s) rq u \<and> readMonotonicClock (clocks 2) = Inr m \<and> \<not> outside_lifetime rq m)"

lemma commit_returned:
  assumes s: "idle s" "has_room (store_db s)" "hex_digests (sha256_hex h)"
    and run: "consumeLocalCommit h rq commit clocks uuid s w = (s', w', Inr rc)"
  obtains s2 where "consumeBoundaryAuthorization h rq (clocks 0) uuid s w = (s2, w, Inr rc)"
    "committed_behind_checkpoint h rq clocks (commit rc) (opened s2) w w'"
proof -
  let ?body = "\<lambda>receipt. act_then (act_read (replayRuntimeStore h)) (\<lambda>replay.
        act_then (act_result (ensure (rp_state replay \<noteq> None \<and> isLocalCommitBoundary (rq_boundary rq)) RuntimeIntegrity)) (\<lambda>_.
        act_then (find_event h (boundary_key (rq_authorizationId rq))) (\<lambda>durable.
        act_then (act_result (ensure (map_option ev_eventHash durable = Some (rc_eventHash receipt)) RuntimeIntegrity)) (\<lambda>_.
        act_then (act_result (assertFresh h rq replay (clocks 1))) (\<lambda>_.
        act_then (act_commit h rq clocks (commit receipt)) (\<lambda>_.
          act_result (Inr receipt)))))))"
  obtain s2 w2 rc2 where first: "consumeBoundaryAuthorization h rq (clocks 0) uuid s w = (s2, w2, Inr rc2)"
      and excl: "exclusively h (?body rc2) s2 w2 = (s', w', Inr rc)"
    using run unfolding consumeLocalCommit_def act_then_Inr by blast
  have w2: "w2 = w" by (rule consume_Inr [OF s first])
  obtain s3 where body: "?body rc2 (opened s2) w2 = (s3, w', Inr rc)" by (rule exclusively_Inr [OF excl])
  then have same: "rc2 = rc" and "local": "isLocalCommitBoundary (rq_boundary rq)" by auto
  have commit: "act_commit h rq clocks (commit rc) (opened s2) w = (s3, w', Inr ())"
    using body unfolding same w2 by (auto dest!: find_event_same)
  then have ran: "run_commit h rq clocks (commit rc) 2 Unused (opened s2) w = (w', Valid, True)"
    by (auto simp: act_commit_def split: prod.splits)
  have "assertOpen s2 = Inr ()"
    using excl by (auto simp: exclusively_def withExclusiveTransaction_def Let_def split: sum.splits if_splits)
  then have replay: "replayRuntimeStore h (opened s2) = audit h (store_db s2)"
    by (simp add: replayRuntimeStore_open assertOpen_def)
  have "checkpoint_calls h rq clocks (commit rc) 2 Unused (opened s2) = 1"
      and fresh: "\<exists>replay t. replayRuntimeStore h (opened s2) = Inr replay \<and> assertFresh h rq replay (clocks 2) = Inr t"
    using one_checkpoint [of h rq clocks "commit rc" 2 "opened s2" w] ran by simp_all
  moreover obtain acc t where "audit h (store_db (opened s2)) = Inr acc" "assertFresh h rq acc (clocks 2) = Inr t"
    using fresh replay by auto
  ultimately have "committed_behind_checkpoint h rq clocks (commit rc) (opened s2) w w'"
    using "local" ran assertFresh_grants unfolding committed_behind_checkpoint_def by metis
  then show thesis using that first by (simp add: same w2)
qed

lemma find_extended:
  assumes "extends_by h db ev db'" "ev_idempotencyKey ev = Some k" "find_by_key db k = None"
  obtains r where "find_by_key db' k = Some r" "rowToEvent h r = Inr ev"
proof -
  obtain r where r: "by_sequence db' = by_sequence db @ [r]" "rowToEvent h r = Inr ev" using assms(1) by (auto simp: extends_by_def)
  have rows: "set (db_rows db') = insert r (set (db_rows db))" by (metis by_sequence_def list.simps(15) r(1) rotate1.simps(2) set_rotate1 set_sort)
  have key: "row_idempotency_key r = Some k" using rowToEvent_fields(4) [OF r(2)] assms(2) by simp
  obtain q where q: "find_by_key db' k = Some q" using key rows by (cases "find_by_key db' k") (auto simp: find_by_key_def find_None_iff)
  then have "q \<in> set (db_rows db')" "row_idempotency_key q = Some k" by (auto simp: find_by_key_def find_Some_iff)
  then have "q = r" using rows assms(3) by (auto simp: find_by_key_def find_None_iff)
  then show thesis using that q r(2) by simp
qed

lemma consume_succeeds:
  assumes s: "idle s" "valid_db h (store_db s)" "has_room (store_db s)" "hex_digests (sha256_hex h)"
      "audit h (store_db s) = Inr acc" "request_ok h (requested rq)"
    and id: "RuntimeUuidSchema uuid" "fresh_id h (store_db s) uuid"
    and st: "rp_state acc = Some st" and new: "find_by_key (store_db s) (boundary_key (rq_authorizationId rq)) = None"
    and clock: "readRuntimeClock h clock = Inr clockAt" "readMonotonicClock clock = Inr m" "\<not> outside_lifetime rq m"
    and t: "t = nonRegressingBoundaryTime h clockAt acc (Some (rq_requestedAt rq))"
      "boundaryReason h (requested rq) st t = ALLOWED"
  obtains s2 rc r ev acc' where "consumeBoundaryAuthorization h rq clock uuid s w = (s2, w, Inr rc)" "idle s2"
    "valid_db h (store_db s2)" "audit h (store_db s2) = Inr acc'" "rp_state acc' = Some st" "rp_lastAuditAt acc' = Some t"
    "find_by_key (store_db s2) (boundary_key (rq_authorizationId rq)) = Some r" "rowToEvent h r = Inr ev"
    "ev_eventHash ev = rc_eventHash rc"
proof -
  have ready: "ready h (opened s)" by (rule opened_ready [OF s(1-4)])
  obtain s1 rc where check: "check_body h rq clock uuid (opened s) w = (s1, w, Inr rc)" "rc_allowed rc"
      "s1 = opened s\<lparr>store_db := store_db s1\<rparr>"
    by (rule check_body_succeeds [OF ready _ s(6) id(1) _ st _ clock, of w]) (use s(5) id(2) new t in simp_all)
  have time: "check_time h rq acc clockAt m = t" using clock(3) by (simp add: check_time_def t(1))
  have append: "appendBoundaryCheck h acc (requested rq) t uuid (opened s) w = (s1, w, Inr rc)"
    by (rule check_body_Inr [OF ready check(1)]) (use s(5) clock(1,2) time in auto)
  have iso: "canonical_time h t"
    using check_time_canonical [OF s(2,5) clock_canonical [OF clock(1)] s(6), of m] time by simp
  obtain ev where ev: "rc = boundaryReceipt ev (check_payload h (requested rq) st t)" "extends_by h (store_db s) ev (store_db s1)"
      "runtime_grows h (store_db s) (store_db s1)"
      "event_payload h ev = Some (BoundaryEvent (check_payload h (requested rq) st t))"
      "audit h (store_db s1) = Inr (acc\<lparr>rp_events := rp_events acc @
         [audit_event ev (BoundaryEvent (check_payload h (requested rq) st t))],
         rp_lastAuditAt := Some t, rp_authorizationIds := rq_authorizationId (requested rq) # rp_authorizationIds acc\<rparr>)"
    by (rule appendBoundaryCheck_grows [OF ready _ id(1) s(6) iso append]) (use s(5) st in auto)
  have "replay_event h acc ev = audit h (store_db s1)" using audit_extended [OF ev(2) s(5)] by simp
  then have key: "ev_idempotencyKey ev = Some (boundary_key (rq_authorizationId rq))"
    using ev(4,5) by (auto simp: replay_event_Inr)
  obtain r where r: "find_by_key (store_db s1) (boundary_key (rq_authorizationId rq)) = Some r" "rowToEvent h r = Inr ev"
    by (rule find_extended [OF ev(2) key new])
  note ran = exclusively_succeeds [of s h "check_body h rq clock uuid" w s1 w rc, OF s(1,2) check(1,3)]
  let ?s2 = "s\<lparr>store_failed := False, store_db := store_db s1\<rparr>"
  have consume: "consumeBoundaryAuthorization h rq clock uuid s w = (?s2, w, Inr rc)"
    unfolding consumeBoundaryAuthorization_def act_then_def ran prod.case sum.case
    using check(2) by (simp add: act_result_def allowed_receipt_def)
  show thesis
  proof (rule that [OF consume])
    show "audit h (store_db ?s2) = Inr (acc\<lparr>rp_events := rp_events acc @
         [audit_event ev (BoundaryEvent (check_payload h (requested rq) st t))],
         rp_lastAuditAt := Some t, rp_authorizationIds := rq_authorizationId (requested rq) # rp_authorizationIds acc\<rparr>)"
      using ev(5) by simp
    show "find_by_key (store_db ?s2) (boundary_key (rq_authorizationId rq)) = Some r" using r(1) by simp
  qed (use s(1) ev(1,2) r(2) st in \<open>simp_all add: idle_def extends_by_def boundaryReceipt_def\<close>)
qed

text \<open>A commit the state grants, whose callback calls its checkpoint and then acts, returns with what the callback did.\<close>

lemma commit_succeeds:
  assumes s: "idle s" "valid_db h (store_db s)" "has_room (store_db s)" "hex_digests (sha256_hex h)"
      "audit h (store_db s) = Inr acc" "request_ok h (requested rq)" "isLocalCommitBoundary (rq_boundary rq)"
    and id: "RuntimeUuidSchema uuid" "fresh_id h (store_db s) uuid"
    and st: "rp_state acc = Some st" and new: "find_by_key (store_db s) (boundary_key (rq_authorizationId rq)) = None"
    and clock: "readRuntimeClock h (clocks 0) = Inr clockAt" "readMonotonicClock (clocks 0) = Inr m" "\<not> outside_lifetime rq m"
    and t: "t = nonRegressingBoundaryTime h clockAt acc (Some (rq_requestedAt rq))"
      "boundaryReason h (requested rq) st t = ALLOWED"
    and fresh: "\<And>acc' n. rp_state acc' = Some st \<Longrightarrow> rp_lastAuditAt acc' = Some t \<Longrightarrow> \<exists>u. assertFresh h rq acc' (clocks (Suc n)) = Inr u"
    and script: "\<And>rc. commit rc = CallCheckpoint k" "\<And>u. k (Inr u) = Perform f (Finish True)"
  obtains s' rc where "consumeLocalCommit h rq commit clocks uuid s w = (s', f w, Inr rc)"
proof -
  obtain s2 rc r ev acc' where c: "consumeBoundaryAuthorization h rq (clocks 0) uuid s w = (s2, w, Inr rc)" "idle s2"
    "valid_db h (store_db s2)" "audit h (store_db s2) = Inr acc'" "rp_state acc' = Some st" "rp_lastAuditAt acc' = Some t"
    "find_by_key (store_db s2) (boundary_key (rq_authorizationId rq)) = Some r" "rowToEvent h r = Inr ev"
    "ev_eventHash ev = rc_eventHash rc"
    by (rule consume_succeeds [OF s(1-6) id st new clock t])
  let ?body = "act_then (act_read (replayRuntimeStore h)) (\<lambda>replay.
        act_then (act_result (ensure (rp_state replay \<noteq> None \<and> isLocalCommitBoundary (rq_boundary rq)) RuntimeIntegrity)) (\<lambda>_.
        act_then (find_event h (boundary_key (rq_authorizationId rq))) (\<lambda>durable.
        act_then (act_result (ensure (map_option ev_eventHash durable = Some (rc_eventHash rc)) RuntimeIntegrity)) (\<lambda>_.
        act_then (act_result (assertFresh h rq replay (clocks 1))) (\<lambda>_.
        act_then (act_commit h rq clocks (commit rc)) (\<lambda>_.
          act_result (Inr rc)))))))"
  have open2: "assertOpen (opened s2) = Inr ()" using c(2) by (simp add: idle_def assertOpen_def)
  have replay: "replayRuntimeStore h (opened s2) = Inr acc'" using c(4) replayRuntimeStore_open [OF open2] by simp
  have key: "keyed (BoundaryEvent (check_payload h (requested rq) st t))"
    using s(6) by (simp add: keyed_def request_ok_def)
  have found: "find_event h (boundary_key (rq_authorizationId rq)) (opened s2) w = (opened s2, w, Inr (Some ev))"
    using key_identifier [OF key, of "''idempotencyKey''"] open2 c(7,8)
    by (simp add: find_event_def act_read_def getByIdempotencyKey_def)
  obtain u1 where u1: "assertFresh h rq acc' (clocks 1) = Inr u1" using fresh [OF c(5,6), of 0] by auto
  obtain u2 where u2: "assertFresh h rq acc' (clocks 2) = Inr u2" using fresh [OF c(5,6), of 1] by (auto simp: numeral_2_eq_2)
  have "act_commit h rq clocks (commit rc) (opened s2) w = (opened s2, f w, Inr ())"
    using replay u2 by (simp add: act_commit_def script)
  then have body: "?body (opened s2) w = (opened s2, f w, Inr rc)"
    using replay found u1 c(5,9) s(7) by (simp add: ensure_def)
  have "opened s2 = opened s2\<lparr>store_db := store_db (opened s2)\<rparr>" by simp
  note ran = exclusively_succeeds [of s2 h ?body w "opened s2" "f w" rc, OF c(2,3) body this]
  show thesis
    by (rule that [of "s2\<lparr>store_failed := False, store_db := store_db (opened s2)\<rparr>" rc])
      (simp only: consumeLocalCommit_def act_then_def [of "consumeBoundaryAuthorization h rq (clocks 0) uuid"] c(1) prod.case sum.case ran)
qed

end
