(* ===== verification/SampleRuntime.thy ===== *)
theory SampleRuntime
  imports SampleTraces RuntimeOutcomes
begin

text \<open>
  A run of the runtime authority on the sample host: a process opens a new store, moves to RESEARCH, is granted an
  authorization to collect, and dispatches behind it. A STOP and a local commit are run on the store it leaves.
\<close>

subsection \<open>Digests of events\<close>

lemma hash_text_starts:
  "\<exists>rest. hash_text h f = ''rsi-event-v1'' @ CHR 0x00 # ''{\"aggregateId\":'' @ quote (hf_aggregateId f)
     @ '',\"eventId\":'' @ quote (hf_eventId f) @ rest"
proof -
  define tl_fields where "tl_fields = [(''idempotencyKey'', case hf_idempotencyKey f of None \<Rightarrow> JNull | Some k \<Rightarrow> JStr k),
      (''occurredAt'', JStr (hf_occurredAt f)), (''payloadJson'', JStr (hf_payloadJson f)),
      (''previousHash'', JStr (hf_previousHash f)), (''schemaVersion'', jint SCHEMA_VERSION),
      (''sequence'', jint (hf_sequence f)), (''type'', JStr (hf_type f))]"
  have input: "hash_input f = JObj ((''aggregateId'', JStr (hf_aggregateId f)) # (''eventId'', JStr (hf_eventId f)) # tl_fields)"
    by (simp add: hash_input_def tl_fields_def)
  have sorted: "sort_key field_order ((''aggregateId'', JStr (hf_aggregateId f)) # (''eventId'', JStr (hf_eventId f)) # tl_fields)
      = (''aggregateId'', JStr (hf_aggregateId f)) # (''eventId'', JStr (hf_eventId f)) # tl_fields"
  proof (rule sort_key_of_sorted)
    have "map field_order ((''aggregateId'', JStr (hf_aggregateId f)) # (''eventId'', JStr (hf_eventId f)) # tl_fields)
        = map utf16_order [''aggregateId'', ''eventId'', ''idempotencyKey'', ''occurredAt'', ''payloadJson'', ''previousHash'',
           ''schemaVersion'', ''sequence'', ''type'']" by (simp add: tl_fields_def field_order_def)
    moreover have "sorted (map utf16_order [''aggregateId'', ''eventId'', ''idempotencyKey'', ''occurredAt'', ''payloadJson'',
        ''previousHash'', ''schemaVersion'', ''sequence'', ''type''])" by code_simp
    ultimately show "sorted (map field_order
        ((''aggregateId'', JStr (hf_aggregateId f)) # (''eventId'', JStr (hf_eventId f)) # tl_fields))" by simp
  qed
  obtain s where s: "canonicalJson h (hash_input f) = Inr s" using hash_text_total by blast
  then obtain ps where ps: "serialize_fields h (Suc 0) ((''aggregateId'', JStr (hf_aggregateId f))
        # (''eventId'', JStr (hf_eventId f)) # tl_fields) = Inr ps" "s = CHR ''{'' # commas ps @ ''}''"
    unfolding input canonicalJson_def serialize.simps [of h 0] jsval.case sorted
    by (auto simp: MAX_CANONICAL_DEPTH_def)
  have "serialize h (Suc 0) (JStr t) = Inr (quote t)" for t by (simp add: serialize.simps MAX_CANONICAL_DEPTH_def)
  then obtain qs where "ps = (quote ''aggregateId'' @ CHR '':'' # quote (hf_aggregateId f))
      # (quote ''eventId'' @ CHR '':'' # quote (hf_eventId f)) # qs" "qs \<noteq> []"
    using ps(1) by (auto simp: tl_fields_def)
  then have "s = CHR ''{'' # quote ''aggregateId'' @ CHR '':'' # quote (hf_aggregateId f)
      @ CHR '','' # quote ''eventId'' @ CHR '':'' # quote (hf_eventId f) @ CHR '','' # commas qs @ ''}''"
    using ps(2) by (simp add: commas_Cons)
  moreover have "quote ''aggregateId'' = ''\"aggregateId\"''" "quote ''eventId'' = ''\"eventId\"''" by code_simp+
  ultimately show ?thesis using s by (simp add: hash_text_def)
qed
lemma code_values:
  "code CHR ''0'' = 48" "code CHR ''9'' = 57" "code CHR ''a'' = 97" "code CHR ''f'' = 102"
  "code CHR 0x22 = 34" "code CHR 0x5C = 92" "code CHR 0x08 = 8" "code CHR 0x0C = 12" "code CHR 0x0A = 10"
  "code CHR 0x0D = 13" "code CHR 0x09 = 9"
  by (simp_all add: code_def)

lemma escape_hex:
  assumes "is_lower_hex c"
  shows "escape_char c = [c]"
proof -
  have "48 \<le> code c" "code c \<noteq> 92"
    using assms by (auto simp: is_lower_hex_def is_digit_def in_range_def code_values)
  moreover from this have "c \<noteq> CHR 0x22" "c \<noteq> CHR 0x5C" "c \<noteq> CHR 0x08" "c \<noteq> CHR 0x0C" "c \<noteq> CHR 0x0A"
      "c \<noteq> CHR 0x0D" "c \<noteq> CHR 0x09"
    using code_values by (metis numeral_le_iff semiring_norm)+
  ultimately show ?thesis by (simp add: escape_char_def)
qed

lemma quote_uuid:
  assumes "RuntimeUuidSchema i"
  obtains r where "quote i = CHR 0x22 # take 8 i @ r" "length (take 8 i) = 8" "list_all is_lower_hex (take 8 i)"
proof -
  have hex: "list_all is_lower_hex (take 8 i)" and len: "length i = 36" using assms by (simp_all add: RuntimeUuidSchema_def)
  then have "concat (map escape_char (take 8 i)) = take 8 i"
    by (simp add: list_all_iff escape_hex cong: map_cong)
  moreover have "concat (map escape_char i) = concat (map escape_char (take 8 i)) @ concat (map escape_char (drop 8 i))"
    by (metis append_take_drop_id concat_append map_append)
  ultimately show thesis using that hex len by (simp add: quote_def)
qed

lemma sample_event_hash:
  assumes "RuntimeUuidSchema (hf_eventId f)" "hf_aggregateId f = RUNTIME_AGGREGATE_ID"
  shows "take 8 (computeEventHash sample_host f) = take 8 (hf_eventId f)"
proof -
  obtain rest where shape: "hash_text sample_host f = ''rsi-event-v1'' @ CHR 0x00 # ''{\"aggregateId\":'' @ quote (hf_aggregateId f)
     @ '',\"eventId\":'' @ quote (hf_eventId f) @ rest" using hash_text_starts by blast
  obtain r where i: "quote (hf_eventId f) = CHR 0x22 # take 8 (hf_eventId f) @ r" "length (take 8 (hf_eventId f)) = 8"
      "list_all is_lower_hex (take 8 (hf_eventId f))" by (rule quote_uuid [OF assms(1)])
  have "quote (hf_aggregateId f) = ''\"runtime:authority\"''"
    unfolding assms(2) RUNTIME_AGGREGATE_ID_def by code_simp
  then have "drop 59 (hash_text sample_host f) = take 8 (hf_eventId f) @ r @ rest" using shape i(1) by simp
  then show ?thesis using i(2,3)
    by (simp add: computeEventHash_def sample_host_def sample_event_digest_def padded_hex_def list_all_iff filter_id_conv)
qed

lemma sample_fresh:
  assumes "valid_db sample_host db" "RuntimeUuidSchema u"
    and log: "list_all (\<lambda>(a, i, k). a = RUNTIME_AGGREGATE_ID \<and> RuntimeUuidSchema i \<and> take 8 i \<noteq> take 8 u) (logged db)"
  shows "fresh_id sample_host db u"
proof -
  have row: "row_aggregate_id r = RUNTIME_AGGREGATE_ID \<and> RuntimeUuidSchema (row_event_id r)
      \<and> take 8 (row_event_id r) \<noteq> take 8 u \<and> take 8 (row_event_hash r) = take 8 (row_event_id r)"
    if r: "r \<in> set (db_rows db)" for r
  proof -
    have mem: "r \<in> set (by_sequence db)" using r by (simp add: by_sequence_def)
    then have id: "row_aggregate_id r = RUNTIME_AGGREGATE_ID" "RuntimeUuidSchema (row_event_id r)"
        "take 8 (row_event_id r) \<noteq> take 8 u" using log by (auto simp: logged_def list_all_iff)
    obtain prev n where "row_ok sample_host prev n r"
      using assms(1) chain_member_ok mem by (metis valid_db_def)
    then have "computeEventHash sample_host (row_fields r) = row_event_hash r" by (simp add: row_ok_def)
    then show ?thesis using id sample_event_hash [of "row_fields r"] by (simp add: row_fields_def)
  qed
  then show ?thesis using sample_event_hash assms(2) unfolding fresh_id_def by metis
qed

subsection \<open>Inputs\<close>

definition sample_uuid :: "char \<Rightarrow> string" where
  "sample_uuid c = replicate 8 c @ ''-1111-4111-8111-111111111111''"

lemma sample_uuids [simp]:
  "is_lower_hex c \<Longrightarrow> RuntimeUuidSchema (sample_uuid c)" "take 8 (sample_uuid c) = replicate 8 c"
  "sample_uuid c = sample_uuid d \<longleftrightarrow> c = d"
  by (simp_all add: RuntimeUuidSchema_def sample_uuid_def nth_append)

lemma sample_hex_digits [simp]: "is_lower_hex CHR ''3''" "is_lower_hex CHR ''4''" "is_lower_hex CHR ''5''" "is_lower_hex CHR ''6''"
  by code_simp+

definition sample_process :: string where
  "sample_process = sample_uuid CHR ''1''"

definition sample_open :: jsval where
  "sample_open = JObj [(''openedAt'', JStr (to_iso 1767225600000)), (''path'', JStr ''nft''), (''processInstanceId'', JStr sample_process)]"

definition sample_transition :: jsval where
  "sample_transition = JObj
     [(''expectedMode'', JStr ''STOPPED''), (''expectedRevision'', jint 1), (''occurredAt'', JStr (to_iso 1767225600000)),
      (''requestId'', JStr (sample_uuid CHR ''2'')), (''targetMode'', JStr ''RESEARCH'')]"

definition sample_collection :: jsval where
  "sample_collection = JObj
     [(''actionId'', JStr ''nft''), (''authorizationId'', JStr (sample_uuid CHR ''5'')), (''boundary'', JStr ''research_collection'')]"

definition sample_clock :: "int \<Rightarrow> ClockReading" where
  "sample_clock m = \<lparr>wall_clock = Some (JStr (to_iso 1767225600000)), monotonic_clock = Some (jint m)\<rparr>"

lemma sample_instant [simp]: "canonical_time h (to_iso 1767225600000)"
  by (simp add: canonical_time_def)

lemma sample_open_parses:
  "parseRuntimeInput (OpenRuntimeInputSchema sample_host) sample_open
     = Some \<lparr>in_openedAt = to_iso 1767225600000, in_path = ''nft'', in_processInstanceId = sample_process\<rparr>"
  by (simp add: parseRuntimeInput_def OpenRuntimeInputSchema_def sample_open_def z_object_JObj sample_process_def)

lemma sample_transition_parses:
  "parseRuntimeInput (RuntimeTransitionInputSchema sample_host) sample_transition
     = Some \<lparr>in_expectedMode = STOPPED, in_expectedRevision = 1, in_transitionAt = to_iso 1767225600000,
         in_transitionId = sample_uuid CHR ''2'', in_targetMode = RESEARCH\<rparr>"
  by (simp add: parseRuntimeInput_def RuntimeTransitionInputSchema_def sample_transition_def z_object_JObj
      RuntimeModeSchema_def mode_table_def started_mode_schema_def z_enum_def z_between_def safe_int_def max_safe_integer_def)

lemma sample_collection_parses:
  "parseRuntimeInput RuntimeBoundaryAuthorizationInputSchema sample_collection
     = Some \<lparr>in_actionId = ''nft'', in_authorizationId = sample_uuid CHR ''5'', in_boundary = ResearchCollection\<rparr>"
proof -
  have "RuntimeSafeIdentifierSchema ''nft''" by code_simp
  then show ?thesis
    by (simp add: parseRuntimeInput_def RuntimeBoundaryAuthorizationInputSchema_def sample_collection_def z_object_JObj
        RuntimeBoundarySchema_def boundary_table_def z_enum_def)
qed

lemma sample_clocks:
  "0 \<le> m \<Longrightarrow> readRuntimeClock sample_host (sample_clock m) = Inr (to_iso 1767225600000)"
  "0 \<le> m \<Longrightarrow> readMonotonicClock (sample_clock m) = Inr (of_int m)"
  by (simp_all add: readRuntimeClock_def readMonotonicClock_def sample_clock_def parseRuntimeInput_def)

subsection \<open>The run\<close>

definition sample_at_start :: "nat RuntimeSystem" where
  "sample_at_start = new_system 0"

definition sample_stopped :: "nat RuntimeSystem" where
  "sample_stopped = runtime_exec sample_host (OpenCall sample_open (sample_uuid CHR ''a'')) sample_at_start"

definition sample_research :: "nat RuntimeSystem" where
  "sample_research = runtime_exec sample_host (TransitionCall sample_process sample_transition (sample_uuid CHR ''b'')) sample_stopped"

definition sample_granted :: "nat RuntimeSystem" where
  "sample_granted = runtime_exec sample_host
     (RequestCall sample_process sample_collection (sample_clock 0) (sample_uuid CHR ''c'')) sample_research"

definition sample_authorization :: IssuedBoundary where
  "sample_authorization =
     \<lparr>rq_actionId = ''nft'', rq_authorizationId = sample_uuid CHR ''5'', rq_boundary = ResearchCollection,
      rq_expiresAt = to_iso (1767225600000 + AUTHORIZATION_TTL_MS), rq_requestedAt = to_iso 1767225600000,
      rq_requestedMode = RESEARCH, rq_requestedProcessInstanceId = sample_process, rq_requestedRevision = 2,
      is_monotonicIssuedAt = 0, is_monotonicExpiresAt = of_int AUTHORIZATION_TTL_MS\<rparr>"

definition sample_dispatch :: "RuntimeBoundaryReceipt \<Rightarrow> nat \<Rightarrow> nat \<times> bool" where
  "sample_dispatch rc w = (Suc w, True)"

definition sample_dispatched :: "nat RuntimeSystem" where
  "sample_dispatched = runtime_exec sample_host
     (DispatchCall sample_authorization sample_dispatch (sample_clock 1) (sample_uuid CHR ''d'')) sample_granted"

lemma sample_logged: "length (db_rows db) = length (logged db)"
  by (simp add: logged_def by_sequence_def)

lemma sample_room: "logged (sys_db y) = es \<Longrightarrow> length es < 100 \<Longrightarrow> has_room (sys_db y)"
  by (simp add: has_room_def sample_logged max_safe_integer_def)

lemma sample_at_start_empty:
  "valid_db sample_host (sys_db sample_at_start)" "audit sample_host (sys_db sample_at_start) = Inr replay_start"
  "logged (sys_db sample_at_start) = []" "sys_issued sample_at_start = []" "sys_world sample_at_start = 0"
  using new_system_ok [of sample_host "0 :: nat"]
  by (simp_all add: sample_at_start_def runtime_ok_def new_system_def audit_def initializeSchema_def by_sequence_def logged_def)

lemma sample_stopped_state:
  obtains acc st where "valid_db sample_host (sys_db sample_stopped)" "audit sample_host (sys_db sample_stopped) = Inr acc"
    "rp_state acc = Some st" "rs_mode st = STOPPED" "rs_processInstanceId st = sample_process" "rs_revision st = 1"
    "rp_requestIds acc = [sample_process]" "rp_lastAuditAt acc = Some (to_iso 1767225600000)"
    "logged (sys_db sample_stopped) = [(RUNTIME_AGGREGATE_ID, sample_uuid CHR ''a'', Some (stop_key sample_process))]"
    "sys_issued sample_stopped = []" "sys_world sample_stopped = 0"
proof -
  let ?db = "sys_db sample_at_start"
  obtain s where s: "open_store sample_host (Some ?db) = Inr s" "store_db s = ?db"
    using sample_at_start_empty(1)
    by (auto simp: open_store_def assertIntegrity_valid sample_at_start_def new_system_def initializeSchema_def Let_def)
  obtain db ct acc st where o: "open_runtime sample_host (Some ?db) sample_open (sample_uuid CHR ''a'') = (Some db, Inr ct)"
      "audit sample_host db = Inr acc" "rp_requestIds acc = sample_process # rp_requestIds replay_start"
      "rp_lastAuditAt acc = Some (nonRegressingStopTime sample_host (to_iso 1767225600000) replay_start)" "rp_state acc = Some st"
      "rs_mode st = STOPPED" "rs_processInstanceId st = sample_process"
      "rs_revision st = (case rp_state replay_start of None \<Rightarrow> 0 | Some old \<Rightarrow> rs_revision old) + 1"
      "logged db = logged (store_db s) @ [(RUNTIME_AGGREGATE_ID, sample_uuid CHR ''a'', Some (stop_key sample_process))]"
      "valid_db sample_host db"
    by (rule open_succeeds [OF s(1) _ _ _ sample_open_parses, of replay_start "sample_uuid CHR ''a''"])
      (simp_all add: s(2) sample_at_start_empty sample_room replay_start_def sample_fresh logged_find)
  have fields: "sys_db sample_stopped = db" "sys_issued sample_stopped = []" "sys_world sample_stopped = 0"
    using o(1) sample_at_start_empty by (simp_all add: sample_stopped_def)
  show thesis
    by (rule that [of acc st]) (use o s(2) sample_at_start_empty(3) in
      \<open>simp_all add: fields replay_start_def nonRegressingStopTime_def\<close>)
qed

lemma sample_research_state:
  obtains acc st where "valid_db sample_host (sys_db sample_research)" "audit sample_host (sys_db sample_research) = Inr acc"
    "rp_state acc = Some st" "rs_mode st = RESEARCH" "rs_processInstanceId st = sample_process" "rs_revision st = 2"
    "rp_lastAuditAt acc = Some (to_iso 1767225600000)" "rp_requestIds acc = [sample_uuid CHR ''2'', sample_process]"
    "logged (sys_db sample_research) = [(RUNTIME_AGGREGATE_ID, sample_uuid CHR ''a'', Some (stop_key sample_process)),
       (RUNTIME_AGGREGATE_ID, sample_uuid CHR ''b'', Some (transition_key (sample_uuid CHR ''2'')))]"
    "sys_issued sample_research = []" "sys_world sample_research = 0"
proof (rule sample_stopped_state)
  fix acc st
  assume y: "valid_db sample_host (sys_db sample_stopped)" "audit sample_host (sys_db sample_stopped) = Inr acc"
    "rp_state acc = Some st" "rs_mode st = STOPPED" "rs_processInstanceId st = sample_process" "rs_revision st = 1"
    "rp_requestIds acc = [sample_process]" "rp_lastAuditAt acc = Some (to_iso 1767225600000)"
    "logged (sys_db sample_stopped) = [(RUNTIME_AGGREGATE_ID, sample_uuid CHR ''a'', Some (stop_key sample_process))]"
    "sys_issued sample_stopped = []" "sys_world sample_stopped = 0"
  let ?s = "connection (sys_db sample_stopped)"
  have keys: "stop_key i \<noteq> transition_key j" for i j by (simp add: stop_key_def transition_key_def)
  obtain s' sn acc' st' where t: "transition sample_host (rs_processInstanceId st) sample_transition (sample_uuid CHR ''b'') ?s ()
        = (s', (), Inr sn)"
    "audit sample_host (store_db s') = Inr acc'" "rp_state acc' = Some st'"
    "rs_mode st' = RESEARCH" "rs_revision st' = rs_revision st + 1" "rs_processInstanceId st' = rs_processInstanceId st"
    "rp_lastAuditAt acc' = Some (to_iso 1767225600000)" "rp_requestIds acc' = sample_uuid CHR ''2'' # rp_requestIds acc"
    "valid_db sample_host (store_db s')"
    "logged (store_db s') = logged (store_db ?s)
       @ [(RUNTIME_AGGREGATE_ID, sample_uuid CHR ''b'', Some (transition_key (sample_uuid CHR ''2'')))]"
    by (rule transition_succeeds [of ?s sample_host acc, OF _ _ _ _ _ sample_transition_parses, of "sample_uuid CHR ''b''" st "()"])
      (use y in \<open>simp_all add: sample_room sample_fresh logged_find keys follows_audit_def sample_process_def\<close>)
  have fields: "sys_db sample_research = store_db s'" "sys_issued sample_research = []" "sys_world sample_research = 0"
    using t(1) y(5,10,11) by (simp_all add: sample_research_def)
  show thesis
    by (rule that [of acc' st']) (use t y(5-7,9) in \<open>simp_all add: fields\<close>)
qed

lemma sample_expiry: "authorizationMonotonicExpiry 0 = Inr (of_int AUTHORIZATION_TTL_MS)"
proof -
  have "binary64 (of_int AUTHORIZATION_TTL_MS) = Some (of_int AUTHORIZATION_TTL_MS)"
    by (rule binary64_exact) (simp_all add: AUTHORIZATION_TTL_MS_def)
  then show ?thesis by (simp add: authorizationMonotonicExpiry_def)
qed

lemma sample_wall_expiry:
  "authorizationExpiry sample_host (to_iso 1767225600000) = Inr (to_iso (1767225600000 + AUTHORIZATION_TTL_MS))"
  by (simp add: authorizationExpiry_def AUTHORIZATION_TTL_MS_def valid_time_def max_time_def)

lemma sample_granted_fields:
  "sys_db sample_granted = sys_db sample_research" "sys_issued sample_granted = [sample_authorization]"
  "sys_world sample_granted = 0"
proof -
  obtain acc st where y: "valid_db sample_host (sys_db sample_research)" "audit sample_host (sys_db sample_research) = Inr acc"
    "rp_state acc = Some st" "rs_mode st = RESEARCH" "rs_processInstanceId st = sample_process" "rs_revision st = 2"
    "rp_lastAuditAt acc = Some (to_iso 1767225600000)" "rp_requestIds acc = [sample_uuid CHR ''2'', sample_process]"
    "logged (sys_db sample_research) = [(RUNTIME_AGGREGATE_ID, sample_uuid CHR ''a'', Some (stop_key sample_process)),
       (RUNTIME_AGGREGATE_ID, sample_uuid CHR ''b'', Some (transition_key (sample_uuid CHR ''2'')))]"
    "sys_issued sample_research = []" "sys_world sample_research = 0"
    by (rule sample_research_state)
  let ?s = "connection (sys_db sample_research)"
  have keys: "stop_key i \<noteq> boundary_key j" "transition_key i \<noteq> boundary_key j" for i j
    by (simp_all add: stop_key_def transition_key_def boundary_key_def)
  have time: "nonRegressingBoundaryTime sample_host (to_iso 1767225600000) acc None = to_iso 1767225600000"
    by (simp add: nonRegressingBoundaryTime_def nonRegressingStopTime_def y(7))
  have "requestBoundaryAuthorization sample_host (rs_processInstanceId st) sample_collection (sample_clock 0) (sample_uuid CHR ''c'') ?s ()
    = (?s\<lparr>store_failed := False\<rparr>, (), Inr (issue \<lparr>in_actionId = ''nft'', in_authorizationId = sample_uuid CHR ''5'',
         in_boundary = ResearchCollection\<rparr> (rs_processInstanceId st) st
         (nonRegressingBoundaryTime sample_host (to_iso 1767225600000) acc None)
         (to_iso (1767225600000 + AUTHORIZATION_TTL_MS)) 0 (of_int AUTHORIZATION_TTL_MS)))"
    by (rule request_succeeds [OF _ _ _ _ _ sample_collection_parses])
      (use y sample_clocks [of 0] sample_expiry sample_wall_expiry in
        \<open>simp_all add: sample_room logged_find keys time modeAllowsBoundary_def isLocalCommitBoundary_def\<close>)
  then show "sys_db sample_granted = sys_db sample_research" "sys_issued sample_granted = [sample_authorization]"
    "sys_world sample_granted = 0"
    using y(4-6,10,11) unfolding time by (simp_all add: sample_granted_def issue_def sample_authorization_def)
qed

lemma sample_authorization_fields [simp]:
  "rq_authorizationId sample_authorization = sample_uuid CHR ''5''" "rq_boundary sample_authorization = ResearchCollection"
  "rq_expiresAt sample_authorization = to_iso (1767225600000 + AUTHORIZATION_TTL_MS)"
  "rq_requestedAt sample_authorization = to_iso 1767225600000" "rq_requestedMode sample_authorization = RESEARCH"
  "rq_requestedProcessInstanceId sample_authorization = sample_process" "rq_requestedRevision sample_authorization = 2"
  "outside_lifetime sample_authorization m \<longleftrightarrow> m < 0 \<or> of_int AUTHORIZATION_TTL_MS \<le> m"
  by (auto simp: sample_authorization_def outside_lifetime_def)

lemma sample_request_ok: "request_ok sample_host (requested sample_authorization)"
proof -
  have "RuntimeSafeIdentifierSchema ''nft''" by code_simp
  then show ?thesis
    by (simp add: request_ok_def RequestedBoundary.truncate_def sample_authorization_def sample_process_def sample_wall_expiry
        max_safe_integer_def)
qed

lemma sample_granted_state:
  obtains acc st where "valid_db sample_host (sys_db sample_granted)" "audit sample_host (sys_db sample_granted) = Inr acc"
    "rp_state acc = Some st" "rs_mode st = RESEARCH" "rs_processInstanceId st = sample_process" "rs_revision st = 2"
    "rp_lastAuditAt acc = Some (to_iso 1767225600000)" "has_room (sys_db sample_granted)"
    "rp_requestIds acc = [sample_uuid CHR ''2'', sample_process]"
    "list_all (\<lambda>(a, i, k). a = RUNTIME_AGGREGATE_ID \<and> i \<in> {sample_uuid CHR ''a'', sample_uuid CHR ''b''}) (logged (sys_db sample_granted))"
    "find_by_key (sys_db sample_granted) (boundary_key i) = None"
    "c \<noteq> CHR ''1'' \<Longrightarrow> find_by_key (sys_db sample_granted) (stop_key (sample_uuid c)) = None"
    "length (logged (sys_db sample_granted)) = 2"
proof (rule sample_research_state)
  fix acc st
  assume y: "valid_db sample_host (sys_db sample_research)" "audit sample_host (sys_db sample_research) = Inr acc"
    "rp_state acc = Some st" "rs_mode st = RESEARCH" "rs_processInstanceId st = sample_process" "rs_revision st = 2"
    "rp_lastAuditAt acc = Some (to_iso 1767225600000)" "rp_requestIds acc = [sample_uuid CHR ''2'', sample_process]"
    "logged (sys_db sample_research) = [(RUNTIME_AGGREGATE_ID, sample_uuid CHR ''a'', Some (stop_key sample_process)),
       (RUNTIME_AGGREGATE_ID, sample_uuid CHR ''b'', Some (transition_key (sample_uuid CHR ''2'')))]"
  have keys: "stop_key i \<noteq> boundary_key j" "transition_key i \<noteq> boundary_key j" "transition_key i \<noteq> stop_key j"
      "stop_key i = stop_key j \<longleftrightarrow> i = j" for i j
    by (simp_all add: stop_key_def transition_key_def boundary_key_def)
  show thesis
    by (rule that [of acc st])
      (use y in \<open>simp_all add: sample_granted_fields sample_room logged_find keys sample_process_def\<close>)
qed

lemma sample_dispatch_conditions:
  obtains acc st where "audit sample_host (sys_db sample_granted) = Inr acc" "rp_state acc = Some st"
    "valid_db sample_host (sys_db sample_granted)" "has_room (sys_db sample_granted)"
    "fresh_id sample_host (sys_db sample_granted) (sample_uuid CHR ''d'')"
    "find_by_key (sys_db sample_granted) (boundary_key (sample_uuid CHR ''5'')) = None"
    "boundaryReason sample_host (requested sample_authorization) st
       (nonRegressingBoundaryTime sample_host (to_iso 1767225600000) acc (Some (rq_requestedAt sample_authorization))) = ALLOWED"
proof -
  obtain acc st where y: "valid_db sample_host (sys_db sample_granted)" "audit sample_host (sys_db sample_granted) = Inr acc"
    "rp_state acc = Some st" "rs_mode st = RESEARCH" "rs_processInstanceId st = sample_process" "rs_revision st = 2"
    "rp_lastAuditAt acc = Some (to_iso 1767225600000)" "has_room (sys_db sample_granted)"
    "rp_requestIds acc = [sample_uuid CHR ''2'', sample_process]"
    "list_all (\<lambda>(a, i, k). a = RUNTIME_AGGREGATE_ID \<and> i \<in> {sample_uuid CHR ''a'', sample_uuid CHR ''b''}) (logged (sys_db sample_granted))"
    "find_by_key (sys_db sample_granted) (boundary_key (sample_uuid CHR ''5'')) = None"
    by (rule sample_granted_state)
  have fresh: "fresh_id sample_host (sys_db sample_granted) (sample_uuid CHR ''d'')"
    by (rule sample_fresh [OF y(1)]) (use y(10) in \<open>auto simp: list_all_iff\<close>)
  have time: "nonRegressingBoundaryTime sample_host (to_iso 1767225600000) acc (Some (to_iso 1767225600000)) = to_iso 1767225600000"
    by (simp add: nonRegressingBoundaryTime_def nonRegressingStopTime_def y(7) Let_def)
  have allowed: "boundaryReason sample_host (requested sample_authorization) st (to_iso 1767225600000) = ALLOWED"
    using y(4-6) by (simp add: boundaryReason_ALLOWED modeAllowsBoundary_def
        isLocalCommitBoundary_def isPermanentlyDeniedBoundary_def PERMANENTLY_DENIED_RUNTIME_BOUNDARIES_def date_at_least_def AUTHORIZATION_TTL_MS_def valid_time_def max_time_def)
  show thesis by (rule that [OF y(2,3,1,8) fresh]) (use y allowed time in simp_all)
qed

lemma sample_dispatched_world: "sys_world sample_dispatched = 1"
proof (rule sample_dispatch_conditions)
  fix acc st
  assume y: "audit sample_host (sys_db sample_granted) = Inr acc" "rp_state acc = Some st"
    "valid_db sample_host (sys_db sample_granted)" "has_room (sys_db sample_granted)"
    "fresh_id sample_host (sys_db sample_granted) (sample_uuid CHR ''d'')"
    "find_by_key (sys_db sample_granted) (boundary_key (sample_uuid CHR ''5'')) = None"
    "boundaryReason sample_host (requested sample_authorization) st
       (nonRegressingBoundaryTime sample_host (to_iso 1767225600000) acc (Some (rq_requestedAt sample_authorization))) = ALLOWED"
  obtain s' rc where "consumeAndDispatch sample_host sample_authorization sample_dispatch (sample_clock 1) (sample_uuid CHR ''d'')
      (connection (sys_db sample_granted)) 0 = (s', 1, Inr rc)"
    by (rule dispatch_succeeds [of "connection (sys_db sample_granted)" sample_host acc sample_authorization
          "sample_uuid CHR ''d''" st "sample_clock 1" "to_iso 1767225600000" 1 sample_dispatch 0 1])
      (use y sample_clocks [of 1] in \<open>simp_all add: sample_request_ok sample_dispatch_def AUTHORIZATION_TTL_MS_def\<close>)
  then show ?thesis by (simp add: sample_dispatched_def sample_granted_fields)
qed

text \<open>Another process opens the store after the grant: the authorization is of an earlier revision.\<close>

definition sample_reopen :: jsval where
  "sample_reopen = JObj [(''openedAt'', JStr (to_iso 1767225600000)), (''path'', JStr ''nft''),
     (''processInstanceId'', JStr (sample_uuid CHR ''3''))]"

definition sample_superseded :: "nat RuntimeSystem" where
  "sample_superseded = runtime_exec sample_host (OpenCall sample_reopen (sample_uuid CHR ''e'')) sample_granted"

lemma sample_reopen_parses:
  "parseRuntimeInput (OpenRuntimeInputSchema sample_host) sample_reopen
     = Some \<lparr>in_openedAt = to_iso 1767225600000, in_path = ''nft'', in_processInstanceId = sample_uuid CHR ''3''\<rparr>"
  by (simp add: parseRuntimeInput_def OpenRuntimeInputSchema_def sample_reopen_def z_object_JObj)

lemma sample_calls_run:
  "callable sample_at_start (OpenCall sample_open (sample_uuid CHR ''a''))"
  "callable sample_stopped (TransitionCall sample_process sample_transition (sample_uuid CHR ''b''))"
  "callable sample_research (RequestCall sample_process sample_collection (sample_clock 0) (sample_uuid CHR ''c''))"
  "callable sample_granted (DispatchCall sample_authorization sample_dispatch (sample_clock 1) (sample_uuid CHR ''d''))"
  "callable sample_granted (OpenCall sample_reopen (sample_uuid CHR ''e''))"
proof -
  have "has_room (sys_db sample_at_start)" using sample_at_start_empty(3) by (rule sample_room) simp
  moreover have "has_room (sys_db sample_stopped)" by (rule sample_stopped_state) (erule sample_room, simp)
  moreover have "has_room (sys_db sample_research)" by (rule sample_research_state) (erule sample_room, simp)
  ultimately show "callable sample_at_start (OpenCall sample_open (sample_uuid CHR ''a''))"
    "callable sample_stopped (TransitionCall sample_process sample_transition (sample_uuid CHR ''b''))"
    "callable sample_research (RequestCall sample_process sample_collection (sample_clock 0) (sample_uuid CHR ''c''))"
    "callable sample_granted (DispatchCall sample_authorization sample_dispatch (sample_clock 1) (sample_uuid CHR ''d''))"
    "callable sample_granted (OpenCall sample_reopen (sample_uuid CHR ''e''))"
    by (simp_all add: callable_def sample_granted_fields sample_process_def)
qed

lemma sample_run_granted: "runtime_run sample_host sample_at_start sample_granted"
  unfolding sample_granted_def sample_research_def sample_stopped_def
  using sample_calls_run [unfolded sample_research_def sample_stopped_def]
  by (intro runtime_run.call runtime_run.start) simp_all

lemma sample_runs:
  "runtime_run sample_host sample_at_start sample_dispatched" "runtime_run sample_host sample_at_start sample_superseded"
  unfolding sample_dispatched_def sample_superseded_def
  by (rule runtime_run.call [OF sample_run_granted sample_calls_run(4)], rule runtime_run.call [OF sample_run_granted sample_calls_run(5)])

lemma sample_start_ok: "runtime_ok sample_host sample_at_start"
  unfolding sample_at_start_def by (rule new_system_ok)

lemma sample_superseded_state:
  obtains acc st where "audit sample_host (sys_db sample_superseded) = Inr acc" "rp_state acc = Some st"
    "rs_mode st = STOPPED" "rs_revision st = 3" "sample_authorization \<in> set (sys_issued sample_superseded)"
    "has_room (sys_db sample_superseded)" "sys_world sample_superseded = 0"
proof -
  obtain acc st where y: "valid_db sample_host (sys_db sample_granted)" "audit sample_host (sys_db sample_granted) = Inr acc"
    "rp_state acc = Some st" "rs_revision st = 2" "rp_lastAuditAt acc = Some (to_iso 1767225600000)"
    "has_room (sys_db sample_granted)" "rp_requestIds acc = [sample_uuid CHR ''2'', sample_process]"
    "list_all (\<lambda>(a, i, k). a = RUNTIME_AGGREGATE_ID \<and> i \<in> {sample_uuid CHR ''a'', sample_uuid CHR ''b''}) (logged (sys_db sample_granted))"
    "find_by_key (sys_db sample_granted) (stop_key (sample_uuid CHR ''3'')) = None"
    "length (logged (sys_db sample_granted)) = 2"
    by (rule sample_granted_state [of _ "CHR ''3''"]) simp
  have fresh: "fresh_id sample_host (sys_db sample_granted) (sample_uuid CHR ''e'')"
    by (rule sample_fresh [OF y(1)]) (use y(8) in \<open>auto simp: list_all_iff\<close>)
  have "initializeSchema (Some (sys_db sample_granted)) = sys_db sample_granted"
    using y(1) by (auto simp: valid_db_def initializeSchema_def)
  then obtain s where s: "open_store sample_host (Some (sys_db sample_granted)) = Inr s" "store_db s = sys_db sample_granted"
    using y(1) by (auto simp: open_store_def assertIntegrity_valid Let_def)
  obtain db ct acc' st' where o: "open_runtime sample_host (Some (sys_db sample_granted)) sample_reopen (sample_uuid CHR ''e'')
        = (Some db, Inr ct)" "audit sample_host db = Inr acc'" "rp_state acc' = Some st'" "rs_mode st' = STOPPED"
      "rs_revision st' = (case rp_state acc of None \<Rightarrow> 0 | Some old \<Rightarrow> rs_revision old) + 1"
      "logged db = logged (store_db s) @ [(RUNTIME_AGGREGATE_ID, sample_uuid CHR ''e'', Some (stop_key (sample_uuid CHR ''3'')))]"
    by (rule open_succeeds [OF s(1) _ _ _ sample_reopen_parses, of acc "sample_uuid CHR ''e''"])
      (use s(2) y fresh in \<open>simp_all add: sample_process_def\<close>)
  have fields: "sys_db sample_superseded = db" "sys_issued sample_superseded = [sample_authorization]" "sys_world sample_superseded = 0"
    using o(1) by (simp_all add: sample_superseded_def sample_granted_fields)
  have "has_room db" using o(6) y(10) s(2) by (simp add: has_room_def sample_logged max_safe_integer_def)
  then show thesis
    by (intro that [of acc' st']) (use o y(3,4) in \<open>simp_all add: fields\<close>)
qed

text \<open>A STOP and a commit callback.\<close>

definition sample_stop :: jsval where
  "sample_stop = JObj [(''occurredAt'', JStr (to_iso 1767225600000)), (''requestId'', JStr (sample_uuid CHR ''3''))]"

lemma sample_stop_parses:
  "parseRuntimeInput (RuntimeStopInputSchema sample_host) sample_stop
     = Some \<lparr>in_stopAt = to_iso 1767225600000, in_stopId = sample_uuid CHR ''3''\<rparr>"
  by (simp add: parseRuntimeInput_def RuntimeStopInputSchema_def sample_stop_def z_object_JObj)

lemma sample_stop_conditions:
  obtains acc st where "audit sample_host (sys_db sample_granted) = Inr acc" "rp_state acc = Some st" "rs_revision st = 2"
    "valid_db sample_host (sys_db sample_granted)" "has_room (sys_db sample_granted)"
    "fresh_id sample_host (sys_db sample_granted) (sample_uuid CHR ''e'')"
    "find_by_key (sys_db sample_granted) (stop_key (sample_uuid CHR ''3'')) = None"
    "sample_uuid CHR ''3'' \<notin> set (rp_requestIds acc)"
proof (rule sample_granted_state [of _ "CHR ''3''"])
  fix acc st
  assume y: "valid_db sample_host (sys_db sample_granted)" "audit sample_host (sys_db sample_granted) = Inr acc"
    "rp_state acc = Some st" "rs_revision st = 2" "has_room (sys_db sample_granted)"
    "rp_requestIds acc = [sample_uuid CHR ''2'', sample_process]"
    "list_all (\<lambda>(a, i, k). a = RUNTIME_AGGREGATE_ID \<and> i \<in> {sample_uuid CHR ''a'', sample_uuid CHR ''b''}) (logged (sys_db sample_granted))"
    "CHR ''3'' \<noteq> CHR ''1'' \<Longrightarrow> find_by_key (sys_db sample_granted) (stop_key (sample_uuid CHR ''3'')) = None"
  have "fresh_id sample_host (sys_db sample_granted) (sample_uuid CHR ''e'')"
    by (rule sample_fresh [OF y(1)]) (use y(7) in \<open>auto simp: list_all_iff\<close>)
  then show thesis by (rule that [OF y(2-4,1,5)]) (use y(6,8) in \<open>simp_all add: sample_process_def\<close>)
qed

text \<open>A commit that imports a watchlist: it calls its checkpoint, acts on the world and returns.\<close>

definition sample_commit_authorization :: IssuedBoundary where
  "sample_commit_authorization = sample_authorization\<lparr>rq_boundary := WatchlistImport\<rparr>"

definition sample_checked_commit :: "(RuntimeError, string) result \<Rightarrow> (nat, bool) commit_script" where
  "sample_checked_commit r = (case r of Inl _ \<Rightarrow> Finish False | Inr _ \<Rightarrow> Perform Suc (Finish True))"

definition sample_commit :: "RuntimeBoundaryReceipt \<Rightarrow> (nat, bool) commit_script" where
  "sample_commit rc = CallCheckpoint sample_checked_commit"

lemma sample_commit_authorization_fields [simp]:
  "rq_authorizationId sample_commit_authorization = sample_uuid CHR ''5''" "rq_boundary sample_commit_authorization = WatchlistImport"
  "rq_expiresAt sample_commit_authorization = to_iso (1767225600000 + AUTHORIZATION_TTL_MS)"
  "rq_requestedAt sample_commit_authorization = to_iso 1767225600000" "rq_requestedMode sample_commit_authorization = RESEARCH"
  "rq_requestedProcessInstanceId sample_commit_authorization = sample_process" "rq_requestedRevision sample_commit_authorization = 2"
  "outside_lifetime sample_commit_authorization m \<longleftrightarrow> m < 0 \<or> of_int AUTHORIZATION_TTL_MS \<le> m"
  by (auto simp: sample_commit_authorization_def sample_authorization_def outside_lifetime_def)

lemma sample_commit_returns:
  obtains s' rc where "consumeLocalCommit sample_host sample_commit_authorization sample_commit (\<lambda>_. sample_clock 1)
     (sample_uuid CHR ''d'') (connection (sys_db sample_granted)) 0 = (s', 1, Inr rc)"
proof -
  obtain acc st where y: "valid_db sample_host (sys_db sample_granted)" "audit sample_host (sys_db sample_granted) = Inr acc"
    "rp_state acc = Some st" "rs_mode st = RESEARCH" "rs_processInstanceId st = sample_process" "rs_revision st = 2"
    "rp_lastAuditAt acc = Some (to_iso 1767225600000)" "has_room (sys_db sample_granted)"
    "list_all (\<lambda>(a, i, k). a = RUNTIME_AGGREGATE_ID \<and> i \<in> {sample_uuid CHR ''a'', sample_uuid CHR ''b''}) (logged (sys_db sample_granted))"
    "find_by_key (sys_db sample_granted) (boundary_key (sample_uuid CHR ''5'')) = None"
    by (rule sample_granted_state)
  have uuid: "fresh_id sample_host (sys_db sample_granted) (sample_uuid CHR ''d'')"
    by (rule sample_fresh [OF y(1)]) (use y(9) in \<open>auto simp: list_all_iff\<close>)
  have time: "nonRegressingBoundaryTime sample_host (to_iso 1767225600000) a (Some (to_iso 1767225600000)) = to_iso 1767225600000"
    if "rp_lastAuditAt a = Some (to_iso 1767225600000)" for a
    by (simp add: nonRegressingBoundaryTime_def nonRegressingStopTime_def that Let_def)
  have allowed: "boundaryReason sample_host (requested sample_commit_authorization) st (to_iso 1767225600000) = ALLOWED"
    using y(4-6) by (simp add: boundaryReason_ALLOWED modeAllowsBoundary_def isLocalCommitBoundary_def
        isPermanentlyDeniedBoundary_def PERMANENTLY_DENIED_RUNTIME_BOUNDARIES_def date_at_least_def AUTHORIZATION_TTL_MS_def
        valid_time_def max_time_def)
  have ok: "request_ok sample_host (requested sample_commit_authorization)"
    using sample_request_ok by (simp add: request_ok_def sample_commit_authorization_def RequestedBoundary.truncate_def)
  have fresh: "\<exists>u. assertFresh sample_host sample_commit_authorization a (sample_clock 1) = Inr u"
    if "rp_state a = Some st" "rp_lastAuditAt a = Some (to_iso 1767225600000)" for a
    using that time [OF that(2)] allowed sample_clocks [of 1]
    by (simp add: assertFresh_def current_state_def ensure_def AUTHORIZATION_TTL_MS_def Let_def)
  obtain s' rc where "consumeLocalCommit sample_host sample_commit_authorization sample_commit (\<lambda>_. sample_clock 1)
     (sample_uuid CHR ''d'') (connection (sys_db sample_granted)) 0 = (s', Suc 0, Inr rc)"
    by (rule commit_succeeds [of "connection (sys_db sample_granted)" sample_host acc sample_commit_authorization
          "sample_uuid CHR ''d''" st "\<lambda>_. sample_clock 1" "to_iso 1767225600000" 1 "to_iso 1767225600000" sample_commit
          sample_checked_commit Suc 0])
      (use y uuid time [OF y(7)] allowed ok fresh sample_clocks [of 1] in
        \<open>simp_all add: isLocalCommitBoundary_def AUTHORIZATION_TTL_MS_def sample_commit_def sample_checked_commit_def\<close>)
  then show thesis using that by simp
qed

end
