(* ===== verification/SampleStore.thy ===== *)
theory SampleStore
  imports SampleRuntime
begin

text \<open>An event and a new store it is appended to.\<close>

definition sample_store :: EventStore where
  "sample_store = connection (initializeSchema None)"

definition sample_fields :: "(string \<times> jsval) list" where
  "sample_fields =
     [(''type'', JStr ''note''), (''aggregateId'', JStr ''nft''), (''eventId'', JStr ''one''), (''payload'', JNull),
      (''occurredAt'', JStr (to_iso 1767225600000))]"

lemma sample_store_simps [simp]:
  "idle sample_store" "store_db sample_store = initializeSchema None" "db_rows (initializeSchema None) = []"
  "db_metadata (initializeSchema None) = Some \<lparr>md_schema_version = SCHEMA_VERSION, md_head_sequence = 0, md_head_hash = GENESIS_HASH\<rparr>"
  by (simp_all add: sample_store_def initializeSchema_def)

lemma sample_store_ok [simp]: "valid_db h (initializeSchema None)" "has_room (initializeSchema None)"
  using new_system_ok [of h "()"] by (simp_all add: runtime_ok_def new_system_def has_room_def max_safe_integer_def)

lemma sample_store_open [simp]:
  "assertOpen sample_store = Inr ()" "\<not> store_exclusive sample_store" "\<not> store_closed sample_store"
  "assertIntegrity h (initializeSchema None) = Inr ()"
  using assertOpen_idle [of sample_store] sample_store_simps(1) assertIntegrity_valid [of h "initializeSchema None"]
  by (simp_all add: idle_def)

lemma sample_fields_simps [simp]:
  "property_of sample_fields ''type'' = JStr ''note''" "property_of sample_fields ''aggregateId'' = JStr ''nft''"
  "property_of sample_fields ''eventId'' = JStr ''one''" "property_of sample_fields ''payload'' = JNull"
  "property_of sample_fields ''idempotencyKey'' = JUndefined"
  "property_of sample_fields ''occurredAt'' = JStr (to_iso 1767225600000)" "wf_json sample_host (JObj sample_fields)"
  "distinct (map fst sample_fields)" "\<forall>(k, v) \<in> set sample_fields. wf_json sample_host v"
  by (simp_all add: property_of_def sample_fields_def)

lemma sample_prepared:
  "prepareEvent sample_host (JObj sample_fields) now = Inr
     \<lparr>pe_aggregateId = ''nft'', pe_eventId = Some ''one'', pe_idempotencyKey = None, pe_occurredAt = to_iso 1767225600000,
      pe_occurredAtWasSupplied = True, pe_payloadJson = ''null'', pe_type = ''note''\<rparr>"
proof -
  have "validateIdentifier (JStr ''note'') ''type'' = Inr ''note''"
    "validateIdentifier (JStr ''nft'') ''aggregateId'' = Inr ''nft''" "validateIdentifier (JStr ''one'') ''eventId'' = Inr ''one''"
    "canonicalJson sample_host JNull = Inr ''null''"
    by code_simp+
  then show ?thesis
    by (simp add: prepareEvent_def Let_def optional_identifier_def normalize_of_canonical MAX_PAYLOAD_BYTES_def)
qed

lemma sample_append:
  obtains s' ev where "append_event sample_host sample_store (JObj sample_fields) now uuid = (s', Inr ev)"
    "db_rows (store_db s') \<noteq> []" "ev_sequence ev = 1"
proof -
  let ?p = "\<lparr>pe_aggregateId = ''nft'', pe_eventId = Some ''one'', pe_idempotencyKey = None, pe_occurredAt = to_iso 1767225600000,
      pe_occurredAtWasSupplied = True, pe_payloadJson = ''null'', pe_type = ''note''\<rparr>"
  let ?m = "\<lparr>md_schema_version = SCHEMA_VERSION, md_head_sequence = 0, md_head_hash = GENESIS_HASH\<rparr>"
  have "insertable (store_db sample_store) (next_row sample_host ?p ?m uuid)"
    using sample_digests(1) by (simp add: insertable_def next_row_def Let_def computeEventHash_def GENESIS_HASH_def hex_digests_def del: sample_digests)
  moreover have "resolveDuplicate (store_db sample_store) ?p = Inr None"
    by (simp add: resolveDuplicate_def find_by_event_id_def)
  ultimately obtain s' ev where ran: "append_event sample_host sample_store (JObj sample_fields) now uuid = (s', Inr ev)"
      "ev_sequence ev = int (length (db_rows (store_db sample_store))) + 1"
      "db_rows (store_db s') = db_rows (store_db sample_store) @ [next_row sample_host ?p ?m uuid]"
    by - (rule append_event_fresh [OF sample_store_simps(1) _ sample_digests(1) sample_prepared sample_fields_simps(7)]; simp)
  show thesis by (rule that [OF ran(1)]) (simp_all add: ran)
qed

lemma sample_append_all:
  "db_rows (store_db (append_all sample_host sample_store [(JObj sample_fields, 0, ''a''), (JNull, 0, ''b'')])) \<noteq> []"
proof -
  obtain s' ev where "append_event sample_host sample_store (JObj sample_fields) 0 ''a'' = (s', Inr ev)"
      "db_rows (store_db s') \<noteq> []" by (rule sample_append [of 0 "''a''"])
  moreover have "fst (append_event sample_host s' JNull 0 ''b'') = s'"
    by (simp add: append_event_def prepareEvent_def split: sum.splits)
  ultimately show ?thesis by (simp add: append_all_def)
qed

text \<open>The store of the stopped authority holds one row.\<close>

lemma sample_single:
  "valid_db sample_host (sys_db sample_stopped)"
  "rev (db_rows (sys_db sample_stopped)) = db_rows (sys_db sample_stopped)"
  "inj_on f (hashed sample_host (by_sequence (sys_db sample_stopped)))"
proof -
  show "valid_db sample_host (sys_db sample_stopped)" by (rule sample_stopped_state)
  have "length (logged (sys_db sample_stopped)) = 1" by (rule sample_stopped_state) simp
  then obtain r where r: "db_rows (sys_db sample_stopped) = [r]"
    using sample_logged [of "sys_db sample_stopped"] by (auto simp: length_Suc_conv)
  then show "rev (db_rows (sys_db sample_stopped)) = db_rows (sys_db sample_stopped)"
    "inj_on f (hashed sample_host (by_sequence (sys_db sample_stopped)))"
    by (simp_all add: hashed_def by_sequence_def)
qed

end
