(* ===== verification/SessionCoordinator.thy ===== *)
theory SessionCoordinator
  imports SessionSchemas
begin

text \<open>
  \<open>packages/session-lifecycle/src/sqlite-session-coordinator.ts\<close>: the coordinator that takes a supervised session from
  planned to accepted or invalid, over its own SQLite tables. Every row is authenticated by a keyed digest and
  every transition leaves an audit row chained to the one before it; each transaction verifies the whole
  database before and after.

  \<open>session_env\<close> holds what the code takes from outside: HMAC-SHA-256 and HKDF of Node's crypto (over the bytes
  of their inputs), the calendar date in America/Phoenix of the platform's time zone data, what SQLite records of
  the tables the schema creates, and path resolution. The columns with a \<open>CHECK\<close> on an enumeration
  carry its datatype. A table is a list of rows, in the order they were inserted.
\<close>

record SchemaEntry =
  sx_name :: string
  sx_sql :: "string option"
  sx_table :: string
  sx_type :: string

record session_env =
  se_host :: host
  hmac_hex :: "string \<Rightarrow> string \<Rightarrow> string"
  hkdf_sha256 :: "string \<Rightarrow> string \<Rightarrow> string \<Rightarrow> string"
  phoenix_date :: "int \<Rightarrow> string"
  created_schema :: "SchemaEntry list"
  resolve_path :: "string \<Rightarrow> string"

datatype ConflictCode =
    ACTIVE_SESSION_CONFLICT | RETRY_CONFLICT | SESSION_NOT_FOUND | TERMINAL_SESSION | TRANSITION_CONFLICT
  | WRITER_CONFLICT

text \<open>\<open>SqlConstraint\<close> is the error the engine raises for a violated constraint.\<close>

datatype SessionError =
  SessionValidation | SessionConflict ConflictCode | SessionIntegrity | SessionClosed | SqlConstraint

datatype AuditAction =
    ActPlan | ActPreflight | ActStart | ActMinute45 | ActMinute90 | ActStop | ActLocal | ActExternal | ActCost
  | ActAccept | ActInvalidate | ActCrashRecovery

definition action_table :: "(string \<times> AuditAction) list" where
  "action_table =
     [(''plan'', ActPlan), (''preflight'', ActPreflight), (''start'', ActStart), (''ack-minute-45'', ActMinute45),
      (''ack-minute-90'', ActMinute90), (''stop'', ActStop), (''local-verification'', ActLocal),
      (''external-verification'', ActExternal), (''cost-reconciliation'', ActCost), (''accept'', ActAccept),
      (''invalidate'', ActInvalidate), (''crash-recovery'', ActCrashRecovery)]"

lemma action_table_ok [simp]: "enum_table action_table"
  by (rule enum_tableI, case_tac x) (simp_all add: action_table_def enum_text_def)

definition SESSION_SCHEMA_VERSION :: int where
  "SESSION_SCHEMA_VERSION = 1"

definition MAX_SESSION_RECORDS :: nat where
  "MAX_SESSION_RECORDS = 10000"

definition MAX_AUDIT_RECORDS :: nat where
  "MAX_AUDIT_RECORDS = 100000"

definition MAX_SUPERVISED_MILLISECONDS :: int where
  "MAX_SUPERVISED_MILLISECONDS = 120 * 60 * 1000"

definition SUPERVISION_GRACE_MILLISECONDS :: int where
  "SUPERVISION_GRACE_MILLISECONDS = 5 * 60 * 1000"

definition MAX_COST_RECONCILIATION_MILLISECONDS :: int where
  "MAX_COST_RECONCILIATION_MILLISECONDS = 48 * 60 * 60 * 1000"

definition GENESIS_MAC :: string where
  "GENESIS_MAC = replicate 64 CHR ''0''"

record SessionMetadataRow =
  mt_active_count :: int
  mt_audit_head_mac :: string
  mt_key_check_mac :: string
  mt_latest_occurred_at :: "string option"
  mt_metadata_mac :: string
  mt_next_audit_sequence :: int
  mt_profile :: SessionProfile
  mt_rows_mac :: string
  mt_schema_projection_mac :: string
  mt_schema_version :: int
  mt_session_count :: int

record SessionRow =
  sw_active_profile :: "SessionProfile option"
  sw_profile :: SessionProfile
  sw_qualification_date :: string
  sw_record_json :: string
  sw_row_mac :: string
  sw_session_id :: string
  sw_state :: SessionState

record AuditRow =
  aw_action :: AuditAction
  aw_from_state :: "SessionState option"
  aw_input_json :: string
  aw_occurred_at :: string
  aw_previous_mac :: string
  aw_record_json :: string
  aw_row_mac :: string
  aw_sequence :: int
  aw_session_id :: string
  aw_to_state :: SessionState

record SessionDb =
  sd_metadata :: "SessionMetadataRow option"
  sd_sessions :: "SessionRow list"
  sd_audit :: "AuditRow list"
  sd_schema :: "SchemaEntry list"

subsection \<open>Times, texts and keyed digests\<close>

text \<open>\<open>Date.parse\<close> of a time that passed its schema; the value for another text is never used.\<close>

definition milliseconds :: "session_env \<Rightarrow> string \<Rightarrow> int" where
  "milliseconds v s = (case date_parse (se_host v) s of Some t \<Rightarrow> t | None \<Rightarrow> 0)"

definition isTerminal :: "SessionState \<Rightarrow> bool" where
  "isTerminal s \<longleftrightarrow> s = Accepted \<or> s = Invalid"

definition activeProfile :: "SessionRecord \<Rightarrow> SessionProfile option" where
  "activeProfile r = (if isTerminal (sr_state r) then None else Some (sr_profile r))"

definition qualificationDateInPhoenix :: "session_env \<Rightarrow> string \<Rightarrow> string" where
  "qualificationDateInPhoenix v s = phoenix_date v (milliseconds v s)"

definition secureEqual :: "string \<Rightarrow> string \<Rightarrow> bool" where
  "secureEqual l r \<longleftrightarrow> EvidenceHashSchema l \<and> EvidenceHashSchema r \<and> l = r"

definition deriveMacKey :: "session_env \<Rightarrow> string \<Rightarrow> SessionProfile \<Rightarrow> string" where
  "deriveMacKey v stateKey p =
     hkdf_sha256 v stateKey (''rsi.session-lifecycle.hkdf-sha256.salt.v1'' @ [CHR 0x00])
       (''rsi.session-lifecycle.mac.v1'' @ CHR 0x00 # enum_text profile_table p)"

text \<open>
  What is authenticated is always an object of texts, integers and nulls, which has a text (\<open>rows_plain\<close>).
\<close>

definition keyed_mac :: "session_env \<Rightarrow> string \<Rightarrow> string \<Rightarrow> jsval \<Rightarrow> string" where
  "keyed_mac v key domain x =
     hmac_hex v key (''rsi.session-lifecycle.'' @ domain @ ''.v1'' @ CHR 0x00 #
       (case locale_text (se_host v) x of Some t \<Rightarrow> t | None \<Rightarrow> []))"

subsection \<open>Evidence\<close>

definition all_checks :: "PreflightChecks \<Rightarrow> PreflightCheckStatus list" where
  "all_checks c =
     [ck_alertPath c, ck_backupTarget c, ck_budgetReservations c, ck_clock c, ck_credentialScopes c,
      ck_databaseIntegrity c, ck_disk c, ck_externalAnchor c, ck_financialAdaptersDisabled c,
      ck_networkAllowlist c, ck_releaseConfiguration c, ck_runtime c]"

definition allPreflightChecksPass :: "SessionPreflightEvidence \<Rightarrow> bool" where
  "allPreflightChecksPass e \<longleftrightarrow> pe_ready e \<and> list_all (\<lambda>s. s = CheckPassed) (all_checks (pe_checks e))"

definition all_lanes :: "XLanes \<Rightarrow> ClosureStatus list" where
  "all_lanes x = [lane_contract x, lane_discovery x, lane_marketplace x, lane_official x, lane_security x]"

fun artifact_verified :: "RecoveryArtifact \<Rightarrow> string option" where
  "artifact_verified (ArtifactVerified x) = Some x"
| "artifact_verified _ = None"

definition localFailureReason :: "SessionLocalEvidence \<Rightarrow> SessionInvalidationReason option" where
  "localFailureReason e =
     (if le_incidentCount e \<noteq> 0 then Some IncidentDetected
      else if pg_captureKeys (le_purge e) \<noteq> KeysDestroyed \<or> pg_encryptedIndexes (le_purge e) \<noteq> Clean
        \<or> pg_orphanScan (le_purge e) \<noteq> Clean \<or> pg_rawCaptures (le_purge e) \<noteq> Clean
      then Some PurgeFailed
      else if list_ex (\<lambda>s. s \<noteq> SourceClosed) (all_lanes (le_xLanes e)) \<or> sea_rest (le_openSea e) \<noteq> SourceClosed
        \<or> sea_stream (le_openSea e) \<noteq> SourceClosed \<or> le_canonicalChain e \<noteq> SourceClosed
      then Some SourceIncomplete
      else if le_eventIntegrity e \<noteq> Verified \<or> le_digestIntegrity e \<noteq> Verified \<or> le_localCheckpoint e \<noteq> Verified
        \<or> artifact_verified (ra_stateEvidence (le_recoveryArtifacts e)) = None
        \<or> artifact_verified (ra_eventArchive (le_recoveryArtifacts e)) = None
        \<or> artifact_verified (ra_releaseBundle (le_recoveryArtifacts e)) = None
        \<or> le_alertCheck e \<noteq> AlertHealthy \<or> le_explicitClose e \<noteq> CloseComplete
      then Some LocalVerificationFailed
      else None)"

definition externalEvidencePasses :: "SessionExternalEvidence \<Rightarrow> bool" where
  "externalEvidencePasses e \<longleftrightarrow>
     xe_externalAnchor e = Verified \<and> xe_retainedSuffix e = Verified \<and> xe_independentVerification e = Verified"

definition costFailureReason :: "SessionCostEvidence \<Rightarrow> SessionInvalidationReason option" where
  "costFailureReason e =
     (if read_nat (ce_reservedAtomic e) < read_nat (ce_reconciledAtomic e) then Some CostOverReservation
      else if ce_billingStatus e \<noteq> BillingComplete \<or> ce_outstandingAtomic e \<noteq> ''0'' then Some CostReconciliationFailed
      else None)"

text \<open>\<open>None\<close> is the thrown integrity error.\<close>

definition acceptanceEvidence :: "session_env \<Rightarrow> SessionRecord \<Rightarrow> SessionAcceptanceEvidence option" where
  "acceptanceEvidence v r = do {
     p \<leftarrow> sr_preflightEvidence r;
     l \<leftarrow> sr_localEvidence r;
     x \<leftarrow> sr_externalEvidence r;
     c \<leftarrow> sr_costEvidence r;
     _ \<leftarrow> sr_minute45AcknowledgedAt r;
     _ \<leftarrow> sr_minute90AcknowledgedAt r;
     _ \<leftarrow> sr_startAcknowledgements r;
     started \<leftarrow> sr_startedAt r;
     stopped \<leftarrow> sr_stoppedAt r;
     if \<not> allPreflightChecksPass p \<or> localFailureReason l \<noteq> None \<or> \<not> externalEvidencePasses x
       \<or> costFailureReason c \<noteq> None
       \<or> MAX_SUPERVISED_MILLISECONDS < milliseconds v stopped - milliseconds v started
     then None
     else do {
       s \<leftarrow> artifact_verified (ra_stateEvidence (le_recoveryArtifacts l));
       e \<leftarrow> artifact_verified (ra_eventArchive (le_recoveryArtifacts l));
       b \<leftarrow> artifact_verified (ra_releaseBundle (le_recoveryArtifacts l));
       Some \<lparr>ae_stateEvidence = s, ae_eventArchive = e, ae_releaseBundle = b,
             ae_reconciledAtomic = ce_reconciledAtomic c, ae_reservedAtomic = ce_reservedAtomic c,
             ae_costHash = ce_evidenceHash c, ae_externalHash = xe_evidenceHash x, ae_localHash = le_evidenceHash l,
             ae_preflightHash = pe_evidenceHash p\<rparr> } }"

definition invalidRecord :: "SessionRecord \<Rightarrow> string \<Rightarrow> SessionInvalidationReason \<Rightarrow> SessionRecord" where
  "invalidRecord r invalidatedAt reason =
     r\<lparr>sr_acceptanceEvidence := None, sr_acceptedAt := None, sr_egressStatus := EgressBlocked,
       sr_invalidatedAt := Some invalidatedAt, sr_invalidationReason := Some reason, sr_state := Invalid,
       sr_updatedAt := invalidatedAt\<rparr>"

subsection \<open>What a record must satisfy\<close>

text \<open>The first guard: the planned window, the egress flag, and every time recorded with its evidence.\<close>

definition fields_paired :: "session_env \<Rightarrow> SessionRecord \<Rightarrow> bool" where
  "fields_paired v r \<longleftrightarrow>
     milliseconds v (sr_plannedAt r) \<le> milliseconds v (sr_supervisedUntil r)
   \<and> sr_qualificationDate r = qualificationDateInPhoenix v (sr_plannedAt r)
   \<and> sr_egressStatus r = (if sr_state r = Running then EgressEligible else EgressBlocked)
   \<and> (sr_preflightedAt r = None) = (sr_preflightEvidence r = None)
   \<and> (sr_startedAt r = None) = (sr_startAcknowledgements r = None)
   \<and> (sr_locallyVerifiedAt r = None) = (sr_localEvidence r = None)
   \<and> (sr_externallyVerifiedAt r = None) = (sr_externalEvidence r = None)
   \<and> (sr_costReconciledAt r = None) = (sr_costEvidence r = None)
   \<and> (sr_acceptedAt r = None) = (sr_acceptanceEvidence r = None)
   \<and> (sr_invalidatedAt r = None) = (sr_invalidationReason r = None)"

definition recorded_times :: "SessionRecord \<Rightarrow> string list" where
  "recorded_times r = List.map_filter (\<lambda>t. t)
     [Some (sr_plannedAt r), map_option pe_observedAt (sr_preflightEvidence r), sr_preflightedAt r, sr_startedAt r,
      sr_minute45AcknowledgedAt r, sr_minute90AcknowledgedAt r, sr_stoppedAt r, sr_locallyVerifiedAt r,
      sr_externallyVerifiedAt r, sr_costReconciledAt r, sr_acceptedAt r]"

definition by_deadline :: "session_env \<Rightarrow> SessionRecord \<Rightarrow> string option \<Rightarrow> bool" where
  "by_deadline v r t \<longleftrightarrow> pred_option (\<lambda>t. milliseconds v t \<le> milliseconds v (sr_supervisedUntil r)) t"

definition within_duration :: "session_env \<Rightarrow> SessionRecord \<Rightarrow> bool" where
  "within_duration v r \<longleftrightarrow>
     (case (sr_startedAt r, sr_stoppedAt r) of
       (Some started, Some stopped) \<Rightarrow>
         milliseconds v stopped \<le> milliseconds v (sr_supervisedUntil r)
         \<and> milliseconds v stopped - milliseconds v started \<le> MAX_SUPERVISED_MILLISECONDS
     | _ \<Rightarrow> True)"

definition acknowledged_in_window :: "session_env \<Rightarrow> string option \<Rightarrow> string option \<Rightarrow> int \<Rightarrow> bool" where
  "acknowledged_in_window v started acknowledged minutes \<longleftrightarrow>
     (case (started, acknowledged) of
       (Some s, Some a) \<Rightarrow>
         (let offset = milliseconds v a - milliseconds v s
          in minutes * 60 * 1000 \<le> offset \<and> offset \<le> minutes * 60 * 1000 + SUPERVISION_GRACE_MILLISECONDS)
     | _ \<Rightarrow> True)"

primrec state_rank :: "SessionState \<Rightarrow> nat" where
  "state_rank Planned = 0"
| "state_rank Preflighted = 1"
| "state_rank Running = 2"
| "state_rank Stopping = 3"
| "state_rank LocallyVerified = 4"
| "state_rank ExternallyVerified = 5"
| "state_rank CostPending = 6"
| "state_rank Accepted = 7"
| "state_rank Invalid = 8"

text \<open>The times each rank requires, and no earlier rank has.\<close>

definition required_times :: "SessionRecord \<Rightarrow> string option list" where
  "required_times r =
     [sr_preflightedAt r, sr_startedAt r, sr_stoppedAt r, sr_locallyVerifiedAt r, sr_externallyVerifiedAt r,
      sr_costReconciledAt r, sr_acceptedAt r]"

definition times_match_rank :: "SessionRecord \<Rightarrow> bool" where
  "times_match_rank r \<longleftrightarrow> map (\<lambda>t. t \<noteq> None) (required_times r) = map (\<lambda>i. i < state_rank (sr_state r)) [0..<7]"

definition evidence_matches_rank :: "SessionRecord \<Rightarrow> bool" where
  "evidence_matches_rank r \<longleftrightarrow>
     (3 \<le> state_rank (sr_state r) \<longrightarrow> sr_minute45AcknowledgedAt r \<noteq> None \<and> sr_minute90AcknowledgedAt r \<noteq> None)
   \<and> (1 \<le> state_rank (sr_state r) \<longrightarrow> allPreflightChecksPass (the (sr_preflightEvidence r)))
   \<and> (4 \<le> state_rank (sr_state r) \<longrightarrow> localFailureReason (the (sr_localEvidence r)) = None)
   \<and> (5 \<le> state_rank (sr_state r) \<longrightarrow> externalEvidencePasses (the (sr_externalEvidence r)))
   \<and> (6 \<le> state_rank (sr_state r) \<longrightarrow> costFailureReason (the (sr_costEvidence r)) = None)"

fun first_some :: "'a option list \<Rightarrow> 'a \<Rightarrow> 'a" where
  "first_some [] d = d"
| "first_some (Some x # xs) d = x"
| "first_some (None # xs) d = first_some xs d"

definition expected_update :: "SessionRecord \<Rightarrow> string" where
  "expected_update r = first_some
     [sr_acceptedAt r, sr_costReconciledAt r, sr_externallyVerifiedAt r, sr_locallyVerifiedAt r, sr_stoppedAt r,
      sr_minute90AcknowledgedAt r, sr_minute45AcknowledgedAt r, sr_startedAt r, sr_preflightedAt r]
     (sr_plannedAt r)"

definition live_semantics :: "session_env \<Rightarrow> SessionRecord \<Rightarrow> bool" where
  "live_semantics v r \<longleftrightarrow>
     sr_invalidatedAt r = None \<and> sr_invalidationReason r = None
   \<and> pred_option (\<lambda>t. qualificationDateInPhoenix v t = sr_qualificationDate r) (sr_startedAt r)
   \<and> acknowledged_in_window v (sr_startedAt r) (sr_minute45AcknowledgedAt r) 45
   \<and> acknowledged_in_window v (sr_startedAt r) (sr_minute90AcknowledgedAt r) 90
   \<and> times_match_rank r \<and> evidence_matches_rank r \<and> sr_updatedAt r = expected_update r
   \<and> (sr_state r = Accepted \<longrightarrow>
        (case acceptanceEvidence v r of
          None \<Rightarrow> False
        | Some a \<Rightarrow> locale_text (se_host v) (nullable_json acceptance_json (sr_acceptanceEvidence r))
            = locale_text (se_host v) (acceptance_json a)))"

definition recordSemantics :: "session_env \<Rightarrow> SessionRecord \<Rightarrow> bool" where
  "recordSemantics v r \<longleftrightarrow>
     fields_paired v r
   \<and> pred_option (\<lambda>e. pe_profile e = sr_profile r) (sr_preflightEvidence r)
   \<and> (sr_minute90AcknowledgedAt r \<noteq> None \<longrightarrow> sr_minute45AcknowledgedAt r \<noteq> None)
   \<and> sorted (map (milliseconds v) (recorded_times r))
   \<and> (sr_state r \<noteq> Invalid \<longrightarrow>
        by_deadline v r (sr_startedAt r) \<and> by_deadline v r (sr_minute45AcknowledgedAt r)
        \<and> by_deadline v r (sr_minute90AcknowledgedAt r) \<and> within_duration v r)
   \<and> (if sr_state r = Invalid
      then sr_invalidatedAt r \<noteq> None \<and> sr_invalidationReason r \<noteq> None \<and> sr_acceptedAt r = None
        \<and> sr_acceptanceEvidence r = None \<and> sr_invalidatedAt r = Some (sr_updatedAt r)
      else live_semantics v r)"

definition parseRecordJson :: "session_env \<Rightarrow> string \<Rightarrow> SessionRecord option" where
  "parseRecordJson v s = do {
     x \<leftarrow> json_parse (se_host v) s;
     r \<leftarrow> parseSessionInput (SessionRecordSchema (se_host v)) x;
     if locale_text (se_host v) (record_json r) = Some s \<and> recordSemantics v r then Some r else None }"

subsection \<open>The transitions\<close>

definition transition_valid :: "AuditAction \<Rightarrow> SessionState option \<Rightarrow> SessionState \<Rightarrow> bool" where
  "transition_valid action from to \<longleftrightarrow>
     action = ActPlan \<and> from = None \<and> to = Planned
   \<or> action = ActPreflight \<and> from = Some Planned \<and> (to = Preflighted \<or> to = Invalid)
   \<or> action = ActStart \<and> from = Some Preflighted \<and> (to = Running \<or> to = Invalid)
   \<or> (action = ActMinute45 \<or> action = ActMinute90) \<and> from = Some Running \<and> (to = Running \<or> to = Invalid)
   \<or> action = ActStop \<and> from = Some Running \<and> (to = Stopping \<or> to = Invalid)
   \<or> action = ActLocal \<and> from = Some Stopping \<and> (to = LocallyVerified \<or> to = Invalid)
   \<or> action = ActExternal \<and> from = Some LocallyVerified \<and> (to = ExternallyVerified \<or> to = Invalid)
   \<or> action = ActCost \<and> from = Some ExternallyVerified \<and> (to = CostPending \<or> to = Invalid)
   \<or> action = ActAccept \<and> from = Some CostPending \<and> (to = Accepted \<or> to = Invalid)
   \<or> (action = ActInvalidate \<or> action = ActCrashRecovery)
     \<and> (case from of None \<Rightarrow> False | Some s \<Rightarrow> \<not> isTerminal s) \<and> to = Invalid"

datatype SessionInput =
    PlanInput PlanSessionInput
  | PreflightInput RecordSessionPreflightInput
  | StartInput StartSessionInput
  | AcknowledgementInput RecordSupervisionAcknowledgementInput
  | StopInput StopSessionInput
  | LocalInput RecordLocalVerificationInput
  | ExternalInput RecordExternalVerificationInput
  | CostInput RecordCostReconciliationInput
  | AcceptInput AcceptSessionInput
  | InvalidateInput InvalidateSessionInput
  | CrashInput CrashRecoveryInput

primrec input_json :: "SessionInput \<Rightarrow> jsval" where
  "input_json (PlanInput i) = plan_json i"
| "input_json (PreflightInput i) = preflight_input_json i"
| "input_json (StartInput i) = start_json i"
| "input_json (AcknowledgementInput i) = acknowledgement_json i"
| "input_json (StopInput i) = stop_session_json i"
| "input_json (LocalInput i) = local_input_json i"
| "input_json (ExternalInput i) = external_input_json i"
| "input_json (CostInput i) = cost_input_json i"
| "input_json (AcceptInput i) = accept_json i"
| "input_json (InvalidateInput i) = invalidate_json i"
| "input_json (CrashInput i) = crash_recovery_json i"

primrec input_session :: "SessionInput \<Rightarrow> string" where
  "input_session (PlanInput i) = pl_sessionId i"
| "input_session (PreflightInput i) = pi_sessionId i"
| "input_session (StartInput i) = st_sessionId i"
| "input_session (AcknowledgementInput i) = sa_sessionId i"
| "input_session (StopInput i) = ss_sessionId i"
| "input_session (LocalInput i) = lv_sessionId i"
| "input_session (ExternalInput i) = xv_sessionId i"
| "input_session (CostInput i) = cr_sessionId i"
| "input_session (AcceptInput i) = ac_sessionId i"
| "input_session (InvalidateInput i) = iv_sessionId i"
| "input_session (CrashInput i) = cv_sessionId i"

text \<open>Each input has one time.\<close>

primrec input_time :: "SessionInput \<Rightarrow> string" where
  "input_time (PlanInput i) = pl_plannedAt i"
| "input_time (PreflightInput i) = pi_recordedAt i"
| "input_time (StartInput i) = st_startedAt i"
| "input_time (AcknowledgementInput i) = sa_acknowledgedAt i"
| "input_time (StopInput i) = ss_stoppedAt i"
| "input_time (LocalInput i) = lv_verifiedAt i"
| "input_time (ExternalInput i) = xv_verifiedAt i"
| "input_time (CostInput i) = cr_reconciledAt i"
| "input_time (AcceptInput i) = ac_acceptedAt i"
| "input_time (InvalidateInput i) = iv_invalidatedAt i"
| "input_time (CrashInput i) = cv_recoveredAt i"

primrec auditInputSchema :: "host \<Rightarrow> AuditAction \<Rightarrow> jsval \<Rightarrow> SessionInput option" where
  "auditInputSchema h ActPlan = (\<lambda>v. map_option PlanInput (PlanSessionInputSchema h v))"
| "auditInputSchema h ActPreflight = (\<lambda>v. map_option PreflightInput (RecordSessionPreflightInputSchema h v))"
| "auditInputSchema h ActStart = (\<lambda>v. map_option StartInput (StartSessionInputSchema h v))"
| "auditInputSchema h ActMinute45 =
     (\<lambda>v. map_option AcknowledgementInput (RecordSupervisionAcknowledgementInputSchema h v))"
| "auditInputSchema h ActMinute90 =
     (\<lambda>v. map_option AcknowledgementInput (RecordSupervisionAcknowledgementInputSchema h v))"
| "auditInputSchema h ActStop = (\<lambda>v. map_option StopInput (StopSessionInputSchema h v))"
| "auditInputSchema h ActLocal = (\<lambda>v. map_option LocalInput (RecordLocalVerificationInputSchema h v))"
| "auditInputSchema h ActExternal = (\<lambda>v. map_option ExternalInput (RecordExternalVerificationInputSchema h v))"
| "auditInputSchema h ActCost = (\<lambda>v. map_option CostInput (RecordCostReconciliationInputSchema h v))"
| "auditInputSchema h ActAccept = (\<lambda>v. map_option AcceptInput (AcceptSessionInputSchema h v))"
| "auditInputSchema h ActInvalidate = (\<lambda>v. map_option InvalidateInput (InvalidateSessionInputSchema h v))"
| "auditInputSchema h ActCrashRecovery = (\<lambda>v. map_option CrashInput (CrashRecoveryInputSchema h v))"

text \<open>An acknowledgement is logged under the action of its checkpoint.\<close>

fun checkpoint_matches :: "AuditAction \<Rightarrow> SessionInput \<Rightarrow> bool" where
  "checkpoint_matches ActMinute45 (AcknowledgementInput i) = (sa_checkpoint i = Minute45)"
| "checkpoint_matches ActMinute90 (AcknowledgementInput i) = (sa_checkpoint i = Minute90)"
| "checkpoint_matches _ _ = True"

definition parseAuditInput :: "session_env \<Rightarrow> AuditRow \<Rightarrow> SessionInput option" where
  "parseAuditInput v row = do {
     x \<leftarrow> json_parse (se_host v) (aw_input_json row);
     i \<leftarrow> parseSessionInput (auditInputSchema (se_host v) (aw_action row)) x;
     if locale_text (se_host v) (input_json i) = Some (aw_input_json row)
       \<and> input_session i = aw_session_id row \<and> input_time i = aw_occurred_at row
       \<and> checkpoint_matches (aw_action row) i
     then Some i else None }"

end
