(* ===== verification/SessionStore.thy ===== *)
theory SessionStore
  imports SessionCoordinator
begin

text \<open>
  The coordinator's tables and operations (\<open>sqlite-session-coordinator.ts\<close>, class \<open>SqliteSessionCoordinator\<close>):
  authentication of the whole database, transactions, the common \<open>mutate\<close> and the public operations on top of
  it. A write takes the tables to new tables and a result; \<open>writeTransaction\<close> keeps them only when
  the result is a value and they verify. The identity checks on the object itself (\<open>assertAuthentic\<close>) hold for
  the coordinators \<open>open\<close> returns, which are the only ones of the model.
\<close>

record Coordinator =
  co_path :: string
  co_profile :: SessionProfile
  co_key :: string
  co_db :: SessionDb
  co_closed :: bool

subsection \<open>Rows and their digests\<close>

definition sessionRowMac :: "session_env \<Rightarrow> string \<Rightarrow> SessionRow \<Rightarrow> string" where
  "sessionRowMac v key r = keyed_mac v key ''session-row'' (JObj
     [(''active_profile'', nullable_json (\<lambda>x. jenum profile_table x) (sw_active_profile r)),
      (''profile'', jenum profile_table (sw_profile r)), (''qualification_date'', JStr (sw_qualification_date r)),
      (''record_json'', JStr (sw_record_json r)), (''session_id'', JStr (sw_session_id r)),
      (''state'', jenum state_table (sw_state r))])"

definition auditRowMac :: "session_env \<Rightarrow> string \<Rightarrow> AuditRow \<Rightarrow> string" where
  "auditRowMac v key r = keyed_mac v key ''audit-row'' (JObj
     [(''action'', jenum action_table (aw_action r)),
      (''from_state'', nullable_json (\<lambda>x. jenum state_table x) (aw_from_state r)),
      (''input_json'', JStr (aw_input_json r)), (''occurred_at'', JStr (aw_occurred_at r)),
      (''previous_mac'', JStr (aw_previous_mac r)), (''record_json'', JStr (aw_record_json r)),
      (''sequence'', jint (aw_sequence r)), (''session_id'', JStr (aw_session_id r)),
      (''to_state'', jenum state_table (aw_to_state r))])"

definition rowsMac :: "session_env \<Rightarrow> string \<Rightarrow> SessionRow list \<Rightarrow> string" where
  "rowsMac v key rows = keyed_mac v key ''session-row-set''
     (JArr (map (\<lambda>r. JObj [(''rowMac'', JStr (sw_row_mac r)), (''sessionId'', JStr (sw_session_id r))]) rows))"

definition keyCheckMac :: "session_env \<Rightarrow> string \<Rightarrow> SessionProfile \<Rightarrow> string" where
  "keyCheckMac v key p = keyed_mac v key ''key-check''
     (JObj [(''profile'', jenum profile_table p), (''schemaVersion'', jint SESSION_SCHEMA_VERSION)])"

definition metadataMac :: "session_env \<Rightarrow> string \<Rightarrow> SessionMetadataRow \<Rightarrow> string" where
  "metadataMac v key m = keyed_mac v key ''metadata-row'' (JObj
     [(''active_count'', jint (mt_active_count m)), (''audit_head_mac'', JStr (mt_audit_head_mac m)),
      (''key_check_mac'', JStr (mt_key_check_mac m)),
      (''latest_occurred_at'', nullable_json JStr (mt_latest_occurred_at m)),
      (''next_audit_sequence'', jint (mt_next_audit_sequence m)), (''profile'', jenum profile_table (mt_profile m)),
      (''rows_mac'', JStr (mt_rows_mac m)), (''schema_projection_mac'', JStr (mt_schema_projection_mac m)),
      (''schema_version'', jint (mt_schema_version m)), (''session_count'', jint (mt_session_count m)),
      (''singleton'', jint 1)])"

subsection \<open>Reading the tables\<close>

definition getSessionRow :: "SessionDb \<Rightarrow> string \<Rightarrow> SessionRow option" where
  "getSessionRow db i = find (\<lambda>r. sw_session_id r = i) (sd_sessions db)"

definition getAuditByAction :: "SessionDb \<Rightarrow> string \<Rightarrow> AuditAction \<Rightarrow> AuditRow option" where
  "getAuditByAction db i a = find (\<lambda>r. aw_session_id r = i \<and> aw_action r = a) (sd_audit db)"

definition getAllSessionRows :: "SessionDb \<Rightarrow> SessionRow list" where
  "getAllSessionRows db = sort_key sw_session_id (sd_sessions db)"

definition getAllAuditRows :: "SessionDb \<Rightarrow> AuditRow list" where
  "getAllAuditRows db = sort_key aw_sequence (sd_audit db)"

text \<open>\<open>name NOT LIKE 'sqlite_%'\<close>: the underscore stands for any one character, and case is ignored.\<close>

definition listed_entry :: "SchemaEntry \<Rightarrow> bool" where
  "listed_entry e \<longleftrightarrow> \<not> (take 6 (to_lower (sx_name e)) = ''sqlite'' \<and> 7 \<le> length (sx_name e))"

text \<open>An entry without SQL text is an error.\<close>

definition schemaProjection :: "SessionDb \<Rightarrow> jsval option" where
  "schemaProjection db =
     map_option JArr (collect
       (\<lambda>e. map_option (\<lambda>sql. JObj [(''name'', JStr (sx_name e)), (''sql'', JStr sql), (''table'', JStr (sx_table e)),
          (''type'', JStr (sx_type e))]) (sx_sql e))
       (sort_key sx_type (sort_key sx_name (filter listed_entry (sd_schema db)))))"

subsection \<open>Authentication of the whole database\<close>

definition metadata_ok :: "session_env \<Rightarrow> string \<Rightarrow> SessionProfile \<Rightarrow> jsval \<Rightarrow> SessionMetadataRow \<Rightarrow> bool" where
  "metadata_ok v key p projection m \<longleftrightarrow>
     mt_schema_version m = SESSION_SCHEMA_VERSION \<and> mt_profile m = p
   \<and> safe_int (mt_next_audit_sequence m) \<and> 1 \<le> mt_next_audit_sequence m
   \<and> safe_int (mt_session_count m) \<and> 0 \<le> mt_session_count m \<and> mt_session_count m \<le> int MAX_SESSION_RECORDS
   \<and> safe_int (mt_active_count m) \<and> 0 \<le> mt_active_count m \<and> mt_active_count m \<le> 1
   \<and> pred_option (CanonicalTimestampSchema (se_host v)) (mt_latest_occurred_at m)
   \<and> secureEqual (mt_key_check_mac m) (keyCheckMac v key p)
   \<and> secureEqual (mt_schema_projection_mac m) (keyed_mac v key ''schema-projection'' projection)
   \<and> secureEqual (mt_metadata_mac m) (metadataMac v key m)"

definition session_row_ok :: "session_env \<Rightarrow> string \<Rightarrow> SessionProfile \<Rightarrow> SessionRow \<Rightarrow> bool" where
  "session_row_ok v key p row \<longleftrightarrow>
     secureEqual (sw_row_mac row) (sessionRowMac v key row)
   \<and> (case parseRecordJson v (sw_record_json row) of
       None \<Rightarrow> False
     | Some r \<Rightarrow> sr_sessionId r = sw_session_id row \<and> sr_profile r = sw_profile row \<and> sr_profile r = p
         \<and> sr_qualificationDate r = sw_qualification_date row \<and> sr_state r = sw_state row
         \<and> sw_active_profile row = activeProfile r)"

text \<open>What the walk over the audit rows carries from row to row.\<close>

record AuditReplay =
  ar_count :: int
  ar_mac :: string
  ar_time :: "string option"
  ar_states :: "(string \<times> SessionState) list"
  ar_records :: "(string \<times> string) list"

definition audit_row_ok :: "session_env \<Rightarrow> string \<Rightarrow> AuditReplay \<Rightarrow> AuditRow \<Rightarrow> bool" where
  "audit_row_ok v key acc row \<longleftrightarrow>
     aw_sequence row = ar_count acc + 1 \<and> secureEqual (aw_previous_mac row) (ar_mac acc)
   \<and> secureEqual (aw_row_mac row) (auditRowMac v key row)
   \<and> CanonicalTimestampSchema (se_host v) (aw_occurred_at row)
   \<and> pred_option (\<lambda>t. milliseconds v t \<le> milliseconds v (aw_occurred_at row)) (ar_time acc)
   \<and> parseAuditInput v row \<noteq> None
   \<and> map_of (ar_states acc) (aw_session_id row) = aw_from_state row
   \<and> transition_valid (aw_action row) (aw_from_state row) (aw_to_state row)
   \<and> (case parseRecordJson v (aw_record_json row) of
       None \<Rightarrow> False
     | Some r \<Rightarrow> sr_sessionId r = aw_session_id row \<and> sr_state r = aw_to_state row
         \<and> sr_updatedAt r = aw_occurred_at row)"

definition replay_audit_row :: "AuditReplay \<Rightarrow> AuditRow \<Rightarrow> AuditReplay" where
  "replay_audit_row acc row =
     \<lparr>ar_count = ar_count acc + 1, ar_mac = aw_row_mac row, ar_time = Some (aw_occurred_at row),
      ar_states = AList.update (aw_session_id row) (aw_to_state row) (ar_states acc),
      ar_records = AList.update (aw_session_id row) (aw_record_json row) (ar_records acc)\<rparr>"

fun replay_audit :: "session_env \<Rightarrow> string \<Rightarrow> AuditReplay \<Rightarrow> AuditRow list \<Rightarrow> AuditReplay option" where
  "replay_audit v key acc [] = Some acc"
| "replay_audit v key acc (row # rows) =
     (if audit_row_ok v key acc row then replay_audit v key (replay_audit_row acc row) rows else None)"

definition audit_start :: AuditReplay where
  "audit_start = \<lparr>ar_count = 0, ar_mac = GENESIS_MAC, ar_time = None, ar_states = [], ar_records = []\<rparr>"

definition final_records :: "SessionDb \<Rightarrow> (string \<times> string) list" where
  "final_records db = map (\<lambda>r. (sw_session_id r, sw_record_json r)) (getAllSessionRows db)"

definition sessions_ok :: "session_env \<Rightarrow> string \<Rightarrow> SessionProfile \<Rightarrow> SessionMetadataRow \<Rightarrow> SessionRow list \<Rightarrow> bool" where
  "sessions_ok v key p m rows \<longleftrightarrow>
     int (length rows) = mt_session_count m \<and> length rows \<le> MAX_SESSION_RECORDS
   \<and> list_all (session_row_ok v key p) rows
   \<and> distinct (map (\<lambda>r. (sw_profile r, sw_qualification_date r)) (filter (\<lambda>r. sw_state r = Accepted) rows))
   \<and> int (length (filter (\<lambda>r. sw_active_profile r \<noteq> None) rows)) = mt_active_count m
   \<and> secureEqual (mt_rows_mac m) (rowsMac v key rows)"

definition audit_ok :: "session_env \<Rightarrow> string \<Rightarrow> SessionMetadataRow \<Rightarrow> AuditRow list \<Rightarrow> (string \<times> string) list \<Rightarrow> bool" where
  "audit_ok v key m rows finals \<longleftrightarrow>
     length rows \<le> MAX_AUDIT_RECORDS \<and> mt_next_audit_sequence m = int (length rows) + 1
   \<and> (case replay_audit v key audit_start rows of
       None \<Rightarrow> False
     | Some acc \<Rightarrow> secureEqual (mt_audit_head_mac m) (ar_mac acc) \<and> mt_latest_occurred_at m = ar_time acc
         \<and> length (ar_records acc) = length finals
         \<and> list_all (\<lambda>(i, j). map_of (ar_records acc) i = Some j) finals)"

definition verifySessionsInternal :: "session_env \<Rightarrow> string \<Rightarrow> SessionProfile \<Rightarrow> SessionDb \<Rightarrow> bool" where
  "verifySessionsInternal v key p db \<longleftrightarrow>
     (case (sd_metadata db, schemaProjection db) of
       (Some m, Some projection) \<Rightarrow>
         metadata_ok v key p projection m \<and> sessions_ok v key p m (getAllSessionRows db)
         \<and> audit_ok v key m (getAllAuditRows db) (final_records db)
     | _ \<Rightarrow> False)"

subsection \<open>Writing\<close>

definition upsert :: "SessionRow \<Rightarrow> SessionRow list \<Rightarrow> SessionRow list" where
  "upsert row rows =
     (if list_ex (\<lambda>r. sw_session_id r = sw_session_id row) rows
      then map (\<lambda>r. if sw_session_id r = sw_session_id row then row else r) rows
      else rows @ [row])"

text \<open>The two unique indexes: one active session per profile, one accepted session per profile and date.\<close>

definition unique_indexes :: "SessionRow list \<Rightarrow> bool" where
  "unique_indexes rows \<longleftrightarrow>
     distinct (List.map_filter sw_active_profile rows)
   \<and> distinct (map (\<lambda>r. (sw_profile r, sw_qualification_date r)) (filter (\<lambda>r. sw_state r = Accepted) rows))"

text \<open>\<open>None\<close> is the thrown integrity error of \<open>canonicalJson\<close>.\<close>

definition session_row :: "session_env \<Rightarrow> string \<Rightarrow> SessionRecord \<Rightarrow> SessionRow option" where
  "session_row v key r = do {
     t \<leftarrow> locale_text (se_host v) (record_json r);
     let row = \<lparr>sw_active_profile = activeProfile r, sw_profile = sr_profile r,
        sw_qualification_date = sr_qualificationDate r, sw_record_json = t, sw_row_mac = [],
        sw_session_id = sr_sessionId r, sw_state = sr_state r\<rparr>
     in Some (row\<lparr>sw_row_mac := sessionRowMac v key row\<rparr>) }"

definition putSession :: "session_env \<Rightarrow> string \<Rightarrow> SessionRecord \<Rightarrow> SessionDb \<Rightarrow> (SessionError, SessionDb) result" where
  "putSession v key r db =
     and_then (or_fail (session_row v key r) SessionIntegrity) (\<lambda>row.
       let rows = upsert row (sd_sessions db)
       in if unique_indexes rows then Inr (db\<lparr>sd_sessions := rows\<rparr>) else Inl SqlConstraint)"

definition refreshed :: "session_env \<Rightarrow> string \<Rightarrow> SessionProfile \<Rightarrow> jsval \<Rightarrow> SessionDb \<Rightarrow> SessionMetadataRow" where
  "refreshed v key p projection db =
     (let sessions = getAllSessionRows db; audit = getAllAuditRows db;
          m = \<lparr>mt_active_count = int (length (filter (\<lambda>r. sw_active_profile r \<noteq> None) sessions)),
               mt_audit_head_mac = (if audit = [] then GENESIS_MAC else aw_row_mac (last audit)),
               mt_key_check_mac = keyCheckMac v key p,
               mt_latest_occurred_at = (if audit = [] then None else Some (aw_occurred_at (last audit))),
               mt_metadata_mac = [], mt_next_audit_sequence = int (length audit) + 1, mt_profile = p,
               mt_rows_mac = rowsMac v key sessions,
               mt_schema_projection_mac = keyed_mac v key ''schema-projection'' projection,
               mt_schema_version = SESSION_SCHEMA_VERSION, mt_session_count = int (length sessions)\<rparr>
      in m\<lparr>mt_metadata_mac := metadataMac v key m\<rparr>)"

definition refreshMetadata :: "session_env \<Rightarrow> string \<Rightarrow> SessionProfile \<Rightarrow> SessionDb \<Rightarrow> (SessionError, SessionDb) result" where
  "refreshMetadata v key p db =
     (case (schemaProjection db, sd_metadata db) of
       (Some projection, Some _) \<Rightarrow> Inr (db\<lparr>sd_metadata := Some (refreshed v key p projection db)\<rparr>)
     | _ \<Rightarrow> Inl SessionIntegrity)"

definition audit_row :: "session_env \<Rightarrow> string \<Rightarrow> SessionMetadataRow \<Rightarrow> AuditAction \<Rightarrow> SessionInput \<Rightarrow> SessionState option
    \<Rightarrow> SessionRecord \<Rightarrow> AuditRow option" where
  "audit_row v key m action inp from r = do {
     i \<leftarrow> locale_text (se_host v) (input_json inp);
     t \<leftarrow> locale_text (se_host v) (record_json r);
     let row = \<lparr>aw_action = action, aw_from_state = from, aw_input_json = i, aw_occurred_at = sr_updatedAt r,
        aw_previous_mac = mt_audit_head_mac m, aw_record_json = t, aw_row_mac = [],
        aw_sequence = mt_next_audit_sequence m, aw_session_id = sr_sessionId r, aw_to_state = sr_state r\<rparr>
     in Some (row\<lparr>aw_row_mac := auditRowMac v key row\<rparr>) }"

text \<open>The primary key, the unique pair of session and action, and the foreign key.\<close>

definition audit_insertable :: "SessionDb \<Rightarrow> AuditRow \<Rightarrow> bool" where
  "audit_insertable db row \<longleftrightarrow>
     \<not> list_ex (\<lambda>r. aw_sequence r = aw_sequence row) (sd_audit db)
   \<and> getAuditByAction db (aw_session_id row) (aw_action row) = None
   \<and> getSessionRow db (aw_session_id row) \<noteq> None"

definition appendAudit :: "session_env \<Rightarrow> string \<Rightarrow> SessionProfile \<Rightarrow> AuditAction \<Rightarrow> SessionInput \<Rightarrow> SessionState option
    \<Rightarrow> SessionRecord \<Rightarrow> SessionDb \<Rightarrow> (SessionError, SessionDb) result" where
  "appendAudit v key p action inp from r db =
     and_then (or_fail (sd_metadata db) SessionIntegrity) (\<lambda>m.
     and_then (or_fail (audit_row v key m action inp from r) SessionIntegrity) (\<lambda>row.
       if audit_insertable db row then refreshMetadata v key p (db\<lparr>sd_audit := sd_audit db @ [row]\<rparr>)
       else Inl SqlConstraint))"

text \<open>Putting the record and logging the transition, as every change ends.\<close>

definition record_change :: "session_env \<Rightarrow> string \<Rightarrow> SessionProfile \<Rightarrow> AuditAction \<Rightarrow> SessionInput \<Rightarrow> SessionState option
    \<Rightarrow> SessionRecord \<Rightarrow> SessionDb \<Rightarrow> (SessionError, SessionDb) result" where
  "record_change v key p action inp from r db =
     and_then (putSession v key r db) (appendAudit v key p action inp from r)"

subsection \<open>Transactions\<close>

definition assert_open :: "Coordinator \<Rightarrow> (SessionError, unit) result" where
  "assert_open c = ensure (\<not> co_closed c) SessionClosed"

definition verified :: "session_env \<Rightarrow> Coordinator \<Rightarrow> SessionDb \<Rightarrow> (SessionError, unit) result" where
  "verified v c db = ensure (verifySessionsInternal v (co_key c) (co_profile c) db) SessionIntegrity"

definition readTransaction :: "session_env \<Rightarrow> (SessionDb \<Rightarrow> (SessionError, 'a) result) \<Rightarrow> Coordinator \<Rightarrow> (SessionError, 'a) result" where
  "readTransaction v f c =
     and_then (assert_open c) (\<lambda>_. and_then (verified v c (co_db c)) (\<lambda>_.
     and_then (f (co_db c)) (\<lambda>x. and_then (verified v c (co_db c)) (\<lambda>_. Inr x))))"

definition writeTransaction :: "session_env \<Rightarrow> (SessionDb \<Rightarrow> (SessionError, SessionDb \<times> 'a) result) \<Rightarrow> Coordinator
    \<Rightarrow> Coordinator \<times> (SessionError, 'a) result" where
  "writeTransaction v f c =
     (case and_then (assert_open c) (\<lambda>_. and_then (verified v c (co_db c)) (\<lambda>_.
        and_then (f (co_db c)) (\<lambda>(db', x). and_then (verified v c db') (\<lambda>_. Inr (db', x))))) of
       Inl e \<Rightarrow> (c, Inl e)
     | Inr (db', x) \<Rightarrow> (c\<lparr>co_db := db'\<rparr>, Inr x))"

text \<open>\<open>mutate\<close>: \<open>expectedState\<close> is null for a new session, a state, or undefined for any.\<close>

datatype expectation = NewSession | InState SessionState | AnyState

definition not_before_latest :: "session_env \<Rightarrow> string \<Rightarrow> SessionMetadataRow \<Rightarrow> bool" where
  "not_before_latest v t m \<longleftrightarrow>
     pred_option (\<lambda>latest. milliseconds v latest \<le> milliseconds v t) (mt_latest_occurred_at m)"

definition state_expected :: "expectation \<Rightarrow> SessionState \<Rightarrow> (SessionError, unit) result" where
  "state_expected expected s =
     (case expected of
       InState e \<Rightarrow> ensure (s = e) (SessionConflict (if isTerminal s then TERMINAL_SESSION else TRANSITION_CONFLICT))
     | _ \<Rightarrow> Inr ())"

definition mutate_body :: "session_env \<Rightarrow> string \<Rightarrow> SessionProfile \<Rightarrow> AuditAction \<Rightarrow> SessionInput \<Rightarrow> expectation
    \<Rightarrow> (SessionDb \<Rightarrow> SessionRecord option \<Rightarrow> (SessionError, SessionRecord) result)
    \<Rightarrow> SessionDb \<Rightarrow> (SessionError, SessionDb \<times> SessionRecord) result" where
  "mutate_body v key p action inp expected change db =
     and_then (or_fail (locale_text (se_host v) (input_json inp)) SessionIntegrity) (\<lambda>inputJson.
     case getAuditByAction db (input_session inp) action of
       Some prior \<Rightarrow>
         and_then (ensure (aw_input_json prior = inputJson) (SessionConflict RETRY_CONFLICT)) (\<lambda>_.
         and_then (or_fail (parseRecordJson v (aw_record_json prior)) SessionIntegrity) (\<lambda>r. Inr (db, r)))
     | None \<Rightarrow>
         and_then (or_fail (sd_metadata db) SessionIntegrity) (\<lambda>m.
         and_then (ensure (not_before_latest v (input_time inp) m) SessionValidation) (\<lambda>_.
         if expected = NewSession then
           and_then (ensure (getSessionRow db (input_session inp) = None) (SessionConflict RETRY_CONFLICT)) (\<lambda>_.
           and_then (change db None) (\<lambda>r.
           and_then (ensure (recordSemantics v r) SessionIntegrity) (\<lambda>_.
           and_then (record_change v key p action inp None r db) (\<lambda>db'. Inr (db', r)))))
         else
           and_then (or_fail (getSessionRow db (input_session inp)) (SessionConflict SESSION_NOT_FOUND)) (\<lambda>row.
           and_then (or_fail (parseRecordJson v (sw_record_json row)) SessionIntegrity) (\<lambda>current.
           and_then (ensure (milliseconds v (sr_updatedAt current) \<le> milliseconds v (input_time inp)) SessionValidation) (\<lambda>_.
           and_then (state_expected expected (sr_state current)) (\<lambda>_.
           and_then (change db (Some current)) (\<lambda>r.
           and_then (ensure (recordSemantics v r) SessionIntegrity) (\<lambda>_.
           and_then (record_change v key p action inp (Some (sr_state current)) r db) (\<lambda>db'. Inr (db', r)))))))))))"

definition mutate :: "session_env \<Rightarrow> AuditAction \<Rightarrow> SessionInput \<Rightarrow> expectation
    \<Rightarrow> (SessionDb \<Rightarrow> SessionRecord option \<Rightarrow> (SessionError, SessionRecord) result)
    \<Rightarrow> Coordinator \<Rightarrow> Coordinator \<times> (SessionError, SessionRecord) result" where
  "mutate v action inp expected change c =
     writeTransaction v (mutate_body v (co_key c) (co_profile c) action inp expected change) c"

end
