(* ===== verification/SessionOperations.thy ===== *)
theory SessionOperations
  imports SessionStore
begin

text \<open>
  The public operations of \<open>SqliteSessionCoordinator\<close>: each parses its input, and hands \<open>mutate\<close> the
  change it makes to the record. Opening creates or authenticates the tables, checks the retained head and
  invalidates every session that was left unfinished.
\<close>

subsection \<open>Changes of the record\<close>

definition planned_record :: "SessionProfile \<Rightarrow> PlanSessionInput \<Rightarrow> SessionRecord" where
  "planned_record p i =
     \<lparr>sr_sessionId = pl_sessionId i, sr_profile = p, sr_qualificationDate = pl_qualificationDate i,
      sr_state = Planned, sr_egressStatus = EgressBlocked, sr_plannedAt = pl_plannedAt i,
      sr_supervisedUntil = pl_supervisedUntil i, sr_updatedAt = pl_plannedAt i, sr_preflightedAt = None,
      sr_preflightEvidence = None, sr_startedAt = None, sr_startAcknowledgements = None,
      sr_minute45AcknowledgedAt = None, sr_minute90AcknowledgedAt = None, sr_stoppedAt = None,
      sr_locallyVerifiedAt = None, sr_localEvidence = None, sr_externallyVerifiedAt = None,
      sr_externalEvidence = None, sr_costReconciledAt = None, sr_costEvidence = None, sr_acceptedAt = None,
      sr_acceptanceEvidence = None, sr_invalidatedAt = None, sr_invalidationReason = None\<rparr>"

definition plan_change :: "SessionProfile \<Rightarrow> PlanSessionInput \<Rightarrow> SessionDb \<Rightarrow> (SessionError, SessionRecord) result" where
  "plan_change p i db =
     (if list_ex (\<lambda>r. sw_active_profile r = Some p) (sd_sessions db)
      then Inl (SessionConflict ACTIVE_SESSION_CONFLICT) else Inr (planned_record p i))"

definition preflight_change :: "session_env \<Rightarrow> RecordSessionPreflightInput \<Rightarrow> SessionRecord
    \<Rightarrow> (SessionError, SessionRecord) result" where
  "preflight_change v i r =
     (if pe_profile (pi_evidence i) \<noteq> sr_profile r
        \<or> milliseconds v (pe_observedAt (pi_evidence i)) < milliseconds v (sr_plannedAt r)
        \<or> milliseconds v (pi_recordedAt i) < milliseconds v (pe_observedAt (pi_evidence i))
      then Inl SessionValidation
      else
        (let candidate = r\<lparr>sr_preflightEvidence := Some (pi_evidence i), sr_preflightedAt := Some (pi_recordedAt i),
               sr_updatedAt := pi_recordedAt i\<rparr>;
             late = milliseconds v (sr_supervisedUntil r) < milliseconds v (pi_recordedAt i)
         in if late \<or> \<not> allPreflightChecksPass (pi_evidence i)
            then Inr (invalidRecord candidate (pi_recordedAt i) (if late then SupervisionExpired else PreflightFailed))
            else Inr (candidate\<lparr>sr_state := Preflighted\<rparr>)))"

definition start_change :: "session_env \<Rightarrow> StartSessionInput \<Rightarrow> SessionRecord \<Rightarrow> (SessionError, SessionRecord) result" where
  "start_change v i r =
     (let candidate = r\<lparr>sr_egressStatus := EgressEligible, sr_startAcknowledgements := Some (),
            sr_startedAt := Some (st_startedAt i), sr_updatedAt := st_startedAt i\<rparr>;
          other_day = qualificationDateInPhoenix v (st_startedAt i) \<noteq> sr_qualificationDate r
      in if milliseconds v (sr_supervisedUntil r) < milliseconds v (st_startedAt i)
           \<or> MAX_SUPERVISED_MILLISECONDS < milliseconds v (sr_supervisedUntil r) - milliseconds v (st_startedAt i)
           \<or> other_day
         then Inr (invalidRecord candidate (st_startedAt i) (if other_day then BoundViolation else SupervisionExpired))
         else Inr (candidate\<lparr>sr_state := Running\<rparr>))"

definition acknowledgement_change :: "session_env \<Rightarrow> RecordSupervisionAcknowledgementInput \<Rightarrow> SessionRecord
    \<Rightarrow> (SessionError, SessionRecord) result" where
  "acknowledgement_change v i r =
     (case sr_startedAt r of
       None \<Rightarrow> Inl SessionIntegrity
     | Some started \<Rightarrow>
         (let offset = milliseconds v (sa_acknowledgedAt i) - milliseconds v started;
              expected = (if sa_checkpoint i = Minute45 then 45 * 60 * 1000 else 90 * 60 * 1000);
              candidate = (if sa_checkpoint i = Minute45 then r\<lparr>sr_minute45AcknowledgedAt := Some (sa_acknowledgedAt i)\<rparr>
                 else r\<lparr>sr_minute90AcknowledgedAt := Some (sa_acknowledgedAt i)\<rparr>)\<lparr>sr_updatedAt := sa_acknowledgedAt i\<rparr>
          in if offset < expected then Inl SessionValidation
             else if sa_checkpoint i = Minute90 \<and> sr_minute45AcknowledgedAt r = None
             then Inl (SessionConflict TRANSITION_CONFLICT)
             else if sa_checkpoint i = Minute90
               \<and> \<not> pred_option (\<lambda>t. milliseconds v t \<le> milliseconds v (sa_acknowledgedAt i)) (sr_minute45AcknowledgedAt r)
             then Inl SessionValidation
             else if expected + SUPERVISION_GRACE_MILLISECONDS < offset
               \<or> milliseconds v (sr_supervisedUntil r) < milliseconds v (sa_acknowledgedAt i)
             then Inr (invalidRecord candidate (sa_acknowledgedAt i) MissedSupervisionAcknowledgement)
             else Inr candidate))"

definition stop_change :: "session_env \<Rightarrow> StopSessionInput \<Rightarrow> SessionRecord \<Rightarrow> (SessionError, SessionRecord) result" where
  "stop_change v i r =
     (case sr_startedAt r of
       None \<Rightarrow> Inl SessionIntegrity
     | Some started \<Rightarrow>
         (let candidate = r\<lparr>sr_egressStatus := EgressBlocked, sr_stoppedAt := Some (ss_stoppedAt i),
                sr_updatedAt := ss_stoppedAt i\<rparr>
          in if milliseconds v (sr_supervisedUntil r) < milliseconds v (ss_stoppedAt i)
               \<or> MAX_SUPERVISED_MILLISECONDS < milliseconds v (ss_stoppedAt i) - milliseconds v started
             then Inr (invalidRecord candidate (ss_stoppedAt i) BoundViolation)
             else if sr_minute45AcknowledgedAt r = None \<or> sr_minute90AcknowledgedAt r = None
             then Inr (invalidRecord candidate (ss_stoppedAt i) MissedSupervisionAcknowledgement)
             else Inr (candidate\<lparr>sr_state := Stopping\<rparr>)))"

definition local_change :: "RecordLocalVerificationInput \<Rightarrow> SessionRecord \<Rightarrow> (SessionError, SessionRecord) result" where
  "local_change i r =
     (let candidate = r\<lparr>sr_localEvidence := Some (lv_evidence i), sr_locallyVerifiedAt := Some (lv_verifiedAt i),
            sr_updatedAt := lv_verifiedAt i\<rparr>
      in case localFailureReason (lv_evidence i) of
           None \<Rightarrow> Inr (candidate\<lparr>sr_state := LocallyVerified\<rparr>)
         | Some reason \<Rightarrow> Inr (invalidRecord candidate (lv_verifiedAt i) reason))"

definition external_change :: "RecordExternalVerificationInput \<Rightarrow> SessionRecord \<Rightarrow> (SessionError, SessionRecord) result" where
  "external_change i r =
     (let candidate = r\<lparr>sr_externalEvidence := Some (xv_evidence i), sr_externallyVerifiedAt := Some (xv_verifiedAt i),
            sr_updatedAt := xv_verifiedAt i\<rparr>
      in if externalEvidencePasses (xv_evidence i) then Inr (candidate\<lparr>sr_state := ExternallyVerified\<rparr>)
         else Inr (invalidRecord candidate (xv_verifiedAt i) ExternalVerificationFailed))"

definition cost_change :: "session_env \<Rightarrow> RecordCostReconciliationInput \<Rightarrow> SessionRecord
    \<Rightarrow> (SessionError, SessionRecord) result" where
  "cost_change v i r =
     (case sr_stoppedAt r of
       None \<Rightarrow> Inl SessionIntegrity
     | Some stopped \<Rightarrow>
         (let candidate = r\<lparr>sr_costEvidence := Some (cr_evidence i), sr_costReconciledAt := Some (cr_reconciledAt i),
                sr_updatedAt := cr_reconciledAt i\<rparr>
          in if MAX_COST_RECONCILIATION_MILLISECONDS < milliseconds v (cr_reconciledAt i) - milliseconds v stopped
             then Inr (invalidRecord candidate (cr_reconciledAt i) CostReconciliationLate)
             else case costFailureReason (cr_evidence i) of
                    None \<Rightarrow> Inr (candidate\<lparr>sr_state := CostPending\<rparr>)
                  | Some reason \<Rightarrow> Inr (invalidRecord candidate (cr_reconciledAt i) reason)))"

text \<open>Any accepted session of the date, which \<open>LIMIT 1\<close> picks, is another: the session itself is not accepted yet.\<close>

definition accepted_on :: "SessionDb \<Rightarrow> SessionRecord \<Rightarrow> SessionRow option" where
  "accepted_on db r =
     find (\<lambda>row. sw_profile row = sr_profile r \<and> sw_qualification_date row = sr_qualificationDate r
       \<and> sw_state row = Accepted) (sd_sessions db)"

definition accept_change :: "session_env \<Rightarrow> AcceptSessionInput \<Rightarrow> SessionDb \<Rightarrow> SessionRecord
    \<Rightarrow> (SessionError, SessionRecord) result" where
  "accept_change v i db r =
     (if \<not> (case sr_costReconciledAt r of None \<Rightarrow> False | Some t \<Rightarrow> milliseconds v t \<le> milliseconds v (ac_acceptedAt i))
      then Inl SessionValidation
      else if (case accepted_on db r of None \<Rightarrow> False | Some row \<Rightarrow> sw_session_id row \<noteq> sr_sessionId r)
      then Inr (invalidRecord r (ac_acceptedAt i) QualificationDateConflict)
      else case acceptanceEvidence v r of
             None \<Rightarrow> Inl SessionIntegrity
           | Some a \<Rightarrow> Inr (r\<lparr>sr_acceptanceEvidence := Some a, sr_acceptedAt := Some (ac_acceptedAt i),
               sr_egressStatus := EgressBlocked, sr_state := Accepted, sr_updatedAt := ac_acceptedAt i\<rparr>))"

definition invalidate_change :: "InvalidateSessionInput \<Rightarrow> SessionRecord \<Rightarrow> (SessionError, SessionRecord) result" where
  "invalidate_change i r =
     (if isTerminal (sr_state r) then Inl (SessionConflict TERMINAL_SESSION)
      else Inr (invalidRecord r (iv_invalidatedAt i) (iv_reason i)))"

text \<open>A change of an existing record, as \<open>mutate\<close> calls it: with the record.\<close>

definition on_record :: "(SessionRecord \<Rightarrow> (SessionError, SessionRecord) result)
    \<Rightarrow> SessionDb \<Rightarrow> SessionRecord option \<Rightarrow> (SessionError, SessionRecord) result" where
  "on_record f db r = and_then (or_fail r SessionIntegrity) f"

subsection \<open>Operations\<close>

definition session_parse :: "(jsval \<Rightarrow> 'a option) \<Rightarrow> jsval \<Rightarrow> Coordinator
    \<Rightarrow> ('a \<Rightarrow> Coordinator \<Rightarrow> Coordinator \<times> (SessionError, 'b) result) \<Rightarrow> Coordinator \<times> (SessionError, 'b) result" where
  "session_parse schema x c f =
     (case parseSessionInput schema x of None \<Rightarrow> (c, Inl SessionValidation) | Some i \<Rightarrow> f i c)"

definition planSession :: "session_env \<Rightarrow> jsval \<Rightarrow> Coordinator \<Rightarrow> Coordinator \<times> (SessionError, SessionRecord) result" where
  "planSession v x c = session_parse (PlanSessionInputSchema (se_host v)) x c (\<lambda>i c.
     if pl_qualificationDate i \<noteq> qualificationDateInPhoenix v (pl_plannedAt i)
       \<or> milliseconds v (pl_supervisedUntil i) < milliseconds v (pl_plannedAt i)
     then (c, Inl SessionValidation)
     else mutate v ActPlan (PlanInput i) NewSession (\<lambda>db _. plan_change (co_profile c) i db) c)"

definition recordPreflight :: "session_env \<Rightarrow> jsval \<Rightarrow> Coordinator \<Rightarrow> Coordinator \<times> (SessionError, SessionRecord) result" where
  "recordPreflight v x c = session_parse (RecordSessionPreflightInputSchema (se_host v)) x c (\<lambda>i.
     mutate v ActPreflight (PreflightInput i) (InState Planned) (on_record (preflight_change v i)))"

definition startSession :: "session_env \<Rightarrow> jsval \<Rightarrow> Coordinator \<Rightarrow> Coordinator \<times> (SessionError, SessionRecord) result" where
  "startSession v x c = session_parse (StartSessionInputSchema (se_host v)) x c (\<lambda>i c.
     if st_typedSessionId i \<noteq> st_sessionId i then (c, Inl SessionValidation)
     else mutate v ActStart (StartInput i) (InState Preflighted) (on_record (start_change v i)) c)"

definition recordSupervisionAcknowledgement ::
    "session_env \<Rightarrow> jsval \<Rightarrow> Coordinator \<Rightarrow> Coordinator \<times> (SessionError, SessionRecord) result" where
  "recordSupervisionAcknowledgement v x c =
     session_parse (RecordSupervisionAcknowledgementInputSchema (se_host v)) x c (\<lambda>i.
       mutate v (if sa_checkpoint i = Minute45 then ActMinute45 else ActMinute90) (AcknowledgementInput i)
         (InState Running) (on_record (acknowledgement_change v i)))"

definition stopSession :: "session_env \<Rightarrow> jsval \<Rightarrow> Coordinator \<Rightarrow> Coordinator \<times> (SessionError, SessionRecord) result" where
  "stopSession v x c = session_parse (StopSessionInputSchema (se_host v)) x c (\<lambda>i.
     mutate v ActStop (StopInput i) (InState Running) (on_record (stop_change v i)))"

definition recordLocalVerification ::
    "session_env \<Rightarrow> jsval \<Rightarrow> Coordinator \<Rightarrow> Coordinator \<times> (SessionError, SessionRecord) result" where
  "recordLocalVerification v x c = session_parse (RecordLocalVerificationInputSchema (se_host v)) x c (\<lambda>i.
     mutate v ActLocal (LocalInput i) (InState Stopping) (on_record (local_change i)))"

definition recordExternalVerification ::
    "session_env \<Rightarrow> jsval \<Rightarrow> Coordinator \<Rightarrow> Coordinator \<times> (SessionError, SessionRecord) result" where
  "recordExternalVerification v x c = session_parse (RecordExternalVerificationInputSchema (se_host v)) x c (\<lambda>i.
     mutate v ActExternal (ExternalInput i) (InState LocallyVerified) (on_record (external_change i)))"

definition recordCostReconciliation ::
    "session_env \<Rightarrow> jsval \<Rightarrow> Coordinator \<Rightarrow> Coordinator \<times> (SessionError, SessionRecord) result" where
  "recordCostReconciliation v x c = session_parse (RecordCostReconciliationInputSchema (se_host v)) x c (\<lambda>i.
     mutate v ActCost (CostInput i) (InState ExternallyVerified) (on_record (cost_change v i)))"

definition acceptSession :: "session_env \<Rightarrow> jsval \<Rightarrow> Coordinator \<Rightarrow> Coordinator \<times> (SessionError, SessionRecord) result" where
  "acceptSession v x c = session_parse (AcceptSessionInputSchema (se_host v)) x c (\<lambda>i.
     mutate v ActAccept (AcceptInput i) (InState CostPending) (\<lambda>db. on_record (accept_change v i db) db))"

definition invalidateSession :: "session_env \<Rightarrow> jsval \<Rightarrow> Coordinator \<Rightarrow> Coordinator \<times> (SessionError, SessionRecord) result" where
  "invalidateSession v x c = session_parse (InvalidateSessionInputSchema (se_host v)) x c (\<lambda>i.
     mutate v ActInvalidate (InvalidateInput i) AnyState (on_record (invalidate_change i)))"

subsection \<open>Reading\<close>

definition getSession :: "session_env \<Rightarrow> jsval \<Rightarrow> Coordinator \<Rightarrow> (SessionError, SessionRecord option) result" where
  "getSession v x c =
     and_then (or_fail (parseSessionInput (z_string UuidSchema) x) SessionValidation) (\<lambda>i.
       readTransaction v (\<lambda>db. case getSessionRow db i of
          None \<Rightarrow> Inr None
        | Some row \<Rightarrow> and_then (or_fail (parseRecordJson v (sw_record_json row)) SessionIntegrity) (\<lambda>r. Inr (Some r))) c)"

record SessionSummary =
  sm_activeSessionCount :: int
  sm_auditEntryCount :: int
  sm_profile :: SessionProfile
  sm_sessionCount :: int
  sm_states :: "(SessionState \<times> nat) list"

definition SESSION_STATES :: "SessionState list" where
  "SESSION_STATES =
     [Planned, Preflighted, Running, Stopping, LocallyVerified, ExternallyVerified, CostPending, Accepted, Invalid]"

definition getSummary :: "session_env \<Rightarrow> Coordinator \<Rightarrow> (SessionError, SessionSummary) result" where
  "getSummary v c = readTransaction v (\<lambda>db.
     and_then (or_fail (sd_metadata db) SessionIntegrity) (\<lambda>m. Inr
       \<lparr>sm_activeSessionCount = mt_active_count m, sm_auditEntryCount = mt_next_audit_sequence m - 1,
        sm_profile = co_profile c, sm_sessionCount = mt_session_count m,
        sm_states = map (\<lambda>s. (s, length (filter (\<lambda>r. sw_state r = s) (sd_sessions db)))) SESSION_STATES\<rparr>)) c"

definition getTrustedHead :: "session_env \<Rightarrow> Coordinator \<Rightarrow> (SessionError, TrustedHead) result" where
  "getTrustedHead v c = readTransaction v (\<lambda>db.
     and_then (or_fail (sd_metadata db) SessionIntegrity) (\<lambda>m. Inr
       \<lparr>th_auditMac = mt_audit_head_mac m, th_auditSequence = mt_next_audit_sequence m - 1,
        th_profile = co_profile c\<rparr>)) c"

record SessionIntegrityReport =
  sn_activeSessionCount :: int
  sn_auditEntryCount :: int
  sn_profile :: SessionProfile
  sn_sessionCount :: int

definition verifySessions :: "session_env \<Rightarrow> Coordinator \<Rightarrow> (SessionError, SessionIntegrityReport) result" where
  "verifySessions v c = readTransaction v (\<lambda>db.
     and_then (or_fail (sd_metadata db) SessionIntegrity) (\<lambda>m. Inr
       \<lparr>sn_activeSessionCount = mt_active_count m, sn_auditEntryCount = mt_next_audit_sequence m - 1,
        sn_profile = co_profile c, sn_sessionCount = mt_session_count m\<rparr>)) c"

subsection \<open>Opening and closing\<close>

definition empty_db :: SessionDb where
  "empty_db = \<lparr>sd_metadata = None, sd_sessions = [], sd_audit = [], sd_schema = []\<rparr>"

definition initializeSessionSchema :: "session_env \<Rightarrow> SessionDb \<Rightarrow> SessionDb" where
  "initializeSessionSchema v db = db\<lparr>sd_schema := sd_schema db @ created_schema v\<rparr>"

definition initial_metadata :: "session_env \<Rightarrow> string \<Rightarrow> SessionProfile \<Rightarrow> jsval \<Rightarrow> SessionMetadataRow" where
  "initial_metadata v key p projection =
     (let m = \<lparr>mt_active_count = 0, mt_audit_head_mac = GENESIS_MAC, mt_key_check_mac = keyCheckMac v key p,
               mt_latest_occurred_at = None, mt_metadata_mac = [], mt_next_audit_sequence = 1, mt_profile = p,
               mt_rows_mac = rowsMac v key [],
               mt_schema_projection_mac = keyed_mac v key ''schema-projection'' projection,
               mt_schema_version = SESSION_SCHEMA_VERSION, mt_session_count = 0\<rparr>
      in m\<lparr>mt_metadata_mac := metadataMac v key m\<rparr>)"

text \<open>The tables as they are left, and whether the call returned.\<close>

definition initializeOrVerifyMetadata :: "session_env \<Rightarrow> string \<Rightarrow> SessionProfile \<Rightarrow> bool \<Rightarrow> SessionDb
    \<Rightarrow> SessionDb \<times> (SessionError, unit) result" where
  "initializeOrVerifyMetadata v key p namespaceWasEmpty db =
     (case sd_metadata db of
       Some _ \<Rightarrow> (db, ensure (verifySessionsInternal v key p db) SessionIntegrity)
     | None \<Rightarrow>
         if \<not> namespaceWasEmpty \<or> sd_sessions db \<noteq> [] \<or> sd_audit db \<noteq> [] then (db, Inl SessionIntegrity)
         else case schemaProjection db of
           None \<Rightarrow> (db, Inl SessionIntegrity)
         | Some projection \<Rightarrow>
             (let db' = db\<lparr>sd_metadata := Some (initial_metadata v key p projection)\<rparr>
              in (db', ensure (verifySessionsInternal v key p db') SessionIntegrity)))"

definition verifyTrustedHead :: "SessionProfile \<Rightarrow> SessionDb \<Rightarrow> TrustedHead \<Rightarrow> bool" where
  "verifyTrustedHead p db head \<longleftrightarrow>
     th_profile head = p
   \<and> (if th_auditSequence head = 0 then secureEqual (th_auditMac head) GENESIS_MAC
      else case find (\<lambda>r. aw_sequence r = th_auditSequence head) (sd_audit db) of
             None \<Rightarrow> False
           | Some row \<Rightarrow> secureEqual (aw_row_mac row) (th_auditMac head))"

record SessionRecoveryReceipt =
  rr_cleanupRequired :: bool
  rr_invalidatedSessionCount :: nat

definition nonterminal_rows :: "SessionDb \<Rightarrow> SessionRow list" where
  "nonterminal_rows db = filter (\<lambda>r. \<not> isTerminal (sw_state r)) (getAllSessionRows db)"

fun recover_rows :: "session_env \<Rightarrow> string \<Rightarrow> SessionProfile \<Rightarrow> string \<Rightarrow> SessionRow list \<Rightarrow> SessionDb
    \<Rightarrow> (SessionError, SessionDb) result" where
  "recover_rows v key p t [] db = Inr db"
| "recover_rows v key p t (row # rows) db =
     and_then (or_fail (parseRecordJson v (sw_record_json row)) SessionIntegrity) (\<lambda>r.
     and_then (record_change v key p ActCrashRecovery (CrashInput \<lparr>cv_recoveredAt = t, cv_sessionId = sr_sessionId r\<rparr>)
         (Some (sr_state r)) (invalidRecord r t CrashRecovery) db) (\<lambda>db'.
       recover_rows v key p t rows db'))"

fun recovery_not_before :: "session_env \<Rightarrow> string \<Rightarrow> SessionRow list \<Rightarrow> (SessionError, unit) result" where
  "recovery_not_before v t [] = Inr ()"
| "recovery_not_before v t (row # rows) =
     and_then (or_fail (parseRecordJson v (sw_record_json row)) SessionIntegrity) (\<lambda>r.
     and_then (ensure (milliseconds v (sr_updatedAt r) \<le> milliseconds v t) SessionValidation) (\<lambda>_.
       recovery_not_before v t rows))"

definition recover_body :: "session_env \<Rightarrow> string \<Rightarrow> SessionProfile \<Rightarrow> string \<Rightarrow> SessionDb
    \<Rightarrow> (SessionError, SessionDb \<times> SessionRecoveryReceipt) result" where
  "recover_body v key p t db =
     and_then (or_fail (sd_metadata db) SessionIntegrity) (\<lambda>m.
     and_then (ensure (not_before_latest v t m) SessionValidation) (\<lambda>_.
       let rows = nonterminal_rows db
       in and_then (recovery_not_before v t rows) (\<lambda>_.
          and_then (recover_rows v key p t rows db) (\<lambda>db'.
            Inr (db', \<lparr>rr_cleanupRequired = rows \<noteq> [], rr_invalidatedSessionCount = length rows\<rparr>)))))"

definition recoverNonterminalSessions :: "session_env \<Rightarrow> string \<Rightarrow> Coordinator
    \<Rightarrow> Coordinator \<times> (SessionError, SessionRecoveryReceipt) result" where
  "recoverNonterminalSessions v t c = writeTransaction v (recover_body v (co_key c) (co_profile c) t) c"

text \<open>
  The options of \<open>open\<close>. The key is not JSON data: \<open>Some\<close> of its bytes where it is an exact 32-byte array.
\<close>

record OpenOptions =
  op_expectedProfile :: SessionProfile
  op_path :: string
  op_recoveredAt :: string
  op_stateKey :: string
  op_trustedHead :: "TrustedHead option"

definition OpenSessionCoordinatorOptionsSchema :: "host \<Rightarrow> jsval \<Rightarrow> string option \<Rightarrow> OpenOptions option" where
  "OpenSessionCoordinatorOptionsSchema h v stateKey = do {
     f \<leftarrow> z_object [''expectedProfile'', ''path'', ''recoveredAt'', ''trustedHead''] v;
     p \<leftarrow> z_enum profile_table (f ''expectedProfile'');
     q \<leftarrow> z_string (\<lambda>s. 1 \<le> js_length s \<and> js_length s \<le> 4096) (f ''path'');
     t \<leftarrow> z_string (CanonicalTimestampSchema h) (f ''recoveredAt'');
     k \<leftarrow> stateKey;
     head \<leftarrow> z_optional SessionLifecycleTrustedHeadSchema (f ''trustedHead'');
     if length k = 32
     then Some \<lparr>op_expectedProfile = p, op_path = q, op_recoveredAt = t, op_stateKey = k, op_trustedHead = head\<rparr>
     else None }"

text \<open>
  What \<open>open\<close> finds at the path: the tables of the file (none where it does not exist or is empty), whether it is a symbolic
  link, and whether SQLite grants the exclusive lock.
\<close>

record SessionFile =
  sf_db :: SessionDb
  sf_symlink :: bool
  sf_lockable :: bool

text \<open>
  The part of \<open>open\<close> after the path is claimed: the tables as they are left, and the coordinator with its receipt. An
  error of the engine is reported as an integrity error.
\<close>

definition open_claimed :: "session_env \<Rightarrow> OpenOptions \<Rightarrow> string \<Rightarrow> SessionDb
    \<Rightarrow> SessionDb \<times> (SessionError, Coordinator \<times> SessionRecoveryReceipt) result" where
  "open_claimed v opts path db0 =
     (let key = deriveMacKey v (op_stateKey opts) (op_expectedProfile opts); p = op_expectedProfile opts
      in case schemaProjection db0 of
           None \<Rightarrow> (db0, Inl SessionIntegrity)
         | Some projection \<Rightarrow>
             (let namespaceWasEmpty = (projection = JArr []);
                  db1 = (if namespaceWasEmpty then initializeSessionSchema v db0 else db0)
              in case initializeOrVerifyMetadata v key p namespaceWasEmpty db1 of
                   (db2, Inl e) \<Rightarrow> (db2, Inl e)
                 | (db2, Inr _) \<Rightarrow>
                     if \<not> namespaceWasEmpty \<and> op_trustedHead opts = None then (db2, Inl SessionIntegrity)
                     else if \<not> pred_option (verifyTrustedHead p db2) (op_trustedHead opts) then (db2, Inl SessionIntegrity)
                     else
                       (case recoverNonterminalSessions v (op_recoveredAt opts)
                           \<lparr>co_path = path, co_profile = p, co_key = key, co_db = db2, co_closed = False\<rparr> of
                         (c, Inl e) \<Rightarrow> (co_db c, Inl (if e = SqlConstraint then SessionIntegrity else e))
                       | (c, Inr receipt) \<Rightarrow>
                           if verifySessionsInternal v key p (co_db c) then (co_db c, Inr (c, receipt))
                           else (co_db c, Inl SessionIntegrity))))"

text \<open>\<open>OPEN_PATHS\<close> and the tables on disk after the call, and its result.\<close>

definition open_coordinator :: "session_env \<Rightarrow> jsval \<Rightarrow> string option \<Rightarrow> string list \<Rightarrow> (string \<Rightarrow> SessionFile)
    \<Rightarrow> string list \<times> SessionDb option \<times> (SessionError, Coordinator \<times> SessionRecoveryReceipt) result" where
  "open_coordinator v x stateKey openPaths disk =
     (case OpenSessionCoordinatorOptionsSchema (se_host v) x stateKey of
       None \<Rightarrow> (openPaths, None, Inl SessionValidation)
     | Some opts \<Rightarrow>
         (let path = resolve_path v (op_path opts)
          in if path \<in> set openPaths then (openPaths, None, Inl (SessionConflict WRITER_CONFLICT))
             else if sf_symlink (disk path) then (openPaths, None, Inl SessionIntegrity)
             else if \<not> sf_lockable (disk path) then (openPaths, None, Inl SessionIntegrity)
             else case open_claimed v opts path (sf_db (disk path)) of
                    (db, Inl e) \<Rightarrow> (openPaths, Some db, Inl e)
                  | (db, Inr r) \<Rightarrow> (path # openPaths, Some db, Inr r)))"

definition close_coordinator :: "Coordinator \<Rightarrow> string list \<Rightarrow> Coordinator \<times> string list" where
  "close_coordinator c openPaths =
     (if co_closed c then (c, openPaths) else (c\<lparr>co_closed := True\<rparr>, removeAll (co_path c) openPaths))"

definition parseSessionLocalVerificationEvidence :: "jsval \<Rightarrow> (SessionError, SessionLocalEvidence) result" where
  "parseSessionLocalVerificationEvidence x =
     or_fail (parseSessionInput SessionLocalVerificationEvidenceSchema x) SessionValidation"

end
