(* ===== verification/SessionRecords.thy ===== *)
theory SessionRecords
  imports SessionOperations
begin

text \<open>
  Stored texts read back. Each \<open>\<dots>_ok\<close> predicate gives the formats a structure's schema asks for; what a schema accepts
  satisfies it, and a structure that satisfies it is read back from its text as itself.
\<close>

lemma z_object_canonicalize:
  assumes "list_all (\<lambda>(k, _). k \<in> set keys) fs" "distinct (map fst fs)"
  shows "z_object keys (canonicalize h (JObj fs)) =
    Some (\<lambda>k. case map_of fs k of None \<Rightarrow> JUndefined | Some x \<Rightarrow> canonicalize h x)"
proof -
  let ?sorted = "sort_by (\<lambda>(k, _) (l, _). locale_le h k l) fs"
  have pairs: "map_of (map (\<lambda>(k, v). (k, canonicalize h v)) gs) k = map_option (canonicalize h) (map_of gs k)" for gs k
    by (induction gs) auto
  have same: "map_of ?sorted k = map_of fs k" for k
    by (rule fun_cong [OF map_of_same_set]) (use assms(2) in simp_all)
  have "list_all (\<lambda>(k, _). k \<in> set keys) (map (\<lambda>(k, v). (k, canonicalize h v)) ?sorted)"
    using assms(1) by (auto simp: list_all_iff)
  then show ?thesis by (simp add: z_object_def pairs same fun_eq_iff split: option.split)
qed

lemma canonicalize_leaf [simp]:
  "canonicalize h (jint i) = jint i" "canonicalize h (JStr s) = JStr s" "canonicalize h (JBool b) = JBool b"
  "canonicalize h JNull = JNull"
  by simp_all

declare canonicalize.simps(2) [simp del]

lemma canonicalize_nullable:
  "canonicalize h (nullable_json f x) = nullable_json (\<lambda>y. canonicalize h (f y)) x"
  by (cases x) (simp_all add: nullable_json_def)

lemma z_nullable_json:
  "(\<And>y. x = Some y \<Longrightarrow> f y \<noteq> JNull \<and> g (f y) = Some y) \<Longrightarrow> z_nullable g (nullable_json f x) = Some x"
  by (cases x) (auto simp: nullable_json_def z_nullable_def)

lemma canonicalize_JObj_not_null [simp]: "canonicalize h (JObj fs) \<noteq> JNull"
  by (simp add: canonicalize.simps(2))

lemma plain_nullable:
  "(\<And>y. x = Some y \<Longrightarrow> plain_json h (f y)) \<Longrightarrow> plain_json h (nullable_json f x)"
  by (cases x) (auto simp: nullable_json_def)

subsection \<open>Evidence\<close>

definition artifact_ok :: "RecoveryArtifact \<Rightarrow> bool" where
  "artifact_ok a \<longleftrightarrow> pred_option EvidenceHashSchema (artifact_verified a)"

definition artifacts_ok :: "SessionRecoveryArtifactEvidence \<Rightarrow> bool" where
  "artifacts_ok a \<longleftrightarrow> artifact_ok (ra_stateEvidence a) \<and> artifact_ok (ra_eventArchive a) \<and> artifact_ok (ra_releaseBundle a)"

definition preflight_ok :: "host \<Rightarrow> SessionPreflightEvidence \<Rightarrow> bool" where
  "preflight_ok h e \<longleftrightarrow> EvidenceHashSchema (pe_evidenceHash e) \<and> CanonicalTimestampSchema h (pe_observedAt e)"

definition local_ok :: "SessionLocalEvidence \<Rightarrow> bool" where
  "local_ok e \<longleftrightarrow> EvidenceHashSchema (le_evidenceHash e) \<and> artifacts_ok (le_recoveryArtifacts e)
     \<and> 0 \<le> le_incidentCount e \<and> le_incidentCount e \<le> 1000"

definition external_ok :: "SessionExternalEvidence \<Rightarrow> bool" where
  "external_ok e \<longleftrightarrow> EvidenceHashSchema (xe_evidenceHash e)"

definition cost_ok :: "SessionCostEvidence \<Rightarrow> bool" where
  "cost_ok e \<longleftrightarrow> EvidenceHashSchema (ce_evidenceHash e) \<and> SessionAmountSchema (ce_outstandingAtomic e)
     \<and> SessionAmountSchema (ce_reconciledAtomic e) \<and> SessionAmountSchema (ce_reservedAtomic e)"

definition acceptance_ok :: "SessionAcceptanceEvidence \<Rightarrow> bool" where
  "acceptance_ok a \<longleftrightarrow> EvidenceHashSchema (ae_stateEvidence a) \<and> EvidenceHashSchema (ae_eventArchive a)
     \<and> EvidenceHashSchema (ae_releaseBundle a) \<and> SessionAmountSchema (ae_reconciledAtomic a)
     \<and> SessionAmountSchema (ae_reservedAtomic a) \<and> EvidenceHashSchema (ae_costHash a)
     \<and> EvidenceHashSchema (ae_externalHash a) \<and> EvidenceHashSchema (ae_localHash a)
     \<and> EvidenceHashSchema (ae_preflightHash a)"

lemma artifact_reparse:
  assumes "artifact_ok a" "s \<noteq> ''failed''" "s \<noteq> ''unknown''"
  shows "artifact_schema s (canonicalize h (artifact_json s a)) = Some a"
  using assms
  by (cases a) (simp_all add: artifact_schema_def artifact_ok_def z_object_canonicalize z_string_def)

lemma statuses_distinct [simp]:
  "stateEvidenceStatus \<noteq> ''failed''" "stateEvidenceStatus \<noteq> ''unknown''"
  "eventArchiveStatus \<noteq> ''failed''" "eventArchiveStatus \<noteq> ''unknown''"
  "releaseBundleStatus \<noteq> ''failed''" "releaseBundleStatus \<noteq> ''unknown''"
  by (simp_all add: stateEvidenceStatus_def eventArchiveStatus_def releaseBundleStatus_def)

lemma artifacts_reparse:
  "artifacts_ok a \<Longrightarrow> SessionRecoveryArtifactEvidenceSchema (canonicalize h (artifacts_json a)) = Some a"
  by (simp add: artifacts_ok_def SessionRecoveryArtifactEvidenceSchema_def artifacts_json_def z_object_canonicalize
      artifact_reparse)

lemma checks_reparse: "preflight_checks_schema (canonicalize h (preflight_checks_json c)) = Some c"
  by (simp add: preflight_checks_schema_def preflight_checks_json_def z_object_canonicalize)

lemma preflight_reparse:
  "preflight_ok h e \<Longrightarrow> SessionPreflightEvidenceSchema h (canonicalize h (preflight_json e)) = Some e"
  by (simp add: preflight_ok_def SessionPreflightEvidenceSchema_def preflight_json_def z_object_canonicalize
      checks_reparse parse_simps)

lemma lanes_reparse: "x_lanes_schema (canonicalize h (x_lanes_json x)) = Some x"
  by (simp add: x_lanes_schema_def x_lanes_json_def z_object_canonicalize)

lemma sea_reparse: "open_sea_schema (canonicalize h (open_sea_json x)) = Some x"
  by (simp add: open_sea_schema_def open_sea_json_def z_object_canonicalize)

lemma purge_reparse: "purge_schema (canonicalize h (purge_json x)) = Some x"
  by (simp add: purge_schema_def purge_json_def z_object_canonicalize)

lemma small_int: "0 \<le> i \<Longrightarrow> i \<le> 1000 \<Longrightarrow> safe_int i"
  by (simp add: safe_int_def max_safe_integer_def)

lemma local_reparse:
  "local_ok e \<Longrightarrow> SessionLocalVerificationEvidenceSchema (canonicalize h (local_json e)) = Some e"
  by (simp add: local_ok_def SessionLocalVerificationEvidenceSchema_def local_json_def z_object_canonicalize
      lanes_reparse sea_reparse purge_reparse artifacts_reparse parse_simps small_int)

lemma external_reparse:
  "external_ok e \<Longrightarrow> SessionExternalVerificationEvidenceSchema (canonicalize h (external_json e)) = Some e"
  by (simp add: external_ok_def SessionExternalVerificationEvidenceSchema_def external_json_def z_object_canonicalize
      parse_simps)

lemma cost_reparse:
  "cost_ok e \<Longrightarrow> SessionCostEvidenceSchema (canonicalize h (cost_json e)) = Some e"
  by (simp add: cost_ok_def SessionCostEvidenceSchema_def cost_json_def z_object_canonicalize parse_simps)

lemma verified_artifact_reparse:
  "EvidenceHashSchema x \<Longrightarrow> verified_artifact_schema s (canonicalize h (artifact_json s (ArtifactVerified x))) = Some x"
  by (simp add: verified_artifact_schema_def z_object_canonicalize parse_simps)

lemma acceptance_reparse:
  "acceptance_ok a \<Longrightarrow> SessionAcceptanceEvidenceSchema (canonicalize h (acceptance_json a)) = Some a"
  by (simp add: acceptance_ok_def SessionAcceptanceEvidenceSchema_def acceptance_json_def z_object_canonicalize
      parse_simps verified_artifact_reparse closed_lanes_schema_def closed_sea_schema_def purged_schema_def
      supervision_schema_def del: artifact_json.simps)

text \<open>What each schema accepts is within the formats.\<close>

lemma artifact_accepted: "artifact_schema s v = Some a \<Longrightarrow> artifact_ok a"
  by (auto simp: artifact_schema_def artifact_ok_def parse_simps split: if_splits)

lemma artifacts_accepted: "SessionRecoveryArtifactEvidenceSchema v = Some a \<Longrightarrow> artifacts_ok a"
  by (auto simp: SessionRecoveryArtifactEvidenceSchema_def artifacts_ok_def dest: artifact_accepted)

lemma preflight_accepted: "SessionPreflightEvidenceSchema h v = Some e \<Longrightarrow> preflight_ok h e"
  by (auto simp: SessionPreflightEvidenceSchema_def preflight_ok_def parse_simps)

lemma local_accepted: "SessionLocalVerificationEvidenceSchema v = Some e \<Longrightarrow> local_ok e"
  by (auto simp: SessionLocalVerificationEvidenceSchema_def local_ok_def parse_simps dest: artifacts_accepted)

lemma external_accepted: "SessionExternalVerificationEvidenceSchema v = Some e \<Longrightarrow> external_ok e"
  by (auto simp: SessionExternalVerificationEvidenceSchema_def external_ok_def parse_simps)

lemma cost_accepted: "SessionCostEvidenceSchema v = Some e \<Longrightarrow> cost_ok e"
  by (auto simp: SessionCostEvidenceSchema_def cost_ok_def parse_simps)

lemma verified_artifact_accepted: "verified_artifact_schema s v = Some x \<Longrightarrow> EvidenceHashSchema x"
  by (auto simp: verified_artifact_schema_def parse_simps)

lemma acceptance_accepted:
  assumes "SessionAcceptanceEvidenceSchema v = Some a"
  shows "acceptance_ok a"
  using assms unfolding SessionAcceptanceEvidenceSchema_def bind_eq_Some option.inject z_string_Some
  apply clarify
  apply (simp add: acceptance_ok_def)
  apply (intro conjI)
  apply (erule verified_artifact_accepted)+
  done

subsection \<open>The record\<close>

definition record_ok :: "host \<Rightarrow> SessionRecord \<Rightarrow> bool" where
  "record_ok h r \<longleftrightarrow>
     UuidSchema (sr_sessionId r) \<and> QualificationDateSchema h (sr_qualificationDate r)
   \<and> CanonicalTimestampSchema h (sr_plannedAt r) \<and> CanonicalTimestampSchema h (sr_supervisedUntil r)
   \<and> CanonicalTimestampSchema h (sr_updatedAt r)
   \<and> list_all (pred_option (CanonicalTimestampSchema h))
       [sr_preflightedAt r, sr_startedAt r, sr_minute45AcknowledgedAt r, sr_minute90AcknowledgedAt r, sr_stoppedAt r,
        sr_locallyVerifiedAt r, sr_externallyVerifiedAt r, sr_costReconciledAt r, sr_acceptedAt r, sr_invalidatedAt r]
   \<and> pred_option (preflight_ok h) (sr_preflightEvidence r) \<and> pred_option local_ok (sr_localEvidence r)
   \<and> pred_option external_ok (sr_externalEvidence r) \<and> pred_option cost_ok (sr_costEvidence r)
   \<and> pred_option acceptance_ok (sr_acceptanceEvidence r)"

lemma nullable_time_reparse:
  "pred_option (CanonicalTimestampSchema h) t \<Longrightarrow>
     z_nullable (z_string (CanonicalTimestampSchema h)) (nullable_json (\<lambda>y. JStr y) t) = Some t"
  by (rule z_nullable_json) (auto simp: parse_simps)

lemma evidence_not_null [simp]:
  "canonicalize h (preflight_json p) \<noteq> JNull" "canonicalize h (local_json l) \<noteq> JNull"
  "canonicalize h (external_json x) \<noteq> JNull" "canonicalize h (cost_json c) \<noteq> JNull"
  "canonicalize h (acceptance_json a) \<noteq> JNull" "canonicalize h (start_acknowledgements_json u) \<noteq> JNull"
  unfolding preflight_json_def local_json_def external_json_def cost_json_def acceptance_json_def
    start_acknowledgements_json_def by (rule canonicalize_JObj_not_null)+

lemma nullable_evidence_reparse:
  "pred_option (preflight_ok h) p \<Longrightarrow>
     z_nullable (SessionPreflightEvidenceSchema h) (nullable_json (\<lambda>y. canonicalize h (preflight_json y)) p) = Some p"
  "pred_option local_ok l \<Longrightarrow>
     z_nullable SessionLocalVerificationEvidenceSchema (nullable_json (\<lambda>y. canonicalize h (local_json y)) l) = Some l"
  "pred_option external_ok x \<Longrightarrow>
     z_nullable SessionExternalVerificationEvidenceSchema (nullable_json (\<lambda>y. canonicalize h (external_json y)) x) = Some x"
  "pred_option cost_ok c \<Longrightarrow>
     z_nullable SessionCostEvidenceSchema (nullable_json (\<lambda>y. canonicalize h (cost_json y)) c) = Some c"
  "pred_option acceptance_ok a \<Longrightarrow>
     z_nullable SessionAcceptanceEvidenceSchema (nullable_json (\<lambda>y. canonicalize h (acceptance_json y)) a) = Some a"
  by (auto intro!: z_nullable_json simp: preflight_reparse local_reparse external_reparse cost_reparse acceptance_reparse)

lemma start_acknowledgements_reparse:
  "start_acknowledgements_schema (canonicalize h (start_acknowledgements_json u)) = Some u"
  by (simp add: start_acknowledgements_schema_def start_acknowledgements_json_def z_object_canonicalize parse_simps)

lemma nullable_literal_reparse:
  "z_nullable start_acknowledgements_schema (nullable_json (\<lambda>y. canonicalize h (start_acknowledgements_json ())) u) = Some u"
  "z_nullable (z_enum invalidation_table) (nullable_json (\<lambda>y. jenum invalidation_table y) i) = Some i"
  by (auto intro!: z_nullable_json simp: start_acknowledgements_reparse)

lemma record_reparse:
  assumes "record_ok h r"
  shows "SessionRecordSchema h (canonicalize h (record_json r)) = Some r"
  using assms unfolding record_ok_def SessionRecordSchema_def record_json_def
  by (simp add: z_object_canonicalize canonicalize_nullable nullable_time_reparse nullable_evidence_reparse
      nullable_literal_reparse z_string_Some z_number_literal_Some)

lemma nullable_accepted:
  "z_nullable g v = Some x \<Longrightarrow> (\<And>y. g v = Some y \<Longrightarrow> P y) \<Longrightarrow> pred_option P x"
  by (auto simp: z_nullable_Some option.pred_set split: option.splits)

lemma nullable_time_accepted: "z_nullable (z_string P) v = Some t \<Longrightarrow> pred_option P t"
  by (rule nullable_accepted) (auto simp: z_string_Some)

lemma nullable_evidence_accepted:
  "z_nullable (SessionPreflightEvidenceSchema h) v = Some p \<Longrightarrow> pred_option (preflight_ok h) p"
  "z_nullable SessionLocalVerificationEvidenceSchema v = Some l \<Longrightarrow> pred_option local_ok l"
  "z_nullable SessionExternalVerificationEvidenceSchema v = Some x \<Longrightarrow> pred_option external_ok x"
  "z_nullable SessionCostEvidenceSchema v = Some c \<Longrightarrow> pred_option cost_ok c"
  "z_nullable SessionAcceptanceEvidenceSchema v = Some a \<Longrightarrow> pred_option acceptance_ok a"
  by (auto intro: nullable_accepted preflight_accepted local_accepted external_accepted cost_accepted acceptance_accepted)

lemma record_accepted:
  assumes "SessionRecordSchema h v = Some r"
  shows "record_ok h r"
  using assms unfolding SessionRecordSchema_def bind_eq_Some option.inject z_string_Some
  apply clarify
  apply (simp add: record_ok_def)
  apply (intro conjI)
  apply (assumption | erule nullable_time_accepted nullable_evidence_accepted)+
  done

subsection \<open>Stored texts\<close>

lemma plain_evidence:
  "plain_json h (preflight_json p)" "local_ok l \<Longrightarrow> plain_json h (local_json l)" "plain_json h (external_json x)"
  "plain_json h (cost_json c)" "plain_json h (acceptance_json a)" "plain_json h (start_acknowledgements_json u)"
proof -
  have artifacts: "plain_json h (artifact_json s a)" for s a by (cases a) auto
  have one: "safe_int 1" by (simp add: safe_int_def max_safe_integer_def)
  show "plain_json h (preflight_json p)" by (simp add: preflight_json_def preflight_checks_json_def one)
  show "plain_json h (local_json l)" if "local_ok l" using that
    by (simp add: local_json_def x_lanes_json_def open_sea_json_def purge_json_def artifacts_json_def local_ok_def
        artifacts one small_int)
  show "plain_json h (external_json x)" by (simp add: external_json_def one)
  show "plain_json h (cost_json c)" by (simp add: cost_json_def one)
  show "plain_json h (acceptance_json a)" by (simp add: acceptance_json_def one)
  show "plain_json h (start_acknowledgements_json u)" by (simp add: start_acknowledgements_json_def)
qed

lemma plain_record:
  assumes "record_ok h r"
  shows "plain_json h (record_json r)"
proof -
  have nullables: "plain_json h (nullable_json (\<lambda>y. JStr y) t)" "plain_json h (nullable_json (\<lambda>y. jenum tbl y) e)" for t tbl e
    by (auto intro: plain_nullable)
  have evidence: "plain_json h (nullable_json preflight_json (sr_preflightEvidence r))"
      "plain_json h (nullable_json local_json (sr_localEvidence r))"
      "plain_json h (nullable_json external_json (sr_externalEvidence r))"
      "plain_json h (nullable_json cost_json (sr_costEvidence r))"
      "plain_json h (nullable_json acceptance_json (sr_acceptanceEvidence r))"
      "plain_json h (nullable_json start_acknowledgements_json (sr_startAcknowledgements r))"
    using assms by (auto intro!: plain_nullable plain_evidence simp: record_ok_def)
  show ?thesis unfolding record_json_def
    by (simp add: nullables evidence safe_int_def max_safe_integer_def)
qed

lemma record_stored:
  assumes "record_ok (se_host v) r"
  obtains s where "locale_text (se_host v) (record_json r) = Some s"
    "parseRecordJson v s = (if recordSemantics v r then Some r else None)"
  using locale_round_trip [OF plain_record [OF assms]] record_reparse [OF assms]
  by (auto simp: parseRecordJson_def parseSessionInput_def)

lemma parseRecordJson_Some:
  "parseRecordJson v s = Some r \<Longrightarrow>
     record_ok (se_host v) r \<and> recordSemantics v r \<and> locale_text (se_host v) (record_json r) = Some s"
  by (auto simp: parseRecordJson_def parseSessionInput_def record_accepted split: if_splits)

lemma parse_stored:
  assumes "record_ok (se_host v) r" "recordSemantics v r" "locale_text (se_host v) (record_json r) = Some s"
  shows "parseRecordJson v s = Some r"
  using record_stored [OF assms(1)] assms(2,3) by (metis option.inject)

subsection \<open>Inputs\<close>

primrec input_actions :: "SessionInput \<Rightarrow> AuditAction list" where
  "input_actions (PlanInput i) = [ActPlan]"
| "input_actions (PreflightInput i) = [ActPreflight]"
| "input_actions (StartInput i) = [ActStart]"
| "input_actions (AcknowledgementInput i) = [if sa_checkpoint i = Minute45 then ActMinute45 else ActMinute90]"
| "input_actions (StopInput i) = [ActStop]"
| "input_actions (LocalInput i) = [ActLocal]"
| "input_actions (ExternalInput i) = [ActExternal]"
| "input_actions (CostInput i) = [ActCost]"
| "input_actions (AcceptInput i) = [ActAccept]"
| "input_actions (InvalidateInput i) = [ActInvalidate]"
| "input_actions (CrashInput i) = [ActCrashRecovery]"

primrec input_evidence_ok :: "host \<Rightarrow> SessionInput \<Rightarrow> bool" where
  "input_evidence_ok h (PlanInput i) =
     (QualificationDateSchema h (pl_qualificationDate i) \<and> CanonicalTimestampSchema h (pl_supervisedUntil i))"
| "input_evidence_ok h (PreflightInput i) = preflight_ok h (pi_evidence i)"
| "input_evidence_ok h (StartInput i) = UuidSchema (st_typedSessionId i)"
| "input_evidence_ok h (AcknowledgementInput i) = True"
| "input_evidence_ok h (StopInput i) = True"
| "input_evidence_ok h (LocalInput i) = local_ok (lv_evidence i)"
| "input_evidence_ok h (ExternalInput i) = external_ok (xv_evidence i)"
| "input_evidence_ok h (CostInput i) = cost_ok (cr_evidence i)"
| "input_evidence_ok h (AcceptInput i) = True"
| "input_evidence_ok h (InvalidateInput i) = True"
| "input_evidence_ok h (CrashInput i) = True"

definition input_ok :: "host \<Rightarrow> SessionInput \<Rightarrow> bool" where
  "input_ok h i \<longleftrightarrow> UuidSchema (input_session i) \<and> CanonicalTimestampSchema h (input_time i) \<and> input_evidence_ok h i"

lemma input_reparse:
  assumes "input_ok h i" "action \<in> set (input_actions i)"
  shows "auditInputSchema h action (canonicalize h (input_json i)) = Some i" "checkpoint_matches action i"
proof -
  show "auditInputSchema h action (canonicalize h (input_json i)) = Some i"
    using assms unfolding input_ok_def
    by (cases i)
      (simp_all add: z_object_canonicalize parse_simps preflight_reparse local_reparse external_reparse cost_reparse
        PlanSessionInputSchema_def plan_json_def RecordSessionPreflightInputSchema_def preflight_input_json_def
        StartSessionInputSchema_def start_json_def z_true_def RecordSupervisionAcknowledgementInputSchema_def
        acknowledgement_json_def StopSessionInputSchema_def stop_session_json_def RecordLocalVerificationInputSchema_def
        local_input_json_def RecordExternalVerificationInputSchema_def external_input_json_def
        RecordCostReconciliationInputSchema_def cost_input_json_def AcceptSessionInputSchema_def accept_json_def
        InvalidateSessionInputSchema_def invalidate_json_def CrashRecoveryInputSchema_def crash_recovery_json_def)
  show "checkpoint_matches action i"
    using assms(2) by (cases i) (auto split: if_splits, metis Checkpoint.exhaust)
qed

lemma input_plain:
  assumes "input_ok h i"
  shows "plain_json h (input_json i)"
  using assms
  by (cases i) (simp_all add: input_ok_def plain_evidence plan_json_def preflight_input_json_def start_json_def acknowledgement_json_def
      stop_session_json_def local_input_json_def external_input_json_def cost_input_json_def accept_json_def
      invalidate_json_def crash_recovery_json_def)

lemma input_stored:
  assumes "input_ok (se_host v) i" "action \<in> set (input_actions i)"
  obtains s where "locale_text (se_host v) (input_json i) = Some s"
    "\<And>row. aw_action row = action \<Longrightarrow> aw_input_json row = s \<Longrightarrow> aw_session_id row = input_session i
       \<Longrightarrow> aw_occurred_at row = input_time i \<Longrightarrow> parseAuditInput v row = Some i"
  using locale_round_trip [OF input_plain [OF assms(1)]] input_reparse [OF assms]
  by (auto simp: parseAuditInput_def parseSessionInput_def)

end
