(* ===== verification/SessionIntegrity.thy ===== *)
theory SessionIntegrity
  imports SessionRecords
begin

text \<open>
  What authenticated tables say, and that a change keeps them authenticated. \<open>keys_ok\<close> is what the primary keys and
  the unique constraint of the tables give. \<open>ledger\<close> is what verification shows of the rows: every
  session row holds a well-formed record and the last audit row of its session holds the same one.
  \<open>record_change_verified\<close> shows that putting a well-formed record and logging the transition that leads to it
  succeeds on verified tables and leaves verified tables.
\<close>

definition keys_ok :: "SessionDb \<Rightarrow> bool" where
  "keys_ok db \<longleftrightarrow> distinct (map sw_session_id (sd_sessions db))
     \<and> distinct (map (\<lambda>r. (aw_session_id r, aw_action r)) (sd_audit db))"

lemma set_getAll [simp]:
  "set (getAllSessionRows db) = set (sd_sessions db)" "set (getAllAuditRows db) = set (sd_audit db)"
  by (simp_all add: getAllSessionRows_def getAllAuditRows_def)

lemma length_getAll [simp]:
  "length (getAllSessionRows db) = length (sd_sessions db)" "length (getAllAuditRows db) = length (sd_audit db)"
  by (simp_all add: getAllSessionRows_def getAllAuditRows_def)

lemma mset_getAll [simp]: "mset (getAllSessionRows db) = mset (sd_sessions db)"
  by (simp add: getAllSessionRows_def)

lemma distinct_map_filter_mset:
  assumes "mset xs = mset ys"
  shows "distinct (map f (filter P xs)) = distinct (map f (filter P ys))"
proof -
  have "mset (map f (filter P xs)) = mset (map f (filter P ys))" using assms by (simp add: mset_filter mset_map)
  then show ?thesis by (rule mset_eq_imp_distinct_iff)
qed

lemma length_filter_mset: "mset xs = mset ys \<Longrightarrow> length (filter P xs) = length (filter P ys)"
  by (metis mset_filter size_mset)

subsection \<open>The walk over the audit rows\<close>

lemma replay_audit_append:
  "replay_audit v key acc (xs @ ys) = Option.bind (replay_audit v key acc xs) (\<lambda>acc. replay_audit v key acc ys)"
  by (induction xs arbitrary: acc) simp_all

text \<open>The states the walk tracks are those of the records it tracks.\<close>

definition replay_agrees :: "session_env \<Rightarrow> AuditReplay \<Rightarrow> bool" where
  "replay_agrees v acc \<longleftrightarrow> distinct (map fst (ar_records acc)) \<and>
     (\<forall>i. map_of (ar_states acc) i =
        (case map_of (ar_records acc) i of None \<Rightarrow> None | Some s \<Rightarrow> map_option sr_state (parseRecordJson v s)))"

lemma replay_agrees_step:
  "replay_agrees v acc \<Longrightarrow> audit_row_ok v key acc row \<Longrightarrow> replay_agrees v (replay_audit_row acc row)"
  by (auto simp: replay_agrees_def replay_audit_row_def audit_row_ok_def map_of_update distinct_update
      split: option.splits)

lemma replay_audit_agrees:
  "replay_audit v key acc rows = Some acc' \<Longrightarrow> replay_agrees v acc \<Longrightarrow> replay_agrees v acc'"
  by (induction rows arbitrary: acc) (auto split: if_splits intro: replay_agrees_step)

lemma audit_start_agrees: "replay_agrees v audit_start"
  by (simp add: replay_agrees_def audit_start_def)

lemma replay_audit_count:
  "replay_audit v key acc rows = Some acc' \<Longrightarrow>
     ar_count acc' = ar_count acc + int (length rows) \<and> map aw_sequence rows = map (\<lambda>i. ar_count acc + 1 + int i) [0..<length rows]"
proof (induction rows arbitrary: acc)
  case (Cons row rows)
  then have "audit_row_ok v key acc row" and rest: "replay_audit v key (replay_audit_row acc row) rows = Some acc'"
    by (auto split: if_splits)
  then have "aw_sequence row = ar_count acc + 1" by (simp add: audit_row_ok_def)
  with Cons.IH [OF rest] show ?case
    by (auto simp: replay_audit_row_def upt_conv_Cons map_Suc_upt [symmetric] simp del: upt_Suc)
qed simp

subsection \<open>What verification shows\<close>

lemma verified_parts:
  assumes "verifySessionsInternal v key p db"
  obtains m projection acc where "sd_metadata db = Some m" "schemaProjection db = Some projection"
    "metadata_ok v key p projection m" "sessions_ok v key p m (getAllSessionRows db)"
    "length (sd_audit db) \<le> MAX_AUDIT_RECORDS" "mt_next_audit_sequence m = int (length (sd_audit db)) + 1"
    "replay_audit v key audit_start (getAllAuditRows db) = Some acc" "replay_agrees v acc"
    "secureEqual (mt_audit_head_mac m) (ar_mac acc)" "mt_latest_occurred_at m = ar_time acc"
    "length (ar_records acc) = length (sd_sessions db)"
    "\<And>r. r \<in> set (sd_sessions db) \<Longrightarrow> map_of (ar_records acc) (sw_session_id r) = Some (sw_record_json r)"
  using assms replay_audit_agrees audit_start_agrees
  by (fastforce simp: verifySessionsInternal_def audit_ok_def final_records_def list_all_iff split: option.splits)

lemma session_row_parsed:
  assumes "session_row_ok v key p row"
  obtains r where "parseRecordJson v (sw_record_json row) = Some r" "record_ok (se_host v) r" "recordSemantics v r"
    "sr_sessionId r = sw_session_id row" "sr_profile r = sw_profile row" "sr_profile r = p"
    "sr_qualificationDate r = sw_qualification_date row" "sr_state r = sw_state row" "sw_active_profile row = activeProfile r"
    "locale_text (se_host v) (record_json r) = Some (sw_record_json row)"
  using assms parseRecordJson_Some by (fastforce simp: session_row_ok_def split: option.splits)

lemma find_distinct:
  assumes "distinct (map k xs)" "x \<in> set xs"
  shows "find (\<lambda>y. k y = k x) xs = Some x"
  using assms
proof (induction xs)
  case (Cons y ys)
  then show ?case by (cases "x = y") (auto simp: rev_image_eqI)
qed simp

lemma getSessionRow_member: "getSessionRow db i = Some row \<Longrightarrow> row \<in> set (sd_sessions db) \<and> sw_session_id row = i"
  by (auto simp: getSessionRow_def find_Some_iff)

lemma getSessionRow_None: "getSessionRow db i = None \<longleftrightarrow> i \<notin> sw_session_id ` set (sd_sessions db)"
  by (auto simp: getSessionRow_def find_None_iff)

lemma replay_domain:
  assumes "replay_agrees v acc" "length (ar_records acc) = length (sd_sessions db)" "distinct (map sw_session_id (sd_sessions db))"
    and finals: "\<And>r. r \<in> set (sd_sessions db) \<Longrightarrow> map_of (ar_records acc) (sw_session_id r) = Some (sw_record_json r)"
  shows "fst ` set (ar_records acc) = sw_session_id ` set (sd_sessions db)"
proof (rule card_subset_eq [symmetric])
  show "sw_session_id ` set (sd_sessions db) \<subseteq> fst ` set (ar_records acc)"
    using finals map_of_SomeD by (force simp: image_iff)
  have "card (fst ` set (ar_records acc)) = length (ar_records acc)"
    using assms(1) distinct_card [of "map fst (ar_records acc)"] by (simp add: replay_agrees_def)
  moreover have "card (sw_session_id ` set (sd_sessions db)) = length (sd_sessions db)"
    using assms(3) distinct_card [of "map sw_session_id (sd_sessions db)"] by simp
  ultimately show "card (sw_session_id ` set (sd_sessions db)) = card (fst ` set (ar_records acc))"
    using assms(2) by simp
qed simp

text \<open>The state a session was left in by the log is the state of its row.\<close>

lemma replay_state:
  assumes "replay_agrees v acc" "length (ar_records acc) = length (sd_sessions db)" "keys_ok db"
    and "\<And>r. r \<in> set (sd_sessions db) \<Longrightarrow> map_of (ar_records acc) (sw_session_id r) = Some (sw_record_json r)"
    and "list_all (session_row_ok v key p) (getAllSessionRows db)"
  shows "map_of (ar_states acc) i = map_option sw_state (getSessionRow db i)"
proof (cases "getSessionRow db i")
  case None
  then have "i \<notin> fst ` set (ar_records acc)"
    using replay_domain [OF assms(1,2) _ assms(4)] assms(3) by (simp add: getSessionRow_None keys_ok_def)
  then have "map_of (ar_records acc) i = None" by (simp add: map_of_eq_None_iff)
  with None assms(1) show ?thesis by (simp add: replay_agrees_def)
next
  case (Some row)
  note row = getSessionRow_member [OF Some]
  then have "session_row_ok v key p row" using assms(5) by (simp add: list_all_iff)
  then obtain r where "parseRecordJson v (sw_record_json row) = Some r" "sr_state r = sw_state row"
    by (rule session_row_parsed)
  moreover have "map_of (ar_records acc) i = Some (sw_record_json row)" using assms(4) row by blast
  ultimately show ?thesis using Some assms(1) by (simp add: replay_agrees_def)
qed

subsection \<open>A change keeps the tables verified\<close>

lemma keyed_mac_hash: "hex_digests (hmac_hex v key) \<Longrightarrow> EvidenceHashSchema (keyed_mac v key d x)"
  by (simp add: keyed_mac_def hex_digests_def EvidenceHashSchema_def)

lemma mac_hashes:
  assumes "hex_digests (hmac_hex v key)"
  shows "EvidenceHashSchema (sessionRowMac v key row)" "EvidenceHashSchema (auditRowMac v key arow)"
    "EvidenceHashSchema (rowsMac v key rows)" "EvidenceHashSchema (keyCheckMac v key p)"
    "EvidenceHashSchema (metadataMac v key m)"
  using keyed_mac_hash [OF assms]
  by (simp_all add: sessionRowMac_def auditRowMac_def rowsMac_def keyCheckMac_def metadataMac_def)

lemma genesis_mac_hash: "EvidenceHashSchema GENESIS_MAC"
proof -
  have "is_lower_hex CHR ''0''" by (simp add: is_lower_hex_def is_digit_def in_range_def) (simp add: code_def)
  then show ?thesis by (simp add: EvidenceHashSchema_def GENESIS_MAC_def list_all_iff)
qed

lemma mac_of_updated_row [simp]:
  "metadataMac v key (m\<lparr>mt_metadata_mac := x\<rparr>) = metadataMac v key m"
  "sessionRowMac v key (row\<lparr>sw_row_mac := x\<rparr>) = sessionRowMac v key row"
  "auditRowMac v key (arow\<lparr>aw_row_mac := x\<rparr>) = auditRowMac v key arow"
  by (simp_all add: metadataMac_def sessionRowMac_def auditRowMac_def)

lemma set_upsert: "set (upsert row rows) = insert row {r \<in> set rows. sw_session_id r \<noteq> sw_session_id row}"
  by (auto simp: upsert_def list_ex_iff)

lemma upsert_ids:
  "map sw_session_id (upsert row rows) =
     (if sw_session_id row \<in> sw_session_id ` set rows then map sw_session_id rows else map sw_session_id rows @ [sw_session_id row])"
proof -
  have "list_ex (\<lambda>r. sw_session_id r = sw_session_id row) rows \<longleftrightarrow> sw_session_id row \<in> sw_session_id ` set rows"
    by (simp add: list_ex_iff image_iff) metis
  then show ?thesis by (simp add: upsert_def)
qed

lemma length_upsert:
  "length (upsert row rows) = (if sw_session_id row \<in> sw_session_id ` set rows then length rows else Suc (length rows))"
  using arg_cong [OF upsert_ids [of row rows], of length] by (simp split: if_splits)

lemma session_row_verified:
  assumes "hex_digests (hmac_hex v key)" "record_ok (se_host v) r" "recordSemantics v r" "sr_profile r = p"
  obtains row where "session_row v key r = Some row" "session_row_ok v key p row" "sw_session_id row = sr_sessionId r"
    "sw_active_profile row = activeProfile r" "sw_profile row = p" "sw_qualification_date row = sr_qualificationDate r"
    "sw_state row = sr_state r" "locale_text (se_host v) (record_json r) = Some (sw_record_json row)"
proof -
  obtain t where t: "locale_text (se_host v) (record_json r) = Some t" "parseRecordJson v t = Some r"
    using record_stored [OF assms(2)] assms(3) by (metis (full_types))
  show ?thesis
    by (rule that, simp add: session_row_def t(1) Let_def, insert t assms(1,4))
      (simp_all add: session_row_ok_def secureEqual_def keyed_mac_hash sessionRowMac_def)
qed

lemma one_active:
  assumes "list_all (session_row_ok v key p) rows" "distinct (List.map_filter sw_active_profile rows)"
  shows "length (filter (\<lambda>r. sw_active_profile r \<noteq> None) rows) \<le> 1"
proof -
  have "x = p" if x: "x \<in> set (List.map_filter sw_active_profile rows)" for x
  proof -
    obtain row where row: "row \<in> set rows" "sw_active_profile row = Some x"
      using x by (auto simp: map_filter_def)
    then have "session_row_ok v key p row" using assms(1) by (simp add: list_all_iff)
    then show ?thesis using row(2)
      by (auto simp: activeProfile_def split: if_splits elim!: session_row_parsed)
  qed
  then have "set (List.map_filter sw_active_profile rows) \<subseteq> {p}" by auto
  then have "length (List.map_filter sw_active_profile rows) \<le> 1"
    using assms(2) card_mono [of "{p}"] by (simp add: distinct_card [symmetric])
  then show ?thesis by (simp add: map_filter_def)
qed

text \<open>What the metadata says after a refresh always authenticates.\<close>

lemma refreshed_verified:
  assumes "hex_digests (hmac_hex v key)" "length (sd_audit db) \<le> MAX_AUDIT_RECORDS"
    and "length (sd_sessions db) \<le> MAX_SESSION_RECORDS" "list_all (session_row_ok v key p) (sd_sessions db)"
    and "unique_indexes (sd_sessions db)"
    and "pred_option (CanonicalTimestampSchema (se_host v)) (mt_latest_occurred_at (refreshed v key p projection db))"
  shows "metadata_ok v key p projection (refreshed v key p projection db)"
    and "sessions_ok v key p (refreshed v key p projection db) (getAllSessionRows db)"
proof -
  have mset: "mset (getAllSessionRows db) = mset (sd_sessions db)" by simp
  have active: "length (filter (\<lambda>r. sw_active_profile r \<noteq> None) (getAllSessionRows db)) \<le> 1"
    using one_active [OF assms(4)] assms(5) length_filter_mset [OF mset] by (simp add: unique_indexes_def)
  have bounds: "int (length (sd_audit db)) \<le> 100000" "int (length (sd_sessions db)) \<le> 10000"
    using assms(2,3) by (simp_all add: MAX_AUDIT_RECORDS_def MAX_SESSION_RECORDS_def)
  show "metadata_ok v key p projection (refreshed v key p projection db)"
    using assms(6) active bounds keyed_mac_hash [OF assms(1)]
    unfolding metadata_ok_def refreshed_def Let_def
    by (simp add: secureEqual_def safe_int_def max_safe_integer_def MAX_SESSION_RECORDS_def metadataMac_def
        keyCheckMac_def)
  have "distinct (map (\<lambda>r. (sw_profile r, sw_qualification_date r)) (filter (\<lambda>r. sw_state r = Accepted) (getAllSessionRows db)))"
    using assms(5) by (simp add: unique_indexes_def distinct_map_filter_mset [OF mset])
  then show "sessions_ok v key p (refreshed v key p projection db) (getAllSessionRows db)"
    using assms(3,4) mac_hashes [OF assms(1)]
    unfolding sessions_ok_def refreshed_def Let_def by (simp add: secureEqual_def list_all_iff)
qed

text \<open>When the log takes another row: it is the last one, and the walk ends with it.\<close>

lemma audit_appended:
  assumes "replay_audit v key audit_start (getAllAuditRows db) = Some acc"
    and "aw_sequence row = int (length (sd_audit db)) + 1" "audit_row_ok v key acc row"
  shows "getAllAuditRows (db\<lparr>sd_audit := sd_audit db @ [row]\<rparr>) = getAllAuditRows db @ [row]"
    and "replay_audit v key audit_start (getAllAuditRows db @ [row]) = Some (replay_audit_row acc row)"
    and "\<not> list_ex (\<lambda>r. aw_sequence r = aw_sequence row) (sd_audit db)"
proof -
  have "map aw_sequence (getAllAuditRows db) = map (\<lambda>i. 1 + int i) [0..<length (sd_audit db)]"
    using replay_audit_count [OF assms(1)] by (simp add: audit_start_def)
  then have "aw_sequence ` set (sd_audit db) = (\<lambda>i. 1 + int i) ` {0..<length (sd_audit db)}"
    by (metis set_getAll(2) set_map set_upt)
  then have less: "aw_sequence r < aw_sequence row" if "r \<in> set (sd_audit db)" for r
    using that assms(2) by force
  then have "\<forall>r \<in> set (sd_audit db). aw_sequence r \<le> aw_sequence row" by (simp add: less_le)
  then show "getAllAuditRows (db\<lparr>sd_audit := sd_audit db @ [row]\<rparr>) = getAllAuditRows db @ [row]"
    by (simp add: getAllAuditRows_def sort_key_last)
  show "replay_audit v key audit_start (getAllAuditRows db @ [row]) = Some (replay_audit_row acc row)"
    using assms(1,3) by (simp add: replay_audit_append)
  show "\<not> list_ex (\<lambda>r. aw_sequence r = aw_sequence row) (sd_audit db)"
    using less by (force simp: list_ex_iff)
qed

definition change_ok :: "session_env \<Rightarrow> SessionProfile \<Rightarrow> AuditAction \<Rightarrow> SessionInput \<Rightarrow> SessionRecord \<Rightarrow> SessionDb \<Rightarrow> bool" where
  "change_ok v p action inp r db \<longleftrightarrow>
     record_ok (se_host v) r \<and> recordSemantics v r \<and> sr_profile r = p
   \<and> input_ok (se_host v) inp \<and> action \<in> set (input_actions inp)
   \<and> input_session inp = sr_sessionId r \<and> input_time inp = sr_updatedAt r
   \<and> pred_option (not_before_latest v (input_time inp)) (sd_metadata db)
   \<and> getAuditByAction db (sr_sessionId r) action = None
   \<and> transition_valid action (map_option sw_state (getSessionRow db (sr_sessionId r))) (sr_state r)
   \<and> length (sd_audit db) < MAX_AUDIT_RECORDS
   \<and> (getSessionRow db (sr_sessionId r) = None \<longrightarrow> length (sd_sessions db) < MAX_SESSION_RECORDS)"

lemma new_audit_row:
  assumes hex: "hex_digests (hmac_hex v key)" and change: "change_ok v p action inp r db"
    and m: "sd_metadata db = Some m" "mt_next_audit_sequence m = int (length (sd_audit db)) + 1"
    and acc: "replay_audit v key audit_start (getAllAuditRows db) = Some acc"
      "secureEqual (mt_audit_head_mac m) (ar_mac acc)" "mt_latest_occurred_at m = ar_time acc"
      "map_of (ar_states acc) (sr_sessionId r) = map_option sw_state (getSessionRow db (sr_sessionId r))"
  obtains row where
    "audit_row v key m action inp (map_option sw_state (getSessionRow db (sr_sessionId r))) r = Some row"
    "audit_row_ok v key acc row" "aw_sequence row = int (length (sd_audit db)) + 1"
    "aw_session_id row = sr_sessionId r" "aw_action row = action" "aw_occurred_at row = sr_updatedAt r"
    "aw_to_state row = sr_state r" "aw_from_state row = map_option sw_state (getSessionRow db (sr_sessionId r))"
    "locale_text (se_host v) (record_json r) = Some (aw_record_json row)"
    "locale_text (se_host v) (input_json inp) = Some (aw_input_json row)"
proof -
  note c = change [unfolded change_ok_def]
  obtain t where t: "locale_text (se_host v) (record_json r) = Some t" "parseRecordJson v t = Some r"
    using record_stored [of v r] c by (metis (full_types))
  obtain i where i: "locale_text (se_host v) (input_json inp) = Some i"
      "\<And>row. aw_action row = action \<Longrightarrow> aw_input_json row = i \<Longrightarrow> aw_session_id row = input_session inp
         \<Longrightarrow> aw_occurred_at row = input_time inp \<Longrightarrow> parseAuditInput v row = Some inp"
    using input_stored [of v inp action] c by blast
  have count: "ar_count acc = int (length (sd_audit db))"
    using replay_audit_count [OF acc(1)] by (simp add: audit_start_def)
  have time: "CanonicalTimestampSchema (se_host v) (sr_updatedAt r)"
      "pred_option (\<lambda>t. milliseconds v t \<le> milliseconds v (sr_updatedAt r)) (ar_time acc)"
    using c m(1) acc(3) by (auto simp: input_ok_def not_before_latest_def)
  show ?thesis
    by (rule that, simp add: audit_row_def t(1) i(1) Let_def)
      (insert t i c m acc count time, simp_all add: audit_row_ok_def secureEqual_def keyed_mac_hash [OF hex] auditRowMac_def)
qed

theorem record_change_verified:
  assumes ok: "verifySessionsInternal v key p db" "keys_ok db" and hex: "hex_digests (hmac_hex v key)"
    and change: "change_ok v p action inp r db"
    and unique: "\<And>row. session_row v key r = Some row \<Longrightarrow> unique_indexes (upsert row (sd_sessions db))"
  obtains db' row arow where
    "record_change v key p action inp (map_option sw_state (getSessionRow db (sr_sessionId r))) r db = Inr db'"
    "verifySessionsInternal v key p db'" "keys_ok db'"
    "session_row v key r = Some row" "sd_sessions db' = upsert row (sd_sessions db)"
    "sd_audit db' = sd_audit db @ [arow]" "sd_schema db' = sd_schema db"
    "aw_session_id arow = sr_sessionId r" "aw_action arow = action" "aw_to_state arow = sr_state r"
    "locale_text (se_host v) (record_json r) = Some (aw_record_json arow)"
    "locale_text (se_host v) (input_json inp) = Some (aw_input_json arow)"
    "map_option mt_latest_occurred_at (sd_metadata db') = Some (Some (sr_updatedAt r))"
proof -
  note c = change [unfolded change_ok_def]
  obtain m projection acc where m: "sd_metadata db = Some m" "schemaProjection db = Some projection"
      "sessions_ok v key p m (getAllSessionRows db)" "mt_next_audit_sequence m = int (length (sd_audit db)) + 1"
    and acc: "replay_audit v key audit_start (getAllAuditRows db) = Some acc" "replay_agrees v acc"
      "secureEqual (mt_audit_head_mac m) (ar_mac acc)" "mt_latest_occurred_at m = ar_time acc"
      "length (ar_records acc) = length (sd_sessions db)"
      "\<And>r. r \<in> set (sd_sessions db) \<Longrightarrow> map_of (ar_records acc) (sw_session_id r) = Some (sw_record_json r)"
    using verified_parts [OF ok(1)] by metis
  have rows: "list_all (session_row_ok v key p) (getAllSessionRows db)" "list_all (session_row_ok v key p) (sd_sessions db)"
      "length (sd_sessions db) \<le> MAX_SESSION_RECORDS"
    using m(3) by (simp_all add: sessions_ok_def list_all_iff)
  note state = replay_state [OF acc(2,5) ok(2) acc(6) rows(1), of "sr_sessionId r"]
  obtain row where row: "session_row v key r = Some row" "session_row_ok v key p row" "sw_session_id row = sr_sessionId r"
      "locale_text (se_host v) (record_json r) = Some (sw_record_json row)"
    using session_row_verified [OF hex, of r p] c by metis
  obtain arow where arow:
      "audit_row v key m action inp (map_option sw_state (getSessionRow db (sr_sessionId r))) r = Some arow"
      "audit_row_ok v key acc arow" "aw_sequence arow = int (length (sd_audit db)) + 1"
      "aw_session_id arow = sr_sessionId r" "aw_action arow = action" "aw_occurred_at arow = sr_updatedAt r"
      "aw_to_state arow = sr_state r"
      "locale_text (se_host v) (record_json r) = Some (aw_record_json arow)"
      "locale_text (se_host v) (input_json inp) = Some (aw_input_json arow)"
    using new_audit_row [OF hex change m(1,4) acc(1,3,4) state] by metis
  note app = audit_appended [OF acc(1) arow(3,2)]
  let ?rows = "upsert row (sd_sessions db)"
  define db1 where "db1 = db\<lparr>sd_sessions := ?rows, sd_audit := sd_audit db @ [arow]\<rparr>"
  define m' where "m' = refreshed v key p projection db1"
  define db' where "db' = db1\<lparr>sd_metadata := Some m'\<rparr>"
  have projection: "schemaProjection db1 = Some projection" "schemaProjection db' = Some projection"
    using m(2) by (simp_all add: schemaProjection_def db1_def db'_def)
  have audit: "getAllAuditRows db1 = getAllAuditRows db @ [arow]" "getAllAuditRows db' = getAllAuditRows db @ [arow]"
    using app(1) by (simp_all add: getAllAuditRows_def db1_def db'_def)
  have same: "getAllSessionRows db' = getAllSessionRows db1" "sd_sessions db' = ?rows" "sd_sessions db1 = ?rows"
      "sd_audit db' = sd_audit db @ [arow]" "sd_audit db1 = sd_audit db @ [arow]" "sd_metadata db' = Some m'"
      "sd_schema db' = sd_schema db"
    by (simp_all add: getAllSessionRows_def db1_def db'_def)
  have put: "putSession v key r db = Inr (db\<lparr>sd_sessions := ?rows\<rparr>)"
    using row(1) unique [OF row(1)] by (simp add: putSession_def Let_def)
  have insertable: "audit_insertable (db\<lparr>sd_sessions := ?rows\<rparr>) arow"
  proof -
    have "\<exists>x \<in> set ?rows. sw_session_id x = sr_sessionId r" using row(3) by (auto simp: set_upsert)
    then have "getSessionRow (db\<lparr>sd_sessions := ?rows\<rparr>) (sr_sessionId r) \<noteq> None"
      by (auto simp: getSessionRow_def find_None_iff)
    then show ?thesis using app(3) arow(4,5) c by (simp add: audit_insertable_def getAuditByAction_def)
  qed
  have len: "length ?rows \<le> MAX_SESSION_RECORDS"
    using c rows(3) row(3) by (auto simp: length_upsert getSessionRow_None)
  have okrows: "list_all (session_row_ok v key p) ?rows"
    using rows(2) row(2) by (auto simp: list_all_iff set_upsert)
  have latest: "mt_latest_occurred_at (m') = Some (sr_updatedAt r)"
    using arow(6) by (simp add: m'_def refreshed_def Let_def audit)
  have "pred_option (CanonicalTimestampSchema (se_host v)) (mt_latest_occurred_at (m'))"
    using c latest by (simp add: record_ok_def)
  then have meta: "metadata_ok v key p projection (m')"
      "sessions_ok v key p (m') (getAllSessionRows db1)"
    using refreshed_verified [OF hex, of db1 p projection] c len okrows unique [OF row(1)]
    unfolding m'_def [symmetric] same by simp_all
  have finals: "length (AList.update (sr_sessionId r) (aw_record_json arow) (ar_records acc)) = length ?rows"
  proof -
    have "fst ` set (ar_records acc) = sw_session_id ` set (sd_sessions db)"
      using replay_domain [OF acc(2,5) _ acc(6)] ok(2) by (simp add: keys_ok_def)
    moreover have "length (AList.update k x al) = (if k \<in> fst ` set al then length al else Suc (length al))"
      for k x and al :: "(string \<times> string) list"
      using arg_cong [OF update_keys [of k x al], of length] by (simp split: if_splits)
    ultimately show ?thesis using acc(5) row(3) by (simp add: length_upsert)
  qed
  have texts: "sw_record_json row = aw_record_json arow" using row(4) arow(8) by simp
  have last_texts: "map_of (AList.update (sr_sessionId r) (aw_record_json arow) (ar_records acc)) (sw_session_id x)
      = Some (sw_record_json x)" if "x \<in> set ?rows" for x
    using that acc(6) row(3) texts by (auto simp: set_upsert map_of_update)
  have link: "aw_row_mac arow = auditRowMac v key arow" "EvidenceHashSchema (auditRowMac v key arow)"
    using arow(2) by (simp_all add: audit_row_ok_def secureEqual_def)
  have head: "mt_audit_head_mac m' = aw_row_mac arow" "mt_next_audit_sequence m' = int (length (sd_audit db)) + 2"
    by (simp_all add: m'_def refreshed_def Let_def audit)
  have "length (final_records db') = length ?rows"
    by (simp add: final_records_def same)
  moreover have "list_all (\<lambda>(i, j). map_of (ar_records (replay_audit_row acc arow)) i = Some j) (final_records db')"
    using last_texts arow(4) same(1) by (auto simp: final_records_def list_all_iff replay_audit_row_def same)
  ultimately have audit_ok: "audit_ok v key m' (getAllAuditRows db') (final_records db')"
    using app(2) c latest head link finals arow(4,6)
    by (simp add: audit_ok_def audit replay_audit_row_def secureEqual_def)
  have verified: "verifySessionsInternal v key p db'"
    using meta audit_ok same by (simp add: verifySessionsInternal_def projection)
  have keys: "keys_ok db'"
  proof -
    have "distinct (map sw_session_id ?rows)"
      using ok(2) row(3) by (auto simp: keys_ok_def upsert_ids)
    moreover have "(sr_sessionId r, action) \<notin> (\<lambda>r. (aw_session_id r, aw_action r)) ` set (sd_audit db)"
      using c by (auto simp: getAuditByAction_def find_None_iff)
    ultimately show ?thesis using ok(2) arow(4,5) same by (simp add: keys_ok_def)
  qed
  have "record_change v key p action inp (map_option sw_state (getSessionRow db (sr_sessionId r))) r db = Inr db'"
    using put arow(1) insertable m(1) projection(1)
    by (simp add: record_change_def appendAudit_def refreshMetadata_def db'_def db1_def m'_def)
  then show ?thesis using that [OF _ verified keys row(1) _ _ _ arow(4,5,7,8,9)] same latest by simp
qed

end
