(* ===== verification/SessionSemantics.thy ===== *)
theory SessionSemantics
  imports SessionIntegrity
begin

text \<open>
  Every change an operation makes to a well-formed record gives a well-formed record, whose state the transition
  table allows. \<open>acknowledged_after_start\<close> is the one fact about records that \<open>assertRecordSemantics\<close> does not
  check and the operations keep: a session that has not started has no acknowledgement.
\<close>

definition acknowledged_after_start :: "SessionRecord \<Rightarrow> bool" where
  "acknowledged_after_start r \<longleftrightarrow>
     (sr_startedAt r = None \<longrightarrow> sr_minute45AcknowledgedAt r = None \<and> sr_minute90AcknowledgedAt r = None)"

definition core_semantics :: "session_env \<Rightarrow> SessionRecord \<Rightarrow> bool" where
  "core_semantics v r \<longleftrightarrow>
     milliseconds v (sr_plannedAt r) \<le> milliseconds v (sr_supervisedUntil r)
   \<and> sr_qualificationDate r = qualificationDateInPhoenix v (sr_plannedAt r)
   \<and> (sr_preflightedAt r = None) = (sr_preflightEvidence r = None)
   \<and> (sr_startedAt r = None) = (sr_startAcknowledgements r = None)
   \<and> (sr_locallyVerifiedAt r = None) = (sr_localEvidence r = None)
   \<and> (sr_externallyVerifiedAt r = None) = (sr_externalEvidence r = None)
   \<and> (sr_costReconciledAt r = None) = (sr_costEvidence r = None)
   \<and> pred_option (\<lambda>e. pe_profile e = sr_profile r) (sr_preflightEvidence r)
   \<and> (sr_minute90AcknowledgedAt r \<noteq> None \<longrightarrow> sr_minute45AcknowledgedAt r \<noteq> None)
   \<and> sorted (map (milliseconds v) (recorded_times r))"

lemma semantics_core: "recordSemantics v r \<Longrightarrow> core_semantics v r"
  by (simp add: recordSemantics_def core_semantics_def fields_paired_def)

lemma invalid_semantics:
  assumes "core_semantics v r" "sr_acceptedAt r = None"
  shows "recordSemantics v (invalidRecord r t reason)"
  using assms by (simp add: recordSemantics_def core_semantics_def invalidRecord_def fields_paired_def recorded_times_def)

lemma live_semantics_of: "recordSemantics v r \<Longrightarrow> sr_state r \<noteq> Invalid \<Longrightarrow> live_semantics v r"
  by (simp add: recordSemantics_def)

lemma live_times:
  assumes "recordSemantics v r" "sr_state r \<noteq> Invalid"
  shows "sr_preflightedAt r = None \<longleftrightarrow> state_rank (sr_state r) < 1" "sr_startedAt r = None \<longleftrightarrow> state_rank (sr_state r) < 2"
    "sr_stoppedAt r = None \<longleftrightarrow> state_rank (sr_state r) < 3" "sr_locallyVerifiedAt r = None \<longleftrightarrow> state_rank (sr_state r) < 4"
    "sr_externallyVerifiedAt r = None \<longleftrightarrow> state_rank (sr_state r) < 5"
    "sr_costReconciledAt r = None \<longleftrightarrow> state_rank (sr_state r) < 6" "sr_acceptedAt r = None \<longleftrightarrow> state_rank (sr_state r) < 7"
proof -
  have upto: "[0..<7] = [0, 1, 2, 3, 4, 5, 6 :: nat]" by (simp add: upt_rec)
  have "map (\<lambda>t. t \<noteq> None) (required_times r) = map (\<lambda>i. i < state_rank (sr_state r)) [0..<7]"
    using live_semantics_of [OF assms] by (simp add: live_semantics_def times_match_rank_def)
  then have ranks: "(sr_preflightedAt r \<noteq> None) = (0 < state_rank (sr_state r))" "(sr_startedAt r \<noteq> None) = (1 < state_rank (sr_state r))"
      "(sr_stoppedAt r \<noteq> None) = (2 < state_rank (sr_state r))" "(sr_locallyVerifiedAt r \<noteq> None) = (3 < state_rank (sr_state r))"
      "(sr_externallyVerifiedAt r \<noteq> None) = (4 < state_rank (sr_state r))"
      "(sr_costReconciledAt r \<noteq> None) = (5 < state_rank (sr_state r))" "(sr_acceptedAt r \<noteq> None) = (6 < state_rank (sr_state r))"
    unfolding upto required_times_def list.map list.inject by blast+
  have none: "(t = None) = (k < n + 1)" if "(t \<noteq> None) = (n < k)" for t :: "string option" and k n :: nat
    using that by (cases t) auto
  show "sr_preflightedAt r = None \<longleftrightarrow> state_rank (sr_state r) < 1" "sr_startedAt r = None \<longleftrightarrow> state_rank (sr_state r) < 2"
    "sr_stoppedAt r = None \<longleftrightarrow> state_rank (sr_state r) < 3" "sr_locallyVerifiedAt r = None \<longleftrightarrow> state_rank (sr_state r) < 4"
    "sr_externallyVerifiedAt r = None \<longleftrightarrow> state_rank (sr_state r) < 5"
    "sr_costReconciledAt r = None \<longleftrightarrow> state_rank (sr_state r) < 6" "sr_acceptedAt r = None \<longleftrightarrow> state_rank (sr_state r) < 7"
    using none [OF ranks(1)] none [OF ranks(2)] none [OF ranks(3)] none [OF ranks(4)] none [OF ranks(5)]
      none [OF ranks(6)] none [OF ranks(7)] by (simp_all del: One_nat_def Suc_eq_plus1 add_2_eq_Suc add_2_eq_Suc')
qed

text \<open>The record of the last update is the last of its times.\<close>

lemma first_some_last: "first_some (rev xs) d = last (d # List.map_filter (\<lambda>t. t) xs)"
proof (induction xs rule: rev_induct)
  case (snoc x xs)
  then show ?case by (cases x) (simp_all add: map_filter_def)
qed (simp add: map_filter_def)

lemma expected_update_last:
  assumes "(sr_preflightedAt r = None) = (sr_preflightEvidence r = None)"
  shows "expected_update r = last (recorded_times r)"
proof -
  have "expected_update r = last (sr_plannedAt r # List.map_filter (\<lambda>t. t)
     [sr_preflightedAt r, sr_startedAt r, sr_minute45AcknowledgedAt r, sr_minute90AcknowledgedAt r, sr_stoppedAt r,
      sr_locallyVerifiedAt r, sr_externallyVerifiedAt r, sr_costReconciledAt r, sr_acceptedAt r])"
    unfolding expected_update_def first_some_last [symmetric] by simp
  also have "\<dots> = last (recorded_times r)"
    using assms by (cases "sr_preflightedAt r") (auto simp: recorded_times_def map_filter_simps)
  finally show ?thesis .
qed

lemma sorted_le_last: "sorted (map f xs) \<Longrightarrow> x \<in> set xs \<Longrightarrow> f x \<le> f (last xs)" for f :: "'a \<Rightarrow> int"
  by (induction xs) auto

lemma live_updated:
  assumes "recordSemantics v r" "sr_state r \<noteq> Invalid" "t \<in> set (recorded_times r)"
  shows "milliseconds v t \<le> milliseconds v (sr_updatedAt r)"
proof -
  have "sr_updatedAt r = last (recorded_times r)"
    using live_semantics_of [OF assms(1,2)] expected_update_last semantics_core [OF assms(1)]
    by (simp add: live_semantics_def core_semantics_def)
  then show ?thesis using semantics_core [OF assms(1)] sorted_le_last [of "milliseconds v" "recorded_times r" t] assms(3)
    by (simp add: core_semantics_def)
qed

subsection \<open>Each change\<close>

text \<open>What is known of the times of a record in a live state, to simplify with.\<close>

lemma live_facts:
  assumes "recordSemantics v r" "sr_state r = s" "s \<noteq> Invalid"
  shows "core_semantics v r" "live_semantics v r" "sr_invalidatedAt r = None" "sr_invalidationReason r = None"
    "by_deadline v r (sr_startedAt r)" "by_deadline v r (sr_minute45AcknowledgedAt r)"
    "by_deadline v r (sr_minute90AcknowledgedAt r)" "within_duration v r"
    "sr_acceptanceEvidence r = None \<longleftrightarrow> sr_acceptedAt r = None"
proof -
  have live: "sr_state r \<noteq> Invalid" using assms(2,3) by simp
  show "core_semantics v r" and l: "live_semantics v r" 
    using semantics_core [OF assms(1)] live_semantics_of [OF assms(1) live] by this+
  show "sr_invalidatedAt r = None" "sr_invalidationReason r = None"
    using l unfolding live_semantics_def by blast+
  show "by_deadline v r (sr_startedAt r)" "by_deadline v r (sr_minute45AcknowledgedAt r)"
    "by_deadline v r (sr_minute90AcknowledgedAt r)" "within_duration v r"
    using assms(1) live unfolding recordSemantics_def by blast+
  show "sr_acceptanceEvidence r = None \<longleftrightarrow> sr_acceptedAt r = None"
    using assms(1) unfolding recordSemantics_def fields_paired_def by blast
qed

lemma upto7: "[0..<7] = [0, 1, 2, 3, 4, 5, 6 :: nat]"
  by (simp add: upt_rec)

lemmas semantics_defs = recordSemantics_def core_semantics_def fields_paired_def live_semantics_def times_match_rank_def
  required_times_def upto7 evidence_matches_rank_def expected_update_def by_deadline_def within_duration_def
  acknowledged_in_window_def recorded_times_def map_filter_simps

lemma preflight_semantics:
  assumes r: "recordSemantics v r" "acknowledged_after_start r" "sr_state r = Planned"
    and ran: "preflight_change v i r = Inr r'"
  shows "recordSemantics v r'"
proof -
  note live = live_facts [OF r(1,3)] live_times [OF r(1), unfolded r(3)]
  have none: "sr_preflightedAt r = None" "sr_startedAt r = None" "sr_stoppedAt r = None" "sr_locallyVerifiedAt r = None"
      "sr_externallyVerifiedAt r = None" "sr_costReconciledAt r = None" "sr_acceptedAt r = None"
    using live by simp_all
  then have more: "sr_minute45AcknowledgedAt r = None" "sr_minute90AcknowledgedAt r = None" "sr_preflightEvidence r = None"
      "sr_acceptanceEvidence r = None"
    using r(2) live by (simp_all add: acknowledged_after_start_def core_semantics_def)
  let ?c = "r\<lparr>sr_preflightEvidence := Some (pi_evidence i), sr_preflightedAt := Some (pi_recordedAt i),
      sr_updatedAt := pi_recordedAt i\<rparr>"
  have guard: "pe_profile (pi_evidence i) = sr_profile r"
      "milliseconds v (sr_plannedAt r) \<le> milliseconds v (pe_observedAt (pi_evidence i))"
      "milliseconds v (pe_observedAt (pi_evidence i)) \<le> milliseconds v (pi_recordedAt i)"
    using ran by (auto simp: preflight_change_def split: if_splits)
  have core: "core_semantics v ?c"
    using live(1) none more guard by (simp add: semantics_defs)
  show ?thesis
  proof (cases "milliseconds v (sr_supervisedUntil r) < milliseconds v (pi_recordedAt i) \<or> \<not> allPreflightChecksPass (pi_evidence i)")
    case True
    then obtain reason where "r' = invalidRecord ?c (pi_recordedAt i) reason"
      using ran guard by (auto simp: preflight_change_def Let_def)
    then show ?thesis using invalid_semantics [OF core] none by simp
  next
    case False
    then have "r' = ?c\<lparr>sr_state := Preflighted\<rparr>" using ran guard by (auto simp: preflight_change_def Let_def)
    then show ?thesis using False live none more core r(1,3) by (simp add: semantics_defs)
  qed
qed

lemma start_semantics:
  assumes r: "recordSemantics v r" "acknowledged_after_start r" "sr_state r = Preflighted"
    and time: "milliseconds v (sr_updatedAt r) \<le> milliseconds v (st_startedAt i)" and ran: "start_change v i r = Inr r'"
  shows "recordSemantics v r'"
proof -
  note live = live_facts [OF r(1,3)] live_times [OF r(1), unfolded r(3)]
  have none: "sr_startedAt r = None" "sr_stoppedAt r = None" "sr_locallyVerifiedAt r = None"
      "sr_externallyVerifiedAt r = None" "sr_costReconciledAt r = None" "sr_acceptedAt r = None"
    using live by simp_all
  then have more: "sr_minute45AcknowledgedAt r = None" "sr_minute90AcknowledgedAt r = None"
      "sr_acceptanceEvidence r = None"
    using r(2) live by (simp_all add: acknowledged_after_start_def)
  obtain a e where pre: "sr_preflightedAt r = Some a" "sr_preflightEvidence r = Some e"
    using live by (auto simp: core_semantics_def)
  have past: "milliseconds v a \<le> milliseconds v (st_startedAt i)"
    using live_updated [OF r(1), of a] r(3) pre time by (simp add: recorded_times_def map_filter_simps)
  let ?c = "r\<lparr>sr_egressStatus := EgressEligible, sr_startAcknowledgements := Some (),
      sr_startedAt := Some (st_startedAt i), sr_updatedAt := st_startedAt i\<rparr>"
  have core: "core_semantics v ?c"
    using live(1) none more pre past by (simp add: semantics_defs)
  show ?thesis
  proof (cases "milliseconds v (sr_supervisedUntil r) < milliseconds v (st_startedAt i)
      \<or> MAX_SUPERVISED_MILLISECONDS < milliseconds v (sr_supervisedUntil r) - milliseconds v (st_startedAt i)
      \<or> qualificationDateInPhoenix v (st_startedAt i) \<noteq> sr_qualificationDate r")
    case True
    then obtain reason where "r' = invalidRecord ?c (st_startedAt i) reason"
      using ran by (auto simp: start_change_def Let_def)
    then show ?thesis using invalid_semantics [OF core] none by simp
  next
    case False
    then have "r' = ?c\<lparr>sr_state := Running\<rparr>" using ran by (auto simp: start_change_def Let_def)
    then show ?thesis using False live none more pre core r(1,3) by (simp add: semantics_defs)
  qed
qed

lemma acknowledgement_semantics:
  assumes r: "recordSemantics v r" "sr_state r = Running"
    and first: "sa_checkpoint i = Minute45 \<Longrightarrow> sr_minute90AcknowledgedAt r = None \<and> sr_minute45AcknowledgedAt r = None"
    and once: "sa_checkpoint i = Minute90 \<Longrightarrow> sr_minute90AcknowledgedAt r = None"
    and time: "milliseconds v (sr_updatedAt r) \<le> milliseconds v (sa_acknowledgedAt i)" and ran: "acknowledgement_change v i r = Inr r'"
  shows "recordSemantics v r'"
proof -
  note live = live_facts [OF r(1,2)] live_times [OF r(1), unfolded r(2)]
  have none: "sr_stoppedAt r = None" "sr_locallyVerifiedAt r = None"
      "sr_externallyVerifiedAt r = None" "sr_costReconciledAt r = None" "sr_acceptedAt r = None" "sr_acceptanceEvidence r = None"
    using live by simp_all
  obtain a e b where pre: "sr_preflightedAt r = Some a" "sr_preflightEvidence r = Some e" "sr_startedAt r = Some b"
    using live by (auto simp: core_semantics_def)
  have past: "milliseconds v t \<le> milliseconds v (sa_acknowledgedAt i)" if "t \<in> set (recorded_times r)" for t
    using live_updated [OF r(1) _ that] r(2) time by simp
  show ?thesis
  proof (cases "sa_checkpoint i")
    case Minute45
    let ?c = "r\<lparr>sr_minute45AcknowledgedAt := Some (sa_acknowledgedAt i), sr_updatedAt := sa_acknowledgedAt i\<rparr>"
    have core: "core_semantics v ?c"
      using live(1) none pre past first [OF Minute45] by (simp add: semantics_defs)
    have "r' = invalidRecord ?c (sa_acknowledgedAt i) MissedSupervisionAcknowledgement \<or> r' = ?c
        \<and> by_deadline v r (Some (sa_acknowledgedAt i)) \<and> acknowledged_in_window v (Some b) (Some (sa_acknowledgedAt i)) 45"
      using ran pre Minute45
      by (auto simp: acknowledgement_change_def Let_def by_deadline_def acknowledged_in_window_def split: if_splits)
    then show ?thesis
    proof (elim disjE conjE)
      assume "r' = invalidRecord ?c (sa_acknowledgedAt i) MissedSupervisionAcknowledgement"
      then show ?thesis using invalid_semantics [OF core] none by simp
    next
      assume "r' = ?c" "by_deadline v r (Some (sa_acknowledgedAt i))" "acknowledged_in_window v (Some b) (Some (sa_acknowledgedAt i)) 45"
      then show ?thesis using live none pre core r first [OF Minute45] by (simp add: semantics_defs)
    qed
  next
    case Minute90
    let ?c = "r\<lparr>sr_minute90AcknowledgedAt := Some (sa_acknowledgedAt i), sr_updatedAt := sa_acknowledgedAt i\<rparr>"
    obtain c where mid: "sr_minute45AcknowledgedAt r = Some c"
      using ran pre Minute90 by (cases "sr_minute45AcknowledgedAt r") (auto simp: acknowledgement_change_def Let_def split: if_splits)
    have core: "core_semantics v ?c"
      using live(1) none pre past mid once [OF Minute90] by (simp add: semantics_defs)
    have "r' = invalidRecord ?c (sa_acknowledgedAt i) MissedSupervisionAcknowledgement \<or> r' = ?c
        \<and> by_deadline v r (Some (sa_acknowledgedAt i)) \<and> acknowledged_in_window v (Some b) (Some (sa_acknowledgedAt i)) 90"
      using ran pre Minute90
      by (auto simp: acknowledgement_change_def Let_def by_deadline_def acknowledged_in_window_def split: if_splits)
    then show ?thesis
    proof (elim disjE conjE)
      assume "r' = invalidRecord ?c (sa_acknowledgedAt i) MissedSupervisionAcknowledgement"
      then show ?thesis using invalid_semantics [OF core] none by simp
    next
      assume "r' = ?c" "by_deadline v r (Some (sa_acknowledgedAt i))" "acknowledged_in_window v (Some b) (Some (sa_acknowledgedAt i)) 90"
      then show ?thesis using live none pre mid core r once [OF Minute90] by (simp add: semantics_defs)
    qed
  qed
qed

lemma stop_semantics:
  assumes r: "recordSemantics v r" "sr_state r = Running"
    and time: "milliseconds v (sr_updatedAt r) \<le> milliseconds v (ss_stoppedAt i)" and ran: "stop_change v i r = Inr r'"
  shows "recordSemantics v r'"
proof -
  note live = live_facts [OF r(1,2)] live_times [OF r(1), unfolded r(2)]
  have none: "sr_stoppedAt r = None" "sr_locallyVerifiedAt r = None"
      "sr_externallyVerifiedAt r = None" "sr_costReconciledAt r = None" "sr_acceptedAt r = None" "sr_acceptanceEvidence r = None"
    using live by simp_all
  obtain a e b where pre: "sr_preflightedAt r = Some a" "sr_preflightEvidence r = Some e" "sr_startedAt r = Some b"
    using live by (auto simp: core_semantics_def)
  have past: "milliseconds v t \<le> milliseconds v (ss_stoppedAt i)" if "t \<in> set (recorded_times r)" for t
    using live_updated [OF r(1) _ that] r(2) time by simp
  let ?c = "r\<lparr>sr_egressStatus := EgressBlocked, sr_stoppedAt := Some (ss_stoppedAt i), sr_updatedAt := ss_stoppedAt i\<rparr>"
  have core: "core_semantics v ?c"
    using live(1) none pre past by (cases "sr_minute45AcknowledgedAt r"; cases "sr_minute90AcknowledgedAt r") (simp_all add: semantics_defs)
  show ?thesis
  proof (cases "\<exists>reason. r' = invalidRecord ?c (ss_stoppedAt i) reason")
    case True
    then show ?thesis using invalid_semantics [OF core] none by auto
  next
    case False
    then have new: "r' = ?c\<lparr>sr_state := Stopping\<rparr>" "sr_minute45AcknowledgedAt r \<noteq> None" "sr_minute90AcknowledgedAt r \<noteq> None"
        "milliseconds v (ss_stoppedAt i) \<le> milliseconds v (sr_supervisedUntil r)"
        "milliseconds v (ss_stoppedAt i) - milliseconds v b \<le> MAX_SUPERVISED_MILLISECONDS"
      using ran pre by (auto simp: stop_change_def Let_def split: if_splits)
    then obtain c d where "sr_minute45AcknowledgedAt r = Some c" "sr_minute90AcknowledgedAt r = Some d" by blast
    with new show ?thesis using live none pre core r by (simp add: semantics_defs)
  qed
qed

text \<open>From the stop on, the times of the whole supervised run are there.\<close>

lemma stopped_times:
  assumes "recordSemantics v r" "3 \<le> state_rank (sr_state r)" "sr_state r \<noteq> Invalid"
  obtains a e b c d f where "sr_preflightedAt r = Some a" "sr_preflightEvidence r = Some e" "sr_startedAt r = Some b"
    "sr_minute45AcknowledgedAt r = Some c" "sr_minute90AcknowledgedAt r = Some d" "sr_stoppedAt r = Some f"
    "sr_startAcknowledgements r = Some ()"
proof -
  note live = live_facts [OF assms(1) refl assms(3)] live_times [OF assms(1,3)]
  have "sr_preflightedAt r \<noteq> None" "sr_startedAt r \<noteq> None" "sr_stoppedAt r \<noteq> None"
    using live assms(2) by simp_all
  moreover from this have "sr_preflightEvidence r \<noteq> None" "sr_startAcknowledgements r \<noteq> None"
    using live(1) by (auto simp: core_semantics_def)
  moreover have "sr_minute45AcknowledgedAt r \<noteq> None" "sr_minute90AcknowledgedAt r \<noteq> None"
    using live(2) assms(2) by (simp_all add: live_semantics_def evidence_matches_rank_def)
  ultimately show ?thesis using that by auto
qed

lemma local_semantics:
  assumes r: "recordSemantics v r" "sr_state r = Stopping"
    and time: "milliseconds v (sr_updatedAt r) \<le> milliseconds v (lv_verifiedAt i)" and ran: "local_change i r = Inr r'"
  shows "recordSemantics v r'"
proof -
  note live = live_facts [OF r(1,2)] live_times [OF r(1), unfolded r(2)]
  have none: "sr_locallyVerifiedAt r = None" "sr_externallyVerifiedAt r = None" "sr_costReconciledAt r = None"
      "sr_acceptedAt r = None" "sr_acceptanceEvidence r = None"
    using live by simp_all
  obtain a e b c d f where pre: "sr_preflightedAt r = Some a" "sr_preflightEvidence r = Some e" "sr_startedAt r = Some b"
    "sr_minute45AcknowledgedAt r = Some c" "sr_minute90AcknowledgedAt r = Some d" "sr_stoppedAt r = Some f"
    "sr_startAcknowledgements r = Some ()"
    by (rule stopped_times [OF r(1)]) (simp_all add: r(2))
  have past: "milliseconds v t \<le> milliseconds v (lv_verifiedAt i)" if "t \<in> set (recorded_times r)" for t
    using live_updated [OF r(1) _ that] r(2) time by simp
  let ?c = "r\<lparr>sr_localEvidence := Some (lv_evidence i), sr_locallyVerifiedAt := Some (lv_verifiedAt i),
      sr_updatedAt := lv_verifiedAt i\<rparr>"
  have core: "core_semantics v ?c"
    using live(1) none pre past by (simp add: semantics_defs)
  show ?thesis
  proof (cases "localFailureReason (lv_evidence i)")
    case None
    then have "r' = ?c\<lparr>sr_state := LocallyVerified\<rparr>" using ran by (simp add: local_change_def)
    then show ?thesis using live none pre core r None by (simp add: semantics_defs)
  next
    case (Some reason)
    then show ?thesis using ran invalid_semantics [OF core] none by (auto simp: local_change_def)
  qed
qed

lemma external_semantics:
  assumes r: "recordSemantics v r" "sr_state r = LocallyVerified"
    and time: "milliseconds v (sr_updatedAt r) \<le> milliseconds v (xv_verifiedAt i)" and ran: "external_change i r = Inr r'"
  shows "recordSemantics v r'"
proof -
  note live = live_facts [OF r(1,2)] live_times [OF r(1), unfolded r(2)]
  have none: "sr_externallyVerifiedAt r = None" "sr_costReconciledAt r = None" "sr_acceptedAt r = None"
      "sr_acceptanceEvidence r = None"
    using live by simp_all
  obtain a e b c d f where pre: "sr_preflightedAt r = Some a" "sr_preflightEvidence r = Some e" "sr_startedAt r = Some b"
    "sr_minute45AcknowledgedAt r = Some c" "sr_minute90AcknowledgedAt r = Some d" "sr_stoppedAt r = Some f"
    "sr_startAcknowledgements r = Some ()"
    by (rule stopped_times [OF r(1)]) (simp_all add: r(2))
  obtain g l where loc: "sr_locallyVerifiedAt r = Some g" "sr_localEvidence r = Some l"
    using live by (auto simp: core_semantics_def)
  have past: "milliseconds v t \<le> milliseconds v (xv_verifiedAt i)" if "t \<in> set (recorded_times r)" for t
    using live_updated [OF r(1) _ that] r(2) time by simp
  let ?c = "r\<lparr>sr_externalEvidence := Some (xv_evidence i), sr_externallyVerifiedAt := Some (xv_verifiedAt i),
      sr_updatedAt := xv_verifiedAt i\<rparr>"
  have core: "core_semantics v ?c"
    using live(1) none pre loc past by (simp add: semantics_defs)
  show ?thesis
  proof (cases "externalEvidencePasses (xv_evidence i)")
    case True
    then have "r' = ?c\<lparr>sr_state := ExternallyVerified\<rparr>" using ran by (simp add: external_change_def)
    then show ?thesis using live none pre loc core r True by (simp add: semantics_defs)
  next
    case False
    then show ?thesis using ran invalid_semantics [OF core] none by (auto simp: external_change_def)
  qed
qed

lemma cost_semantics:
  assumes r: "recordSemantics v r" "sr_state r = ExternallyVerified"
    and time: "milliseconds v (sr_updatedAt r) \<le> milliseconds v (cr_reconciledAt i)" and ran: "cost_change v i r = Inr r'"
  shows "recordSemantics v r'"
proof -
  note live = live_facts [OF r(1,2)] live_times [OF r(1), unfolded r(2)]
  have none: "sr_costReconciledAt r = None" "sr_acceptedAt r = None" "sr_acceptanceEvidence r = None"
    using live by simp_all
  obtain a e b c d f where pre: "sr_preflightedAt r = Some a" "sr_preflightEvidence r = Some e" "sr_startedAt r = Some b"
    "sr_minute45AcknowledgedAt r = Some c" "sr_minute90AcknowledgedAt r = Some d" "sr_stoppedAt r = Some f"
    "sr_startAcknowledgements r = Some ()"
    by (rule stopped_times [OF r(1)]) (simp_all add: r(2))
  obtain g l k x where loc: "sr_locallyVerifiedAt r = Some g" "sr_localEvidence r = Some l"
      "sr_externallyVerifiedAt r = Some k" "sr_externalEvidence r = Some x"
    using live by (auto simp: core_semantics_def)
  have past: "milliseconds v t \<le> milliseconds v (cr_reconciledAt i)" if "t \<in> set (recorded_times r)" for t
    using live_updated [OF r(1) _ that] r(2) time by simp
  let ?c = "r\<lparr>sr_costEvidence := Some (cr_evidence i), sr_costReconciledAt := Some (cr_reconciledAt i),
      sr_updatedAt := cr_reconciledAt i\<rparr>"
  have core: "core_semantics v ?c"
    using live(1) none pre loc past by (simp add: semantics_defs)
  show ?thesis
  proof (cases "\<exists>reason. r' = invalidRecord ?c (cr_reconciledAt i) reason")
    case True
    then show ?thesis using invalid_semantics [OF core] none by auto
  next
    case False
    then have "r' = ?c\<lparr>sr_state := CostPending\<rparr>" "costFailureReason (cr_evidence i) = None"
      using ran pre by (auto simp: cost_change_def Let_def split: if_splits option.splits)
    then show ?thesis using live none pre loc core r by (simp add: semantics_defs)
  qed
qed

lemma accept_semantics:
  assumes r: "recordSemantics v r" "sr_state r = CostPending"
    and time: "milliseconds v (sr_updatedAt r) \<le> milliseconds v (ac_acceptedAt i)" and ran: "accept_change v i db r = Inr r'"
  shows "recordSemantics v r'"
proof -
  note live = live_facts [OF r(1,2)] live_times [OF r(1), unfolded r(2)]
  have none: "sr_acceptedAt r = None" "sr_acceptanceEvidence r = None" using live by simp_all
  obtain a e b c d f where pre: "sr_preflightedAt r = Some a" "sr_preflightEvidence r = Some e" "sr_startedAt r = Some b"
    "sr_minute45AcknowledgedAt r = Some c" "sr_minute90AcknowledgedAt r = Some d" "sr_stoppedAt r = Some f"
    "sr_startAcknowledgements r = Some ()"
    by (rule stopped_times [OF r(1)]) (simp_all add: r(2))
  obtain g l k x m y where loc: "sr_locallyVerifiedAt r = Some g" "sr_localEvidence r = Some l"
      "sr_externallyVerifiedAt r = Some k" "sr_externalEvidence r = Some x"
      "sr_costReconciledAt r = Some m" "sr_costEvidence r = Some y"
    using live by (auto simp: core_semantics_def)
  have past: "milliseconds v t \<le> milliseconds v (ac_acceptedAt i)" if "t \<in> set (recorded_times r)" for t
    using live_updated [OF r(1) _ that] r(2) time by simp
  show ?thesis
  proof (cases "\<exists>reason. r' = invalidRecord r (ac_acceptedAt i) reason")
    case True
    then show ?thesis using invalid_semantics [OF live(1)] none by auto
  next
    case False
    then obtain ev where new: "r' = r\<lparr>sr_acceptanceEvidence := Some ev, sr_acceptedAt := Some (ac_acceptedAt i),
        sr_egressStatus := EgressBlocked, sr_state := Accepted, sr_updatedAt := ac_acceptedAt i\<rparr>"
        "acceptanceEvidence v r = Some ev"
      using ran by (auto simp: accept_change_def split: if_splits option.splits)
    then have "acceptanceEvidence v r' = Some ev" by (simp add: acceptanceEvidence_def)
    then show ?thesis using live none pre loc past r new(1) by (simp add: semantics_defs nullable_json_def)
  qed
qed

lemma invalidate_semantics:
  assumes "recordSemantics v r" "\<not> isTerminal (sr_state r)"
  shows "recordSemantics v (invalidRecord r t reason)"
proof (rule invalid_semantics)
  show "core_semantics v r" by (rule semantics_core [OF assms(1)])
  have "sr_state r \<noteq> Invalid" "state_rank (sr_state r) < 7"
    using assms(2) by (cases "sr_state r"; simp add: isTerminal_def)+
  then show "sr_acceptedAt r = None" using live_times(7) [OF assms(1)] by simp
qed

lemma plan_semantics:
  assumes "pl_qualificationDate i = qualificationDateInPhoenix v (pl_plannedAt i)"
    and "milliseconds v (pl_plannedAt i) \<le> milliseconds v (pl_supervisedUntil i)"
  shows "recordSemantics v (planned_record p i)"
  using assms by (simp add: planned_record_def semantics_defs)

end
