(* ===== verification/SessionProgress.thy ===== *)
theory SessionProgress
  imports SessionSemantics
begin

text \<open>
  The operations on a sound coordinator: open, its tables authenticated and with the facts of \<open>sane\<close>, which every
  operation keeps. A call either reports an error the caller made and changes nothing, or repeats what a call with the same
  input returned, or makes exactly one transition, logged in one new row. It never ends in an integrity or
  constraint error.
\<close>

subsection \<open>Unique indexes\<close>

lemma distinct_map_filter_option:
  assumes "distinct xs" "\<And>x y. x \<in> set xs \<Longrightarrow> y \<in> set xs \<Longrightarrow> f x \<noteq> None \<Longrightarrow> f y \<noteq> None \<Longrightarrow> x = y"
  shows "distinct (List.map_filter f xs)"
  using assms
proof (induction xs)
  case (Cons x xs)
  have "f y = None" if "y \<in> set xs" "f x \<noteq> None" for y
    using Cons.prems(2) [of x y] Cons.prems(1) that by (cases "f y") auto
  then have "f x \<noteq> None \<Longrightarrow> List.map_filter f xs = []" by (simp add: map_filter_def filter_empty_conv)
  with Cons show ?case by (auto simp: map_filter_simps split: option.split)
qed (simp add: map_filter_simps)

lemma short_filter:
  assumes "length (filter P xs) \<le> 1" "x \<in> set xs" "y \<in> set xs" "P x" "P y"
  shows "x = y"
proof -
  have "x \<in> set (filter P xs)" "y \<in> set (filter P xs)" using assms by simp_all
  then show ?thesis using assms(1) by (cases "filter P xs") auto
qed

text \<open>What the record itself must not clash with, for its row to satisfy the indexes.\<close>

definition no_clash :: "SessionDb \<Rightarrow> SessionRecord \<Rightarrow> bool" where
  "no_clash db r \<longleftrightarrow>
     (\<forall>row \<in> set (sd_sessions db). sw_session_id row \<noteq> sr_sessionId r \<longrightarrow>
        (\<not> isTerminal (sr_state r) \<longrightarrow> sw_active_profile row = None)
      \<and> (sr_state r = Accepted \<longrightarrow> \<not> (sw_state row = Accepted \<and> sw_profile row = sr_profile r
           \<and> sw_qualification_date row = sr_qualificationDate r)))"

lemma verified_at_most_one:
  assumes "verifySessionsInternal v key p db"
  shows "length (filter (\<lambda>r. sw_active_profile r \<noteq> None) (sd_sessions db)) \<le> 1"
    and "distinct (map (\<lambda>r. (sw_profile r, sw_qualification_date r)) (filter (\<lambda>r. sw_state r = Accepted) (sd_sessions db)))"
    and "row \<in> set (sd_sessions db) \<Longrightarrow> session_row_ok v key p row"
proof -
  obtain m projection where m: "metadata_ok v key p projection m" "sessions_ok v key p m (getAllSessionRows db)"
    using verified_parts [OF assms] by metis
  have mset: "mset (getAllSessionRows db) = mset (sd_sessions db)" by simp
  show "length (filter (\<lambda>r. sw_active_profile r \<noteq> None) (sd_sessions db)) \<le> 1"
    using m length_filter_mset [OF mset] by (auto simp: sessions_ok_def metadata_ok_def)
  show "distinct (map (\<lambda>r. (sw_profile r, sw_qualification_date r)) (filter (\<lambda>r. sw_state r = Accepted) (sd_sessions db)))"
    using m(2) by (simp add: sessions_ok_def distinct_map_filter_mset [OF mset])
  show "session_row_ok v key p row" if "row \<in> set (sd_sessions db)"
    using m(2) that by (simp add: sessions_ok_def list_all_iff)
qed

lemma unique_after:
  assumes "verifySessionsInternal v key p db" "keys_ok db" "session_row v key r = Some row" "no_clash db r"
  shows "unique_indexes (upsert row (sd_sessions db))"
proof -
  note one = verified_at_most_one [OF assms(1)]
  let ?rows = "upsert row (sd_sessions db)"
  have row: "sw_session_id row = sr_sessionId r" "sw_active_profile row = activeProfile r" "sw_profile row = sr_profile r"
      "sw_qualification_date row = sr_qualificationDate r" "sw_state row = sr_state r"
    using assms(3) by (auto simp: session_row_def Let_def)
  have ids: "distinct (map sw_session_id ?rows)" using assms(2) by (auto simp: keys_ok_def upsert_ids)
  then have dist: "distinct ?rows" by (simp add: distinct_map)
  have others: "x \<in> set (sd_sessions db)" "sw_session_id x \<noteq> sr_sessionId r" if "x \<in> set ?rows" "x \<noteq> row" for x
    using that row(1) by (auto simp: set_upsert)
  have active: "distinct (List.map_filter sw_active_profile ?rows)"
  proof (rule distinct_map_filter_option [OF dist])
    fix x y assume xy: "x \<in> set ?rows" "y \<in> set ?rows" "sw_active_profile x \<noteq> None" "sw_active_profile y \<noteq> None"
    have alone: "z = row" if "sw_active_profile row \<noteq> None" "z \<in> set ?rows" "sw_active_profile z \<noteq> None" for z
    proof (rule ccontr)
      assume z: "z \<noteq> row"
      have "\<not> isTerminal (sr_state r)" using that(1) row(2) by (auto simp: activeProfile_def split: if_splits)
      then have "sw_active_profile z = None"
        using assms(4) others [OF that(2) z] by (simp add: no_clash_def)
      then show False using that(3) by simp
    qed
    show "x = y"
    proof (cases "x = row \<or> y = row")
      case True
      then show ?thesis using alone xy by metis
    next
      case False
      then show ?thesis using others xy short_filter [OF one(1)] by metis
    qed
  qed
  have accepted: "inj_on (\<lambda>r. (sw_profile r, sw_qualification_date r)) (set (filter (\<lambda>r. sw_state r = Accepted) ?rows))"
  proof (rule inj_onI)
    fix x y assume x: "x \<in> set (filter (\<lambda>r. sw_state r = Accepted) ?rows)" and y: "y \<in> set (filter (\<lambda>r. sw_state r = Accepted) ?rows)"
      and eq: "(sw_profile x, sw_qualification_date x) = (sw_profile y, sw_qualification_date y)"
    have inj: "inj_on (\<lambda>r. (sw_profile r, sw_qualification_date r)) (set (filter (\<lambda>r. sw_state r = Accepted) (sd_sessions db)))"
      using one(2) by (simp add: distinct_map)
    have alone: "z = row" if "z \<in> set ?rows" "sw_state z = Accepted" "sw_state row = Accepted"
        "(sw_profile z, sw_qualification_date z) = (sw_profile row, sw_qualification_date row)" for z
      using assms(4) others [OF that(1)] that(2-4) row(3-5) unfolding no_clash_def by (metis prod.inject)
    show "x = y"
    proof (cases "x = row \<or> y = row")
      case True
      then show ?thesis using alone [of x] alone [of y] x y eq by auto
    next
      case False
      then show ?thesis using x y eq others by (intro inj_onD [OF inj]) auto
    qed
  qed
  show ?thesis using active accepted dist by (simp add: unique_indexes_def distinct_map)
qed

subsection \<open>Sound coordinators\<close>

text \<open>
  What the operations keep of every record and \<open>assertRecordSemantics\<close> does not look at: acknowledgements come after the
  start and are logged.
\<close>

definition sane :: "session_env \<Rightarrow> SessionDb \<Rightarrow> bool" where
  "sane v db \<longleftrightarrow> (\<forall>row r. row \<in> set (sd_sessions db) \<longrightarrow> parseRecordJson v (sw_record_json row) = Some r \<longrightarrow>
     acknowledged_after_start r
     \<and> (sr_minute45AcknowledgedAt r \<noteq> None \<longrightarrow> getAuditByAction db (sr_sessionId r) ActMinute45 \<noteq> None)
     \<and> (sr_minute90AcknowledgedAt r \<noteq> None \<longrightarrow> getAuditByAction db (sr_sessionId r) ActMinute90 \<noteq> None))"

definition coordinator_ok :: "session_env \<Rightarrow> Coordinator \<Rightarrow> bool" where
  "coordinator_ok v c \<longleftrightarrow> \<not> co_closed c \<and> hex_digests (hmac_hex v (co_key c))
     \<and> verifySessionsInternal v (co_key c) (co_profile c) (co_db c) \<and> keys_ok (co_db c) \<and> sane v (co_db c)"

definition session_room :: "Coordinator \<Rightarrow> bool" where
  "session_room c \<longleftrightarrow> length (sd_audit (co_db c)) < MAX_AUDIT_RECORDS \<and> length (sd_sessions (co_db c)) < MAX_SESSION_RECORDS"

text \<open>One transition: a row appended to the log, the record of its session put, everything else as it was.\<close>

definition transition_made :: "session_env \<Rightarrow> AuditAction \<Rightarrow> SessionInput \<Rightarrow> SessionRecord \<Rightarrow> SessionDb \<Rightarrow> SessionDb \<Rightarrow> bool" where
  "transition_made v action inp r db db' \<longleftrightarrow>
     (\<exists>row arow. sd_sessions db' = upsert row (sd_sessions db) \<and> sd_audit db' = sd_audit db @ [arow]
        \<and> sw_session_id row = sr_sessionId r \<and> parseRecordJson v (sw_record_json row) = Some r
        \<and> aw_session_id arow = sr_sessionId r \<and> aw_action arow = action \<and> aw_to_state arow = sr_state r
        \<and> locale_text (se_host v) (input_json inp) = Some (aw_input_json arow)
        \<and> parseRecordJson v (aw_record_json arow) = Some r)
   \<and> transition_valid action (map_option sw_state (getSessionRow db (sr_sessionId r))) (sr_state r)
   \<and> getAuditByAction db (sr_sessionId r) action = None
   \<and> map_option mt_latest_occurred_at (sd_metadata db') = Some (Some (sr_updatedAt r))"

lemma find_append: "find P (xs @ ys) = (case find P xs of None \<Rightarrow> find P ys | Some x \<Rightarrow> Some x)"
  by (induction xs) auto

lemma getAuditByAction_snoc:
  "getAuditByAction db i a \<noteq> None \<Longrightarrow> sd_audit db' = sd_audit db @ xs \<Longrightarrow> getAuditByAction db' i a = getAuditByAction db i a"
  by (auto simp: getAuditByAction_def find_append split: option.splits)

lemma change_made:
  assumes c: "coordinator_ok v c" "session_room c" and change: "change_ok v (co_profile c) action inp r (co_db c)"
    and clash: "no_clash (co_db c) r" and acks: "acknowledged_after_start r"
    and a45: "sr_minute45AcknowledgedAt r \<noteq> None \<Longrightarrow> action = ActMinute45 \<or> getAuditByAction (co_db c) (sr_sessionId r) ActMinute45 \<noteq> None"
    and a90: "sr_minute90AcknowledgedAt r \<noteq> None \<Longrightarrow> action = ActMinute90 \<or> getAuditByAction (co_db c) (sr_sessionId r) ActMinute90 \<noteq> None"
  obtains db' where
    "record_change v (co_key c) (co_profile c) action inp (map_option sw_state (getSessionRow (co_db c) (sr_sessionId r))) r (co_db c) = Inr db'"
    "coordinator_ok v (c\<lparr>co_db := db'\<rparr>)" "transition_made v action inp r (co_db c) db'"
proof -
  note ok = c(1) [unfolded coordinator_ok_def]
  obtain db' row arow where new:
      "record_change v (co_key c) (co_profile c) action inp (map_option sw_state (getSessionRow (co_db c) (sr_sessionId r))) r (co_db c) = Inr db'"
      "verifySessionsInternal v (co_key c) (co_profile c) db'" "keys_ok db'"
      "session_row v (co_key c) r = Some row" "sd_sessions db' = upsert row (sd_sessions (co_db c))"
      "sd_audit db' = sd_audit (co_db c) @ [arow]"
      "aw_session_id arow = sr_sessionId r" "aw_action arow = action" "aw_to_state arow = sr_state r"
      "locale_text (se_host v) (record_json r) = Some (aw_record_json arow)"
      "locale_text (se_host v) (input_json inp) = Some (aw_input_json arow)"
      "map_option mt_latest_occurred_at (sd_metadata db') = Some (Some (sr_updatedAt r))"
    by (rule record_change_verified [OF _ _ _ change unique_after [OF _ _ _ clash, where v = v and key = "co_key c"]])
      (use ok in auto)
  have parsed: "parseRecordJson v (aw_record_json arow) = Some r"
    using change by (intro parse_stored [OF _ _ new(10)]) (simp_all add: change_ok_def)
  have row: "sw_session_id row = sr_sessionId r" "sw_record_json row = aw_record_json arow"
    using new(4,10) by (auto simp: session_row_def Let_def)
  have own: "getAuditByAction db' (sr_sessionId r) action \<noteq> None"
    using new(6-8) by (auto simp: getAuditByAction_def find_None_iff)
  have kept: "getAuditByAction (co_db c) i a \<noteq> None \<Longrightarrow> getAuditByAction db' i a \<noteq> None" for i a
    using getAuditByAction_snoc [OF _ new(6)] by metis
  have "sane v db'" unfolding sane_def
  proof (intro allI impI)
    fix x q assume x: "x \<in> set (sd_sessions db')" "parseRecordJson v (sw_record_json x) = Some q"
    show "acknowledged_after_start q
       \<and> (sr_minute45AcknowledgedAt q \<noteq> None \<longrightarrow> getAuditByAction db' (sr_sessionId q) ActMinute45 \<noteq> None)
       \<and> (sr_minute90AcknowledgedAt q \<noteq> None \<longrightarrow> getAuditByAction db' (sr_sessionId q) ActMinute90 \<noteq> None)"
    proof (cases "x = row")
      case True
      then have "q = r" using x(2) row(2) parsed by simp
      then show ?thesis using acks a45 a90 own kept by blast
    next
      case False
      then have "x \<in> set (sd_sessions (co_db c))" using x(1) new(5) by (auto simp: set_upsert)
      then show ?thesis using ok x(2) kept unfolding sane_def by blast
    qed
  qed
  then have "coordinator_ok v (c\<lparr>co_db := db'\<rparr>)" using ok new(2,3) by (simp add: coordinator_ok_def)
  moreover have "transition_made v action inp r (co_db c) db'"
    using new(5-9,11,12) row parsed change unfolding transition_made_def change_ok_def by (metis (no_types, lifting))
  ultimately show ?thesis using that new(1) by blast
qed

end
