(* ===== verification/SessionChanges.thy ===== *)
theory SessionChanges
  imports SessionProgress
begin

text \<open>
  What each change of a record preserves, in one form for all of them (\<open>sound_change\<close>): the record stays within its
  schema and its semantics, keeps its session, profile and date, takes the time of the input, and moves along
  the transition table. \<open>mutate_outcome\<close> then says what \<open>mutate\<close> does with any such change.
\<close>

subsection \<open>Sound changes\<close>

definition same_session :: "SessionRecord \<Rightarrow> SessionRecord \<Rightarrow> bool" where
  "same_session r r' \<longleftrightarrow> sr_sessionId r' = sr_sessionId r \<and> sr_profile r' = sr_profile r
     \<and> sr_qualificationDate r' = sr_qualificationDate r"

definition same_acknowledgements :: "SessionRecord \<Rightarrow> SessionRecord \<Rightarrow> bool" where
  "same_acknowledgements r r' \<longleftrightarrow> sr_minute45AcknowledgedAt r' = sr_minute45AcknowledgedAt r
     \<and> sr_minute90AcknowledgedAt r' = sr_minute90AcknowledgedAt r
     \<and> (sr_startedAt r \<noteq> None \<longrightarrow> sr_startedAt r' \<noteq> None)"

definition sound_change :: "session_env \<Rightarrow> AuditAction \<Rightarrow> SessionInput \<Rightarrow> SessionRecord \<Rightarrow> SessionRecord \<Rightarrow> bool" where
  "sound_change v action inp r r' \<longleftrightarrow>
     record_ok (se_host v) r' \<and> recordSemantics v r' \<and> same_session r r' \<and> sr_updatedAt r' = input_time inp
   \<and> acknowledged_after_start r'
   \<and> (sr_minute45AcknowledgedAt r' \<noteq> None \<longrightarrow> action = ActMinute45 \<or> sr_minute45AcknowledgedAt r \<noteq> None)
   \<and> (sr_minute90AcknowledgedAt r' \<noteq> None \<longrightarrow> action = ActMinute90 \<or> sr_minute90AcknowledgedAt r \<noteq> None)
   \<and> transition_valid action (Some (sr_state r)) (sr_state r')"

lemma invalidRecord_simps [simp]:
  "sr_sessionId (invalidRecord r t x) = sr_sessionId r" "sr_profile (invalidRecord r t x) = sr_profile r"
  "sr_qualificationDate (invalidRecord r t x) = sr_qualificationDate r" "sr_state (invalidRecord r t x) = Invalid"
  "sr_updatedAt (invalidRecord r t x) = t" "sr_startedAt (invalidRecord r t x) = sr_startedAt r"
  "sr_minute45AcknowledgedAt (invalidRecord r t x) = sr_minute45AcknowledgedAt r"
  "sr_minute90AcknowledgedAt (invalidRecord r t x) = sr_minute90AcknowledgedAt r"
  "sr_egressStatus (invalidRecord r t x) = EgressBlocked" "sr_invalidationReason (invalidRecord r t x) = Some x"
  by (simp_all add: invalidRecord_def)

lemma invalidRecord_ok: "record_ok h r \<Longrightarrow> CanonicalTimestampSchema h t \<Longrightarrow> record_ok h (invalidRecord r t x)"
  by (simp add: invalidRecord_def record_ok_def)

lemma sound_changeI:
  assumes "record_ok (se_host v) r'" "recordSemantics v r'" "same_session r r'" "sr_updatedAt r' = input_time inp"
    and "same_acknowledgements r r'" "acknowledged_after_start r"
    and "transition_valid action (Some (sr_state r)) (sr_state r')"
  shows "sound_change v action inp r r'"
  using assms by (auto simp: sound_change_def same_acknowledgements_def acknowledged_after_start_def)

lemmas change_defs = same_session_def same_acknowledgements_def transition_valid_def Let_def

lemma preflight_sound:
  assumes "recordSemantics v r" "record_ok (se_host v) r" "acknowledged_after_start r" "sr_state r = Planned"
    and "input_ok (se_host v) (PreflightInput i)" and ran: "preflight_change v i r = Inr r'"
  shows "sound_change v ActPreflight (PreflightInput i) r r'"
proof (rule sound_changeI)
  show "recordSemantics v r'" by (rule preflight_semantics [OF assms(1,3,4) ran])
  show "record_ok (se_host v) r'"
    using ran assms(2,5) by (auto simp: preflight_change_def Let_def record_ok_def input_ok_def invalidRecord_def split: if_splits option.splits)
  show "same_session r r'" "sr_updatedAt r' = input_time (PreflightInput i)" "same_acknowledgements r r'"
    "transition_valid ActPreflight (Some (sr_state r)) (sr_state r')"
    using ran assms(4) by (auto simp: preflight_change_def change_defs split: if_splits option.splits)
qed (use assms in auto)

lemma start_sound:
  assumes "recordSemantics v r" "record_ok (se_host v) r" "acknowledged_after_start r" "sr_state r = Preflighted"
    and "input_ok (se_host v) (StartInput i)" and ran: "start_change v i r = Inr r'"
    and time: "milliseconds v (sr_updatedAt r) \<le> milliseconds v (st_startedAt i)"
  shows "sound_change v ActStart (StartInput i) r r'"
proof (rule sound_changeI)
  show "recordSemantics v r'" by (rule start_semantics [OF assms(1,3,4) time ran])
  show "record_ok (se_host v) r'"
    using ran assms(2,5) by (auto simp: start_change_def Let_def record_ok_def input_ok_def invalidRecord_def split: if_splits option.splits)
  show "same_session r r'" "sr_updatedAt r' = input_time (StartInput i)" "same_acknowledgements r r'"
    "transition_valid ActStart (Some (sr_state r)) (sr_state r')"
    using ran assms(4) by (auto simp: start_change_def change_defs split: if_splits option.splits)
qed (use assms in auto)

lemma stop_sound:
  assumes "recordSemantics v r" "record_ok (se_host v) r" "acknowledged_after_start r" "sr_state r = Running"
    and "input_ok (se_host v) (StopInput i)" and ran: "stop_change v i r = Inr r'"
    and time: "milliseconds v (sr_updatedAt r) \<le> milliseconds v (ss_stoppedAt i)"
  shows "sound_change v ActStop (StopInput i) r r'"
proof (rule sound_changeI)
  show "recordSemantics v r'" by (rule stop_semantics [OF assms(1,4) time ran])
  show "record_ok (se_host v) r'"
    using ran assms(2,5) by (auto simp: stop_change_def Let_def record_ok_def input_ok_def invalidRecord_def split: if_splits option.splits)
  show "same_session r r'" "sr_updatedAt r' = input_time (StopInput i)" "same_acknowledgements r r'"
    "transition_valid ActStop (Some (sr_state r)) (sr_state r')"
    using ran assms(4) by (auto simp: stop_change_def change_defs split: if_splits option.splits)
qed (use assms in auto)

lemma local_sound:
  assumes "recordSemantics v r" "record_ok (se_host v) r" "acknowledged_after_start r" "sr_state r = Stopping"
    and "input_ok (se_host v) (LocalInput i)" and ran: "local_change i r = Inr r'"
    and time: "milliseconds v (sr_updatedAt r) \<le> milliseconds v (lv_verifiedAt i)"
  shows "sound_change v ActLocal (LocalInput i) r r'"
proof (rule sound_changeI)
  show "recordSemantics v r'" by (rule local_semantics [OF assms(1,4) time ran])
  show "record_ok (se_host v) r'"
    using ran assms(2,5) by (auto simp: local_change_def Let_def record_ok_def input_ok_def invalidRecord_def split: if_splits option.splits)
  show "same_session r r'" "sr_updatedAt r' = input_time (LocalInput i)" "same_acknowledgements r r'"
    "transition_valid ActLocal (Some (sr_state r)) (sr_state r')"
    using ran assms(4) by (auto simp: local_change_def change_defs split: if_splits option.splits)
qed (use assms in auto)

lemma external_sound:
  assumes "recordSemantics v r" "record_ok (se_host v) r" "acknowledged_after_start r" "sr_state r = LocallyVerified"
    and "input_ok (se_host v) (ExternalInput i)" and ran: "external_change i r = Inr r'"
    and time: "milliseconds v (sr_updatedAt r) \<le> milliseconds v (xv_verifiedAt i)"
  shows "sound_change v ActExternal (ExternalInput i) r r'"
proof (rule sound_changeI)
  show "recordSemantics v r'" by (rule external_semantics [OF assms(1,4) time ran])
  show "record_ok (se_host v) r'"
    using ran assms(2,5) by (auto simp: external_change_def Let_def record_ok_def input_ok_def invalidRecord_def split: if_splits option.splits)
  show "same_session r r'" "sr_updatedAt r' = input_time (ExternalInput i)" "same_acknowledgements r r'"
    "transition_valid ActExternal (Some (sr_state r)) (sr_state r')"
    using ran assms(4) by (auto simp: external_change_def change_defs split: if_splits option.splits)
qed (use assms in auto)

lemma cost_sound:
  assumes "recordSemantics v r" "record_ok (se_host v) r" "acknowledged_after_start r" "sr_state r = ExternallyVerified"
    and "input_ok (se_host v) (CostInput i)" and ran: "cost_change v i r = Inr r'"
    and time: "milliseconds v (sr_updatedAt r) \<le> milliseconds v (cr_reconciledAt i)"
  shows "sound_change v ActCost (CostInput i) r r'"
proof (rule sound_changeI)
  show "recordSemantics v r'" by (rule cost_semantics [OF assms(1,4) time ran])
  show "record_ok (se_host v) r'"
    using ran assms(2,5) by (auto simp: cost_change_def Let_def record_ok_def input_ok_def invalidRecord_def split: if_splits option.splits)
  show "same_session r r'" "sr_updatedAt r' = input_time (CostInput i)" "same_acknowledgements r r'"
    "transition_valid ActCost (Some (sr_state r)) (sr_state r')"
    using ran assms(4) by (auto simp: cost_change_def change_defs split: if_splits option.splits)
qed (use assms in auto)

text \<open>The record with the acknowledgement, before it is judged.\<close>

definition acknowledged :: "RecordSupervisionAcknowledgementInput \<Rightarrow> SessionRecord \<Rightarrow> SessionRecord" where
  "acknowledged i r = (if sa_checkpoint i = Minute45 then r\<lparr>sr_minute45AcknowledgedAt := Some (sa_acknowledgedAt i)\<rparr>
     else r\<lparr>sr_minute90AcknowledgedAt := Some (sa_acknowledgedAt i)\<rparr>)\<lparr>sr_updatedAt := sa_acknowledgedAt i\<rparr>"

lemma acknowledgement_change_Inr:
  assumes "acknowledgement_change v i r = Inr r'"
  shows "r' = acknowledged i r \<or> r' = invalidRecord (acknowledged i r) (sa_acknowledgedAt i) MissedSupervisionAcknowledgement"
    and "sr_startedAt r \<noteq> None"
  using assms unfolding acknowledgement_change_def acknowledged_def Let_def by (auto split: option.splits if_splits)

lemma acknowledged_ok:
  "record_ok h r \<Longrightarrow> CanonicalTimestampSchema h (sa_acknowledgedAt i) \<Longrightarrow> record_ok h (acknowledged i r)"
  by (simp add: acknowledged_def record_ok_def)

lemma acknowledgement_sound:
  assumes r: "recordSemantics v r" "record_ok (se_host v) r" "acknowledged_after_start r" "sr_state r = Running"
    and ok: "input_ok (se_host v) (AcknowledgementInput i)"
    and first: "sa_checkpoint i = Minute45 \<Longrightarrow> sr_minute45AcknowledgedAt r = None"
    and once: "sa_checkpoint i = Minute90 \<Longrightarrow> sr_minute90AcknowledgedAt r = None"
    and time: "milliseconds v (sr_updatedAt r) \<le> milliseconds v (sa_acknowledgedAt i)"
    and ran: "acknowledgement_change v i r = Inr r'"
  shows "sound_change v (if sa_checkpoint i = Minute45 then ActMinute45 else ActMinute90) (AcknowledgementInput i) r r'"
proof -
  have before: "sa_checkpoint i = Minute45 \<Longrightarrow> sr_minute90AcknowledgedAt r = None \<and> sr_minute45AcknowledgedAt r = None"
    using first r(1) by (auto simp: recordSemantics_def)
  have "recordSemantics v r'" by (rule acknowledgement_semantics [OF r(1,4) before once time ran])
  moreover have "record_ok (se_host v) r'"
    using acknowledgement_change_Inr(1) [OF ran] acknowledged_ok [OF r(2)] ok invalidRecord_ok by (auto simp: input_ok_def)
  moreover have "same_session r r'" "sr_updatedAt r' = input_time (AcknowledgementInput i)" "acknowledged_after_start r'"
      "transition_valid (if sa_checkpoint i = Minute45 then ActMinute45 else ActMinute90) (Some (sr_state r)) (sr_state r')"
      "sr_minute45AcknowledgedAt r' \<noteq> None \<longrightarrow> sa_checkpoint i = Minute45 \<or> sr_minute45AcknowledgedAt r \<noteq> None"
      "sr_minute90AcknowledgedAt r' \<noteq> None \<longrightarrow> sa_checkpoint i \<noteq> Minute45 \<or> sr_minute90AcknowledgedAt r \<noteq> None"
    using acknowledgement_change_Inr [OF ran] r(4)
    by (auto simp: acknowledged_def change_defs acknowledged_after_start_def split: if_splits)
  ultimately show ?thesis by (auto simp: sound_change_def)
qed

lemma if_None_Some: "(if b then None else x) = Some y \<longleftrightarrow> \<not> b \<and> x = Some y"
  by simp

lemma acceptanceEvidence_ok:
  assumes "record_ok h r" "acceptanceEvidence v r = Some a"
  shows "acceptance_ok a"
proof -
  obtain p l x c where e: "sr_preflightEvidence r = Some p" "sr_localEvidence r = Some l" "sr_externalEvidence r = Some x"
      "sr_costEvidence r = Some c"
      "artifact_verified (ra_stateEvidence (le_recoveryArtifacts l)) = Some (ae_stateEvidence a)"
      "artifact_verified (ra_eventArchive (le_recoveryArtifacts l)) = Some (ae_eventArchive a)"
      "artifact_verified (ra_releaseBundle (le_recoveryArtifacts l)) = Some (ae_releaseBundle a)"
      "ae_reconciledAtomic a = ce_reconciledAtomic c" "ae_reservedAtomic a = ce_reservedAtomic c"
      "ae_costHash a = ce_evidenceHash c" "ae_externalHash a = xe_evidenceHash x" "ae_localHash a = le_evidenceHash l"
      "ae_preflightHash a = pe_evidenceHash p"
    using assms(2) unfolding acceptanceEvidence_def bind_eq_Some if_None_Some option.inject
    by (elim exE conjE) (hypsubst, simp only: SessionAcceptanceEvidence.select_convs)
  show ?thesis
    using assms(1) e by (simp add: record_ok_def acceptance_ok_def preflight_ok_def local_ok_def
        external_ok_def cost_ok_def artifacts_ok_def artifact_ok_def)
qed

lemma accept_change_Inr:
  assumes "accept_change v i db r = Inr r'"
  shows "r' = invalidRecord r (ac_acceptedAt i) QualificationDateConflict
   \<or> (\<exists>a. acceptanceEvidence v r = Some a
        \<and> pred_option (\<lambda>row. sw_session_id row = sr_sessionId r) (accepted_on db r)
        \<and> r' = r\<lparr>sr_acceptanceEvidence := Some a, sr_acceptedAt := Some (ac_acceptedAt i),
            sr_egressStatus := EgressBlocked, sr_state := Accepted, sr_updatedAt := ac_acceptedAt i\<rparr>)"
  using assms by (simp add: accept_change_def split: if_splits option.splits)

lemma accept_sound:
  assumes r: "recordSemantics v r" "record_ok (se_host v) r" "acknowledged_after_start r" "sr_state r = CostPending"
    and "input_ok (se_host v) (AcceptInput i)" and ran: "accept_change v i db r = Inr r'"
    and time: "milliseconds v (sr_updatedAt r) \<le> milliseconds v (ac_acceptedAt i)"
  shows "sound_change v ActAccept (AcceptInput i) r r'"
proof (rule sound_changeI)
  show "recordSemantics v r'" by (rule accept_semantics [OF assms(1,4) time ran])
  have t: "CanonicalTimestampSchema (se_host v) (ac_acceptedAt i)" using assms(5) by (simp add: input_ok_def)
  show "record_ok (se_host v) r'"
    using accept_change_Inr [OF ran]
  proof (elim disjE exE conjE)
    fix a assume "acceptanceEvidence v r = Some a"
    then have "acceptance_ok a" by (rule acceptanceEvidence_ok [OF r(2)])
    moreover assume "r' = r\<lparr>sr_acceptanceEvidence := Some a, sr_acceptedAt := Some (ac_acceptedAt i),
            sr_egressStatus := EgressBlocked, sr_state := Accepted, sr_updatedAt := ac_acceptedAt i\<rparr>"
    ultimately show ?thesis using r(2) t by (simp add: record_ok_def)
  qed (simp add: invalidRecord_ok r(2) t)
  show "same_session r r'" "sr_updatedAt r' = input_time (AcceptInput i)" "same_acknowledgements r r'"
    "transition_valid ActAccept (Some (sr_state r)) (sr_state r')"
    using accept_change_Inr [OF ran] r(4) by (auto simp: change_defs)
qed (use assms in auto)

lemma invalidate_sound:
  assumes "recordSemantics v r" "record_ok (se_host v) r" "acknowledged_after_start r"
    and "input_ok (se_host v) (InvalidateInput i)" and ran: "invalidate_change i r = Inr r'"
  shows "sound_change v ActInvalidate (InvalidateInput i) r r'"
proof (rule sound_changeI)
  have live: "\<not> isTerminal (sr_state r)" and r': "r' = invalidRecord r (iv_invalidatedAt i) (iv_reason i)"
    using ran by (auto simp: invalidate_change_def split: if_splits)
  show "recordSemantics v r'" unfolding r' by (rule invalidate_semantics [OF assms(1) live])
  show "record_ok (se_host v) r'" using assms(2,4) by (simp add: r' invalidRecord_ok input_ok_def)
  show "same_session r r'" "sr_updatedAt r' = input_time (InvalidateInput i)" "same_acknowledgements r r'"
    "transition_valid ActInvalidate (Some (sr_state r)) (sr_state r')"
    using live by (simp_all add: r' change_defs)
qed (use assms in auto)

subsection \<open>Errors of the caller\<close>

fun caller_error :: "SessionError \<Rightarrow> bool" where
  "caller_error SessionValidation = True"
| "caller_error (SessionConflict k) = True"
| "caller_error _ = False"

lemma evidence_complete:
  assumes "recordSemantics v r" "sr_state r = CostPending"
  shows "acceptanceEvidence v r \<noteq> None"
proof -
  note live = live_facts [OF assms(1,2)] live_times [OF assms(1), unfolded assms(2)]
  obtain a e b c d f where pre: "sr_preflightedAt r = Some a" "sr_preflightEvidence r = Some e" "sr_startedAt r = Some b"
    "sr_minute45AcknowledgedAt r = Some c" "sr_minute90AcknowledgedAt r = Some d" "sr_stoppedAt r = Some f"
    "sr_startAcknowledgements r = Some ()"
    by (rule stopped_times [OF assms(1)]) (simp_all add: assms(2))
  obtain l x k where ev: "sr_localEvidence r = Some l" "sr_externalEvidence r = Some x" "sr_costEvidence r = Some k"
    using live by (auto simp: core_semantics_def)
  have "evidence_matches_rank r" using live(2) by (simp add: live_semantics_def)
  then have passed: "allPreflightChecksPass e" "localFailureReason l = None" "externalEvidencePasses x" "costFailureReason k = None"
    by (simp_all add: evidence_matches_rank_def pre ev assms(2))
  have "milliseconds v f - milliseconds v b \<le> MAX_SUPERVISED_MILLISECONDS"
    using live(8) by (simp add: within_duration_def pre)
  moreover have "artifact_verified (ra_stateEvidence (le_recoveryArtifacts l)) \<noteq> None"
      "artifact_verified (ra_eventArchive (le_recoveryArtifacts l)) \<noteq> None"
      "artifact_verified (ra_releaseBundle (le_recoveryArtifacts l)) \<noteq> None"
    using passed(2) by (auto simp: localFailureReason_def split: if_splits)
  ultimately show ?thesis using passed by (auto simp: acceptanceEvidence_def pre ev)
qed

lemma change_errors:
  "preflight_change v i1 r = Inl e \<Longrightarrow> caller_error e"
  "start_change v i2 r \<noteq> Inl e"
  "recordSemantics v r \<Longrightarrow> sr_state r = Running \<Longrightarrow> acknowledgement_change v i3 r = Inl e \<Longrightarrow> caller_error e"
  "recordSemantics v r \<Longrightarrow> sr_state r = Running \<Longrightarrow> stop_change v i4 r \<noteq> Inl e"
  "local_change i5 r \<noteq> Inl e" "external_change i6 r \<noteq> Inl e"
  "recordSemantics v r \<Longrightarrow> sr_state r = ExternallyVerified \<Longrightarrow> cost_change v i7 r \<noteq> Inl e"
  "recordSemantics v r \<Longrightarrow> sr_state r = CostPending \<Longrightarrow> accept_change v i8 db r = Inl e \<Longrightarrow> caller_error e"
  "invalidate_change i9 r = Inl e \<Longrightarrow> caller_error e"
  using live_times(2) [of v r] live_times(3) [of v r] evidence_complete [of v r]
  by (auto simp: preflight_change_def start_change_def acknowledgement_change_def stop_change_def local_change_def
      external_change_def cost_change_def accept_change_def invalidate_change_def Let_def split: if_splits option.splits)

end
