(* ===== verification/SessionRuns.thy ===== *)
theory SessionRuns
  imports SessionChanges
begin

text \<open>
  Calls on a coordinator. The locale \<open>record_transition\<close> is what \<open>mutate\<close> relies on in the change an operation hands it;
  its conclusion, \<open>mutate_outcome\<close>, is drawn once and interpreted for each operation. \<open>session_exec\<close> then gives the
  operations as calls, and runs of calls keep a coordinator sound.
\<close>

subsection \<open>What a call does\<close>

definition repeats :: "session_env \<Rightarrow> AuditAction \<Rightarrow> SessionInput \<Rightarrow> SessionRecord \<Rightarrow> SessionDb \<Rightarrow> bool" where
  "repeats v action inp r db \<longleftrightarrow>
     (\<exists>row. getAuditByAction db (input_session inp) action = Some row
        \<and> locale_text (se_host v) (input_json inp) = Some (aw_input_json row)
        \<and> parseRecordJson v (aw_record_json row) = Some r)"

definition call_outcome :: "session_env \<Rightarrow> AuditAction \<Rightarrow> SessionInput \<Rightarrow> Coordinator
    \<Rightarrow> Coordinator \<times> (SessionError, SessionRecord) result \<Rightarrow> bool" where
  "call_outcome v action inp c out \<longleftrightarrow>
     (case snd out of
       Inl e \<Rightarrow> fst out = c \<and> caller_error e
     | Inr r \<Rightarrow> fst out = c \<and> repeats v action inp r (co_db c)
         \<or> (\<exists>db'. fst out = c\<lparr>co_db := db'\<rparr> \<and> transition_made v action inp r (co_db c) db'
              \<and> coordinator_ok v (fst out) \<and> sr_sessionId r = input_session inp))"

lemma writeTransaction_error:
  "coordinator_ok v c \<Longrightarrow> f (co_db c) = Inl e \<Longrightarrow> writeTransaction v f c = (c, Inl e)"
  by (simp add: writeTransaction_def coordinator_ok_def assert_open_def verified_def)

lemma writeTransaction_commit:
  assumes "coordinator_ok v c" "f (co_db c) = Inr (db', r)" "coordinator_ok v (c\<lparr>co_db := db'\<rparr>)"
  shows "writeTransaction v f c = (c\<lparr>co_db := db'\<rparr>, Inr r)"
  using assms by (simp add: writeTransaction_def coordinator_ok_def assert_open_def verified_def)

lemma replay_rows_ok: "replay_audit v key acc rows = Some acc' \<Longrightarrow> row \<in> set rows \<Longrightarrow> \<exists>a. audit_row_ok v key a row"
  by (induction rows arbitrary: acc) (auto split: if_splits)

lemma audit_rows_parse:
  assumes "verifySessionsInternal v key p db" "row \<in> set (sd_audit db)"
  obtains r where "parseRecordJson v (aw_record_json row) = Some r" "sr_sessionId r = aw_session_id row"
    "sr_state r = aw_to_state row" "parseAuditInput v row \<noteq> None"
    "transition_valid (aw_action row) (aw_from_state row) (aw_to_state row)"
proof -
  obtain acc where "replay_audit v key audit_start (getAllAuditRows db) = Some acc" using verified_parts [OF assms(1)] by metis
  then obtain a where "audit_row_ok v key a row" using replay_rows_ok assms(2) set_getAll(2) by metis
  then show ?thesis using that by (auto simp: audit_row_ok_def split: option.splits)
qed

lemma active_alone:
  assumes "coordinator_ok v c" "row \<in> set (sd_sessions (co_db c))" "parseRecordJson v (sw_record_json row) = Some r"
    and "\<not> isTerminal (sr_state r)" "same_session r r'" "sr_state r' \<noteq> Accepted"
  shows "no_clash (co_db c) r'"
proof -
  have ok: "verifySessionsInternal v (co_key c) (co_profile c) (co_db c)" using assms(1) by (simp add: coordinator_ok_def)
  have row: "sr_sessionId r = sw_session_id row" "sw_active_profile row = activeProfile r"
    using session_row_parsed [OF verified_at_most_one(3) [OF ok assms(2)]] assms(3) by (metis option.inject)+
  then have "sw_active_profile row \<noteq> None" using assms(4) by (simp add: activeProfile_def)
  then have "sw_active_profile x = None" if "x \<in> set (sd_sessions (co_db c))" "sw_session_id x \<noteq> sr_sessionId r'" for x
    using short_filter [OF verified_at_most_one(1) [OF ok] that(1) assms(2)] that(2) row(1) assms(5)
    by (cases "sw_active_profile x") (auto simp: same_session_def)
  then show ?thesis using assms(6) by (simp add: no_clash_def)
qed

lemma accepted_alone:
  assumes "sr_state r' = Accepted" "same_session r r'" "keys_ok db"
    and "pred_option (\<lambda>row. sw_session_id row = sr_sessionId r) (accepted_on db r)"
    and "verifySessionsInternal v key p db"
  shows "no_clash db r'"
  unfolding no_clash_def
proof (intro ballI impI conjI notI)
  fix row assume row: "row \<in> set (sd_sessions db)" "sw_session_id row \<noteq> sr_sessionId r'"
  show "sw_active_profile row = None" if "\<not> isTerminal (sr_state r')" using that assms(1) by (simp add: isTerminal_def)
  assume acc: "sw_state row = Accepted \<and> sw_profile row = sr_profile r' \<and> sw_qualification_date row = sr_qualificationDate r'"
  then obtain x where x: "accepted_on db r = Some x"
    using row(1) assms(2) by (cases "accepted_on db r") (auto simp: accepted_on_def find_None_iff same_session_def)
  then have "x \<in> set (sd_sessions db)" "sw_state x = Accepted" "sw_profile x = sr_profile r" "sw_qualification_date x = sr_qualificationDate r"
    by (auto simp: accepted_on_def find_Some_iff)
  then have "x = row"
    using verified_at_most_one(2) [OF assms(5)] row(1) acc assms(2)
    by (auto simp: distinct_map same_session_def intro: inj_onD)
  then show False using x assms(2,4) row(2) by (simp add: same_session_def)
qed

text \<open>A call whose action is logged already: the same input gives the record it gave, another is a conflict.\<close>

lemma retried_outcome:
  assumes ok: "coordinator_ok v c" and t: "locale_text (se_host v) (input_json inp) = Some t"
    and prior: "getAuditByAction (co_db c) (input_session inp) action = Some prior"
  shows "call_outcome v action inp c (mutate v action inp expected change c)"
proof -
  let ?body = "mutate_body v (co_key c) (co_profile c) action inp expected change"
  have "prior \<in> set (sd_audit (co_db c))" using prior by (auto simp: getAuditByAction_def find_Some_iff)
  then obtain r where r: "parseRecordJson v (aw_record_json prior) = Some r"
    using audit_rows_parse ok unfolding coordinator_ok_def by metis
  show ?thesis
  proof (cases "aw_input_json prior = t")
    case True
    then have "?body (co_db c) = Inr (co_db c, r)" by (simp add: mutate_body_def t prior r)
    then have "mutate v action inp expected change c = (c, Inr r)"
      using writeTransaction_commit [OF ok, of ?body "co_db c" r] ok by (simp add: mutate_def)
    then show ?thesis using prior r True t by (simp add: call_outcome_def repeats_def)
  next
    case False
    then have "?body (co_db c) = Inl (SessionConflict RETRY_CONFLICT)" by (simp add: mutate_body_def t prior)
    from writeTransaction_error [OF ok, of ?body, OF this]
    show ?thesis by (simp add: mutate_def call_outcome_def)
  qed
qed

subsection \<open>Transitions of an existing record\<close>

locale record_transition =
  fixes v :: session_env and action :: AuditAction and inp :: SessionInput and expected :: expectation
    and change :: "SessionDb \<Rightarrow> SessionRecord \<Rightarrow> (SessionError, SessionRecord) result"
  assumes logged_as: "action \<in> set (input_actions inp)" "expected \<noteq> NewSession"
    and sound: "recordSemantics v r \<Longrightarrow> record_ok (se_host v) r \<Longrightarrow> acknowledged_after_start r
      \<Longrightarrow> state_expected expected (sr_state r) = Inr () \<Longrightarrow> input_ok (se_host v) inp
      \<Longrightarrow> (action = ActMinute45 \<Longrightarrow> sr_minute45AcknowledgedAt r = None)
      \<Longrightarrow> (action = ActMinute90 \<Longrightarrow> sr_minute90AcknowledgedAt r = None)
      \<Longrightarrow> milliseconds v (sr_updatedAt r) \<le> milliseconds v (input_time inp)
      \<Longrightarrow> change db r = Inr r' \<Longrightarrow> sound_change v action inp r r'"
    and caller: "recordSemantics v r \<Longrightarrow> state_expected expected (sr_state r) = Inr () \<Longrightarrow> change db r = Inl e \<Longrightarrow> caller_error e"
    and accepts: "state_expected expected (sr_state r) = Inr () \<Longrightarrow> change db r = Inr r' \<Longrightarrow> sr_state r' = Accepted
      \<Longrightarrow> pred_option (\<lambda>row. sw_session_id row = sr_sessionId r) (accepted_on db r)"
begin

lemma change_recorded:
  assumes ok: "coordinator_ok v c" and room: "session_room c" and inp: "input_ok (se_host v) inp"
    and fresh: "getAuditByAction (co_db c) (input_session inp) action = None"
    and m: "sd_metadata (co_db c) = Some m" "not_before_latest v (input_time inp) m"
    and row: "getSessionRow (co_db c) (input_session inp) = Some row" "parseRecordJson v (sw_record_json row) = Some r"
    and state: "state_expected expected (sr_state r) = Inr ()"
    and change: "change (co_db c) r = Inr r'" "sound_change v action inp r r'"
  obtains db' where "record_change v (co_key c) (co_profile c) action inp (Some (sr_state r)) r' (co_db c) = Inr db'"
    "coordinator_ok v (c\<lparr>co_db := db'\<rparr>)" "transition_made v action inp r' (co_db c) db'"
proof -
  note ok' = ok [unfolded coordinator_ok_def]
  note mem = getSessionRow_member [OF row(1)]
  have r: "sr_sessionId r = input_session inp" "sr_profile r = co_profile c" "sr_state r = sw_state row"
    using mem row(2) session_row_parsed verified_at_most_one(3) ok' by (metis option.inject)+
  have old: "sr_sessionId r' = sr_sessionId r" using change(2) by (simp add: sound_change_def same_session_def)
  have sane: "sr_minute45AcknowledgedAt r \<noteq> None \<Longrightarrow> getAuditByAction (co_db c) (sr_sessionId r) ActMinute45 \<noteq> None"
      "sr_minute90AcknowledgedAt r \<noteq> None \<Longrightarrow> getAuditByAction (co_db c) (sr_sessionId r) ActMinute90 \<noteq> None"
    using ok' mem row(2) by (auto simp: sane_def)
  have "change_ok v (co_profile c) action inp r' (co_db c)"
    using change(2) r inp logged_as(1) m fresh row room old
    by (auto simp: change_ok_def sound_change_def same_session_def session_room_def)
  moreover have "no_clash (co_db c) r'"
  proof (cases "sr_state r' = Accepted")
    case True
    then show ?thesis
      by (rule accepted_alone [OF _ _ _ accepts [OF state change(1) True]]) (use change(2) ok' in \<open>auto simp: sound_change_def\<close>)
  next
    case False
    then have "\<not> isTerminal (sr_state r)"
      using change(2) by (auto simp: sound_change_def transition_valid_def isTerminal_def)
    then show ?thesis using active_alone [OF ok _ row(2) _ _ False] mem change(2) by (simp add: sound_change_def)
  qed
  moreover have "acknowledged_after_start r'"
      "sr_minute45AcknowledgedAt r' \<noteq> None \<Longrightarrow> action = ActMinute45 \<or> getAuditByAction (co_db c) (sr_sessionId r') ActMinute45 \<noteq> None"
      "sr_minute90AcknowledgedAt r' \<noteq> None \<Longrightarrow> action = ActMinute90 \<or> getAuditByAction (co_db c) (sr_sessionId r') ActMinute90 \<noteq> None"
    using change(2) sane unfolding sound_change_def old by blast+
  ultimately show ?thesis
    by (rule change_made [OF ok room]) (use that row(1) r(3) old r(1) in auto)
qed

lemma body_on_record:
  assumes "coordinator_ok v c" "input_ok (se_host v) inp"
    and "getAuditByAction (co_db c) (input_session inp) action = None"
    and "sd_metadata (co_db c) = Some m" "not_before_latest v (input_time inp) m"
    and "getSessionRow (co_db c) (input_session inp) = Some row" "parseRecordJson v (sw_record_json row) = Some r"
  shows "mutate_body v (co_key c) (co_profile c) action inp expected (\<lambda>db. on_record (change db) db) (co_db c) =
      and_then (ensure (milliseconds v (sr_updatedAt r) \<le> milliseconds v (input_time inp)) SessionValidation) (\<lambda>_.
      and_then (state_expected expected (sr_state r)) (\<lambda>_.
      and_then (change (co_db c) r) (\<lambda>r'.
      and_then (ensure (recordSemantics v r') SessionIntegrity) (\<lambda>_.
      and_then (record_change v (co_key c) (co_profile c) action inp (Some (sr_state r)) r' (co_db c)) (\<lambda>db'. Inr (db', r'))))))"
proof -
  obtain t where "locale_text (se_host v) (input_json inp) = Some t" using input_stored [OF assms(2) logged_as(1)] by metis
  then show ?thesis by (simp add: mutate_body_def assms(3-) logged_as(2) on_record_def)
qed

text \<open>On the record of the session, with nothing logged for the action yet.\<close>

lemma outcome_on_record:
  assumes ok: "coordinator_ok v c" and room: "session_room c" and inp: "input_ok (se_host v) inp"
    and fresh: "getAuditByAction (co_db c) (input_session inp) action = None"
    and m: "sd_metadata (co_db c) = Some m" "not_before_latest v (input_time inp) m"
    and row: "getSessionRow (co_db c) (input_session inp) = Some row"
  shows "call_outcome v action inp c (mutate v action inp expected (\<lambda>db. on_record (change db) db) c)"
proof -
  note ok' = ok [unfolded coordinator_ok_def]
  let ?body = "mutate_body v (co_key c) (co_profile c) action inp expected (\<lambda>db. on_record (change db) db)"
  have error: ?thesis if "?body (co_db c) = Inl e" "caller_error e" for e
    using that(2) writeTransaction_error [OF ok, of ?body, OF that(1)] by (simp add: mutate_def call_outcome_def)
  obtain r where r: "parseRecordJson v (sw_record_json row) = Some r" "record_ok (se_host v) r" "recordSemantics v r"
      "sr_sessionId r = input_session inp" and mem: "row \<in> set (sd_sessions (co_db c))"
    using getSessionRow_member [OF row] session_row_parsed verified_at_most_one(3) ok' by metis
  have sane: "acknowledged_after_start r"
      "action = ActMinute45 \<Longrightarrow> sr_minute45AcknowledgedAt r = None" "action = ActMinute90 \<Longrightarrow> sr_minute90AcknowledgedAt r = None"
    using ok' mem r(1,4) fresh unfolding sane_def by metis+
  note body = body_on_record [OF ok inp fresh m row r(1)]
  show ?thesis
  proof (cases "milliseconds v (sr_updatedAt r) \<le> milliseconds v (input_time inp) \<and> state_expected expected (sr_state r) = Inr ()")
    case False
    then obtain e where "?body (co_db c) = Inl e" "caller_error e"
      unfolding body by (cases "milliseconds v (sr_updatedAt r) \<le> milliseconds v (input_time inp)")
        (auto simp: state_expected_def split: expectation.splits)
    then show ?thesis by (rule error)
  next
    case True
    then have time: "milliseconds v (sr_updatedAt r) \<le> milliseconds v (input_time inp)"
        and state: "state_expected expected (sr_state r) = Inr ()" by simp_all
    show ?thesis
    proof (cases "change (co_db c) r")
      case (Inl e)
      then show ?thesis using error [of e] caller [OF r(3) state Inl] by (simp add: body time state)
    next
      case (Inr r')
      have change: "sound_change v action inp r r'" by (rule sound [OF r(3,2) sane(1) state inp sane(2,3) time Inr])
      obtain db' where db': "record_change v (co_key c) (co_profile c) action inp (Some (sr_state r)) r' (co_db c) = Inr db'"
          "coordinator_ok v (c\<lparr>co_db := db'\<rparr>)" "transition_made v action inp r' (co_db c) db'"
        by (rule change_recorded [OF ok room inp fresh m row r(1) state Inr change])
      have "?body (co_db c) = Inr (db', r')"
        using change db'(1) by (simp add: body time state Inr sound_change_def)
      from writeTransaction_commit [OF ok, of ?body, OF this db'(2)]
      show ?thesis using db' change r(4) by (auto simp: mutate_def call_outcome_def sound_change_def same_session_def)
    qed
  qed
qed

lemma mutate_outcome:
  assumes ok: "coordinator_ok v c" and room: "session_room c" and inp: "input_ok (se_host v) inp"
  shows "call_outcome v action inp c (mutate v action inp expected (\<lambda>db. on_record (change db) db) c)"
proof -
  note ok' = ok [unfolded coordinator_ok_def]
  let ?body = "mutate_body v (co_key c) (co_profile c) action inp expected (\<lambda>db. on_record (change db) db)"
  have error: ?thesis if "?body (co_db c) = Inl e" "caller_error e" for e
    using that(2) writeTransaction_error [OF ok, of ?body, OF that(1)] by (simp add: mutate_def call_outcome_def)
  obtain t where t: "locale_text (se_host v) (input_json inp) = Some t" using input_stored [OF inp logged_as(1)] by metis
  obtain m where m: "sd_metadata (co_db c) = Some m" using verified_parts ok' by metis
  show ?thesis
  proof (cases "getAuditByAction (co_db c) (input_session inp) action")
    case (Some prior)
    show ?thesis by (rule retried_outcome [OF ok t Some])
  next
    case None
    note fresh = this
    show ?thesis
    proof (cases "not_before_latest v (input_time inp) m")
      case False
      then show ?thesis by (auto intro!: error simp: mutate_body_def t m fresh logged_as(2))
    next
      case True
      then show ?thesis using outcome_on_record [OF ok room inp fresh m True]
        by (cases "getSessionRow (co_db c) (input_session inp)") (auto intro!: error simp: mutate_body_def t m fresh logged_as(2))
    qed
  qed
qed

end

subsection \<open>The operations\<close>

lemma expected_state [simp]: "state_expected (InState s) x = Inr () \<longleftrightarrow> x = s" "state_expected AnyState x = Inr ()"
  by (auto simp: state_expected_def)

lemma never_accepts:
  "preflight_change v i1 r = Inr r' \<Longrightarrow> sr_state r' \<noteq> Accepted"
  "start_change v i2 r = Inr r' \<Longrightarrow> sr_state r' \<noteq> Accepted"
  "sr_state r = Running \<Longrightarrow> acknowledgement_change v i3 r = Inr r' \<Longrightarrow> sr_state r' \<noteq> Accepted"
  "stop_change v i4 r = Inr r' \<Longrightarrow> sr_state r' \<noteq> Accepted"
  "local_change i5 r = Inr r' \<Longrightarrow> sr_state r' \<noteq> Accepted"
  "external_change i6 r = Inr r' \<Longrightarrow> sr_state r' \<noteq> Accepted"
  "cost_change v i7 r = Inr r' \<Longrightarrow> sr_state r' \<noteq> Accepted"
  "invalidate_change i9 r = Inr r' \<Longrightarrow> sr_state r' \<noteq> Accepted"
  by (auto simp: preflight_change_def start_change_def stop_change_def local_change_def
      external_change_def cost_change_def invalidate_change_def Let_def acknowledged_def
      split: if_splits option.splits dest!: acknowledgement_change_Inr(1))

interpretation preflight: record_transition v ActPreflight "PreflightInput i" "InState Planned" "\<lambda>db. preflight_change v i" for v i
  by unfold_locales (auto intro: preflight_sound change_errors dest: never_accepts)

interpretation start: record_transition v ActStart "StartInput i" "InState Preflighted" "\<lambda>db. start_change v i" for v i
  by unfold_locales (auto intro: start_sound dest: change_errors(2)[THEN notE] never_accepts)

interpretation acknowledgement: record_transition v "if sa_checkpoint i = Minute45 then ActMinute45 else ActMinute90"
    "AcknowledgementInput i" "InState Running" "\<lambda>db. acknowledgement_change v i" for v i
proof (unfold_locales, goal_cases)
  case (3 r db r')
  then show ?case by (intro acknowledgement_sound) auto
qed (auto intro: change_errors dest: never_accepts)

interpretation stop: record_transition v ActStop "StopInput i" "InState Running" "\<lambda>db. stop_change v i" for v i
  by unfold_locales (auto intro: stop_sound dest: change_errors(4) never_accepts)

interpretation local_verification: record_transition v ActLocal "LocalInput i" "InState Stopping" "\<lambda>db. local_change i" for v i
  by unfold_locales (auto intro: local_sound dest: never_accepts simp: change_errors)

interpretation external_verification:
  record_transition v ActExternal "ExternalInput i" "InState LocallyVerified" "\<lambda>db. external_change i" for v i
  by unfold_locales (auto intro: external_sound dest: never_accepts simp: change_errors)

interpretation cost_reconciliation:
  record_transition v ActCost "CostInput i" "InState ExternallyVerified" "\<lambda>db. cost_change v i" for v i
  by unfold_locales (auto intro: cost_sound dest: change_errors(7) never_accepts)

interpretation acceptance: record_transition v ActAccept "AcceptInput i" "InState CostPending" "accept_change v i" for v i
proof (unfold_locales, goal_cases)
  case (5 r db r')
  then show ?case using accept_change_Inr by fastforce
qed (auto intro: accept_sound change_errors)

interpretation invalidation: record_transition v ActInvalidate "InvalidateInput i" AnyState "\<lambda>db. invalidate_change i" for v i
  by unfold_locales (auto intro: invalidate_sound change_errors dest: never_accepts)

text \<open>Planning makes a record where there was none, and no other session of the profile is active.\<close>

lemma planned_ok:
  assumes "input_ok (se_host v) (PlanInput i)"
  shows "record_ok (se_host v) (planned_record p i)"
  using assms by (simp add: planned_record_def record_ok_def input_ok_def)

lemma plan_clash:
  assumes "verifySessionsInternal v key p db" "\<not> list_ex (\<lambda>r. sw_active_profile r = Some p) (sd_sessions db)"
  shows "no_clash db (planned_record p i)"
proof -
  have "sw_active_profile row = None" if member: "row \<in> set (sd_sessions db)" for row
  proof -
    obtain r where "sr_profile r = p" "sw_active_profile row = activeProfile r"
      by (rule session_row_parsed [OF verified_at_most_one(3) [OF assms(1) member]])
    then show ?thesis using assms(2) member by (auto simp: activeProfile_def list_ex_iff split: if_splits)
  qed
  then show ?thesis by (simp add: no_clash_def planned_record_def)
qed

lemma plan_recorded:
  assumes ok: "coordinator_ok v c" and room: "session_room c" and inp: "input_ok (se_host v) (PlanInput i)"
    and times: "pl_qualificationDate i = qualificationDateInPhoenix v (pl_plannedAt i)"
      "milliseconds v (pl_plannedAt i) \<le> milliseconds v (pl_supervisedUntil i)"
    and fresh: "getAuditByAction (co_db c) (pl_sessionId i) ActPlan = None"
    and m: "sd_metadata (co_db c) = Some m" "not_before_latest v (pl_plannedAt i) m"
    and new: "getSessionRow (co_db c) (pl_sessionId i) = None"
    and free: "\<not> list_ex (\<lambda>r. sw_active_profile r = Some (co_profile c)) (sd_sessions (co_db c))"
  obtains db' where "mutate v ActPlan (PlanInput i) NewSession (\<lambda>db _. plan_change (co_profile c) i db) c
      = (c\<lparr>co_db := db'\<rparr>, Inr (planned_record (co_profile c) i))"
    "transition_made v ActPlan (PlanInput i) (planned_record (co_profile c) i) (co_db c) db'" "coordinator_ok v (c\<lparr>co_db := db'\<rparr>)"
proof -
  note ok' = ok [unfolded coordinator_ok_def]
  let ?body = "mutate_body v (co_key c) (co_profile c) ActPlan (PlanInput i) NewSession (\<lambda>db _. plan_change (co_profile c) i db)"
  let ?r = "planned_record (co_profile c) i"
  obtain t where t: "locale_text (se_host v) (input_json (PlanInput i)) = Some t"
    using input_stored [OF inp, of ActPlan] by auto
  have no: "getSessionRow (co_db c) (sr_sessionId ?r) = None" using new by (simp add: planned_record_def)
  have sem: "recordSemantics v ?r" by (rule plan_semantics [OF times])
  have "change_ok v (co_profile c) ActPlan (PlanInput i) ?r (co_db c)"
    using inp planned_ok [OF inp] sem free fresh room m no
    by (simp add: change_ok_def transition_valid_def session_room_def) (simp add: planned_record_def)
  then obtain db' where db': "record_change v (co_key c) (co_profile c) ActPlan (PlanInput i) None ?r (co_db c) = Inr db'"
      "coordinator_ok v (c\<lparr>co_db := db'\<rparr>)" "transition_made v ActPlan (PlanInput i) ?r (co_db c) db'"
  proof (rule change_made [OF ok room])
    show "no_clash (co_db c) ?r" using plan_clash ok' free by metis
  qed (use no that in \<open>simp_all add: acknowledged_after_start_def planned_record_def\<close>)
  have "?body (co_db c) = Inr (db', ?r)"
    using t m fresh new free sem db'(1) by (simp add: mutate_body_def plan_change_def)
  from writeTransaction_commit [OF ok, of ?body, OF this db'(2)] show thesis
    using that db' by (simp add: mutate_def)
qed

lemma plan_outcome:
  assumes ok: "coordinator_ok v c" and room: "session_room c" and inp: "input_ok (se_host v) (PlanInput i)"
    and times: "pl_qualificationDate i = qualificationDateInPhoenix v (pl_plannedAt i)"
      "milliseconds v (pl_plannedAt i) \<le> milliseconds v (pl_supervisedUntil i)"
  shows "call_outcome v ActPlan (PlanInput i) c
    (mutate v ActPlan (PlanInput i) NewSession (\<lambda>db _. plan_change (co_profile c) i db) c)"
proof -
  note ok' = ok [unfolded coordinator_ok_def]
  let ?body = "mutate_body v (co_key c) (co_profile c) ActPlan (PlanInput i) NewSession (\<lambda>db _. plan_change (co_profile c) i db)"
  let ?r = "planned_record (co_profile c) i"
  have error: ?thesis if "?body (co_db c) = Inl e" "caller_error e" for e
    using that(2) writeTransaction_error [OF ok, of ?body, OF that(1)] by (simp add: mutate_def call_outcome_def)
  obtain t where t: "locale_text (se_host v) (input_json (PlanInput i)) = Some t"
    using input_stored [OF inp, of ActPlan] by auto
  obtain m where m: "sd_metadata (co_db c) = Some m" using verified_parts ok' by metis
  have id: "input_session (PlanInput i) = sr_sessionId ?r" "sr_sessionId ?r = pl_sessionId i" by (simp_all add: planned_record_def)
  show ?thesis
  proof (cases "getAuditByAction (co_db c) (pl_sessionId i) ActPlan")
    case (Some prior)
    then show ?thesis by (intro retried_outcome [OF ok t]) simp
  next
    case None
    note fresh = this
    show ?thesis
    proof (cases "not_before_latest v (pl_plannedAt i) m \<and> getSessionRow (co_db c) (pl_sessionId i) = None
        \<and> \<not> list_ex (\<lambda>r. sw_active_profile r = Some (co_profile c)) (sd_sessions (co_db c))")
      case False
      then obtain e where "?body (co_db c) = Inl e" "caller_error e"
        using t m fresh by (cases "not_before_latest v (pl_plannedAt i) m"; cases "getSessionRow (co_db c) (pl_sessionId i)")
          (auto simp: mutate_body_def plan_change_def)
      then show ?thesis by (rule error)
    next
      case True
      show ?thesis
        by (rule plan_recorded [OF ok room inp times fresh m(1)]) (use True in \<open>auto simp: call_outcome_def id\<close>)
    qed
  qed
qed

end
