(* ===== verification/SessionCalls.thy ===== *)
theory SessionCalls
  imports SessionRuns
begin

text \<open>
  The operations as calls with the values callers pass, and runs of calls. Every call on a sound coordinator with room left
  is one of three: an error of the caller that changes nothing, the repetition of an earlier transition, or one new
  transition (\<open>session_exec_outcome\<close>). Soundness, terminal sessions and the results of exact retries survive runs.
\<close>

subsection \<open>Calls\<close>

datatype SessionCall =
    PlanCall jsval | PreflightCall jsval | StartCall jsval | AcknowledgementCall jsval | StopCall jsval | LocalCall jsval
  | ExternalCall jsval | CostCall jsval | AcceptCall jsval | InvalidateCall jsval

fun session_exec :: "session_env \<Rightarrow> SessionCall \<Rightarrow> Coordinator \<Rightarrow> Coordinator \<times> (SessionError, SessionRecord) result" where
  "session_exec v (PlanCall x) c = planSession v x c"
| "session_exec v (PreflightCall x) c = recordPreflight v x c"
| "session_exec v (StartCall x) c = startSession v x c"
| "session_exec v (AcknowledgementCall x) c = recordSupervisionAcknowledgement v x c"
| "session_exec v (StopCall x) c = stopSession v x c"
| "session_exec v (LocalCall x) c = recordLocalVerification v x c"
| "session_exec v (ExternalCall x) c = recordExternalVerification v x c"
| "session_exec v (CostCall x) c = recordCostReconciliation v x c"
| "session_exec v (AcceptCall x) c = acceptSession v x c"
| "session_exec v (InvalidateCall x) c = invalidateSession v x c"

text \<open>The input a call carries, where it passes its schema and the checks made before the transaction.\<close>

fun call_input :: "session_env \<Rightarrow> SessionCall \<Rightarrow> SessionInput option" where
  "call_input v (PlanCall x) = do {
     i \<leftarrow> PlanSessionInputSchema (se_host v) x;
     if pl_qualificationDate i = qualificationDateInPhoenix v (pl_plannedAt i)
       \<and> milliseconds v (pl_plannedAt i) \<le> milliseconds v (pl_supervisedUntil i)
     then Some (PlanInput i) else None }"
| "call_input v (PreflightCall x) = map_option PreflightInput (RecordSessionPreflightInputSchema (se_host v) x)"
| "call_input v (StartCall x) = do {
     i \<leftarrow> StartSessionInputSchema (se_host v) x;
     if st_typedSessionId i = st_sessionId i then Some (StartInput i) else None }"
| "call_input v (AcknowledgementCall x) =
     map_option AcknowledgementInput (RecordSupervisionAcknowledgementInputSchema (se_host v) x)"
| "call_input v (StopCall x) = map_option StopInput (StopSessionInputSchema (se_host v) x)"
| "call_input v (LocalCall x) = map_option LocalInput (RecordLocalVerificationInputSchema (se_host v) x)"
| "call_input v (ExternalCall x) = map_option ExternalInput (RecordExternalVerificationInputSchema (se_host v) x)"
| "call_input v (CostCall x) = map_option CostInput (RecordCostReconciliationInputSchema (se_host v) x)"
| "call_input v (AcceptCall x) = map_option AcceptInput (AcceptSessionInputSchema (se_host v) x)"
| "call_input v (InvalidateCall x) = map_option InvalidateInput (InvalidateSessionInputSchema (se_host v) x)"

definition input_action :: "SessionInput \<Rightarrow> AuditAction" where
  "input_action i = hd (input_actions i)"

lemma input_action_simps [simp]:
  "input_action (PlanInput a) = ActPlan" "input_action (PreflightInput b) = ActPreflight" "input_action (StartInput d) = ActStart"
  "input_action (AcknowledgementInput e) = (if sa_checkpoint e = Minute45 then ActMinute45 else ActMinute90)"
  "input_action (StopInput f) = ActStop" "input_action (LocalInput g) = ActLocal" "input_action (ExternalInput k) = ActExternal"
  "input_action (CostInput l) = ActCost" "input_action (AcceptInput m) = ActAccept" "input_action (InvalidateInput n) = ActInvalidate"
  by (simp_all add: input_action_def)

lemma call_input_ok: "call_input v call = Some i \<Longrightarrow> input_ok (se_host v) i"
  by (cases call)
    (auto simp: input_ok_def bind_eq_Some z_string_Some PlanSessionInputSchema_def RecordSessionPreflightInputSchema_def
      StartSessionInputSchema_def RecordSupervisionAcknowledgementInputSchema_def StopSessionInputSchema_def
      RecordLocalVerificationInputSchema_def RecordExternalVerificationInputSchema_def RecordCostReconciliationInputSchema_def
      AcceptSessionInputSchema_def InvalidateSessionInputSchema_def split: if_splits
      intro: preflight_accepted local_accepted external_accepted cost_accepted)

lemma exec_rejected: "call_input v call = None \<Longrightarrow> session_exec v call c = (c, Inl SessionValidation)"
  by (cases call) (auto simp: session_parse_def parseSessionInput_def planSession_def recordPreflight_def startSession_def
      recordSupervisionAcknowledgement_def stopSession_def recordLocalVerification_def recordExternalVerification_def
      recordCostReconciliation_def acceptSession_def invalidateSession_def split: option.splits if_splits)

theorem session_exec_outcome:
  assumes "coordinator_ok v c" "session_room c" "call_input v call = Some i"
  shows "call_outcome v (input_action i) i c (session_exec v call c)"
proof -
  have ack: "call_outcome v ActMinute45 (AcknowledgementInput z) c
        (mutate v ActMinute45 (AcknowledgementInput z) (InState Running) (on_record (acknowledgement_change v z)) c)"
      if "sa_checkpoint z = Minute45" "input_ok (se_host v) (AcknowledgementInput z)" for z
    using acknowledgement.mutate_outcome [OF assms(1,2) that(2)] that(1) by simp
  have ack': "call_outcome v ActMinute90 (AcknowledgementInput z) c
        (mutate v ActMinute90 (AcknowledgementInput z) (InState Running) (on_record (acknowledgement_change v z)) c)"
      if "sa_checkpoint z \<noteq> Minute45" "input_ok (se_host v) (AcknowledgementInput z)" for z
    using acknowledgement.mutate_outcome [OF assms(1,2) that(2)] that(1) by simp
  show ?thesis
    using assms(3) call_input_ok [OF assms(3)]
    by (cases call)
      (auto simp: session_parse_def parseSessionInput_def planSession_def recordPreflight_def startSession_def
        recordSupervisionAcknowledgement_def stopSession_def recordLocalVerification_def recordExternalVerification_def
        recordCostReconciliation_def acceptSession_def invalidateSession_def bind_eq_Some simp del: not_less split: if_splits
        intro: plan_outcome [OF assms(1,2)] preflight.mutate_outcome [OF assms(1,2)] start.mutate_outcome [OF assms(1,2)]
          ack ack' stop.mutate_outcome [OF assms(1,2)]
          local_verification.mutate_outcome [OF assms(1,2)] external_verification.mutate_outcome [OF assms(1,2)]
          cost_reconciliation.mutate_outcome [OF assms(1,2)] acceptance.mutate_outcome [OF assms(1,2)]
          invalidation.mutate_outcome [OF assms(1,2)])
qed

lemma exec_cases:
  assumes "coordinator_ok v c" "session_room c" "session_exec v call c = (c', res)"
  obtains (unchanged) "c' = c"
  | (made) i r db' where "call_input v call = Some i" "res = Inr r" "c' = c\<lparr>co_db := db'\<rparr>"
      "transition_made v (input_action i) i r (co_db c) db'" "coordinator_ok v c'" "sr_sessionId r = input_session i"
proof (cases "call_input v call")
  case None
  then show ?thesis using exec_rejected [OF None, of c] assms(3) unchanged by simp
next
  case (Some i)
  show ?thesis
    using session_exec_outcome [OF assms(1,2) Some] assms(3) unchanged made [OF Some]
    by (auto simp: call_outcome_def split: sum.splits)
qed

subsection \<open>Runs\<close>

fun session_run :: "session_env \<Rightarrow> SessionCall list \<Rightarrow> Coordinator \<Rightarrow> Coordinator" where
  "session_run v [] c = c"
| "session_run v (call # calls) c = session_run v calls (fst (session_exec v call c))"

text \<open>Room for some more transitions: each appends one row to the log and adds at most one session.\<close>

definition room_for :: "nat \<Rightarrow> Coordinator \<Rightarrow> bool" where
  "room_for n c \<longleftrightarrow> length (sd_audit (co_db c)) + n \<le> MAX_AUDIT_RECORDS \<and> length (sd_sessions (co_db c)) + n \<le> MAX_SESSION_RECORDS"

lemma room_for_Suc [simp]: "room_for (Suc n) c \<Longrightarrow> session_room c" "room_for (Suc n) c \<Longrightarrow> room_for n c"
  by (simp_all add: room_for_def session_room_def)

lemma room_after:
  assumes "room_for (Suc n) c" "transition_made v a i r (co_db c) db'"
  shows "room_for n (c\<lparr>co_db := db'\<rparr>)"
  using assms by (auto simp: room_for_def transition_made_def length_upsert)

lemma run_induct [consumes 2, case_names nil same step]:
  assumes "coordinator_ok v c" "room_for (length calls) c"
    and "\<And>c. coordinator_ok v c \<Longrightarrow> P [] c"
    and "\<And>call calls c. coordinator_ok v c \<Longrightarrow> fst (session_exec v call c) = c \<Longrightarrow> P calls c \<Longrightarrow> P (call # calls) c"
    and "\<And>call calls c i r db'. coordinator_ok v c \<Longrightarrow> call_input v call = Some i
      \<Longrightarrow> fst (session_exec v call c) = c\<lparr>co_db := db'\<rparr> \<Longrightarrow> transition_made v (input_action i) i r (co_db c) db'
      \<Longrightarrow> coordinator_ok v (c\<lparr>co_db := db'\<rparr>) \<Longrightarrow> sr_sessionId r = input_session i
      \<Longrightarrow> P calls (c\<lparr>co_db := db'\<rparr>) \<Longrightarrow> P (call # calls) c"
  shows "P calls c"
  using assms(1,2)
proof (induction calls arbitrary: c)
  case Nil
  then show ?case using assms(3) by simp
next
  case (Cons call calls)
  obtain c' res where exec: "session_exec v call c = (c', res)" by (cases "session_exec v call c")
  have room: "session_room c" "room_for (length calls) c" using Cons.prems(2) by simp_all
  from Cons.prems(1) room(1) exec show ?case
  proof (cases rule: exec_cases)
    case unchanged
    then show ?thesis using assms(4) [OF Cons.prems(1)] exec Cons.IH [OF Cons.prems(1) room(2)] by simp
  next
    case (made i r db')
    have "room_for (length calls) (c\<lparr>co_db := db'\<rparr>)" using room_after [OF _ made(4)] Cons.prems(2) by simp
    then have "P calls (c\<lparr>co_db := db'\<rparr>)" using Cons.IH [of "c\<lparr>co_db := db'\<rparr>"] made(3,5) by simp
    then show ?thesis using assms(5) [OF Cons.prems(1) made(1) _ made(4) _ made(6)] exec made(3,5) by simp
  qed
qed

lemma session_run_Cons: "fst (session_exec v call c) = c' \<Longrightarrow> session_run v (call # calls) c = session_run v calls c'"
  by simp

theorem session_run_ok:
  assumes "coordinator_ok v c" "room_for (length calls) c"
  shows "coordinator_ok v (session_run v calls c)"
  using assms by (induction rule: run_induct) simp_all

lemma run_room: "coordinator_ok v c \<Longrightarrow> room_for (length calls + n) c \<Longrightarrow> room_for n (session_run v calls c)"
proof (induction calls arbitrary: c)
  case (Cons call calls)
  have room: "room_for (Suc (length calls + n)) c" using Cons.prems(2) by simp
  obtain c' res where ran: "session_exec v call c = (c', res)" by fastforce
  from Cons.prems(1) room_for_Suc(1) [OF room] ran have "coordinator_ok v c' \<and> room_for (length calls + n) c'"
    by (rule exec_cases) (use Cons.prems(1) room room_after [OF room] in auto)
  then show ?case using Cons.IH ran by simp
qed simp

lemma session_run_keeps:
  assumes "coordinator_ok v c" "room_for (length calls) c"
  shows "co_key (session_run v calls c) = co_key c" "co_profile (session_run v calls c) = co_profile c"
  using assms by (induction rule: run_induct) simp_all

lemma session_run_log:
  assumes "coordinator_ok v c" "room_for (length calls) c"
  shows "\<exists>new. sd_audit (co_db (session_run v calls c)) = sd_audit (co_db c) @ new"
  using assms by (induction rule: run_induct) (auto simp: transition_made_def)

text \<open>The row of a terminal session is final.\<close>

lemma find_upsert_other:
  "sw_session_id row \<noteq> i \<Longrightarrow> find (\<lambda>r. sw_session_id r = i) (upsert row rows) = find (\<lambda>r. sw_session_id r = i) rows"
proof -
  assume other: "sw_session_id row \<noteq> i"
  have "find (\<lambda>r. sw_session_id r = i) (map (\<lambda>r. if sw_session_id r = sw_session_id row then row else r) xs)
      = find (\<lambda>r. sw_session_id r = i) xs" for xs
    using other by (induction xs) auto
  then show ?thesis using other by (simp add: upsert_def find_append split: option.split)
qed

lemma terminal_final:
  assumes "coordinator_ok v c" "room_for (length calls) c"
  shows "getSessionRow (co_db c) i = Some row \<Longrightarrow> isTerminal (sw_state row)
    \<Longrightarrow> getSessionRow (co_db (session_run v calls c)) i = Some row"
  using assms
proof (induction rule: run_induct)
  case (step call calls c inp r db')
  have "sr_sessionId r \<noteq> i"
  proof
    assume "sr_sessionId r = i"
    then have "transition_valid (input_action inp) (Some (sw_state row)) (sr_state r)"
      using step.hyps(4) step.prems(1) by (auto simp: transition_made_def)
    then show False using step.prems(2) by (auto simp: transition_valid_def isTerminal_def)
  qed
  then have "getSessionRow db' i = Some row"
    using step.hyps(4) step.prems(1) by (auto simp: transition_made_def getSessionRow_def find_upsert_other)
  then show ?case using step by simp
qed simp_all

subsection \<open>Exact retries\<close>

lemma repeats_kept:
  assumes "coordinator_ok v c" "room_for (length calls) c"
  shows "repeats v a i r (co_db c) \<Longrightarrow> repeats v a i r (co_db (session_run v calls c))"
  using assms
proof (induction rule: run_induct)
  case (step call calls c inp q db')
  then obtain arow where "sd_audit db' = sd_audit (co_db c) @ [arow]" by (auto simp: transition_made_def)
  then have "repeats v a i r db'"
    using step.prems getAuditByAction_snoc unfolding repeats_def by (metis option.distinct(1))
  then show ?case using step by simp
qed simp_all

lemma made_repeats:
  assumes "transition_made v a i r db db'" "sr_sessionId r = input_session i"
  shows "repeats v a i r db'"
proof -
  obtain arow where "sd_audit db' = sd_audit db @ [arow]" "aw_session_id arow = sr_sessionId r" "aw_action arow = a"
      "locale_text (se_host v) (input_json i) = Some (aw_input_json arow)" "parseRecordJson v (aw_record_json arow) = Some r"
    using assms(1) by (auto simp: transition_made_def)
  moreover have "getAuditByAction db (sr_sessionId r) a = None" using assms(1) by (simp add: transition_made_def)
  ultimately show ?thesis
    using assms(2) by (auto simp: repeats_def getAuditByAction_def find_append)
qed

text \<open>A logged action with the same input returns the logged record, whatever the expected state.\<close>

lemma mutate_repeats:
  assumes ok: "coordinator_ok v c" and again: "repeats v a i r (co_db c)"
  shows "mutate v a i expected change c = (c, Inr r)"
proof -
  have "mutate_body v (co_key c) (co_profile c) a i expected change (co_db c) = Inr (co_db c, r)"
    using again by (auto simp: repeats_def mutate_body_def)
  then have "writeTransaction v (mutate_body v (co_key c) (co_profile c) a i expected change) c = (c\<lparr>co_db := co_db c\<rparr>, Inr r)"
    by (rule writeTransaction_commit [OF ok]) (use ok in simp)
  then show ?thesis by (simp add: mutate_def)
qed

lemma exec_repeats:
  assumes "coordinator_ok v c" "call_input v call = Some i" "repeats v (input_action i) i r (co_db c)"
  shows "session_exec v call c = (c, Inr r)"
  using assms(2) mutate_repeats [OF assms(1,3)]
  by (cases call) (auto simp: session_parse_def parseSessionInput_def planSession_def recordPreflight_def startSession_def
      recordSupervisionAcknowledgement_def stopSession_def recordLocalVerification_def recordExternalVerification_def
      recordCostReconciliation_def acceptSession_def invalidateSession_def bind_eq_Some split: if_splits)

theorem retry_returns_the_record:
  assumes ok: "coordinator_ok v c" and room: "room_for (Suc (length calls)) c"
    and first: "session_exec v call c = (c', Inr r)"
  shows "session_exec v call (session_run v calls c') = (session_run v calls c', Inr r)"
proof -
  obtain i where i: "call_input v call = Some i"
    using first exec_rejected [of v call c] by (cases "call_input v call") auto
  have outcome: "call_outcome v (input_action i) i c (c', Inr r)"
    using session_exec_outcome [OF ok _ i] first room_for_Suc(1) [OF room] by simp
  have c': "coordinator_ok v c'" "room_for (length calls) c'"
    using outcome ok room room_after [of "length calls" c] by (auto simp: call_outcome_def)
  have "repeats v (input_action i) i r (co_db c')"
    using outcome made_repeats by (auto simp: call_outcome_def)
  then have "repeats v (input_action i) i r (co_db (session_run v calls c'))" by (rule repeats_kept [OF c'])
  then show ?thesis by (rule exec_repeats [OF session_run_ok [OF c'] i])
qed

end
