(* ===== verification/SessionPaths.thy ===== *)
theory SessionPaths
  imports SessionCalls
begin

text \<open>
  What an authenticated database shows of its sessions: the log of each is a path through the state machine that ends in the
  state of its row, an accepted session has been through every stage, and a session that has not ended can be invalidated
  at any time.
\<close>

subsection \<open>Paths\<close>

definition session_log :: "SessionDb \<Rightarrow> string \<Rightarrow> AuditRow list" where
  "session_log db i = filter (\<lambda>r. aw_session_id r = i) (getAllAuditRows db)"

fun audit_path :: "SessionState option \<Rightarrow> AuditRow list \<Rightarrow> SessionState option \<Rightarrow> bool" where
  "audit_path s0 [] to = (s0 = to)"
| "audit_path s0 (r # rs) to \<longleftrightarrow>
     aw_from_state r = s0 \<and> transition_valid (aw_action r) s0 (aw_to_state r) \<and> audit_path (Some (aw_to_state r)) rs to"

lemma audit_path_append: "audit_path a (rs @ qs) b \<longleftrightarrow> (\<exists>m. audit_path a rs m \<and> audit_path m qs b)"
  by (induction rs arbitrary: a) auto

lemma replay_path:
  "replay_audit v key acc rows = Some acc' \<Longrightarrow>
     audit_path (map_of (ar_states acc) i) (filter (\<lambda>r. aw_session_id r = i) rows) (map_of (ar_states acc') i)"
proof (induction rows arbitrary: acc)
  case (Cons row rows)
  then have ok: "audit_row_ok v key acc row" and rest: "replay_audit v key (replay_audit_row acc row) rows = Some acc'"
    by (auto split: if_splits)
  show ?case using Cons.IH [OF rest] ok
    by (cases "aw_session_id row = i") (auto simp: replay_audit_row_def audit_row_ok_def map_of_update)
qed simp

theorem session_path:
  assumes "verifySessionsInternal v key p db" "keys_ok db"
  shows "audit_path None (session_log db i) (map_option sw_state (getSessionRow db i))"
proof -
  obtain m projection acc where acc: "sessions_ok v key p m (getAllSessionRows db)"
      "replay_audit v key audit_start (getAllAuditRows db) = Some acc" "replay_agrees v acc"
      "length (ar_records acc) = length (sd_sessions db)"
      "\<And>r. r \<in> set (sd_sessions db) \<Longrightarrow> map_of (ar_records acc) (sw_session_id r) = Some (sw_record_json r)"
    using verified_parts [OF assms(1)] by metis
  have "map_of (ar_states acc) i = map_option sw_state (getSessionRow db i)"
    by (rule replay_state [OF acc(3,4) assms(2) acc(5)]) (use acc(1) in \<open>auto simp: sessions_ok_def\<close>)
  then show ?thesis using replay_path [OF acc(2), of i] by (simp add: session_log_def audit_start_def)
qed

lemma path_terminal: "audit_path (Some s) rows to \<Longrightarrow> isTerminal s \<Longrightarrow> rows = [] \<and> to = Some s"
  by (cases rows) (auto simp: transition_valid_def isTerminal_def)

lemma path_live:
  "audit_path s0 rows (Some s) \<Longrightarrow> \<not> isTerminal s \<Longrightarrow> r \<in> set rows \<Longrightarrow> \<not> isTerminal (aw_to_state r)"
  by (induction rows arbitrary: s0) (auto dest: path_terminal)

lemma path_nothing: "audit_path None rows None \<Longrightarrow> rows = []"
proof (induction rows rule: rev_induct)
  case (snoc r rs)
  then show ?case by (auto simp: audit_path_append)
qed simp

subsection \<open>Histories\<close>

text \<open>The actions that lead to a state other than invalid, with the acknowledgements made on the way.\<close>

primrec history :: "SessionState \<Rightarrow> AuditAction list \<Rightarrow> AuditAction list" where
  "history Planned acks = [ActPlan]"
| "history Preflighted acks = [ActPlan, ActPreflight]"
| "history Running acks = [ActPlan, ActPreflight, ActStart] @ acks"
| "history Stopping acks = [ActPlan, ActPreflight, ActStart] @ acks @ [ActStop]"
| "history LocallyVerified acks = [ActPlan, ActPreflight, ActStart] @ acks @ [ActStop, ActLocal]"
| "history ExternallyVerified acks = [ActPlan, ActPreflight, ActStart] @ acks @ [ActStop, ActLocal, ActExternal]"
| "history CostPending acks = [ActPlan, ActPreflight, ActStart] @ acks @ [ActStop, ActLocal, ActExternal, ActCost]"
| "history Accepted acks = [ActPlan, ActPreflight, ActStart] @ acks @ [ActStop, ActLocal, ActExternal, ActCost, ActAccept]"
| "history Invalid acks = []"

lemma history_step:
  assumes "transition_valid a (Some s) t" "t \<noteq> Invalid" "set acks \<subseteq> {ActMinute45, ActMinute90}"
  shows "\<exists>acks'. history s acks @ [a] = history t acks' \<and> set acks' \<subseteq> {ActMinute45, ActMinute90}"
proof (cases "s = Running \<and> t = Running")
  case True
  then have "a = ActMinute45 \<or> a = ActMinute90" using assms(1) by (auto simp: transition_valid_def)
  then show ?thesis using True assms(3) by (intro exI [of _ "acks @ [a]"]) auto
next
  case False
  then show ?thesis using assms
    by (intro exI [of _ "if s = Preflighted then [] else acks"]) (auto simp: transition_valid_def)
qed

lemma path_history:
  "audit_path None rows (Some s) \<Longrightarrow> s \<noteq> Invalid \<Longrightarrow>
     \<exists>acks. map aw_action rows = history s acks \<and> set acks \<subseteq> {ActMinute45, ActMinute90}"
proof (induction rows arbitrary: s rule: rev_induct)
  case (snoc r rs)
  then obtain m where m: "audit_path None rs m" "transition_valid (aw_action r) m s" by (auto simp: audit_path_append)
  show ?case
  proof (cases m)
    case None
    then show ?thesis using m path_nothing by (auto simp: transition_valid_def intro!: exI [of _ "[]"])
  next
    case (Some q)
    then have "q \<noteq> Invalid" using m(2) snoc.prems(2) by (auto simp: transition_valid_def isTerminal_def)
    then obtain acks where acks: "map aw_action rs = history q acks" "set acks \<subseteq> {ActMinute45, ActMinute90}"
      using snoc.IH m(1) Some by blast
    from history_step [OF m(2) [unfolded Some] snoc.prems(2) acks(2)] show ?thesis using acks(1) by simp
  qed
qed simp

end
