(* ===== verification/SessionGuarantees.thy ===== *)
theory SessionGuarantees
  imports SessionPaths
begin

text \<open>
  What the coordinator promises the operator: an accepted session carries every piece of evidence and every
  acknowledgement, and was supervised within its bounds; a session that has not ended can always be invalidated.
\<close>

subsection \<open>Accepted sessions\<close>

text \<open>
  The evidence of an accepted session, written out: every check of the preflight, every fact of the local verification, the
  independent verification, the bill, and the acceptance evidence, which binds the digest of each and the verified artifacts.
\<close>

definition locally_closed :: "SessionLocalEvidence \<Rightarrow> bool" where
  "locally_closed l \<longleftrightarrow>
     le_incidentCount l = 0 \<and> list_all (\<lambda>s. s = SourceClosed) (all_lanes (le_xLanes l))
   \<and> sea_rest (le_openSea l) = SourceClosed \<and> sea_stream (le_openSea l) = SourceClosed \<and> le_canonicalChain l = SourceClosed
   \<and> le_eventIntegrity l = Verified \<and> le_digestIntegrity l = Verified \<and> le_localCheckpoint l = Verified
   \<and> pg_captureKeys (le_purge l) = KeysDestroyed \<and> pg_encryptedIndexes (le_purge l) = Clean
   \<and> pg_orphanScan (le_purge l) = Clean \<and> pg_rawCaptures (le_purge l) = Clean
   \<and> le_alertCheck l = AlertHealthy \<and> le_explicitClose l = CloseComplete"

definition acceptance_binds ::
    "SessionAcceptanceEvidence \<Rightarrow> SessionPreflightEvidence \<Rightarrow> SessionLocalEvidence \<Rightarrow> SessionExternalEvidence
      \<Rightarrow> SessionCostEvidence \<Rightarrow> bool" where
  "acceptance_binds a p l x k \<longleftrightarrow>
     ae_preflightHash a = pe_evidenceHash p \<and> ae_localHash a = le_evidenceHash l \<and> ae_externalHash a = xe_evidenceHash x
   \<and> ae_costHash a = ce_evidenceHash k \<and> ae_reconciledAtomic a = ce_reconciledAtomic k \<and> ae_reservedAtomic a = ce_reservedAtomic k
   \<and> artifact_verified (ra_stateEvidence (le_recoveryArtifacts l)) = Some (ae_stateEvidence a)
   \<and> artifact_verified (ra_eventArchive (le_recoveryArtifacts l)) = Some (ae_eventArchive a)
   \<and> artifact_verified (ra_releaseBundle (le_recoveryArtifacts l)) = Some (ae_releaseBundle a)"

definition fully_evidenced :: "session_env \<Rightarrow> SessionRecord \<Rightarrow> bool" where
  "fully_evidenced v r \<longleftrightarrow>
     (\<exists>p l x k a. sr_preflightEvidence r = Some p \<and> sr_localEvidence r = Some l \<and> sr_externalEvidence r = Some x
        \<and> sr_costEvidence r = Some k \<and> sr_acceptanceEvidence r = Some a
        \<and> pe_ready p \<and> list_all (\<lambda>s. s = CheckPassed) (all_checks (pe_checks p)) \<and> pe_profile p = sr_profile r
        \<and> locally_closed l
        \<and> xe_externalAnchor x = Verified \<and> xe_retainedSuffix x = Verified \<and> xe_independentVerification x = Verified
        \<and> ce_billingStatus k = BillingComplete \<and> ce_outstandingAtomic k = ''0''
        \<and> read_nat (ce_reconciledAtomic k) \<le> read_nat (ce_reservedAtomic k)
        \<and> acceptance_binds a p l x k)"

definition supervised :: "session_env \<Rightarrow> SessionRecord \<Rightarrow> bool" where
  "supervised v r \<longleftrightarrow>
     (\<exists>started minute45 minute90 stopped. sr_startedAt r = Some started \<and> sr_minute45AcknowledgedAt r = Some minute45
        \<and> sr_minute90AcknowledgedAt r = Some minute90 \<and> sr_stoppedAt r = Some stopped
        \<and> milliseconds v minute45 - milliseconds v started \<in> {45 * 60000..50 * 60000}
        \<and> milliseconds v minute90 - milliseconds v started \<in> {90 * 60000..95 * 60000}
        \<and> milliseconds v minute90 \<le> milliseconds v stopped
        \<and> milliseconds v stopped \<le> milliseconds v (sr_supervisedUntil r)
        \<and> milliseconds v stopped - milliseconds v started \<le> 120 * 60000
        \<and> qualificationDateInPhoenix v started = sr_qualificationDate r)"

lemma local_passed: "localFailureReason l = None \<Longrightarrow> locally_closed l"
  by (auto simp: localFailureReason_def locally_closed_def list_ex_iff list_all_iff split: if_splits)

lemma acceptance_text:
  assumes "acceptance_ok a" "acceptance_ok b" "locale_text h (acceptance_json a) = locale_text h (acceptance_json b)"
  shows "a = b"
  using locale_round_trip [OF plain_evidence(5), of h a] locale_round_trip [OF plain_evidence(5), of h b] assms(3)
    acceptance_reparse [OF assms(1), of h] acceptance_reparse [OF assms(2), of h]
  by (metis option.inject)

text \<open>The computed acceptance evidence binds the evidence it was computed from, and is well formed where that is.\<close>

lemma acceptance_computed:
  assumes "acceptanceEvidence v r = Some a" "record_ok h r"
    and "sr_preflightEvidence r = Some p" "sr_localEvidence r = Some l" "sr_externalEvidence r = Some x" "sr_costEvidence r = Some k"
  shows "acceptance_binds a p l x k" "acceptance_ok a"
proof -
  show binds: "acceptance_binds a p l x k"
    using assms(1,3-6) by (auto simp: acceptanceEvidence_def acceptance_binds_def split: if_splits)
  have "preflight_ok h p" "local_ok l" "external_ok x" "cost_ok k" using assms(2-6) by (simp_all add: record_ok_def)
  then show "acceptance_ok a"
    using binds by (simp add: acceptance_binds_def acceptance_ok_def preflight_ok_def local_ok_def external_ok_def cost_ok_def
        artifacts_ok_def artifact_ok_def)
qed

lemma accepted_evidence:
  assumes "recordSemantics v r" "sr_state r = Accepted" "record_ok (se_host v) r"
  shows "fully_evidenced v r" "supervised v r"
proof -
  note live = live_facts [OF assms(1,2)] live_times [OF assms(1), unfolded assms(2)]
  obtain a p b c d f where pre: "sr_preflightedAt r = Some a" "sr_preflightEvidence r = Some p" "sr_startedAt r = Some b"
    "sr_minute45AcknowledgedAt r = Some c" "sr_minute90AcknowledgedAt r = Some d" "sr_stoppedAt r = Some f"
    "sr_startAcknowledgements r = Some ()"
    by (rule stopped_times [OF assms(1)]) (simp_all add: assms(2))
  obtain l x k where ev: "sr_localEvidence r = Some l" "sr_externalEvidence r = Some x" "sr_costEvidence r = Some k"
    using live by (auto simp: core_semantics_def)
  have passed: "allPreflightChecksPass p" "localFailureReason l = None" "externalEvidencePasses x" "costFailureReason k = None"
    using live(2) by (simp_all add: live_semantics_def evidence_matches_rank_def pre ev assms(2))
  obtain a' where a': "acceptanceEvidence v r = Some a'" "locale_text (se_host v) (nullable_json acceptance_json (sr_acceptanceEvidence r))
      = locale_text (se_host v) (acceptance_json a')"
    using live(2) assms(2) by (auto simp: live_semantics_def split: option.splits)
  note computed = acceptance_computed [OF a'(1) assms(3) pre(2) ev]
  obtain acc where acc: "sr_acceptanceEvidence r = Some acc" using live by (auto simp: core_semantics_def assms(2))
  have "acc = a'"
    by (rule acceptance_text [of _ _ "se_host v"]) (use a'(2) acc computed(2) assms(3) in \<open>simp_all add: nullable_json_def record_ok_def\<close>)
  then show "fully_evidenced v r"
    unfolding fully_evidenced_def
    using pre ev acc passed local_passed [OF passed(2)] live(1) computed(1)
    by (auto simp: allPreflightChecksPass_def externalEvidencePasses_def costFailureReason_def core_semantics_def split: if_splits)
  have sorted: "sorted (map (milliseconds v) (recorded_times r))" using live(1) by (simp add: core_semantics_def)
  have "milliseconds v d \<le> milliseconds v f"
    using sorted by (auto simp: recorded_times_def map_filter_simps pre split: option.splits)
  then show "supervised v r"
    using live(2,8) by (simp add: supervised_def pre live_semantics_def acknowledged_in_window_def within_duration_def Let_def
        SUPERVISION_GRACE_MILLISECONDS_def MAX_SUPERVISED_MILLISECONDS_def)
qed

theorem accepted_row_evidenced:
  assumes "verifySessionsInternal v key p db" "getSessionRow db i = Some row" "sw_state row = Accepted"
  obtains r where "parseRecordJson v (sw_record_json row) = Some r" "sr_sessionId r = i" "fully_evidenced v r" "supervised v r"
proof -
  have "session_row_ok v key p row" "sw_session_id row = i"
    using verified_at_most_one(3) [OF assms(1)] getSessionRow_member [OF assms(2)] by blast+
  then obtain r where "parseRecordJson v (sw_record_json row) = Some r" "recordSemantics v r" "sr_state r = sw_state row"
      "sr_sessionId r = i" "record_ok (se_host v) r"
    using session_row_parsed by metis
  then show ?thesis using that accepted_evidence assms(3) by simp
qed

text \<open>On the tables the operations keep, both acknowledgements are logged between the start and the stop.\<close>

theorem accepted_session_history:
  assumes "coordinator_ok v c" "getSessionRow (co_db c) i = Some row" "sw_state row = Accepted"
  obtains acks where "map aw_action (session_log (co_db c) i) = history Accepted acks"
    "set acks = {ActMinute45, ActMinute90}" "distinct acks"
proof -
  note ok = assms(1) [unfolded coordinator_ok_def]
  let ?log = "session_log (co_db c) i"
  have path: "audit_path None ?log (Some Accepted)"
    using session_path [of v _ _ "co_db c" i] ok assms(2,3) by fastforce
  obtain acks where acks: "map aw_action ?log = history Accepted acks" "set acks \<subseteq> {ActMinute45, ActMinute90}"
    using path_history [OF path] by auto
  have "session_row_ok v (co_key c) (co_profile c) row" and mem: "row \<in> set (sd_sessions (co_db c))" "sw_session_id row = i"
    using verified_at_most_one(3) ok getSessionRow_member [OF assms(2)] by blast+
  then obtain r where r: "parseRecordJson v (sw_record_json row) = Some r" "recordSemantics v r" "sr_state r = Accepted" "sr_sessionId r = i"
      "record_ok (se_host v) r"
    using session_row_parsed assms(3) by metis
  have "sr_minute45AcknowledgedAt r \<noteq> None" "sr_minute90AcknowledgedAt r \<noteq> None"
    using accepted_evidence(2) [OF r(2,3,5)] by (auto simp: supervised_def)
  then have "getAuditByAction (co_db c) i ActMinute45 \<noteq> None" "getAuditByAction (co_db c) i ActMinute90 \<noteq> None"
    using ok mem(1) r(1,4) unfolding sane_def by blast+
  then have "ActMinute45 \<in> aw_action ` set ?log" "ActMinute90 \<in> aw_action ` set ?log"
    by (auto simp: getAuditByAction_def find_None_iff session_log_def rev_image_eqI)
  then have "{ActMinute45, ActMinute90} \<subseteq> set acks"
    using arg_cong [OF acks(1), of set] by auto
  moreover have "distinct (map aw_action ?log)"
  proof -
    have "distinct (map (\<lambda>r. (aw_session_id r, aw_action r)) (getAllAuditRows (co_db c)))"
      using ok by (simp add: keys_ok_def getAllAuditRows_def distinct_map distinct_sort)
    then show ?thesis by (auto simp: session_log_def distinct_map inj_on_def)
  qed
  ultimately show ?thesis using that acks by (auto simp: acks(1))
qed

subsection \<open>Invalidation\<close>

definition replay_times :: "session_env \<Rightarrow> AuditReplay \<Rightarrow> bool" where
  "replay_times v acc \<longleftrightarrow> (\<forall>i s r. map_of (ar_records acc) i = Some s \<longrightarrow> parseRecordJson v s = Some r \<longrightarrow>
     (\<exists>t. ar_time acc = Some t \<and> milliseconds v (sr_updatedAt r) \<le> milliseconds v t))"

lemma replay_audit_times: "replay_audit v key acc rows = Some acc' \<Longrightarrow> replay_times v acc \<Longrightarrow> replay_times v acc'"
proof (induction rows arbitrary: acc)
  case (Cons row rows)
  then have ok: "audit_row_ok v key acc row" and rest: "replay_audit v key (replay_audit_row acc row) rows = Some acc'"
    by (auto split: if_splits)
  have "replay_times v (replay_audit_row acc row)"
    using Cons.prems(2) ok
    by (fastforce simp: replay_times_def replay_audit_row_def audit_row_ok_def map_of_update split: if_splits option.splits)
  then show ?case by (rule Cons.IH [OF rest])
qed simp

lemma updated_before_latest:
  assumes "verifySessionsInternal v key p db" "getSessionRow db i = Some row" "parseRecordJson v (sw_record_json row) = Some r"
    and "sd_metadata db = Some m" "not_before_latest v t m"
  shows "milliseconds v (sr_updatedAt r) \<le> milliseconds v t"
proof -
  obtain acc where acc: "replay_audit v key audit_start (getAllAuditRows db) = Some acc" "mt_latest_occurred_at m = ar_time acc"
      "\<And>r. r \<in> set (sd_sessions db) \<Longrightarrow> map_of (ar_records acc) (sw_session_id r) = Some (sw_record_json r)"
    using verified_parts [OF assms(1)] assms(4) by (metis option.inject)
  have "replay_times v acc" using replay_audit_times [OF acc(1)] by (simp add: replay_times_def audit_start_def)
  then obtain latest where "ar_time acc = Some latest" "milliseconds v (sr_updatedAt r) \<le> milliseconds v latest"
    using acc(3) getSessionRow_member [OF assms(2)] assms(3) unfolding replay_times_def by blast
  then show ?thesis using assms(5) acc(2) by (simp add: not_before_latest_def)
qed

lemma getAuditByAction_member:
  "getAuditByAction db i a = Some r \<Longrightarrow> r \<in> set (sd_audit db) \<and> aw_session_id r = i \<and> aw_action r = a"
  by (auto simp: getAuditByAction_def find_Some_iff)

lemma live_not_ended:
  assumes "verifySessionsInternal v key p db" "keys_ok db" "getSessionRow db i = Some row" "\<not> isTerminal (sw_state row)"
    and "a = ActInvalidate \<or> a = ActCrashRecovery"
  shows "getAuditByAction db i a = None"
proof (rule ccontr)
  assume "getAuditByAction db i a \<noteq> None"
  then obtain r where r: "r \<in> set (session_log db i)" "aw_action r = a"
    using getAuditByAction_member by (fastforce simp: session_log_def)
  have "transition_valid (aw_action r) (aw_from_state r) (aw_to_state r)"
    by (rule audit_rows_parse [OF assms(1)]) (use r(1) in \<open>simp_all add: session_log_def\<close>)
  then have "aw_to_state r = Invalid" using assms(5) r(2) by (auto simp: transition_valid_def)
  then show False
    using path_live [OF _ assms(4) r(1)] session_path [OF assms(1,2), of i] assms(3) by (auto simp: isTerminal_def)
qed

theorem live_session_invalidated:
  assumes ok: "coordinator_ok v c" and room: "session_room c"
    and row: "getSessionRow (co_db c) (iv_sessionId i) = Some row" "\<not> isTerminal (sw_state row)"
    and call: "InvalidateSessionInputSchema (se_host v) x = Some i"
    and m: "sd_metadata (co_db c) = Some m" "not_before_latest v (iv_invalidatedAt i) m"
  obtains r db' where "invalidateSession v x c = (c\<lparr>co_db := db'\<rparr>, Inr r)" "coordinator_ok v (c\<lparr>co_db := db'\<rparr>)"
    "transition_made v ActInvalidate (InvalidateInput i) r (co_db c) db'"
    "sr_sessionId r = iv_sessionId i" "sr_state r = Invalid" "sr_egressStatus r = EgressBlocked"
    "sr_invalidationReason r = Some (iv_reason i)"
proof -
  note ok' = ok [unfolded coordinator_ok_def]
  have inp: "call_input v (InvalidateCall x) = Some (InvalidateInput i)" using call by simp
  have ok_i: "input_ok (se_host v) (InvalidateInput i)" by (rule call_input_ok [OF inp])
  obtain q where q: "parseRecordJson v (sw_record_json row) = Some q" "sr_state q = sw_state row" "sr_sessionId q = iv_sessionId i"
      "recordSemantics v q" "record_ok (se_host v) q"
    using session_row_parsed verified_at_most_one(3) ok' getSessionRow_member [OF row(1)] by metis
  have fresh: "getAuditByAction (co_db c) (iv_sessionId i) ActInvalidate = None"
    using live_not_ended ok' row by metis
  have time: "milliseconds v (sr_updatedAt q) \<le> milliseconds v (iv_invalidatedAt i)"
    using updated_before_latest ok' row(1) q(1) m by metis
  let ?r = "invalidRecord q (iv_invalidatedAt i) (iv_reason i)"
  have change: "invalidate_change i q = Inr ?r" using row(2) q(2) by (simp add: invalidate_change_def)
  have sane: "acknowledged_after_start q" using ok' getSessionRow_member [OF row(1)] q(1) unfolding sane_def by blast
  have sound: "sound_change v ActInvalidate (InvalidateInput i) q ?r"
    by (rule invalidate_sound [OF q(4,5) sane ok_i change])
  obtain db' where db': "record_change v (co_key c) (co_profile c) ActInvalidate (InvalidateInput i) (Some (sr_state q)) ?r (co_db c) = Inr db'"
      "coordinator_ok v (c\<lparr>co_db := db'\<rparr>)" "transition_made v ActInvalidate (InvalidateInput i) ?r (co_db c) db'"
    by (rule invalidation.change_recorded [OF ok room ok_i _ m(1) _ _ q(1) _ change sound]) (use fresh m row in simp_all)
  have "mutate_body v (co_key c) (co_profile c) ActInvalidate (InvalidateInput i) AnyState (on_record (invalidate_change i)) (co_db c)
      = Inr (db', ?r)"
    using invalidation.body_on_record [OF ok ok_i _ m(1) _ _ q(1)] fresh m(2) row(1) time change sound db'(1)
    by (simp add: sound_change_def)
  from writeTransaction_commit [OF ok, of "mutate_body v (co_key c) (co_profile c) ActInvalidate (InvalidateInput i) AnyState
      (on_record (invalidate_change i))", OF this db'(2)]
  have "invalidateSession v x c = (c\<lparr>co_db := db'\<rparr>, Inr ?r)"
    by (simp add: invalidateSession_def session_parse_def parseSessionInput_def call mutate_def)
  then show ?thesis using that [of db' ?r] db'(2,3) q(3) by simp
qed

end
