(* ===== verification/SessionOpening.thy ===== *)
theory SessionOpening
  imports SessionGuarantees
begin

text \<open>
  Opening. A successful \<open>open\<close> leaves no session running whatever the file held, and on the tables of a sound
  coordinator, with the head it reported, it succeeds and gives a sound coordinator again. The retained head pins the part
  of the log it was taken from.
\<close>

subsection \<open>Crash recovery\<close>

lemma record_change_tables:
  assumes "record_change v key p a i s r db = Inr db'"
  obtains row arow where "session_row v key r = Some row" "sd_sessions db' = upsert row (sd_sessions db)"
    "sd_audit db' = sd_audit db @ [arow]" "sd_schema db' = sd_schema db"
  using assms by (fastforce simp: record_change_def putSession_def appendAudit_def refreshMetadata_def Let_def split: if_splits option.splits)

lemma session_row_simps:
  "session_row v key r = Some row \<Longrightarrow> sw_session_id row = sr_sessionId r \<and> sw_state row = sr_state r"
  by (auto simp: session_row_def Let_def)

lemma find_upsert_same: "sw_session_id row = i \<Longrightarrow> find (\<lambda>r. sw_session_id r = i) (upsert row rows) = Some row"
proof (cases "list_ex (\<lambda>r. sw_session_id r = sw_session_id row) rows")
  assume i: "sw_session_id row = i"
  case True
  then have "find (\<lambda>r. sw_session_id r = i) (map (\<lambda>r. if sw_session_id r = sw_session_id row then row else r) rows) = Some row"
    using i by (induction rows) auto
  then show ?thesis using True by (simp add: upsert_def)
next
  assume i: "sw_session_id row = i"
  case False
  then have "find (\<lambda>r. sw_session_id r = i) rows = None" using i by (auto simp: find_None_iff list_ex_iff)
  then show ?thesis using False i by (simp add: upsert_def find_append)
qed

text \<open>The sessions of \<open>ids\<close> have been invalidated, and the others are as they were.\<close>

definition recovered :: "string set \<Rightarrow> SessionDb \<Rightarrow> SessionDb \<Rightarrow> bool" where
  "recovered ids db db' \<longleftrightarrow>
     distinct (map sw_session_id (sd_sessions db')) \<and> sw_session_id ` set (sd_sessions db') = sw_session_id ` set (sd_sessions db)
   \<and> (\<forall>i. if i \<in> ids then \<exists>row. getSessionRow db' i = Some row \<and> sw_state row = Invalid
        else getSessionRow db' i = getSessionRow db i)"

lemma recoveredD:
  "recovered ids db db' \<Longrightarrow> i \<in> ids \<Longrightarrow> \<exists>row. getSessionRow db' i = Some row \<and> sw_state row = Invalid"
  "recovered ids db db' \<Longrightarrow> i \<notin> ids \<Longrightarrow> getSessionRow db' i = getSessionRow db i"
  by (simp_all add: recovered_def)

lemma recovered_rows:
  assumes "recover_rows v key p t rows db = Inr db'" "\<And>row. row \<in> set rows \<Longrightarrow> session_row_ok v key p row"
    and "distinct (map sw_session_id (sd_sessions db))" "sw_session_id ` set rows \<subseteq> sw_session_id ` set (sd_sessions db)"
  shows "recovered (sw_session_id ` set rows) db db'"
  using assms
proof (induction rows arbitrary: db)
  case Nil
  then show ?case by (simp add: recovered_def)
next
  case (Cons row rows)
  obtain r where r: "parseRecordJson v (sw_record_json row) = Some r" "sr_sessionId r = sw_session_id row"
    using session_row_parsed Cons.prems(2) by (metis list.set_intros(1))
  with Cons.prems(1) obtain db1 where db1: "record_change v key p ActCrashRecovery
        (CrashInput \<lparr>cv_recoveredAt = t, cv_sessionId = sr_sessionId r\<rparr>) (Some (sr_state r)) (invalidRecord r t CrashRecovery) db = Inr db1"
      and rest: "recover_rows v key p t rows db1 = Inr db'" by auto
  obtain new where new: "session_row v key (invalidRecord r t CrashRecovery) = Some new" "sd_sessions db1 = upsert new (sd_sessions db)"
    by (rule record_change_tables [OF db1])
  have id: "sw_session_id new = sw_session_id row" "sw_state new = Invalid"
    using session_row_simps [OF new(1)] r(2) by simp_all
  have known: "list_ex (\<lambda>x. sw_session_id x = sw_session_id new) (sd_sessions db)"
    using Cons.prems(4) id(1) by (auto simp: list_ex_iff)
  have ids: "map sw_session_id (sd_sessions db1) = map sw_session_id (sd_sessions db)"
    using known by (simp add: new(2) upsert_def)
  have "recovered (sw_session_id ` set rows) db1 db'"
  proof (rule Cons.IH [OF rest])
    show "distinct (map sw_session_id (sd_sessions db1))" using Cons.prems(3) ids by simp
    show "sw_session_id ` set rows \<subseteq> sw_session_id ` set (sd_sessions db1)"
      using Cons.prems(4) ids by (metis image_set insert_subset list.set(2) image_insert)
  qed (use Cons.prems(2) in simp)
  moreover have "getSessionRow db1 (sw_session_id row) = Some new"
    by (simp add: getSessionRow_def new(2) find_upsert_same id(1))
  moreover have "getSessionRow db1 i = getSessionRow db i" if "i \<noteq> sw_session_id row" for i
    using that id(1) by (simp add: getSessionRow_def new(2) find_upsert_other)
  moreover have "sw_session_id ` set (sd_sessions db1) = sw_session_id ` set (sd_sessions db)"
    using arg_cong [OF ids, of set] by simp
  ultimately show ?case
    using ids id(2) unfolding recovered_def by (auto split: if_splits)
qed

lemma nonterminal_rows_simps: "set (nonterminal_rows db) = {row \<in> set (sd_sessions db). \<not> isTerminal (sw_state row)}"
  by (auto simp: nonterminal_rows_def)

lemma all_terminal:
  assumes "recovered (sw_session_id ` set (nonterminal_rows db)) db db'" "distinct (map sw_session_id (sd_sessions db))"
    and "row \<in> set (sd_sessions db')"
  shows "isTerminal (sw_state row)"
proof -
  have own: "getSessionRow db' (sw_session_id row) = Some row"
    using find_distinct [of sw_session_id "sd_sessions db'" row] assms(1,3) by (simp add: getSessionRow_def recovered_def)
  show ?thesis
  proof (cases "sw_session_id row \<in> sw_session_id ` set (nonterminal_rows db)")
    case True
    then show ?thesis using recoveredD(1) [OF assms(1) True] own by (simp add: isTerminal_def)
  next
    case False
    then have "getSessionRow db (sw_session_id row) = Some row" using recoveredD(2) [OF assms(1) False] own by simp
    then have "row \<in> set (sd_sessions db)" by (rule getSessionRow_member [THEN conjunct1])
    then show ?thesis using False by (auto simp: nonterminal_rows_simps)
  qed
qed

lemma terminal_untouched:
  assumes "recovered (sw_session_id ` set (nonterminal_rows db)) db db'" "distinct (map sw_session_id (sd_sessions db))"
    and "getSessionRow db i = Some row" "isTerminal (sw_state row)"
  shows "getSessionRow db' i = Some row"
proof -
  have row: "row \<in> set (sd_sessions db)" "sw_session_id row = i" using getSessionRow_member [OF assms(3)] by simp_all
  have "i \<notin> sw_session_id ` set (nonterminal_rows db)"
  proof
    assume "i \<in> sw_session_id ` set (nonterminal_rows db)"
    then obtain x where "x \<in> set (sd_sessions db)" "sw_session_id x = i" "\<not> isTerminal (sw_state x)"
      by (auto simp: nonterminal_rows_simps)
    then show False using assms(2,4) row by (metis eq_key_imp_eq_value distinct_map inj_on_eq_iff)
  qed
  then show ?thesis using recoveredD(2) [OF assms(1)] assms(3) by simp
qed

lemma recovery_result:
  assumes "recoverNonterminalSessions v t c = (c', Inr receipt)" "distinct (map sw_session_id (sd_sessions (co_db c)))"
  shows "recovered (sw_session_id ` set (nonterminal_rows (co_db c))) (co_db c) (co_db c')"
    and "verifySessionsInternal v (co_key c) (co_profile c) (co_db c')" and "c' = c\<lparr>co_db := co_db c'\<rparr>" "\<not> co_closed c"
    and "rr_invalidatedSessionCount receipt = length (nonterminal_rows (co_db c))"
proof -
  obtain db' where run: "recover_body v (co_key c) (co_profile c) t (co_db c) = Inr (db', receipt)" "c' = c\<lparr>co_db := db'\<rparr>"
      and verified: "verifySessionsInternal v (co_key c) (co_profile c) (co_db c)" "verifySessionsInternal v (co_key c) (co_profile c) db'"
      and opened: "\<not> co_closed c"
    using assms(1) by (auto simp: recoverNonterminalSessions_def writeTransaction_def verified_def assert_open_def split: sum.splits)
  then have rows: "recover_rows v (co_key c) (co_profile c) t (nonterminal_rows (co_db c)) (co_db c) = Inr db'"
      "receipt = \<lparr>rr_cleanupRequired = nonterminal_rows (co_db c) \<noteq> [], rr_invalidatedSessionCount = length (nonterminal_rows (co_db c))\<rparr>"
    by (auto simp: recover_body_def Let_def)
  have "recovered (sw_session_id ` set (nonterminal_rows (co_db c))) (co_db c) db'"
    by (rule recovered_rows [OF rows(1) _ assms(2)])
      (use verified_at_most_one(3) [OF verified(1)] in \<open>auto simp: nonterminal_rows_simps\<close>)
  then show "recovered (sw_session_id ` set (nonterminal_rows (co_db c))) (co_db c) (co_db c')" using run(2) by simp
  show "verifySessionsInternal v (co_key c) (co_profile c) (co_db c')" "c' = c\<lparr>co_db := co_db c'\<rparr>" "\<not> co_closed c"
      "rr_invalidatedSessionCount receipt = length (nonterminal_rows (co_db c))"
    using verified run(2) opened rows(2) by simp_all
qed

subsection \<open>A successful open\<close>

lemma initialized_sessions:
  "initializeOrVerifyMetadata v key p e db = (db', res) \<Longrightarrow> sd_sessions db' = sd_sessions db"
  by (auto simp: initializeOrVerifyMetadata_def Let_def split: option.splits if_splits)

theorem opened_safely:
  assumes opened: "open_coordinator v x stateKey paths disk = (paths', left, Inr (c, receipt))"
    and keys: "\<And>path. keys_ok (sf_db (disk path))"
  obtains opts where "OpenSessionCoordinatorOptionsSchema (se_host v) x stateKey = Some opts"
    "co_path c = resolve_path v (op_path opts)" "co_path c \<notin> set paths" "paths' = co_path c # paths"
    "left = Some (co_db c)" "\<not> co_closed c" "verifySessionsInternal v (co_key c) (co_profile c) (co_db c)"
    "\<And>row. row \<in> set (sd_sessions (co_db c)) \<Longrightarrow> isTerminal (sw_state row)"
    "\<And>i row. getSessionRow (sf_db (disk (co_path c))) i = Some row \<Longrightarrow> isTerminal (sw_state row)
       \<Longrightarrow> getSessionRow (co_db c) i = Some row"
    "schemaProjection (sf_db (disk (co_path c))) \<noteq> Some (JArr []) \<Longrightarrow>
       \<exists>head. op_trustedHead opts = Some head \<and> verifyTrustedHead (co_profile c) (sf_db (disk (co_path c))) head"
proof -
  obtain opts where opts: "OpenSessionCoordinatorOptionsSchema (se_host v) x stateKey = Some opts"
      and free: "resolve_path v (op_path opts) \<notin> set paths" "paths' = resolve_path v (op_path opts) # paths"
      and claimed: "open_claimed v opts (resolve_path v (op_path opts)) (sf_db (disk (resolve_path v (op_path opts))))
        = (the left, Inr (c, receipt))" and left: "left \<noteq> None"
    using opened by (auto simp: open_coordinator_def Let_def split: option.splits if_splits prod.splits sum.splits)
  let ?path = "resolve_path v (op_path opts)"
  let ?db0 = "sf_db (disk ?path)"
  let ?key = "deriveMacKey v (op_stateKey opts) (op_expectedProfile opts)"
  let ?p = "op_expectedProfile opts"
  obtain projection where projection: "schemaProjection ?db0 = Some projection"
    using claimed by (auto simp: open_claimed_def Let_def split: option.splits)
  let ?empty = "projection = JArr []"
  let ?db1 = "if ?empty then initializeSessionSchema v ?db0 else ?db0"
  obtain db2 where db2: "initializeOrVerifyMetadata v ?key ?p ?empty ?db1 = (db2, Inr ())"
      and head: "?empty \<or> op_trustedHead opts \<noteq> None" "pred_option (verifyTrustedHead ?p db2) (op_trustedHead opts)"
      and recovery: "recoverNonterminalSessions v (op_recoveredAt opts)
           \<lparr>co_path = ?path, co_profile = ?p, co_key = ?key, co_db = db2, co_closed = False\<rparr> = (c, Inr receipt)"
      and final: "verifySessionsInternal v ?key ?p (co_db c)" "the left = co_db c"
    using claimed
    by (auto simp: open_claimed_def Let_def projection split: prod.splits sum.splits if_splits)
  have same: "sd_sessions db2 = sd_sessions ?db0"
    using initialized_sessions [OF db2] by (simp add: initializeSessionSchema_def split: if_splits)
  then have dist: "distinct (map sw_session_id (sd_sessions db2))" using keys by (simp add: keys_ok_def)
  note result = recovery_result [OF recovery, unfolded Coordinator.simps, OF dist]
  have rec: "recovered (sw_session_id ` set (nonterminal_rows db2)) db2 (co_db c)" using result(1) by simp
  have c: "co_path c = ?path" "co_profile c = ?p" "co_key c = ?key" "\<not> co_closed c"
    using result(3) by (metis Coordinator.select_convs Coordinator.update_convs(4))+
  show ?thesis
  proof (rule that [OF opts])
    show "co_path c = ?path" "co_path c \<notin> set paths" "paths' = co_path c # paths" "left = Some (co_db c)" "\<not> co_closed c"
      "verifySessionsInternal v (co_key c) (co_profile c) (co_db c)"
      using c free left final by auto
    show "isTerminal (sw_state row)" if "row \<in> set (sd_sessions (co_db c))" for row
      by (rule all_terminal [OF rec dist that])
    show "getSessionRow (co_db c) i = Some row"
      if "getSessionRow (sf_db (disk (co_path c))) i = Some row" "isTerminal (sw_state row)" for i row
      using terminal_untouched [OF rec dist] that c(1) same by (simp add: getSessionRow_def)
    show "\<exists>head. op_trustedHead opts = Some head \<and> verifyTrustedHead (co_profile c) (sf_db (disk (co_path c))) head"
      if "schemaProjection (sf_db (disk (co_path c))) \<noteq> Some (JArr [])"
    proof -
      have old: "\<not> ?empty" using that projection c(1) by simp
      then have "db2 = ?db0" using db2 by (auto simp: initializeOrVerifyMetadata_def split: option.splits)
      then show ?thesis using head old c(1,2) by auto
    qed
  qed
qed

end
