(* ===== verification/SessionReopening.thy ===== *)
theory SessionReopening
  imports SessionOpening
begin

text \<open>
  When opening succeeds: a new file gives a sound coordinator with empty tables, and the file of a sound coordinator opens
  again with a head that coordinator reported at any earlier time.
\<close>

subsection \<open>A new file\<close>

lemma new_tables_verified:
  assumes "hex_digests (hmac_hex v key)" "schemaProjection db = Some projection"
    and "sd_sessions db = []" "sd_audit db = []"
  shows "verifySessionsInternal v key p (db\<lparr>sd_metadata := Some (initial_metadata v key p projection)\<rparr>)"
proof -
  let ?db = "db\<lparr>sd_metadata := Some (initial_metadata v key p projection)\<rparr>"
  have rows: "getAllSessionRows ?db = []" "getAllAuditRows ?db = []" "getAllSessionRows db = []" "getAllAuditRows db = []"
    using assms(3,4) by (simp_all add: getAllSessionRows_def getAllAuditRows_def)
  have same: "initial_metadata v key p projection = refreshed v key p projection db"
    by (simp add: initial_metadata_def refreshed_def rows)
  have "pred_option (CanonicalTimestampSchema (se_host v)) (mt_latest_occurred_at (refreshed v key p projection db))"
    by (simp add: refreshed_def Let_def rows)
  note meta = refreshed_verified [OF assms(1) _ _ _ _ this]
  have "metadata_ok v key p projection (initial_metadata v key p projection)"
      "sessions_ok v key p (initial_metadata v key p projection) []"
    using meta assms(3,4) rows by (simp_all add: same unique_indexes_def map_filter_simps)
  moreover have "audit_ok v key (initial_metadata v key p projection) [] []"
    by (simp add: audit_ok_def initial_metadata_def Let_def audit_start_def genesis_mac_hash secureEqual_def)
  moreover have "schemaProjection ?db = Some projection" using assms(2) by (simp add: schemaProjection_def)
  ultimately show ?thesis by (simp add: verifySessionsInternal_def rows final_records_def)
qed

subsection \<open>Recovery of sound tables\<close>

interpretation crash_recovery: record_transition v ActCrashRecovery "CrashInput i" AnyState
  "\<lambda>db r. if isTerminal (sr_state r) then Inl (SessionConflict TERMINAL_SESSION)
     else Inr (invalidRecord r (cv_recoveredAt i) CrashRecovery)" for v i
proof (unfold_locales, goal_cases)
  case (3 r db r')
  then have live: "\<not> isTerminal (sr_state r)" and r': "r' = invalidRecord r (cv_recoveredAt i) CrashRecovery"
    by (auto split: if_splits)
  show ?case unfolding r'
    by (rule sound_changeI)
      (use 3 live invalidate_semantics [OF 3(1) live] in \<open>auto simp: invalidRecord_ok input_ok_def change_defs\<close>)
qed (auto split: if_splits)

lemma nonterminal_short:
  assumes "verifySessionsInternal v key p db"
  shows "length (nonterminal_rows db) \<le> 1"
proof -
  have "isTerminal (sw_state row) \<longleftrightarrow> sw_active_profile row = None" if row: "row \<in> set (sd_sessions db)" for row
  proof -
    obtain r where "sr_state r = sw_state row" "sw_active_profile row = activeProfile r"
      by (rule session_row_parsed [OF verified_at_most_one(3) [OF assms row]])
    then show ?thesis by (simp add: activeProfile_def)
  qed
  then have "filter (\<lambda>r. \<not> isTerminal (sw_state r)) (getAllSessionRows db) = filter (\<lambda>r. sw_active_profile r \<noteq> None) (getAllSessionRows db)"
    by (intro filter_cong) auto
  then show ?thesis
    using verified_at_most_one(1) [OF assms] length_filter_mset [of "getAllSessionRows db" "sd_sessions db"]
    by (simp add: nonterminal_rows_def)
qed

lemma recovery_succeeds:
  assumes ok: "coordinator_ok v c" and room: "session_room c" and t: "CanonicalTimestampSchema (se_host v) t"
    and m: "sd_metadata (co_db c) = Some m" "not_before_latest v t m"
  obtains db' receipt where "recoverNonterminalSessions v t c = (c\<lparr>co_db := db'\<rparr>, Inr receipt)" "coordinator_ok v (c\<lparr>co_db := db'\<rparr>)"
proof (cases "nonterminal_rows (co_db c)")
  case Nil
  then have "recover_body v (co_key c) (co_profile c) t (co_db c)
      = Inr (co_db c, \<lparr>rr_cleanupRequired = False, rr_invalidatedSessionCount = 0\<rparr>)"
    using m by (simp add: recover_body_def Let_def)
  from writeTransaction_commit [OF ok, of "recover_body v (co_key c) (co_profile c) t", OF this]
  show ?thesis using that [of "co_db c"] ok by (simp add: recoverNonterminalSessions_def)
next
  case (Cons row rest)
  note ok' = ok [unfolded coordinator_ok_def]
  have rest: "rest = []" using nonterminal_short Cons ok' by fastforce
  have mem: "row \<in> set (sd_sessions (co_db c))" "\<not> isTerminal (sw_state row)"
    using Cons nonterminal_rows_simps [of "co_db c"] by auto
  have row: "getSessionRow (co_db c) (sw_session_id row) = Some row"
    using find_distinct [of sw_session_id _ row] mem(1) ok' by (simp add: getSessionRow_def keys_ok_def)
  obtain q where q: "parseRecordJson v (sw_record_json row) = Some q" "sr_state q = sw_state row" "sr_sessionId q = sw_session_id row"
      "recordSemantics v q" "record_ok (se_host v) q"
    using session_row_parsed verified_at_most_one(3) ok' mem(1) by metis
  define i where "i = \<lparr>cv_recoveredAt = t, cv_sessionId = sr_sessionId q\<rparr>"
  let ?r = "invalidRecord q t CrashRecovery"
  have inp: "input_ok (se_host v) (CrashInput i)" using t q(5) by (simp add: i_def input_ok_def record_ok_def)
  have id: "input_session (CrashInput i) = sw_session_id row" by (simp add: i_def q(3))
  have fresh: "getAuditByAction (co_db c) (sw_session_id row) ActCrashRecovery = None"
    using live_not_ended ok' row mem(2) by metis
  have time: "milliseconds v (sr_updatedAt q) \<le> milliseconds v t"
    using updated_before_latest ok' row q(1) m by metis
  have sane: "acknowledged_after_start q" using ok' mem(1) q(1) unfolding sane_def by blast
  have change: "(if isTerminal (sr_state q) then Inl (SessionConflict TERMINAL_SESSION)
      else Inr (invalidRecord q (cv_recoveredAt i) CrashRecovery)) = Inr ?r" using mem(2) q(2) by (simp add: i_def)
  have sound: "sound_change v ActCrashRecovery (CrashInput i) q ?r"
    by (rule crash_recovery.sound [OF q(4,5) sane _ inp _ _ _ change]) (use time in \<open>simp_all add: i_def\<close>)
  obtain db' where db': "record_change v (co_key c) (co_profile c) ActCrashRecovery (CrashInput i) (Some (sr_state q)) ?r (co_db c) = Inr db'"
      "coordinator_ok v (c\<lparr>co_db := db'\<rparr>)"
    by (rule crash_recovery.change_recorded [OF ok room inp _ m(1) _ _ q(1) _ change sound])
      (use fresh m(2) row id in \<open>simp_all add: i_def\<close>)
  have "recover_body v (co_key c) (co_profile c) t (co_db c)
      = Inr (db', \<lparr>rr_cleanupRequired = True, rr_invalidatedSessionCount = 1\<rparr>)"
    using m Cons rest q(1) time db'(1) by (simp add: recover_body_def Let_def i_def)
  from writeTransaction_commit [OF ok, of "recover_body v (co_key c) (co_profile c) t", OF this db'(2)]
  show ?thesis using that db'(2) by (simp add: recoverNonterminalSessions_def)
qed

subsection \<open>Opening\<close>

text \<open>What lets a path be opened: free, not a link, and not locked by another process.\<close>

definition openable :: "SessionFile \<Rightarrow> bool" where
  "openable f \<longleftrightarrow> \<not> sf_symlink f \<and> sf_lockable f"

lemma open_claimed_Inr:
  assumes "schemaProjection db0 = Some projection" "e \<longleftrightarrow> projection = JArr []" "db1 = (if e then initializeSessionSchema v db0 else db0)"
    and "key = deriveMacKey v (op_stateKey opts) p" "p = op_expectedProfile opts"
    and "initializeOrVerifyMetadata v key p e db1 = (db2, Inr ())" "e \<or> op_trustedHead opts \<noteq> None"
    and "pred_option (verifyTrustedHead p db2) (op_trustedHead opts)"
    and "recoverNonterminalSessions v (op_recoveredAt opts)
        \<lparr>co_path = path, co_profile = p, co_key = key, co_db = db2, co_closed = False\<rparr> = (c, Inr receipt)"
    and "verifySessionsInternal v key p (co_db c)"
  shows "open_claimed v opts path db0 = (co_db c, Inr (c, receipt))"
proof -
  have "initializeOrVerifyMetadata v key p (projection = JArr []) (if projection = JArr [] then initializeSessionSchema v db0 else db0)
      = (db2, Inr ())" using assms(2,3,6) by simp
  then show ?thesis
    unfolding open_claimed_def Let_def assms(1) option.case assms(4) [symmetric] assms(5) [symmetric]
    using assms(2,7-10) by simp
qed

lemma open_simps:
  assumes "OpenSessionCoordinatorOptionsSchema (se_host v) x stateKey = Some opts" "path = resolve_path v (op_path opts)"
    and "path \<notin> set paths" "openable (disk path)" "open_claimed v opts path (sf_db (disk path)) = (db, Inr (c, receipt))"
  shows "open_coordinator v x stateKey paths disk = (path # paths, Some db, Inr (c, receipt))"
  using assms by (simp add: open_coordinator_def openable_def Let_def)

lemma fresh_coordinator_ok:
  assumes "hex_digests (hmac_hex v (co_key c))" "\<not> co_closed c" "sd_sessions (co_db c) = []" "sd_audit (co_db c) = []"
    and "verifySessionsInternal v (co_key c) (co_profile c) (co_db c)"
  shows "coordinator_ok v c"
  using assms by (simp add: coordinator_ok_def keys_ok_def sane_def)

theorem new_file_opens:
  assumes opts: "OpenSessionCoordinatorOptionsSchema (se_host v) x stateKey = Some opts" "op_trustedHead opts = None"
    and path: "path = resolve_path v (op_path opts)" "path \<notin> set paths" "openable (disk path)" "sf_db (disk path) = empty_db"
    and engine: "schemaProjection (initializeSessionSchema v empty_db) \<noteq> None"
    and hex: "hex_digests (hmac_hex v (deriveMacKey v (op_stateKey opts) (op_expectedProfile opts)))"
  obtains c receipt where "open_coordinator v x stateKey paths disk = (path # paths, Some (co_db c), Inr (c, receipt))"
    "coordinator_ok v c" "sd_sessions (co_db c) = []" "sd_audit (co_db c) = []" "co_profile c = op_expectedProfile opts"
    "co_path c = path" "rr_cleanupRequired receipt = False"
    "co_key c = deriveMacKey v (op_stateKey opts) (op_expectedProfile opts)"
    "schemaProjection (co_db c) = schemaProjection (initializeSessionSchema v empty_db)"
    "map_option mt_latest_occurred_at (sd_metadata (co_db c)) = Some None"
proof -
  define key where "key = deriveMacKey v (op_stateKey opts) (op_expectedProfile opts)"
  define p where "p = op_expectedProfile opts"
  define db1 where "db1 = initializeSessionSchema v empty_db"
  obtain projection where projection: "schemaProjection db1 = Some projection" using engine by (auto simp: db1_def)
  define db2 where "db2 = db1\<lparr>sd_metadata := Some (initial_metadata v key p projection)\<rparr>"
  define c where "c = \<lparr>co_path = path, co_profile = p, co_key = key, co_db = db2, co_closed = False\<rparr>"
  have empty: "sd_sessions db1 = []" "sd_audit db1 = []" "sd_metadata db1 = None"
    by (simp_all add: db1_def initializeSessionSchema_def empty_db_def)
  have verified: "verifySessionsInternal v key p db2"
    unfolding db2_def using new_tables_verified projection empty hex by (simp add: key_def)
  have fields: "co_key c = key" "co_profile c = p" "co_db c = db2" "\<not> co_closed c" "co_path c = path"
      "sd_sessions db2 = []" "sd_audit db2 = []" "sd_metadata db2 = Some (initial_metadata v key p projection)"
    using empty by (simp_all add: c_def db2_def)
  have ok: "coordinator_ok v c"
    by (rule fresh_coordinator_ok) (use verified fields hex in \<open>simp_all add: key_def\<close>)
  have no_schema: "schemaProjection empty_db = Some (JArr [])" by (simp add: schemaProjection_def empty_db_def)
  have metadata: "initializeOrVerifyMetadata v key p True db1 = (db2, Inr ())"
    using verified empty projection by (simp add: initializeOrVerifyMetadata_def db2_def Let_def)
  have latest: "not_before_latest v (op_recoveredAt opts) (initial_metadata v key p projection)"
    by (simp add: not_before_latest_def initial_metadata_def Let_def)
  have "nonterminal_rows db2 = []" using fields by (simp add: nonterminal_rows_def getAllSessionRows_def)
  then have body: "recover_body v (co_key c) (co_profile c) (op_recoveredAt opts) (co_db c)
      = Inr (co_db c, \<lparr>rr_cleanupRequired = False, rr_invalidatedSessionCount = 0\<rparr>)"
    using fields latest by (simp add: recover_body_def Let_def)
  have "writeTransaction v (recover_body v (co_key c) (co_profile c) (op_recoveredAt opts)) c
      = (c, Inr \<lparr>rr_cleanupRequired = False, rr_invalidatedSessionCount = 0\<rparr>)"
    using writeTransaction_commit [OF ok, of "recover_body v (co_key c) (co_profile c) (op_recoveredAt opts)", OF body] ok by simp
  then have recovery: "recoverNonterminalSessions v (op_recoveredAt opts) c
      = (c, Inr \<lparr>rr_cleanupRequired = False, rr_invalidatedSessionCount = 0\<rparr>)"
    by (simp add: recoverNonterminalSessions_def)
  have "open_claimed v opts path empty_db = (co_db c, Inr (c, \<lparr>rr_cleanupRequired = False, rr_invalidatedSessionCount = 0\<rparr>))"
  proof (rule open_claimed_Inr)
    show "recoverNonterminalSessions v (op_recoveredAt opts)
        \<lparr>co_path = path, co_profile = p, co_key = key, co_db = db2, co_closed = False\<rparr>
      = (c, Inr \<lparr>rr_cleanupRequired = False, rr_invalidatedSessionCount = 0\<rparr>)" using recovery by (simp add: c_def)
    show "initializeOrVerifyMetadata v key p True db1 = (db2, Inr ())" by (rule metadata)
    show "schemaProjection empty_db = Some (JArr [])" by (rule no_schema)
  qed (use verified fields opts(2) in \<open>simp_all add: p_def key_def db1_def\<close>)
  then have claimed: "open_claimed v opts path (sf_db (disk path))
      = (db2, Inr (c, \<lparr>rr_cleanupRequired = False, rr_invalidatedSessionCount = 0\<rparr>))"
    using path(4) fields by simp
  show ?thesis
  proof (rule that [OF _ ok])
    show "open_coordinator v x stateKey paths disk = (path # paths, Some (co_db c),
        Inr (c, \<lparr>rr_cleanupRequired = False, rr_invalidatedSessionCount = 0\<rparr>))"
      using open_simps [where disk = disk, OF opts(1) path(1-3) claimed] fields by simp
    show "schemaProjection (co_db c) = schemaProjection (initializeSessionSchema v empty_db)"
      by (simp add: fields db2_def schemaProjection_def db1_def)
    show "map_option mt_latest_occurred_at (sd_metadata (co_db c)) = Some None" by (simp add: fields initial_metadata_def Let_def)
  qed (use fields in \<open>simp_all add: p_def key_def\<close>)
qed

theorem sound_file_reopens:
  assumes c: "coordinator_ok v c" "session_room c"
    and opts: "OpenSessionCoordinatorOptionsSchema (se_host v) x stateKey = Some opts" "op_trustedHead opts = Some head"
      "op_expectedProfile opts = co_profile c" "deriveMacKey v (op_stateKey opts) (op_expectedProfile opts) = co_key c"
    and path: "path = resolve_path v (op_path opts)" "path \<notin> set paths" "openable (disk path)" "sf_db (disk path) = co_db c"
    and head: "verifyTrustedHead (co_profile c) (co_db c) head"
    and schema: "schemaProjection (co_db c) \<noteq> Some (JArr [])"
    and m: "sd_metadata (co_db c) = Some m" "not_before_latest v (op_recoveredAt opts) m"
  obtains c' receipt where "open_coordinator v x stateKey paths disk = (path # paths, Some (co_db c'), Inr (c', receipt))"
    "coordinator_ok v c'" "co_key c' = co_key c" "co_profile c' = co_profile c"
proof -
  note ok' = c(1) [unfolded coordinator_ok_def]
  define b where "b = \<lparr>co_path = path, co_profile = co_profile c, co_key = co_key c, co_db = co_db c, co_closed = False\<rparr>"
  have b: "coordinator_ok v b" "session_room b" "co_db b = co_db c" using c by (simp_all add: b_def coordinator_ok_def session_room_def)
  obtain projection where projection: "schemaProjection (co_db c) = Some projection" using verified_parts ok' by metis
  have t: "CanonicalTimestampSchema (se_host v) (op_recoveredAt opts)"
    using opts(1) by (auto simp: OpenSessionCoordinatorOptionsSchema_def bind_eq_Some z_string_Some split: if_splits)
  obtain db' receipt where recovery: "recoverNonterminalSessions v (op_recoveredAt opts) b = (b\<lparr>co_db := db'\<rparr>, Inr receipt)"
      "coordinator_ok v (b\<lparr>co_db := db'\<rparr>)"
    by (rule recovery_succeeds [OF b(1,2) t]) (use m b(3) in auto)
  define c' where "c' = b\<lparr>co_db := db'\<rparr>"
  have metadata: "initializeOrVerifyMetadata v (co_key c) (co_profile c) False (co_db c) = (co_db c, Inr ())"
    using m(1) ok' by (simp add: initializeOrVerifyMetadata_def ensure_def)
  have fields: "co_db c' = db'" "co_key c' = co_key c" "co_profile c' = co_profile c" by (simp_all add: c'_def b_def)
  have verified: "verifySessionsInternal v (co_key c) (co_profile c) db'"
    using recovery(2) fields unfolding c'_def [symmetric] coordinator_ok_def by metis
  have old: "projection \<noteq> JArr []" using schema projection by simp
  have claimed: "open_claimed v opts path (co_db c) = (co_db c', Inr (c', receipt))"
  proof (rule open_claimed_Inr)
    show "recoverNonterminalSessions v (op_recoveredAt opts)
        \<lparr>co_path = path, co_profile = co_profile c, co_key = co_key c, co_db = co_db c, co_closed = False\<rparr> = (c', Inr receipt)"
      using recovery(1) by (simp add: b_def c'_def)
    show "initializeOrVerifyMetadata v (co_key c) (co_profile c) False (co_db c) = (co_db c, Inr ())" by (rule metadata)
    show "schemaProjection (co_db c) = Some projection" by (rule projection)
  qed (use verified fields opts old head in simp_all)
  show ?thesis
    by (rule that [of c' receipt])
      (use open_simps [where disk = disk, OF opts(1) path(1-3)] claimed path(4) fields recovery(2) in \<open>simp_all add: c'_def [symmetric]\<close>)
qed

end
