(* ===== verification/SessionHeads.thy ===== *)
theory SessionHeads
  imports SessionReopening
begin

text \<open>
  The head an operator retains outside the file. It stays acceptable as the log grows, and it pins the log: two
  authenticated databases that accept it have the same first rows, where no two of their authenticated texts collide.
\<close>

subsection \<open>Rows of an authenticated log\<close>

lemma replay_nth:
  "replay_audit v key acc rows = Some acc' \<Longrightarrow> k < length rows \<Longrightarrow>
     \<exists>a. audit_row_ok v key a (rows ! k) \<and> ar_count a = ar_count acc + int k
       \<and> ar_mac a = (if k = 0 then ar_mac acc else aw_row_mac (rows ! (k - 1)))"
proof (induction rows arbitrary: acc k)
  case (Cons row rows)
  then have ok: "audit_row_ok v key acc row" and rest: "replay_audit v key (replay_audit_row acc row) rows = Some acc'"
    by (auto split: if_splits)
  show ?case
  proof (cases k)
    case 0
    then show ?thesis using ok by auto
  next
    case (Suc j)
    then have "j < length rows" using Cons.prems(2) by simp
    from Cons.IH [OF rest this] show ?thesis
      by (auto simp: Suc replay_audit_row_def nth_Cons')
  qed
qed simp

lemma audit_head_mac:
  "replay_audit v key acc rows = Some acc' \<Longrightarrow> ar_mac acc' = (if rows = [] then ar_mac acc else aw_row_mac (last rows))"
proof (induction rows arbitrary: acc)
  case (Cons row rows)
  then have rest: "replay_audit v key (replay_audit_row acc row) rows = Some acc'" by (auto split: if_splits)
  show ?case using Cons.IH [OF rest] by (simp add: replay_audit_row_def)
qed simp

lemma log_sequences:
  assumes "verifySessionsInternal v key p db"
  shows "map aw_sequence (getAllAuditRows db) = map (\<lambda>i. 1 + int i) [0..<length (sd_audit db)]"
    and "distinct (map aw_sequence (sd_audit db))" and "length (sd_audit db) \<le> MAX_AUDIT_RECORDS"
proof -
  obtain acc where acc: "replay_audit v key audit_start (getAllAuditRows db) = Some acc" "length (sd_audit db) \<le> MAX_AUDIT_RECORDS"
    using verified_parts [OF assms] by metis
  then show all: "map aw_sequence (getAllAuditRows db) = map (\<lambda>i. 1 + int i) [0..<length (sd_audit db)]"
    using replay_audit_count [OF acc(1)] by (simp add: audit_start_def)
  have "mset (map aw_sequence (getAllAuditRows db)) = mset (map aw_sequence (sd_audit db))" by (simp add: getAllAuditRows_def)
  moreover have "distinct (map aw_sequence (getAllAuditRows db))" unfolding all by (simp add: distinct_map inj_on_def)
  ultimately show "distinct (map aw_sequence (sd_audit db))" by (metis mset_eq_imp_distinct_iff)
  show "length (sd_audit db) \<le> MAX_AUDIT_RECORDS" by (rule acc(2))
qed

lemma row_of_sequence:
  assumes "verifySessionsInternal v key p db" "k < length (sd_audit db)"
  shows "find (\<lambda>r. aw_sequence r = int k + 1) (sd_audit db) = Some (getAllAuditRows db ! k)"
proof -
  let ?row = "getAllAuditRows db ! k"
  have "map aw_sequence (getAllAuditRows db) ! k = 1 + int k" using log_sequences(1) [OF assms(1)] assms(2) by simp
  then have seq: "aw_sequence ?row = int k + 1" using assms(2) by simp
  have "?row \<in> set (sd_audit db)" using assms(2) by (metis nth_mem length_getAll(2) set_getAll(2))
  then show ?thesis using find_distinct [OF log_sequences(2) [OF assms(1)]] seq by metis
qed

lemma sequence_range:
  assumes "verifySessionsInternal v key p db" "row \<in> set (sd_audit db)"
  shows "1 \<le> aw_sequence row \<and> aw_sequence row \<le> int (length (sd_audit db))"
proof -
  have "aw_sequence row \<in> set (map aw_sequence (getAllAuditRows db))" using assms(2) by simp
  then show ?thesis unfolding log_sequences(1) [OF assms(1)] by auto
qed

lemma trusted_head_row:
  assumes "verifySessionsInternal v key p db" "verifyTrustedHead p db head" "th_auditSequence head = int (Suc n)"
  shows "n < length (sd_audit db)" "aw_row_mac (getAllAuditRows db ! n) = th_auditMac head"
proof -
  obtain row where row: "find (\<lambda>r. aw_sequence r = int (Suc n)) (sd_audit db) = Some row" "aw_row_mac row = th_auditMac head"
    using assms(2,3) by (auto simp: verifyTrustedHead_def secureEqual_def split: option.splits)
  then have "row \<in> set (sd_audit db)" "aw_sequence row = int (Suc n)" by (auto simp: find_Some_iff)
  then show n: "n < length (sd_audit db)" using sequence_range [OF assms(1)] by fastforce
  show "aw_row_mac (getAllAuditRows db ! n) = th_auditMac head"
    using row_of_sequence [OF assms(1) n] row by (simp add: add.commute)
qed

subsection \<open>A reported head stays acceptable\<close>

lemma reported_head:
  assumes "coordinator_ok v c"
  obtains mac where "getTrustedHead v c = Inr \<lparr>th_auditMac = mac, th_auditSequence = int (length (sd_audit (co_db c))),
    th_profile = co_profile c\<rparr>"
proof -
  obtain m where "sd_metadata (co_db c) = Some m" "mt_next_audit_sequence m = int (length (sd_audit (co_db c))) + 1"
    using verified_parts assms unfolding coordinator_ok_def by metis
  then show ?thesis
    using that assms by (auto simp: getTrustedHead_def readTransaction_def coordinator_ok_def assert_open_def verified_def)
qed

theorem reported_head_accepted:
  assumes ok: "coordinator_ok v c" and report: "getTrustedHead v c = Inr head"
  shows "verifyTrustedHead (co_profile c) (co_db c) head"
proof -
  note ok' = ok [unfolded coordinator_ok_def]
  obtain m acc where m: "sd_metadata (co_db c) = Some m" "mt_next_audit_sequence m = int (length (sd_audit (co_db c))) + 1"
      "replay_audit v (co_key c) audit_start (getAllAuditRows (co_db c)) = Some acc" "secureEqual (mt_audit_head_mac m) (ar_mac acc)"
    using verified_parts ok' by metis
  then have head: "head = \<lparr>th_auditMac = mt_audit_head_mac m, th_auditSequence = int (length (sd_audit (co_db c))), th_profile = co_profile c\<rparr>"
    using report by (auto simp: getTrustedHead_def readTransaction_def)
  show ?thesis
  proof (cases "sd_audit (co_db c)")
    case Nil
    then have "getAllAuditRows (co_db c) = []" by (simp add: getAllAuditRows_def)
    then have "ar_mac acc = GENESIS_MAC" using audit_head_mac [OF m(3)] by (simp add: audit_start_def)
    then show ?thesis using m(4) Nil by (simp add: head verifyTrustedHead_def)
  next
    case (Cons a rest)
    then have pos: "length (sd_audit (co_db c)) - 1 < length (sd_audit (co_db c))" by simp
    have "getAllAuditRows (co_db c) \<noteq> []" using Cons by (metis length_getAll(2) length_0_conv list.distinct(1))
    then have "last (getAllAuditRows (co_db c)) = getAllAuditRows (co_db c) ! (length (sd_audit (co_db c)) - 1)"
      by (simp add: last_conv_nth)
    then have "aw_row_mac (getAllAuditRows (co_db c) ! (length (sd_audit (co_db c)) - 1)) = ar_mac acc"
      using audit_head_mac [OF m(3)] \<open>getAllAuditRows (co_db c) \<noteq> []\<close> by simp
    moreover have "find (\<lambda>r. aw_sequence r = int (length (sd_audit (co_db c)))) (sd_audit (co_db c))
        = Some (getAllAuditRows (co_db c) ! (length (sd_audit (co_db c)) - 1))"
      using row_of_sequence [OF _ pos] ok' Cons by (fastforce simp: add.commute)
    ultimately show ?thesis using m(4) Cons by (simp add: head verifyTrustedHead_def secureEqual_def)
  qed
qed

lemma head_kept:
  assumes "verifyTrustedHead p db head" "sd_audit db' = sd_audit db @ new"
  shows "verifyTrustedHead p db' head"
  using assms by (auto simp: verifyTrustedHead_def find_append split: option.splits if_splits)

subsection \<open>The log is pinned\<close>

definition audit_mac_text :: "session_env \<Rightarrow> AuditRow \<Rightarrow> string" where
  "audit_mac_text v r = ''rsi.session-lifecycle.audit-row.v1'' @ CHR 0x00 #
     (case locale_text (se_host v) (JObj
       [(''action'', jenum action_table (aw_action r)),
        (''from_state'', nullable_json (\<lambda>x. jenum state_table x) (aw_from_state r)),
        (''input_json'', JStr (aw_input_json r)), (''occurred_at'', JStr (aw_occurred_at r)),
        (''previous_mac'', JStr (aw_previous_mac r)), (''record_json'', JStr (aw_record_json r)),
        (''sequence'', jint (aw_sequence r)), (''session_id'', JStr (aw_session_id r)),
        (''to_state'', jenum state_table (aw_to_state r))]) of Some t \<Rightarrow> t | None \<Rightarrow> [])"

lemma auditRowMac_text: "auditRowMac v key r = hmac_hex v key (audit_mac_text v r)"
  by (simp add: auditRowMac_def keyed_mac_def audit_mac_text_def)

lemma canonicalized_fields:
  assumes "canonicalize h (JObj fs) = canonicalize h (JObj gs)" "distinct (map fst fs)" "distinct (map fst gs)"
  shows "map_option (canonicalize h) (map_of fs k) = map_option (canonicalize h) (map_of gs k)"
proof -
  have "map_of (map (\<lambda>(k, v). (k, canonicalize h v)) (sort_by (\<lambda>(k, _) (l, _). locale_le h k l) fs)) k
      = map_option (canonicalize h) (map_of fs k)" if "distinct (map fst fs)" for fs
  proof -
    have pairs: "map_of (map (\<lambda>(k, v). (k, canonicalize h v)) gs) k = map_option (canonicalize h) (map_of gs k)" for gs
      by (induction gs) auto
    have "map_of (sort_by (\<lambda>(k, _) (l, _). locale_le h k l) fs) k = map_of fs k"
      by (rule fun_cong [OF map_of_same_set]) (use that in simp_all)
    then show ?thesis by (simp add: pairs)
  qed
  moreover have "map (\<lambda>(k, v). (k, canonicalize h v)) (sort_by (\<lambda>(k, _) (l, _). locale_le h k l) fs)
      = map (\<lambda>(k, v). (k, canonicalize h v)) (sort_by (\<lambda>(k, _) (l, _). locale_le h k l) gs)"
    using assms(1) by (simp add: canonicalize.simps(2))
  ultimately show ?thesis using assms(2,3) by metis
qed

lemma nullable_state_inject: "nullable_json (\<lambda>x. jenum state_table x) a = nullable_json (\<lambda>x. jenum state_table x) b \<longleftrightarrow> a = b"
  by (cases a; cases b) (auto simp: nullable_json_def enum_text_inject)

lemma audit_mac_text_inject:
  assumes "audit_mac_text v r = audit_mac_text v q" "safe_int (aw_sequence r)" "safe_int (aw_sequence q)" "aw_row_mac r = aw_row_mac q"
  shows "r = q"
proof -
  define obj where "obj r = [(''action'', jenum action_table (aw_action r)),
        (''from_state'', nullable_json (\<lambda>x. jenum state_table x) (aw_from_state r)),
        (''input_json'', JStr (aw_input_json r)), (''occurred_at'', JStr (aw_occurred_at r)),
        (''previous_mac'', JStr (aw_previous_mac r)), (''record_json'', JStr (aw_record_json r)),
        (''sequence'', jint (aw_sequence r)), (''session_id'', JStr (aw_session_id r)),
        (''to_state'', jenum state_table (aw_to_state r))]" for r :: AuditRow
  have plain: "plain_json (se_host v) (JObj (obj r))" if "safe_int (aw_sequence r)" for r
    using that plain_nullable [of "aw_from_state r"] by (simp add: obj_def)
  have dist: "distinct (map fst (obj r))" for r by (simp add: obj_def)
  obtain s t where texts: "locale_text (se_host v) (JObj (obj r)) = Some s" "json_parse (se_host v) s = Some (canonicalize (se_host v) (JObj (obj r)))"
      "locale_text (se_host v) (JObj (obj q)) = Some t" "json_parse (se_host v) t = Some (canonicalize (se_host v) (JObj (obj q)))"
    using locale_round_trip plain assms(2,3) by metis
  have "s = t" using assms(1) unfolding audit_mac_text_def obj_def [symmetric] texts(1,3) by simp
  then have "canonicalize (se_host v) (JObj (obj r)) = canonicalize (se_host v) (JObj (obj q))" using texts(2,4) by simp
  note fields = canonicalized_fields [OF this dist dist]
  show ?thesis
    using fields [of "''action''"] fields [of "''from_state''"] fields [of "''input_json''"] fields [of "''occurred_at''"]
      fields [of "''previous_mac''"] fields [of "''record_json''"] fields [of "''sequence''"] fields [of "''session_id''"]
      fields [of "''to_state''"] assms(4)
    by (simp add: obj_def canonicalize_nullable nullable_state_inject enum_text_inject)
qed

lemma log_row:
  assumes "replay_audit v key audit_start rows = Some acc" "k < length rows" "length rows \<le> MAX_AUDIT_RECORDS"
  shows "aw_row_mac (rows ! k) = hmac_hex v key (audit_mac_text v (rows ! k))" "safe_int (aw_sequence (rows ! k))"
    "aw_previous_mac (rows ! k) = (if k = 0 then GENESIS_MAC else aw_row_mac (rows ! (k - 1)))"
  using replay_nth [OF assms(1,2)] assms(2,3)
  by (auto simp: audit_row_ok_def secureEqual_def auditRowMac_text audit_start_def safe_int_def max_safe_integer_def
      MAX_AUDIT_RECORDS_def)

lemma same_rows:
  assumes rows: "replay_audit v key audit_start rows = Some acc" "replay_audit v key audit_start rows' = Some acc'"
    and safe: "length rows \<le> MAX_AUDIT_RECORDS" "length rows' \<le> MAX_AUDIT_RECORDS"
    and inj: "inj_on (hmac_hex v key) (audit_mac_text v ` (set (take (Suc k) rows) \<union> set (take (Suc k) rows')))"
    and k: "k < length rows" "k < length rows'" "aw_row_mac (rows ! k) = aw_row_mac (rows' ! k)"
  shows "rows ! k = rows' ! k"
proof -
  note row = log_row [OF rows(1) k(1) safe(1)] log_row [OF rows(2) k(2) safe(2)]
  have mem: "rows ! k \<in> set (take (Suc k) rows)" "rows' ! k \<in> set (take (Suc k) rows')"
    using k by (simp_all add: take_Suc_conv_app_nth)
  have "hmac_hex v key (audit_mac_text v (rows ! k)) = hmac_hex v key (audit_mac_text v (rows' ! k))"
    unfolding row(1) [symmetric] row(4) [symmetric] by (rule k(3))
  then have "audit_mac_text v (rows ! k) = audit_mac_text v (rows' ! k)"
    by (rule inj_onD [OF inj]) (use mem in blast)+
  then show ?thesis by (rule audit_mac_text_inject [OF _ row(2,5) k(3)])
qed

lemma log_pinned:
  assumes rows: "replay_audit v key audit_start rows = Some acc" "replay_audit v key audit_start rows' = Some acc'"
    and safe: "length rows \<le> MAX_AUDIT_RECORDS" "length rows' \<le> MAX_AUDIT_RECORDS"
    and inj: "inj_on (hmac_hex v key) (audit_mac_text v ` (set (take (Suc n) rows) \<union> set (take (Suc n) rows')))"
    and n: "n < length rows" "n < length rows'" "aw_row_mac (rows ! n) = aw_row_mac (rows' ! n)"
  shows "take (Suc n) rows = take (Suc n) rows'"
  using inj n
proof (induction n)
  case 0
  then show ?case using same_rows [OF rows safe, of 0] by (simp add: take_Suc_conv_app_nth)
next
  case (Suc n)
  have same: "rows ! Suc n = rows' ! Suc n" by (rule same_rows [OF rows safe]) (use Suc.prems in auto)
  then have "aw_row_mac (rows ! n) = aw_row_mac (rows' ! n)"
    using log_row(3) [OF rows(1) _ safe(1), of "Suc n"] log_row(3) [OF rows(2) _ safe(2), of "Suc n"] Suc.prems by simp
  moreover have "inj_on (hmac_hex v key) (audit_mac_text v ` (set (take (Suc n) rows) \<union> set (take (Suc n) rows')))"
    by (intro inj_on_subset [OF Suc.prems(1)] image_mono Un_mono set_take_subset_set_take) simp_all
  ultimately have "take (Suc n) rows = take (Suc n) rows'" using Suc by simp
  then show ?case using same Suc.prems by (simp add: take_Suc_conv_app_nth [of "Suc n"])
qed

theorem retained_head_pins:
  assumes ok: "verifySessionsInternal v key p db" "verifySessionsInternal v key p db'"
    and head: "verifyTrustedHead p db head" "verifyTrustedHead p db' head" "th_auditSequence head = int n"
    and inj: "inj_on (hmac_hex v key)
      (audit_mac_text v ` (set (take n (getAllAuditRows db)) \<union> set (take n (getAllAuditRows db'))))"
  shows "take n (getAllAuditRows db) = take n (getAllAuditRows db')"
proof (cases n)
  case (Suc k)
  obtain acc acc' where acc: "replay_audit v key audit_start (getAllAuditRows db) = Some acc"
      "replay_audit v key audit_start (getAllAuditRows db') = Some acc'"
    using verified_parts ok by metis
  note rows = trusted_head_row [OF ok(1) head(1), of k] trusted_head_row [OF ok(2) head(2), of k]
  show ?thesis unfolding Suc
    by (rule log_pinned [OF acc]) (use inj rows head(3) log_sequences(3) [OF ok(1)] log_sequences(3) [OF ok(2)] in \<open>simp_all add: Suc\<close>)
qed simp

theorem reported_head_pins:
  assumes ok: "coordinator_ok v c" and report: "getTrustedHead v c = Inr head"
    and later: "verifySessionsInternal v (co_key c) (co_profile c) db'" "verifyTrustedHead (co_profile c) db' head"
    and n: "n = length (getAllAuditRows (co_db c))"
    and inj: "inj_on (hmac_hex v (co_key c)) (audit_mac_text v ` (set (getAllAuditRows (co_db c)) \<union> set (take n (getAllAuditRows db'))))"
  shows "take n (getAllAuditRows db') = getAllAuditRows (co_db c)"
proof -
  have verified: "verifySessionsInternal v (co_key c) (co_profile c) (co_db c)" using ok by (simp add: coordinator_ok_def)
  obtain mac where "getTrustedHead v c = Inr \<lparr>th_auditMac = mac, th_auditSequence = int (length (sd_audit (co_db c))),
      th_profile = co_profile c\<rparr>" by (rule reported_head [OF ok])
  then have "th_auditSequence head = int n" using report by (simp add: n)
  from retained_head_pins [OF verified later(1) reported_head_accepted [OF ok report] later(2) this] inj show ?thesis
    unfolding n by (simp only: take_all order_refl)
qed

end
