(* ===== verification/SessionCompliance.thy ===== *)
theory SessionCompliance
  imports SessionHeads
begin

text \<open>
  A session that keeps to the protocol is accepted: the ten calls of a session, made in time and with evidence that passes,
  all succeed on a sound coordinator that has no other session open. \<open>standing\<close> describes the coordinator between two
  of the calls.
\<close>

subsection \<open>Between two calls\<close>

definition standing :: "session_env \<Rightarrow> Coordinator \<Rightarrow> SessionRecord \<Rightarrow> AuditAction set \<Rightarrow> bool" where
  "standing v c r acts \<longleftrightarrow> coordinator_ok v c
     \<and> (\<exists>row. getSessionRow (co_db c) (sr_sessionId r) = Some row \<and> parseRecordJson v (sw_record_json row) = Some r)
     \<and> (\<forall>a. a \<notin> acts \<longrightarrow> getAuditByAction (co_db c) (sr_sessionId r) a = None)
     \<and> map_option mt_latest_occurred_at (sd_metadata (co_db c)) = Some (Some (sr_updatedAt r))
     \<and> accepted_on (co_db c) r = None"

lemma accepted_on_kept:
  assumes "accepted_on db r = None" "same_session r r'" "transition_made v a i r' db db'" "sr_state r' \<noteq> Accepted"
    and "verifySessionsInternal v key p db'"
  shows "accepted_on db' r' = None"
proof (rule ccontr)
  assume "accepted_on db' r' \<noteq> None"
  then obtain x where x: "x \<in> set (sd_sessions db')" "sw_profile x = sr_profile r'" "sw_qualification_date x = sr_qualificationDate r'"
      "sw_state x = Accepted"
    by (auto simp: accepted_on_def find_None_iff)
  obtain row where row: "sd_sessions db' = upsert row (sd_sessions db)" "parseRecordJson v (sw_record_json row) = Some r'"
    using assms(3) by (auto simp: transition_made_def)
  show False
  proof (cases "x = row")
    case True
    then obtain q where "parseRecordJson v (sw_record_json x) = Some q" "sr_state q = sw_state x"
      using session_row_parsed [OF verified_at_most_one(3) [OF assms(5) x(1)]] by metis
    then show False using True row(2) x(4) assms(4) by simp
  next
    case False
    then have "x \<in> set (sd_sessions db)" using x(1) row(1) by (auto simp: set_upsert)
    then show False using assms(1,2) x by (auto simp: accepted_on_def find_None_iff same_session_def)
  qed
qed

lemma standing_made:
  assumes made: "transition_made v a i r (co_db c) db'" and ok: "coordinator_ok v (c\<lparr>co_db := db'\<rparr>)"
    and before: "\<And>b. b \<notin> acts \<Longrightarrow> getAuditByAction (co_db c) (sr_sessionId r) b = None" "accepted_on (co_db c) r = None"
    and state: "sr_state r \<noteq> Accepted"
  shows "standing v (c\<lparr>co_db := db'\<rparr>) r (insert a acts)"
proof -
  obtain row arow where row: "sd_sessions db' = upsert row (sd_sessions (co_db c))" "sw_session_id row = sr_sessionId r"
      "parseRecordJson v (sw_record_json row) = Some r"
      "sd_audit db' = sd_audit (co_db c) @ [arow]" "aw_session_id arow = sr_sessionId r" "aw_action arow = a"
    using made by (auto simp: transition_made_def)
  have "getSessionRow db' (sr_sessionId r) = Some row" using row(1,2) by (simp add: getSessionRow_def find_upsert_same)
  moreover have "getAuditByAction db' (sr_sessionId r) b = None" if "b \<notin> insert a acts" for b
    using before(1) that row(4-6) by (auto simp: getAuditByAction_def find_append)
  moreover have "accepted_on db' r = None"
    by (rule accepted_on_kept [OF before(2) _ made state]) (use ok in \<open>auto simp: coordinator_ok_def same_session_def\<close>)
  ultimately show ?thesis using made ok row(3) by (auto simp: standing_def transition_made_def)
qed

lemma standing_after:
  assumes "standing v c r acts" "transition_made v a i r' (co_db c) db'" "coordinator_ok v (c\<lparr>co_db := db'\<rparr>)" "same_session r r'"
    and "sr_state r' \<noteq> Accepted"
  shows "standing v (c\<lparr>co_db := db'\<rparr>) r' (insert a acts)"
  using assms by (intro standing_made) (auto simp: standing_def same_session_def accepted_on_def)

context record_transition
begin

lemma standing_step:
  assumes st: "standing v c r acts" and room: "session_room c" and inp: "input_ok (se_host v) inp"
    and id: "input_session inp = sr_sessionId r" and fresh: "action \<notin> acts"
    and state: "state_expected expected (sr_state r) = Inr ()"
    and time: "milliseconds v (sr_updatedAt r) \<le> milliseconds v (input_time inp)"
    and change: "change (co_db c) r = Inr r'"
  obtains db' where "mutate v action inp expected (\<lambda>db. on_record (change db) db) c = (c\<lparr>co_db := db'\<rparr>, Inr r')"
    "transition_made v action inp r' (co_db c) db'" "coordinator_ok v (c\<lparr>co_db := db'\<rparr>)"
    "sr_state r' \<noteq> Accepted \<Longrightarrow> standing v (c\<lparr>co_db := db'\<rparr>) r' (insert action acts)"
proof -
  have ok: "coordinator_ok v c" using st by (simp add: standing_def)
  obtain row m where row: "getSessionRow (co_db c) (input_session inp) = Some row" "parseRecordJson v (sw_record_json row) = Some r"
      and none: "getAuditByAction (co_db c) (input_session inp) action = None"
      and m: "sd_metadata (co_db c) = Some m" "not_before_latest v (input_time inp) m"
    using st id fresh time by (auto simp: standing_def not_before_latest_def)
  have sane: "acknowledged_after_start r"
      "action = ActMinute45 \<Longrightarrow> sr_minute45AcknowledgedAt r = None" "action = ActMinute90 \<Longrightarrow> sr_minute90AcknowledgedAt r = None"
    using ok getSessionRow_member [OF row(1)] row(2) none id unfolding coordinator_ok_def sane_def by metis+
  have r: "recordSemantics v r" "record_ok (se_host v) r" using parseRecordJson_Some [OF row(2)] by simp_all
  have sound: "sound_change v action inp r r'" by (rule sound [OF r sane(1) state inp sane(2,3) time change])
  obtain db' where db': "record_change v (co_key c) (co_profile c) action inp (Some (sr_state r)) r' (co_db c) = Inr db'"
      "coordinator_ok v (c\<lparr>co_db := db'\<rparr>)" "transition_made v action inp r' (co_db c) db'"
    by (rule change_recorded [OF ok room inp none m row state change sound])
  have "mutate_body v (co_key c) (co_profile c) action inp expected (\<lambda>db. on_record (change db) db) (co_db c) = Inr (db', r')"
    using body_on_record [OF ok inp none m row] time state change sound db'(1) by (simp add: sound_change_def)
  from writeTransaction_commit [OF ok, of "mutate_body v (co_key c) (co_profile c) action inp expected
      (\<lambda>db. on_record (change db) db)", OF this db'(2)]
  have "mutate v action inp expected (\<lambda>db. on_record (change db) db) c = (c\<lparr>co_db := db'\<rparr>, Inr r')" by (simp add: mutate_def)
  then show ?thesis
    using that db'(2,3) standing_after [OF st db'(3,2)] sound by (simp add: sound_change_def)
qed

end

end
