(* ===== verification/SessionProtocol.thy ===== *)
theory SessionProtocol
  imports SessionCompliance
begin

text \<open>The inputs of a session from its plan to its acceptance, and the theorem that a compliant one is accepted.\<close>

record Protocol =
  po_plan :: PlanSessionInput
  po_preflight :: RecordSessionPreflightInput
  po_start :: StartSessionInput
  po_minute45 :: RecordSupervisionAcknowledgementInput
  po_minute90 :: RecordSupervisionAcknowledgementInput
  po_stop :: StopSessionInput
  po_local :: RecordLocalVerificationInput
  po_external :: RecordExternalVerificationInput
  po_cost :: RecordCostReconciliationInput
  po_accept :: AcceptSessionInput

definition protocol_inputs :: "Protocol \<Rightarrow> SessionInput list" where
  "protocol_inputs s =
     [PlanInput (po_plan s), PreflightInput (po_preflight s), StartInput (po_start s), AcknowledgementInput (po_minute45 s),
      AcknowledgementInput (po_minute90 s), StopInput (po_stop s), LocalInput (po_local s), ExternalInput (po_external s),
      CostInput (po_cost s), AcceptInput (po_accept s)]"

definition ordered_times :: "session_env \<Rightarrow> Protocol \<Rightarrow> bool" where
  "ordered_times v s \<longleftrightarrow> sorted (map (milliseconds v)
     [pl_plannedAt (po_plan s), pe_observedAt (pi_evidence (po_preflight s)), pi_recordedAt (po_preflight s), st_startedAt (po_start s),
      sa_acknowledgedAt (po_minute45 s), sa_acknowledgedAt (po_minute90 s), ss_stoppedAt (po_stop s), lv_verifiedAt (po_local s),
      xv_verifiedAt (po_external s), cr_reconciledAt (po_cost s), ac_acceptedAt (po_accept s)])"

definition in_time :: "session_env \<Rightarrow> Protocol \<Rightarrow> bool" where
  "in_time v s \<longleftrightarrow>
     (let start = milliseconds v (st_startedAt (po_start s)); until = milliseconds v (pl_supervisedUntil (po_plan s))
      in until - start \<le> MAX_SUPERVISED_MILLISECONDS
       \<and> qualificationDateInPhoenix v (st_startedAt (po_start s)) = pl_qualificationDate (po_plan s)
       \<and> milliseconds v (sa_acknowledgedAt (po_minute45 s)) - start
           \<in> {45 * 60 * 1000..45 * 60 * 1000 + SUPERVISION_GRACE_MILLISECONDS}
       \<and> milliseconds v (sa_acknowledgedAt (po_minute90 s)) - start
           \<in> {90 * 60 * 1000..90 * 60 * 1000 + SUPERVISION_GRACE_MILLISECONDS}
       \<and> milliseconds v (ss_stoppedAt (po_stop s)) \<le> until
       \<and> milliseconds v (cr_reconciledAt (po_cost s)) - milliseconds v (ss_stoppedAt (po_stop s)) \<le> MAX_COST_RECONCILIATION_MILLISECONDS)"

definition evidence_passes :: "SessionProfile \<Rightarrow> Protocol \<Rightarrow> bool" where
  "evidence_passes p s \<longleftrightarrow>
     pe_profile (pi_evidence (po_preflight s)) = p \<and> allPreflightChecksPass (pi_evidence (po_preflight s))
   \<and> sa_checkpoint (po_minute45 s) = Minute45 \<and> sa_checkpoint (po_minute90 s) = Minute90
   \<and> localFailureReason (lv_evidence (po_local s)) = None \<and> externalEvidencePasses (xv_evidence (po_external s))
   \<and> costFailureReason (cr_evidence (po_cost s)) = None"

definition compliant :: "session_env \<Rightarrow> SessionProfile \<Rightarrow> Protocol \<Rightarrow> bool" where
  "compliant v p s \<longleftrightarrow>
     list_all (\<lambda>i. input_session i = pl_sessionId (po_plan s)) (protocol_inputs s)
   \<and> ordered_times v s \<and> in_time v s \<and> evidence_passes p s"

text \<open>The record after each call.\<close>

definition preflighted_record :: "SessionProfile \<Rightarrow> Protocol \<Rightarrow> SessionRecord" where
  "preflighted_record p s = (planned_record p (po_plan s))
     \<lparr>sr_preflightEvidence := Some (pi_evidence (po_preflight s)), sr_preflightedAt := Some (pi_recordedAt (po_preflight s)),
      sr_updatedAt := pi_recordedAt (po_preflight s), sr_state := Preflighted\<rparr>"

definition running_record :: "SessionProfile \<Rightarrow> Protocol \<Rightarrow> SessionRecord" where
  "running_record p s = (preflighted_record p s)
     \<lparr>sr_egressStatus := EgressEligible, sr_startAcknowledgements := Some (), sr_startedAt := Some (st_startedAt (po_start s)),
      sr_updatedAt := st_startedAt (po_start s), sr_state := Running\<rparr>"

definition minute45_record :: "SessionProfile \<Rightarrow> Protocol \<Rightarrow> SessionRecord" where
  "minute45_record p s = (running_record p s)
     \<lparr>sr_minute45AcknowledgedAt := Some (sa_acknowledgedAt (po_minute45 s)), sr_updatedAt := sa_acknowledgedAt (po_minute45 s)\<rparr>"

definition minute90_record :: "SessionProfile \<Rightarrow> Protocol \<Rightarrow> SessionRecord" where
  "minute90_record p s = (minute45_record p s)
     \<lparr>sr_minute90AcknowledgedAt := Some (sa_acknowledgedAt (po_minute90 s)), sr_updatedAt := sa_acknowledgedAt (po_minute90 s)\<rparr>"

definition stopping_record :: "SessionProfile \<Rightarrow> Protocol \<Rightarrow> SessionRecord" where
  "stopping_record p s = (minute90_record p s)
     \<lparr>sr_egressStatus := EgressBlocked, sr_stoppedAt := Some (ss_stoppedAt (po_stop s)), sr_updatedAt := ss_stoppedAt (po_stop s),
      sr_state := Stopping\<rparr>"

definition local_record :: "SessionProfile \<Rightarrow> Protocol \<Rightarrow> SessionRecord" where
  "local_record p s = (stopping_record p s)
     \<lparr>sr_localEvidence := Some (lv_evidence (po_local s)), sr_locallyVerifiedAt := Some (lv_verifiedAt (po_local s)),
      sr_updatedAt := lv_verifiedAt (po_local s), sr_state := LocallyVerified\<rparr>"

definition external_record :: "SessionProfile \<Rightarrow> Protocol \<Rightarrow> SessionRecord" where
  "external_record p s = (local_record p s)
     \<lparr>sr_externalEvidence := Some (xv_evidence (po_external s)), sr_externallyVerifiedAt := Some (xv_verifiedAt (po_external s)),
      sr_updatedAt := xv_verifiedAt (po_external s), sr_state := ExternallyVerified\<rparr>"

definition cost_record :: "SessionProfile \<Rightarrow> Protocol \<Rightarrow> SessionRecord" where
  "cost_record p s = (external_record p s)
     \<lparr>sr_costEvidence := Some (cr_evidence (po_cost s)), sr_costReconciledAt := Some (cr_reconciledAt (po_cost s)),
      sr_updatedAt := cr_reconciledAt (po_cost s), sr_state := CostPending\<rparr>"

lemmas record_defs = preflighted_record_def running_record_def minute45_record_def minute90_record_def stopping_record_def
  local_record_def external_record_def cost_record_def planned_record_def

lemmas compliance_defs = compliant_def ordered_times_def in_time_def evidence_passes_def protocol_inputs_def Let_def

lemma protocol_changes:
  assumes "compliant v p s"
  shows "preflight_change v (po_preflight s) (planned_record p (po_plan s)) = Inr (preflighted_record p s)"
    "start_change v (po_start s) (preflighted_record p s) = Inr (running_record p s)"
    "acknowledgement_change v (po_minute45 s) (running_record p s) = Inr (minute45_record p s)"
    "acknowledgement_change v (po_minute90 s) (minute45_record p s) = Inr (minute90_record p s)"
    "stop_change v (po_stop s) (minute90_record p s) = Inr (stopping_record p s)"
    "local_change (po_local s) (stopping_record p s) = Inr (local_record p s)"
    "external_change (po_external s) (local_record p s) = Inr (external_record p s)"
    "cost_change v (po_cost s) (external_record p s) = Inr (cost_record p s)"
  using assms
  by (simp_all add: compliance_defs preflight_change_def start_change_def acknowledgement_change_def stop_change_def
      local_change_def external_change_def cost_change_def record_defs)

subsection \<open>The calls\<close>

definition advances :: "session_env \<Rightarrow> SessionCall \<Rightarrow> Coordinator \<Rightarrow> SessionRecord \<Rightarrow> AuditAction set \<Rightarrow> bool" where
  "advances v call c r acts \<longleftrightarrow>
     (\<exists>db'. session_exec v call c = (c\<lparr>co_db := db'\<rparr>, Inr r) \<and> standing v (c\<lparr>co_db := db'\<rparr>) r acts
        \<and> (\<forall>n. room_for (Suc n) c \<longrightarrow> room_for n (c\<lparr>co_db := db'\<rparr>)))"

context record_transition
begin

lemma standing_exec:
  assumes "standing v c r acts" "session_room c" "call_input v call = Some inp" "input_session inp = sr_sessionId r" "action \<notin> acts"
    and "state_expected expected (sr_state r) = Inr ()" "milliseconds v (sr_updatedAt r) \<le> milliseconds v (input_time inp)"
    and "change (co_db c) r = Inr r'" "sr_state r' \<noteq> Accepted"
    and "session_exec v call c = mutate v action inp expected (\<lambda>db. on_record (change db) db) c"
  shows "advances v call c r' (insert action acts)"
proof -
  obtain db' where "mutate v action inp expected (\<lambda>db. on_record (change db) db) c = (c\<lparr>co_db := db'\<rparr>, Inr r')"
      "transition_made v action inp r' (co_db c) db'" "standing v (c\<lparr>co_db := db'\<rparr>) r' (insert action acts)"
    by (rule standing_step [OF assms(1,2) call_input_ok [OF assms(3)] assms(4-8)]) (use assms(9) in blast)
  then show ?thesis using room_after assms(10) by (auto simp: advances_def)
qed

end

lemma advances_run:
  assumes "advances v call c r acts" "room_for (Suc n) c"
    and "\<And>c'. standing v c' r acts \<Longrightarrow> room_for n c' \<Longrightarrow> co_profile c' = co_profile c \<Longrightarrow> P (session_run v calls c')"
  shows "P (session_run v (call # calls) c)"
  using assms by (auto simp: advances_def)

lemmas exec_simps = session_parse_def parseSessionInput_def recordPreflight_def startSession_def recordSupervisionAcknowledgement_def
  stopSession_def recordLocalVerification_def recordExternalVerification_def recordCostReconciliation_def acceptSession_def

lemma plan_advances:
  assumes ok: "coordinator_ok v c" and room: "session_room c" and call: "call_input v call = Some (PlanInput i)"
    and free: "\<And>row. row \<in> set (sd_sessions (co_db c)) \<Longrightarrow> sw_active_profile row = None"
    and new: "getSessionRow (co_db c) (pl_sessionId i) = None" "\<And>a. getAuditByAction (co_db c) (pl_sessionId i) a = None"
    and m: "sd_metadata (co_db c) = Some m" "not_before_latest v (pl_plannedAt i) m"
    and date: "accepted_on (co_db c) (planned_record (co_profile c) i) = None"
  shows "advances v call c (planned_record (co_profile c) i) {ActPlan}"
proof -
  have exec: "session_exec v call c = mutate v ActPlan (PlanInput i) NewSession (\<lambda>db _. plan_change (co_profile c) i db) c"
    using call by (cases call) (auto simp: planSession_def session_parse_def parseSessionInput_def bind_eq_Some split: if_splits)
  have times: "pl_qualificationDate i = qualificationDateInPhoenix v (pl_plannedAt i)"
      "milliseconds v (pl_plannedAt i) \<le> milliseconds v (pl_supervisedUntil i)"
    using call by (cases call; auto simp: bind_eq_Some split: if_splits)+
  have none: "\<not> list_ex (\<lambda>r. sw_active_profile r = Some (co_profile c)) (sd_sessions (co_db c))"
    using free by (auto simp: list_ex_iff)
  obtain db' where db': "mutate v ActPlan (PlanInput i) NewSession (\<lambda>db _. plan_change (co_profile c) i db) c
      = (c\<lparr>co_db := db'\<rparr>, Inr (planned_record (co_profile c) i))"
      "transition_made v ActPlan (PlanInput i) (planned_record (co_profile c) i) (co_db c) db'" "coordinator_ok v (c\<lparr>co_db := db'\<rparr>)"
    by (rule plan_recorded [OF ok room call_input_ok [OF call] times new(2) m new(1) none])
  have "standing v (c\<lparr>co_db := db'\<rparr>) (planned_record (co_profile c) i) {ActPlan}"
    using standing_made [OF db'(2,3), of "{}"] new(2) date by (simp add: planned_record_def)
  then show ?thesis using room_after [OF _ db'(2)] exec db'(1) by (auto simp: advances_def)
qed

lemma exec_by_input:
  "call_input v call = Some (PreflightInput a) \<Longrightarrow> session_exec v call c =
     mutate v ActPreflight (PreflightInput a) (InState Planned) (\<lambda>db. on_record (preflight_change v a) db) c"
  "call_input v call = Some (StartInput b) \<Longrightarrow> session_exec v call c =
     mutate v ActStart (StartInput b) (InState Preflighted) (\<lambda>db. on_record (start_change v b) db) c"
  "call_input v call = Some (AcknowledgementInput d) \<Longrightarrow> session_exec v call c =
     mutate v (if sa_checkpoint d = Minute45 then ActMinute45 else ActMinute90) (AcknowledgementInput d) (InState Running)
       (\<lambda>db. on_record (acknowledgement_change v d) db) c"
  "call_input v call = Some (StopInput e) \<Longrightarrow> session_exec v call c =
     mutate v ActStop (StopInput e) (InState Running) (\<lambda>db. on_record (stop_change v e) db) c"
  "call_input v call = Some (LocalInput f) \<Longrightarrow> session_exec v call c =
     mutate v ActLocal (LocalInput f) (InState Stopping) (\<lambda>db. on_record (local_change f) db) c"
  "call_input v call = Some (ExternalInput g) \<Longrightarrow> session_exec v call c =
     mutate v ActExternal (ExternalInput g) (InState LocallyVerified) (\<lambda>db. on_record (external_change g) db) c"
  "call_input v call = Some (CostInput k) \<Longrightarrow> session_exec v call c =
     mutate v ActCost (CostInput k) (InState ExternallyVerified) (\<lambda>db. on_record (cost_change v k) db) c"
  "call_input v call = Some (AcceptInput l) \<Longrightarrow> session_exec v call c =
     mutate v ActAccept (AcceptInput l) (InState CostPending) (\<lambda>db. on_record (accept_change v l db) db) c"
  by (cases call; auto simp: exec_simps bind_eq_Some split: if_splits)+

lemma protocol_sessions:
  assumes "compliant v p s"
  shows "sr_sessionId (planned_record p (po_plan s)) = pl_sessionId (po_plan s)"
    "sr_sessionId (preflighted_record p s) = pl_sessionId (po_plan s)"
    "sr_sessionId (running_record p s) = pl_sessionId (po_plan s)"
    "sr_sessionId (minute45_record p s) = pl_sessionId (po_plan s)"
    "sr_sessionId (minute90_record p s) = pl_sessionId (po_plan s)"
    "sr_sessionId (stopping_record p s) = pl_sessionId (po_plan s)"
    "sr_sessionId (local_record p s) = pl_sessionId (po_plan s)"
    "sr_sessionId (external_record p s) = pl_sessionId (po_plan s)"
    "sr_sessionId (cost_record p s) = pl_sessionId (po_plan s)"
    "input_session (PreflightInput (po_preflight s)) = pl_sessionId (po_plan s)"
    "input_session (StartInput (po_start s)) = pl_sessionId (po_plan s)"
    "input_session (AcknowledgementInput (po_minute45 s)) = pl_sessionId (po_plan s)"
    "input_session (AcknowledgementInput (po_minute90 s)) = pl_sessionId (po_plan s)"
    "input_session (StopInput (po_stop s)) = pl_sessionId (po_plan s)"
    "input_session (LocalInput (po_local s)) = pl_sessionId (po_plan s)"
    "input_session (ExternalInput (po_external s)) = pl_sessionId (po_plan s)"
    "input_session (CostInput (po_cost s)) = pl_sessionId (po_plan s)"
    "input_session (AcceptInput (po_accept s)) = pl_sessionId (po_plan s)"
  using assms by (simp_all add: record_defs compliant_def protocol_inputs_def)

lemma protocol_states:
  shows "sr_state (planned_record p (po_plan s)) = Planned" "sr_state (preflighted_record p s) = Preflighted"
    "sr_state (running_record p s) = Running" "sr_state (minute45_record p s) = Running" "sr_state (minute90_record p s) = Running"
    "sr_state (stopping_record p s) = Stopping" "sr_state (local_record p s) = LocallyVerified"
    "sr_state (external_record p s) = ExternallyVerified" "sr_state (cost_record p s) = CostPending"
  by (simp_all add: record_defs)

lemma protocol_times:
  assumes "compliant v p s"
  shows "milliseconds v (sr_updatedAt (planned_record p (po_plan s))) \<le> milliseconds v (input_time (PreflightInput (po_preflight s)))"
    "milliseconds v (sr_updatedAt (preflighted_record p s)) \<le> milliseconds v (input_time (StartInput (po_start s)))"
    "milliseconds v (sr_updatedAt (running_record p s)) \<le> milliseconds v (input_time (AcknowledgementInput (po_minute45 s)))"
    "milliseconds v (sr_updatedAt (minute45_record p s)) \<le> milliseconds v (input_time (AcknowledgementInput (po_minute90 s)))"
    "milliseconds v (sr_updatedAt (minute90_record p s)) \<le> milliseconds v (input_time (StopInput (po_stop s)))"
    "milliseconds v (sr_updatedAt (stopping_record p s)) \<le> milliseconds v (input_time (LocalInput (po_local s)))"
    "milliseconds v (sr_updatedAt (local_record p s)) \<le> milliseconds v (input_time (ExternalInput (po_external s)))"
    "milliseconds v (sr_updatedAt (external_record p s)) \<le> milliseconds v (input_time (CostInput (po_cost s)))"
    "milliseconds v (sr_updatedAt (cost_record p s)) \<le> milliseconds v (input_time (AcceptInput (po_accept s)))"
    "sa_checkpoint (po_minute45 s) = Minute45" "sa_checkpoint (po_minute90 s) = Minute90"
  using assms by (simp_all add: record_defs compliance_defs)

text \<open>Each call finds the record the one before it left.\<close>

lemma protocol_advances:
  assumes ok: "compliant v p s" and room: "session_room c"
  shows "call_input v call = Some (PreflightInput (po_preflight s)) \<Longrightarrow> standing v c (planned_record p (po_plan s)) {ActPlan}
      \<Longrightarrow> advances v call c (preflighted_record p s) {ActPreflight, ActPlan}"
    "call_input v call = Some (StartInput (po_start s)) \<Longrightarrow> standing v c (preflighted_record p s) {ActPreflight, ActPlan}
      \<Longrightarrow> advances v call c (running_record p s) {ActStart, ActPreflight, ActPlan}"
    "call_input v call = Some (AcknowledgementInput (po_minute45 s)) \<Longrightarrow> standing v c (running_record p s) {ActStart, ActPreflight, ActPlan}
      \<Longrightarrow> advances v call c (minute45_record p s) {ActMinute45, ActStart, ActPreflight, ActPlan}"
    "call_input v call = Some (AcknowledgementInput (po_minute90 s)) \<Longrightarrow> standing v c (minute45_record p s) {ActMinute45, ActStart, ActPreflight, ActPlan}
      \<Longrightarrow> advances v call c (minute90_record p s) {ActMinute90, ActMinute45, ActStart, ActPreflight, ActPlan}"
    "call_input v call = Some (StopInput (po_stop s)) \<Longrightarrow> standing v c (minute90_record p s) {ActMinute90, ActMinute45, ActStart, ActPreflight, ActPlan}
      \<Longrightarrow> advances v call c (stopping_record p s) {ActStop, ActMinute90, ActMinute45, ActStart, ActPreflight, ActPlan}"
    "call_input v call = Some (LocalInput (po_local s)) \<Longrightarrow> standing v c (stopping_record p s) {ActStop, ActMinute90, ActMinute45, ActStart, ActPreflight, ActPlan}
      \<Longrightarrow> advances v call c (local_record p s) {ActLocal, ActStop, ActMinute90, ActMinute45, ActStart, ActPreflight, ActPlan}"
    "call_input v call = Some (ExternalInput (po_external s)) \<Longrightarrow> standing v c (local_record p s) {ActLocal, ActStop, ActMinute90, ActMinute45, ActStart, ActPreflight, ActPlan}
      \<Longrightarrow> advances v call c (external_record p s) {ActExternal, ActLocal, ActStop, ActMinute90, ActMinute45, ActStart, ActPreflight, ActPlan}"
    "call_input v call = Some (CostInput (po_cost s)) \<Longrightarrow> standing v c (external_record p s) {ActExternal, ActLocal, ActStop, ActMinute90, ActMinute45, ActStart, ActPreflight, ActPlan}
      \<Longrightarrow> advances v call c (cost_record p s) {ActCost, ActExternal, ActLocal, ActStop, ActMinute90, ActMinute45, ActStart, ActPreflight, ActPlan}"
proof -
  note protocol = protocol_sessions [OF ok] protocol_states protocol_times [OF ok] exec_by_input
  show "advances v call c (preflighted_record p s) {ActPreflight, ActPlan}"
    if "call_input v call = Some (PreflightInput (po_preflight s))" "standing v c (planned_record p (po_plan s)) {ActPlan}"
    using preflight.standing_exec [OF that(2) room that(1) _ _ _ _ protocol_changes(1) [OF ok]] that(1)
    by (simp add: protocol protocol(10-18,28-36) [simplified])
  show "advances v call c (running_record p s) {ActStart, ActPreflight, ActPlan}"
    if "call_input v call = Some (StartInput (po_start s))" "standing v c (preflighted_record p s) {ActPreflight, ActPlan}"
    using start.standing_exec [OF that(2) room that(1) _ _ _ _ protocol_changes(2) [OF ok]] that(1)
    by (simp add: protocol protocol(10-18,28-36) [simplified])
  show "advances v call c (minute45_record p s) {ActMinute45, ActStart, ActPreflight, ActPlan}"
    if "call_input v call = Some (AcknowledgementInput (po_minute45 s))" "standing v c (running_record p s) {ActStart, ActPreflight, ActPlan}"
    using acknowledgement.standing_exec [OF that(2) room that(1) _ _ _ _ protocol_changes(3) [OF ok]] that(1)
    by (simp add: protocol protocol(10-18,28-36) [simplified])
  show "advances v call c (minute90_record p s) {ActMinute90, ActMinute45, ActStart, ActPreflight, ActPlan}"
    if "call_input v call = Some (AcknowledgementInput (po_minute90 s))" "standing v c (minute45_record p s) {ActMinute45, ActStart, ActPreflight, ActPlan}"
    using acknowledgement.standing_exec [OF that(2) room that(1) _ _ _ _ protocol_changes(4) [OF ok]] that(1)
    by (simp add: protocol protocol(10-18,28-36) [simplified])
  show "advances v call c (stopping_record p s) {ActStop, ActMinute90, ActMinute45, ActStart, ActPreflight, ActPlan}"
    if "call_input v call = Some (StopInput (po_stop s))" "standing v c (minute90_record p s) {ActMinute90, ActMinute45, ActStart, ActPreflight, ActPlan}"
    using stop.standing_exec [OF that(2) room that(1) _ _ _ _ protocol_changes(5) [OF ok]] that(1)
    by (simp add: protocol protocol(10-18,28-36) [simplified])
  show "advances v call c (local_record p s) {ActLocal, ActStop, ActMinute90, ActMinute45, ActStart, ActPreflight, ActPlan}"
    if "call_input v call = Some (LocalInput (po_local s))" "standing v c (stopping_record p s) {ActStop, ActMinute90, ActMinute45, ActStart, ActPreflight, ActPlan}"
    using local_verification.standing_exec [OF that(2) room that(1) _ _ _ _ protocol_changes(6) [OF ok]] that(1)
    by (simp add: protocol protocol(10-18,28-36) [simplified])
  show "advances v call c (external_record p s) {ActExternal, ActLocal, ActStop, ActMinute90, ActMinute45, ActStart, ActPreflight, ActPlan}"
    if "call_input v call = Some (ExternalInput (po_external s))" "standing v c (local_record p s) {ActLocal, ActStop, ActMinute90, ActMinute45, ActStart, ActPreflight, ActPlan}"
    using external_verification.standing_exec [OF that(2) room that(1) _ _ _ _ protocol_changes(7) [OF ok]] that(1)
    by (simp add: protocol protocol(10-18,28-36) [simplified])
  show "advances v call c (cost_record p s) {ActCost, ActExternal, ActLocal, ActStop, ActMinute90, ActMinute45, ActStart, ActPreflight, ActPlan}"
    if "call_input v call = Some (CostInput (po_cost s))" "standing v c (external_record p s) {ActExternal, ActLocal, ActStop, ActMinute90, ActMinute45, ActStart, ActPreflight, ActPlan}"
    using cost_reconciliation.standing_exec [OF that(2) room that(1) _ _ _ _ protocol_changes(8) [OF ok]] that(1)
    by (simp add: protocol protocol(10-18,28-36) [simplified])
qed

text \<open>At the end everything a session needs is on its record, and no other session of the day has been accepted.\<close>

lemma accepted_record:
  "sr_state (r\<lparr>sr_acceptanceEvidence := a, sr_acceptedAt := t, sr_egressStatus := g, sr_state := Accepted, sr_updatedAt := u\<rparr>) = Accepted"
  "sr_sessionId (r\<lparr>sr_acceptanceEvidence := a, sr_acceptedAt := t, sr_egressStatus := g, sr_state := Accepted, sr_updatedAt := u\<rparr>)
    = sr_sessionId r"
  by simp_all

lemma protocol_accepted:
  assumes ok: "compliant v p s" and room: "session_room c" and call: "call_input v call = Some (AcceptInput (po_accept s))"
    and st: "standing v c (cost_record p s)
      {ActCost, ActExternal, ActLocal, ActStop, ActMinute90, ActMinute45, ActStart, ActPreflight, ActPlan}"
  obtains db' r where "session_exec v call c = (c\<lparr>co_db := db'\<rparr>, Inr r)" "sr_state r = Accepted"
    "transition_made v ActAccept (AcceptInput (po_accept s)) r (co_db c) db'" "coordinator_ok v (c\<lparr>co_db := db'\<rparr>)"
    "sr_sessionId r = pl_sessionId (po_plan s)"
proof -
  obtain row :: SessionRow where row: "parseRecordJson v (sw_record_json row) = Some (cost_record p s)"
    using st [unfolded standing_def] by (elim conjE exE) (rule that)
  obtain a where a: "acceptanceEvidence v (cost_record p s) = Some a"
    using evidence_complete [OF _ protocol_states(9)] parseRecordJson_Some [OF row] by blast
  let ?r = "(cost_record p s)\<lparr>sr_acceptanceEvidence := Some a, sr_acceptedAt := Some (ac_acceptedAt (po_accept s)),
      sr_egressStatus := EgressBlocked, sr_state := Accepted, sr_updatedAt := ac_acceptedAt (po_accept s)\<rparr>"
  have change: "accept_change v (po_accept s) (co_db c) (cost_record p s) = Inr ?r"
  proof -
    have "sr_costReconciledAt (cost_record p s) = Some (cr_reconciledAt (po_cost s))"
        "sr_updatedAt (cost_record p s) = cr_reconciledAt (po_cost s)" by (simp_all add: cost_record_def)
    moreover have "accepted_on (co_db c) (cost_record p s) = None" using st [unfolded standing_def] by (elim conjE)
    ultimately show ?thesis using protocol_times(9) [OF ok] a by (simp add: accept_change_def)
  qed
  have session: "input_session (AcceptInput (po_accept s)) = sr_sessionId (cost_record p s)"
    by (simp only: protocol_sessions [OF ok])
  have late: "milliseconds v (sr_updatedAt (cost_record p s)) \<le> milliseconds v (input_time (AcceptInput (po_accept s)))"
    by (rule protocol_times(9) [OF ok])
  have state: "state_expected (InState CostPending) (sr_state (cost_record p s)) = Inr ()" by (simp only: protocol_states expected_state)
  obtain db' where db': "mutate v ActAccept (AcceptInput (po_accept s)) (InState CostPending)
        (\<lambda>db. on_record (accept_change v (po_accept s) db) db) c = (c\<lparr>co_db := db'\<rparr>, Inr ?r)"
      "transition_made v ActAccept (AcceptInput (po_accept s)) ?r (co_db c) db'" "coordinator_ok v (c\<lparr>co_db := db'\<rparr>)"
    by (rule acceptance.standing_step [OF st room call_input_ok [OF call] session _ state late change]) (simp, rule that)
  show thesis
    by (rule that [of db' ?r])
      (simp_all only: exec_by_input(8) [OF call] db' accepted_record protocol_sessions [OF ok])
qed

text \<open>The whole session.\<close>

theorem compliant_accepted:
  assumes ok: "coordinator_ok v c" and room: "room_for 10 c" and protocol: "compliant v (co_profile c) s"
    and calls: "map (call_input v) calls = map Some (protocol_inputs s)"
    and free: "\<And>row. row \<in> set (sd_sessions (co_db c)) \<Longrightarrow> sw_active_profile row = None"
    and new: "getSessionRow (co_db c) (pl_sessionId (po_plan s)) = None"
      "\<And>a. getAuditByAction (co_db c) (pl_sessionId (po_plan s)) a = None"
    and m: "sd_metadata (co_db c) = Some m" "not_before_latest v (pl_plannedAt (po_plan s)) m"
    and date: "accepted_on (co_db c) (planned_record (co_profile c) (po_plan s)) = None"
  shows "\<exists>row. getSessionRow (co_db (session_run v calls c)) (pl_sessionId (po_plan s)) = Some row \<and> sw_state row = Accepted"
proof -
  let ?goal = "\<lambda>c'. \<exists>row. getSessionRow (co_db c') (pl_sessionId (po_plan s)) = Some row \<and> sw_state row = Accepted"
  obtain a1 a2 a3 a4 a5 a6 a7 a8 a9 a10 where ca: "calls = [a1, a2, a3, a4, a5, a6, a7, a8, a9, a10]"
      "call_input v a1 = Some (PlanInput (po_plan s))" "call_input v a2 = Some (PreflightInput (po_preflight s))"
      "call_input v a3 = Some (StartInput (po_start s))" "call_input v a4 = Some (AcknowledgementInput (po_minute45 s))"
      "call_input v a5 = Some (AcknowledgementInput (po_minute90 s))" "call_input v a6 = Some (StopInput (po_stop s))"
      "call_input v a7 = Some (LocalInput (po_local s))" "call_input v a8 = Some (ExternalInput (po_external s))"
      "call_input v a9 = Some (CostInput (po_cost s))" "call_input v a10 = Some (AcceptInput (po_accept s))"
    using calls by (auto simp: protocol_inputs_def map_eq_Cons_conv)
  have ten: "room_for (Suc (Suc (Suc (Suc (Suc (Suc (Suc (Suc (Suc (Suc 0)))))))))) c" using room by (simp add: eval_nat_numeral)
  have accept: "?goal (session_run v [a10] c')"
    if st: "standing v c' (cost_record (co_profile c) s)
        {ActCost, ActExternal, ActLocal, ActStop, ActMinute90, ActMinute45, ActStart, ActPreflight, ActPlan}"
      and room: "room_for (Suc 0) c'" for c'
  proof -
    obtain db' r where r: "session_exec v a10 c' = (c'\<lparr>co_db := db'\<rparr>, Inr r)" "sr_state r = Accepted"
        "transition_made v ActAccept (AcceptInput (po_accept s)) r (co_db c') db'" "coordinator_ok v (c'\<lparr>co_db := db'\<rparr>)"
        "sr_sessionId r = pl_sessionId (po_plan s)"
      by (rule protocol_accepted [OF protocol room_for_Suc(1) [OF room] ca(11) st]) blast
    obtain row where row: "getSessionRow db' (pl_sessionId (po_plan s)) = Some row" "parseRecordJson v (sw_record_json row) = Some r"
      using r(3,5) by (auto simp: transition_made_def getSessionRow_def find_upsert_same)
    have mem: "row \<in> set (sd_sessions db')" using getSessionRow_member [OF row(1)] by simp
    have "verifySessionsInternal v (co_key c') (co_profile c') db'" using r(4) by (simp add: coordinator_ok_def)
    from session_row_parsed [OF verified_at_most_one(3) [OF this mem]] have "sw_state row = sr_state r"
      using row(2) by (metis option.inject)
    then show ?thesis using r(1,2) row(1) by simp
  qed
  note step = protocol_advances [OF protocol room_for_Suc(1)]
  show ?thesis unfolding ca(1)
    by (rule advances_run [where P = ?goal, OF plan_advances [OF ok room_for_Suc(1) [OF ten] ca(2) free new m date] ten], assumption,
        rule advances_run [where P = ?goal, OF step(1) [OF _ ca(3)]], assumption+,
        rule advances_run [where P = ?goal, OF step(2) [OF _ ca(4)]], assumption+,
        rule advances_run [where P = ?goal, OF step(3) [OF _ ca(5)]], assumption+,
        rule advances_run [where P = ?goal, OF step(4) [OF _ ca(6)]], assumption+,
        rule advances_run [where P = ?goal, OF step(5) [OF _ ca(7)]], assumption+,
        rule advances_run [where P = ?goal, OF step(6) [OF _ ca(8)]], assumption+,
        rule advances_run [where P = ?goal, OF step(7) [OF _ ca(9)]], assumption+,
        rule advances_run [where P = ?goal, OF step(8) [OF _ ca(10)]], assumption+, rule accept)
qed

end
