(* ===== verification/SampleSession.thy ===== *)
theory SampleSession
  imports SampleStore SessionProtocol
begin

text \<open>
  A session that keeps to the protocol, on a new file: the environment's keyed digest is computed from the text alone, its
  calendar is the fixed offset of Phoenix from UTC, and SQLite records one table of the schema.
\<close>

subsection \<open>The environment\<close>

definition sample_env :: session_env where
  "sample_env = \<lparr>se_host = sample_host, hmac_hex = (\<lambda>key s. sample_digest s), hkdf_sha256 = (\<lambda>key salt info. key),
     phoenix_date = (\<lambda>t. iso_day (t - 25200000)),
     created_schema = [\<lparr>sx_name = ''session_lifecycle_metadata'', sx_sql = Some ''CREATE TABLE'', sx_table = ''session_lifecycle_metadata'',
       sx_type = ''table''\<rparr>], resolve_path = (\<lambda>s. s)\<rparr>"

lemma sample_env_simps [simp]:
  "se_host sample_env = sample_host" "resolve_path sample_env s = s" "phoenix_date sample_env t = iso_day (t - 25200000)"
  "hex_digests (hmac_hex sample_env key)"
  by (simp_all add: sample_env_def hex_digests_def sample_digest_hex)

lemma sample_milliseconds [simp]: "valid_time t \<Longrightarrow> milliseconds sample_env (to_iso t) = t"
  by (simp add: milliseconds_def)

subsection \<open>The inputs\<close>

definition sample_moment :: "int \<Rightarrow> string" where
  "sample_moment minutes = to_iso (1767225600000 + minutes * 60000)"

definition sample_hash_text :: string where
  "sample_hash_text = replicate 64 CHR ''a''"

definition sample_session :: Protocol where
  "sample_session = \<lparr>
     po_plan = \<lparr>pl_plannedAt = sample_moment 0, pl_qualificationDate = ''2025-12-31'', pl_sessionId = sample_uuid CHR ''1'',
       pl_supervisedUntil = sample_moment 120\<rparr>,
     po_preflight = \<lparr>pi_evidence = \<lparr>pe_evidenceHash = sample_hash_text, pe_profile = Canary, pe_observedAt = sample_moment 0,
         pe_ready = True, pe_checks = \<lparr>ck_alertPath = CheckPassed, ck_backupTarget = CheckPassed, ck_budgetReservations = CheckPassed,
           ck_clock = CheckPassed, ck_credentialScopes = CheckPassed, ck_databaseIntegrity = CheckPassed, ck_disk = CheckPassed,
           ck_externalAnchor = CheckPassed, ck_financialAdaptersDisabled = CheckPassed, ck_networkAllowlist = CheckPassed,
           ck_releaseConfiguration = CheckPassed, ck_runtime = CheckPassed\<rparr>\<rparr>,
       pi_recordedAt = sample_moment 0, pi_sessionId = sample_uuid CHR ''1''\<rparr>,
     po_start = \<lparr>st_sessionId = sample_uuid CHR ''1'', st_startedAt = sample_moment 0, st_typedSessionId = sample_uuid CHR ''1''\<rparr>,
     po_minute45 = \<lparr>sa_acknowledgedAt = sample_moment 45, sa_checkpoint = Minute45, sa_sessionId = sample_uuid CHR ''1''\<rparr>,
     po_minute90 = \<lparr>sa_acknowledgedAt = sample_moment 90, sa_checkpoint = Minute90, sa_sessionId = sample_uuid CHR ''1''\<rparr>,
     po_stop = \<lparr>ss_sessionId = sample_uuid CHR ''1'', ss_stoppedAt = sample_moment 120\<rparr>,
     po_local = \<lparr>lv_evidence = \<lparr>le_evidenceHash = sample_hash_text,
         le_xLanes = \<lparr>lane_contract = SourceClosed, lane_discovery = SourceClosed, lane_marketplace = SourceClosed,
           lane_official = SourceClosed, lane_security = SourceClosed\<rparr>,
         le_openSea = \<lparr>sea_rest = SourceClosed, sea_stream = SourceClosed\<rparr>, le_canonicalChain = SourceClosed,
         le_eventIntegrity = Verified, le_digestIntegrity = Verified,
         le_purge = \<lparr>pg_captureKeys = KeysDestroyed, pg_encryptedIndexes = Clean, pg_orphanScan = Clean, pg_rawCaptures = Clean\<rparr>,
         le_localCheckpoint = Verified,
         le_recoveryArtifacts = \<lparr>ra_stateEvidence = ArtifactVerified sample_hash_text, ra_eventArchive = ArtifactVerified sample_hash_text,
           ra_releaseBundle = ArtifactVerified sample_hash_text\<rparr>,
         le_alertCheck = AlertHealthy, le_explicitClose = CloseComplete, le_incidentCount = 0\<rparr>,
       lv_sessionId = sample_uuid CHR ''1'', lv_verifiedAt = sample_moment 121\<rparr>,
     po_external = \<lparr>xv_evidence = \<lparr>xe_evidenceHash = sample_hash_text, xe_externalAnchor = Verified, xe_retainedSuffix = Verified,
         xe_independentVerification = Verified\<rparr>, xv_sessionId = sample_uuid CHR ''1'', xv_verifiedAt = sample_moment 122\<rparr>,
     po_cost = \<lparr>cr_evidence = \<lparr>ce_evidenceHash = sample_hash_text, ce_billingStatus = BillingComplete, ce_outstandingAtomic = ''0'',
         ce_reconciledAtomic = ''7'', ce_reservedAtomic = ''7''\<rparr>, cr_reconciledAt = sample_moment 123, cr_sessionId = sample_uuid CHR ''1''\<rparr>,
     po_accept = \<lparr>ac_acceptedAt = sample_moment 124, ac_sessionId = sample_uuid CHR ''1''\<rparr>\<rparr>"

lemma sample_moments [simp]:
  "0 \<le> m \<Longrightarrow> m \<le> 1000 \<Longrightarrow> milliseconds sample_env (sample_moment m) = 1767225600000 + m * 60000"
  "0 \<le> m \<Longrightarrow> m \<le> 1000 \<Longrightarrow> CanonicalTimestampSchema h (sample_moment m)"
proof -
  assume m: "0 \<le> m" "m \<le> 1000"
  then have t: "valid_time (1767225600000 + m * 60000)" by (simp add: valid_time_def max_time_def)
  then show "milliseconds sample_env (sample_moment m) = 1767225600000 + m * 60000" by (simp add: sample_moment_def)
  show "CanonicalTimestampSchema h (sample_moment m)"
    using t by (auto simp: CanonicalTimestampSchema_def sample_moment_def canonical_time_iff js_length_ascii [OF to_iso_ascii] length_to_iso length_year_text)
qed

lemma sample_day: "iso_day 1767200400000 = ''2025-12-31''" "QualificationDateSchema h ''2025-12-31''"
proof -
  show "iso_day 1767200400000 = ''2025-12-31''" by code_simp
  have midnight: "to_iso 1767139200000 = ''2025-12-31T00:00:00.000Z''" by code_simp
  have "valid_time 1767139200000" by (simp add: valid_time_def max_time_def)
  from date_parse_to_iso [OF this, of h] have "date_parse h ''2025-12-31T00:00:00.000Z'' = Some 1767139200000"
    by (simp only: midnight)
  moreover have "list_all is_digit ''2025''" "list_all is_digit ''12''" "list_all is_digit ''31''" by code_simp+
  ultimately show "QualificationDateSchema h ''2025-12-31''" by (simp add: QualificationDateSchema_def iso_day_def midnight)
qed

lemma sample_formats_ok [simp]:
  "EvidenceHashSchema sample_hash_text" "UuidSchema (sample_uuid CHR ''1'')" "SessionAmountSchema ''0''" "SessionAmountSchema ''7''"
proof -
  show "SessionAmountSchema ''0''" "SessionAmountSchema ''7''" by code_simp+
qed (simp_all add: EvidenceHashSchema_def sample_hash_text_def UuidSchema_def)

lemma sample_inputs_ok: "list_all (input_ok sample_host) (protocol_inputs sample_session)"
  by (simp add: protocol_inputs_def sample_session_def input_ok_def preflight_ok_def local_ok_def artifacts_ok_def artifact_ok_def
      external_ok_def cost_ok_def sample_day)

lemma sample_compliant: "compliant sample_env Canary sample_session"
  by (simp add: compliance_defs sample_session_def qualificationDateInPhoenix_def sample_day allPreflightChecksPass_def all_checks_def
      localFailureReason_def all_lanes_def externalEvidencePasses_def costFailureReason_def MAX_SUPERVISED_MILLISECONDS_def
      SUPERVISION_GRACE_MILLISECONDS_def MAX_COST_RECONCILIATION_MILLISECONDS_def)

subsection \<open>The calls\<close>

text \<open>Each input as the JSON value a caller passes.\<close>

fun sample_call :: "SessionInput \<Rightarrow> SessionCall" where
  "sample_call (PlanInput i) = PlanCall (canonicalize sample_host (input_json (PlanInput i)))"
| "sample_call (PreflightInput i) = PreflightCall (canonicalize sample_host (input_json (PreflightInput i)))"
| "sample_call (StartInput i) = StartCall (canonicalize sample_host (input_json (StartInput i)))"
| "sample_call (AcknowledgementInput i) = AcknowledgementCall (canonicalize sample_host (input_json (AcknowledgementInput i)))"
| "sample_call (StopInput i) = StopCall (canonicalize sample_host (input_json (StopInput i)))"
| "sample_call (LocalInput i) = LocalCall (canonicalize sample_host (input_json (LocalInput i)))"
| "sample_call (ExternalInput i) = ExternalCall (canonicalize sample_host (input_json (ExternalInput i)))"
| "sample_call (CostInput i) = CostCall (canonicalize sample_host (input_json (CostInput i)))"
| "sample_call (AcceptInput i) = AcceptCall (canonicalize sample_host (input_json (AcceptInput i)))"
| "sample_call (InvalidateInput i) = InvalidateCall (canonicalize sample_host (input_json (InvalidateInput i)))"
| "sample_call (CrashInput i) = InvalidateCall JNull"

definition sample_calls :: "SessionCall list" where
  "sample_calls = map sample_call (protocol_inputs sample_session)"

lemma sample_call_input:
  assumes "input_ok sample_host i"
    and "\<And>p. i = PlanInput p \<Longrightarrow> pl_qualificationDate p = qualificationDateInPhoenix sample_env (pl_plannedAt p)
      \<and> milliseconds sample_env (pl_plannedAt p) \<le> milliseconds sample_env (pl_supervisedUntil p)"
    and "\<And>s. i = StartInput s \<Longrightarrow> st_typedSessionId s = st_sessionId s" "\<And>z. i \<noteq> CrashInput z"
  shows "call_input sample_env (sample_call i) = Some i"
proof -
  have parsed: "auditInputSchema sample_host (input_action i) (canonicalize sample_host (input_json i)) = Some i"
    by (rule input_reparse(1) [OF assms(1)]) (cases i; simp add: input_action_def)
  show ?thesis
    using parsed assms(2-4) by (cases i) (auto split: if_splits)
qed

lemma sample_calls_parse: "map (call_input sample_env) sample_calls = map Some (protocol_inputs sample_session)"
proof -
  have "call_input sample_env (sample_call i) = Some i" if member: "i \<in> set (protocol_inputs sample_session)" for i
  proof (rule sample_call_input)
    show "input_ok sample_host i" using sample_inputs_ok member by (auto simp: list_all_iff)
  qed (use member in \<open>auto simp: protocol_inputs_def sample_session_def qualificationDateInPhoenix_def sample_day\<close>)
  then show ?thesis by (simp add: sample_calls_def)
qed

subsection \<open>A new file\<close>

definition sample_state_key :: string where
  "sample_state_key = replicate 32 CHR ''k''"

definition sample_options :: jsval where
  "sample_options = JObj [(''expectedProfile'', jenum profile_table Canary), (''path'', JStr ''canary''),
     (''recoveredAt'', JStr (sample_moment 0)), (''trustedHead'', JUndefined)]"

definition sample_disk :: "string \<Rightarrow> SessionFile" where
  "sample_disk path = \<lparr>sf_db = empty_db, sf_symlink = False, sf_lockable = True\<rparr>"

definition sample_coordinator :: Coordinator where
  "sample_coordinator = fst (projr (snd (snd (open_coordinator sample_env sample_options (Some sample_state_key) [] sample_disk))))"

lemma sample_options_parse:
  "OpenSessionCoordinatorOptionsSchema sample_host sample_options (Some sample_state_key) = Some
     \<lparr>op_expectedProfile = Canary, op_path = ''canary'', op_recoveredAt = sample_moment 0, op_stateKey = sample_state_key,
      op_trustedHead = None\<rparr>"
proof -
  have "js_length ''canary'' = 6" by code_simp
  then show ?thesis
    by (simp add: OpenSessionCoordinatorOptionsSchema_def sample_options_def z_object_JObj sample_state_key_def z_optional_def)
qed

lemma sample_opened:
  obtains receipt where "open_coordinator sample_env sample_options (Some sample_state_key) [] sample_disk
      = ([''canary''], Some (co_db sample_coordinator), Inr (sample_coordinator, receipt))"
    "coordinator_ok sample_env sample_coordinator" "sd_sessions (co_db sample_coordinator) = []"
    "sd_audit (co_db sample_coordinator) = []" "co_profile sample_coordinator = Canary"
    "map_option mt_latest_occurred_at (sd_metadata (co_db sample_coordinator)) = Some None"
    "co_key sample_coordinator = deriveMacKey sample_env sample_state_key Canary"
    "schemaProjection (co_db sample_coordinator) \<noteq> Some (JArr [])"
proof -
  have projection: "schemaProjection (initializeSessionSchema sample_env empty_db) \<notin> {None, Some (JArr [])}"
    by (simp add: schemaProjection_def initializeSessionSchema_def empty_db_def sample_env_def listed_entry_def)
  show thesis
  proof (rule new_file_opens [where v = sample_env and x = sample_options and stateKey = "Some sample_state_key" and paths = "[]"
        and disk = sample_disk and path = "''canary''"])
    show "OpenSessionCoordinatorOptionsSchema (se_host sample_env) sample_options (Some sample_state_key) = Some
        \<lparr>op_expectedProfile = Canary, op_path = ''canary'', op_recoveredAt = sample_moment 0, op_stateKey = sample_state_key,
         op_trustedHead = None\<rparr>"
      using sample_options_parse by simp
    fix c receipt
    assume c: "open_coordinator sample_env sample_options (Some sample_state_key) [] sample_disk
        = ([''canary''], Some (co_db c), Inr (c, receipt))"
    then have "sample_coordinator = c" by (simp add: sample_coordinator_def)
    moreover assume "coordinator_ok sample_env c" "sd_sessions (co_db c) = []" "sd_audit (co_db c) = []"
      "map_option mt_latest_occurred_at (sd_metadata (co_db c)) = Some None"
      "schemaProjection (co_db c) = schemaProjection (initializeSessionSchema sample_env empty_db)"
    moreover assume "co_profile c = op_expectedProfile
        \<lparr>op_expectedProfile = Canary, op_path = ''canary'', op_recoveredAt = sample_moment 0, op_stateKey = sample_state_key,
         op_trustedHead = None\<rparr>"
      "co_key c = deriveMacKey sample_env (op_stateKey \<lparr>op_expectedProfile = Canary, op_path = ''canary'',
          op_recoveredAt = sample_moment 0, op_stateKey = sample_state_key, op_trustedHead = None\<rparr>) (op_expectedProfile
        \<lparr>op_expectedProfile = Canary, op_path = ''canary'', op_recoveredAt = sample_moment 0, op_stateKey = sample_state_key,
         op_trustedHead = None\<rparr>)"
    ultimately show thesis using that c projection by simp
  qed (use projection in \<open>simp_all add: sample_disk_def openable_def\<close>)
qed

subsection \<open>The session on the new file\<close>

definition sample_after :: "nat \<Rightarrow> Coordinator" where
  "sample_after n = session_run sample_env (take n sample_calls) sample_coordinator"

lemma sample_start:
  "coordinator_ok sample_env sample_coordinator" "sd_sessions (co_db sample_coordinator) = []"
  "sd_audit (co_db sample_coordinator) = []" "co_profile sample_coordinator = Canary"
  "map_option mt_latest_occurred_at (sd_metadata (co_db sample_coordinator)) = Some None"
  "co_key sample_coordinator = deriveMacKey sample_env sample_state_key Canary"
  "schemaProjection (co_db sample_coordinator) \<noteq> Some (JArr [])"
  by (rule sample_opened; assumption)+

lemma sample_session_room: "room_for n sample_coordinator \<longleftrightarrow> n \<le> MAX_SESSION_RECORDS" "MAX_SESSION_RECORDS = 10000"
  by (auto simp: room_for_def sample_start MAX_SESSION_RECORDS_def MAX_AUDIT_RECORDS_def)

lemma sample_after_ok: "coordinator_ok sample_env (sample_after n)" "room_for 1000 (sample_after n)" "session_room (sample_after n)"
proof -
  note start = sample_start(1)
  have ten: "length (take n sample_calls) \<le> 10" by (simp add: sample_calls_def protocol_inputs_def)
  show "coordinator_ok sample_env (sample_after n)" unfolding sample_after_def
    by (rule session_run_ok [OF start]) (use ten sample_session_room in simp)
  have "room_for (length (take n sample_calls) + 1000) sample_coordinator" using ten sample_session_room by simp
  from run_room [OF start this] show "room_for 1000 (sample_after n)" by (simp add: sample_after_def)
  then show "session_room (sample_after n)" by (simp add: room_for_def session_room_def)
qed

lemma sample_free:
  "row \<in> set (sd_sessions (co_db sample_coordinator)) \<Longrightarrow> sw_active_profile row = None"
  "getSessionRow (co_db sample_coordinator) i = None" "getAuditByAction (co_db sample_coordinator) i a = None"
  "accepted_on (co_db sample_coordinator) r = None"
  by (simp_all add: sample_start getSessionRow_def getAuditByAction_def accepted_on_def)

lemma sample_latest:
  obtains m where "sd_metadata (co_db sample_coordinator) = Some m" "not_before_latest v t m"
  using sample_start(5) by (auto simp: not_before_latest_def intro: that)

abbreviation sample_id_text :: string where
  "sample_id_text \<equiv> sample_uuid CHR ''1''"

lemma sample_session_id: "pl_sessionId (po_plan sample_session) = sample_id_text"
  by (simp add: sample_session_def)

lemma sample_accepted:
  obtains row where "getSessionRow (co_db (sample_after 10)) sample_id_text = Some row" "sw_state row = Accepted"
proof -
  have all: "take 10 sample_calls = sample_calls" by (simp add: sample_calls_def protocol_inputs_def)
  obtain m where m: "sd_metadata (co_db sample_coordinator) = Some m" "not_before_latest sample_env (pl_plannedAt (po_plan sample_session)) m"
    by (rule sample_latest)
  note start = sample_start(1,4)
  have "\<exists>row. getSessionRow (co_db (session_run sample_env sample_calls sample_coordinator)) (pl_sessionId (po_plan sample_session))
      = Some row \<and> sw_state row = Accepted"
    by (rule compliant_accepted [OF start(1) _ _ sample_calls_parse _ _ _ m])
      (use sample_session_room sample_compliant start(2) sample_free in auto)
  then show thesis using that by (auto simp: sample_after_def all sample_session_id)
qed

text \<open>The first call plans the session.\<close>

definition sample_plan_call :: SessionCall where
  "sample_plan_call = sample_call (PlanInput (po_plan sample_session))"

definition sample_planned_record :: SessionRecord where
  "sample_planned_record = planned_record Canary (po_plan sample_session)"

lemma sample_plan_input: "call_input sample_env sample_plan_call = Some (PlanInput (po_plan sample_session))"
  using sample_calls_parse by (simp add: sample_plan_call_def sample_calls_def protocol_inputs_def)

lemma sample_planned:
  "session_exec sample_env sample_plan_call sample_coordinator = (sample_after 1, Inr sample_planned_record)"
  "standing sample_env (sample_after 1) sample_planned_record {ActPlan}"
proof -
  obtain m where m: "sd_metadata (co_db sample_coordinator) = Some m" "not_before_latest sample_env (pl_plannedAt (po_plan sample_session)) m"
    by (rule sample_latest)
  note start = sample_start(1,4)
  have room: "session_room sample_coordinator" by (rule room_for_Suc(1) [of 0]) (simp add: sample_session_room)
  have "advances sample_env sample_plan_call sample_coordinator sample_planned_record {ActPlan}"
    using plan_advances [OF start(1) room sample_plan_input _ _ _ m] sample_free start(2)
    by (simp add: sample_planned_record_def)
  moreover have "sample_after 1 = fst (session_exec sample_env sample_plan_call sample_coordinator)"
    by (simp add: sample_after_def sample_calls_def protocol_inputs_def sample_plan_call_def)
  ultimately show "session_exec sample_env sample_plan_call sample_coordinator = (sample_after 1, Inr sample_planned_record)"
    "standing sample_env (sample_after 1) sample_planned_record {ActPlan}"
    by (auto simp: advances_def)
qed

lemma sample_start_room: "session_room sample_coordinator"
  by (rule room_for_Suc(1) [of 0]) (simp add: sample_session_room)

lemma sample_step: "sample_after 2 = session_run sample_env [sample_calls ! 1] (sample_after 1)"
    "room_for (length [sample_calls ! 1]) (sample_after 1)"
  using sample_after_ok(2) [of 1]
  by (simp_all add: sample_after_def sample_calls_def protocol_inputs_def room_for_def)

text \<open>The log of the planned session has one row, and it stays the first.\<close>

lemma sample_log_grows:
  "length (getAllAuditRows (co_db (sample_after 1))) = 1"
  "\<exists>new. sd_audit (co_db (sample_after 2)) = sd_audit (co_db (sample_after 1)) @ new"
proof -
  have "call_outcome sample_env ActPlan (PlanInput (po_plan sample_session)) sample_coordinator (sample_after 1, Inr sample_planned_record)"
    using session_exec_outcome [OF sample_start(1) sample_start_room sample_plan_input] by (simp add: sample_planned(1))
  then obtain db' where made: "co_db (sample_after 1) = db'" "length (sd_audit db') = 1"
    using sample_start(3) sample_free(3) by (auto simp: call_outcome_def repeats_def transition_made_def)
  then show "length (getAllAuditRows (co_db (sample_after 1))) = 1" by simp
  show "\<exists>new. sd_audit (co_db (sample_after 2)) = sd_audit (co_db (sample_after 1)) @ new"
    using session_run_log [OF sample_after_ok(1) sample_step(2)] by (simp only: sample_step(1))
qed

lemma sample_head:
  obtains head where "getTrustedHead sample_env (sample_after 1) = Inr head"
    "verifyTrustedHead (co_profile (sample_after 1)) (co_db (sample_after 2)) head"
    "verifySessionsInternal sample_env (co_key (sample_after 1)) (co_profile (sample_after 1)) (co_db (sample_after 2))"
    "\<forall>f :: string \<Rightarrow> string. inj_on f (audit_mac_text sample_env `
       (set (getAllAuditRows (co_db (sample_after 1))) \<union> set (take 1 (getAllAuditRows (co_db (sample_after 2))))))"
proof -
  obtain head where head: "getTrustedHead sample_env (sample_after 1) = Inr head"
    using reported_head [OF sample_after_ok(1)] by metis
  note kept = session_run_keeps [OF sample_after_ok(1) sample_step(2), folded sample_step(1)]
  have ok: "verifySessionsInternal sample_env (co_key (sample_after 2)) (co_profile (sample_after 2)) (co_db (sample_after k))"
    if "k \<in> {1, 2}" for k using sample_after_ok(1) [of k] kept that by (auto simp: coordinator_ok_def)
  obtain row new where rows: "sd_audit (co_db (sample_after 1)) = [row]" "sd_audit (co_db (sample_after 2)) = row # new"
    using sample_log_grows by (auto simp: length_Suc_conv)
  have first: "getAllAuditRows (co_db (sample_after 1)) = [row]" using rows(1) by (simp add: getAllAuditRows_def)
  moreover have "take 1 (getAllAuditRows (co_db (sample_after 2))) = [row]"
  proof -
    have "aw_sequence row = 1" using log_sequences(1) [OF ok [of 1]] rows(1) first by simp
    moreover have "getAllAuditRows (co_db (sample_after 2)) \<noteq> []" using rows(2) length_getAll(2) [of "co_db (sample_after 2)"] by force
    ultimately show ?thesis
      using row_of_sequence [OF ok [of 2], of 0] rows(2) by (cases "getAllAuditRows (co_db (sample_after 2))") simp_all
  qed
  ultimately show thesis
    using that [OF head head_kept [OF reported_head_accepted [OF sample_after_ok(1) head]]] sample_log_grows(2) ok [of 2] kept
    by auto
qed

text \<open>An operator aborts the planned session.\<close>

definition sample_abort :: InvalidateSessionInput where
  "sample_abort = \<lparr>iv_invalidatedAt = sample_moment 1, iv_reason = OperatorAbort, iv_sessionId = sample_id_text\<rparr>"

definition sample_invalidation :: jsval where
  "sample_invalidation = canonicalize sample_host (input_json (InvalidateInput sample_abort))"

lemma sample_invalidation_parses: "InvalidateSessionInputSchema sample_host sample_invalidation = Some sample_abort"
proof -
  have "input_ok sample_host (InvalidateInput sample_abort)" by (simp add: input_ok_def sample_abort_def)
  from input_reparse(1) [OF this, of ActInvalidate] show ?thesis by (simp add: sample_invalidation_def)
qed

lemma sample_planned_row:
  obtains row m where "getSessionRow (co_db (sample_after 1)) sample_id_text = Some row" "\<not> isTerminal (sw_state row)"
    "sd_metadata (co_db (sample_after 1)) = Some m" "not_before_latest sample_env (sample_moment 1) m"
proof -
  note st = sample_planned(2) [unfolded standing_def sample_planned_record_def]
  obtain row where row: "getSessionRow (co_db (sample_after 1)) sample_id_text = Some row"
      "parseRecordJson sample_env (sw_record_json row) = Some (planned_record Canary (po_plan sample_session))"
    using st by (auto simp: planned_record_def sample_session_id)
  have mem: "row \<in> set (sd_sessions (co_db (sample_after 1)))" using getSessionRow_member [OF row(1)] by simp
  have "verifySessionsInternal sample_env (co_key (sample_after 1)) (co_profile (sample_after 1)) (co_db (sample_after 1))"
    using sample_after_ok(1) by (simp add: coordinator_ok_def)
  from session_row_parsed [OF verified_at_most_one(3) [OF this mem]] have "sw_state row = Planned"
    using row(2) by (metis option.inject protocol_states(1))
  moreover obtain m where "sd_metadata (co_db (sample_after 1)) = Some m" "mt_latest_occurred_at m = Some (sample_moment 0)"
    using st by (auto simp: planned_record_def sample_session_def)
  ultimately show thesis
    using that row(1) by (simp add: isTerminal_def not_before_latest_def)
qed

end
