(* ===== verification/Spec2Isabelle.thy ===== *)
theory Spec2Isabelle
  imports SampleSession
begin

text \<open>
  Verification of RSI, a research agent for NFT markets with a policy-gated execution path. The repository is a TypeScript
  monorepo; this library models its decision cores and the authorities over its SQLite stores, as they are written, and
  proves what makes them correct. This theory states the properties C1 to C40; the theories it imports hold the model and
  the lemmas that carry them.

  \<^bold>\<open>The program.\<close> Collected observations (\<open>packages/domain\<close>) are the evidence an execution intent cites; the policy kernel
  (\<open>packages/policy\<close>) decides whether an intent is approved for signing as EIP-712 typed data; the improvement loop
  (\<open>packages/engine\<close>) replaces the strategy that makes intents, behind gates. The event store (\<open>packages/store\<close>) is the
  append-only, hash-chained log; the runtime controller (\<open>packages/runtime\<close>) keeps the mode of the agent on that log and
  grants one-shot authorizations for boundary actions (collection, local commits); the session coordinator
  (\<open>packages/session-lifecycle\<close>) takes a supervised session from its plan to its acceptance over its own authenticated
  tables.

  \<^bold>\<open>Foundations.\<close> \<open>Prelude\<close>: results that may throw, shared list and map lemmas. \<open>JsValue\<close>: JavaScript values, strings
  and the record \<open>host\<close> of what the program takes from outside. \<open>JsDate\<close>: \<open>Date.parse\<close> and \<open>toISOString\<close>. \<open>Zod\<close>:
  the schema combinators as parsers. \<open>CanonicalJson\<close> (\<open>packages/store/src/canonical-json.ts\<close>) and \<open>LocaleJson\<close>: the
  two canonical texts, each read back by \<open>JSON.parse\<close> as the value that was written.

  \<^bold>\<open>Domain, policy and engine.\<close> \<open>Evidence\<close>, \<open>Schemas\<close>, \<open>Proposals\<close>, \<open>Eip712\<close>: the schemas of \<open>packages/domain\<close>
  as parsers into records, and the typed data a signer sees. \<open>PolicyKernel\<close>: \<open>authorize\<close> as a function from the kernel
  to the kernel and a decision; its lemmas give the contract of approval, no replay over any run, and the daily limit as an
  invariant of the spend map. \<open>ImprovementLoop\<close>: each method of the loop, and the stages a candidate earns.

  \<^bold>\<open>The event store.\<close> \<open>EventStore\<close>: the two tables as a record, every method of \<open>SqliteEventStore\<close>, verification of the
  chain, transactions with rollback. Its lemmas refine the store to an abstract log (\<open>logged\<close>) that only grows.

  \<^bold>\<open>The runtime authority.\<close> \<open>RuntimeSchemas\<close> (inputs and event payloads), \<open>RuntimeReplay\<close> (\<open>replayRuntimeStore\<close> and
  the decision rules), \<open>RuntimeController\<close> (the operations, a callback's effects on a world \<open>'w\<close> threaded through),
  \<open>BoundaryAuthorization\<close> (the one-shot objects), \<open>RuntimeSystem\<close> (any number of processes over one store as a step
  relation), \<open>RuntimeSafety\<close>, \<open>RuntimeProgress\<close> and \<open>RuntimeLiveness\<close> (what never happens, what always can), and
  \<open>RuntimeOutcomes\<close> (what a stop, a stale call and a local commit come to).

  \<^bold>\<open>The session coordinator.\<close> \<open>SessionSchemas\<close> (\<open>types.ts\<close>, \<open>schemas.ts\<close>), \<open>SessionCoordinator\<close> (record semantics,
  evidence rules, the transition table), \<open>SessionStore\<close> (tables, keyed digests, verification of every row, transactions),
  \<open>SessionOperations\<close> (the public operations, opening, crash recovery). \<open>SessionRecords\<close>, \<open>SessionIntegrity\<close> and
  \<open>SessionSemantics\<close> show that what is written reads back and that a change of one record keeps the tables verified;
  \<open>SessionProgress\<close> and \<open>SessionChanges\<close> show it of each change. \<open>SessionRuns\<close> states the contract of an operation as the
  locale \<open>record_transition\<close>, interpreted for each of them; \<open>SessionCalls\<close> lifts it to calls and runs of calls.
  \<open>SessionPaths\<close>, \<open>SessionGuarantees\<close>, \<open>SessionOpening\<close>, \<open>SessionReopening\<close>, \<open>SessionHeads\<close>, \<open>SessionCompliance\<close>
  and \<open>SessionProtocol\<close> derive the guarantees: logs are paths of the state machine, acceptance needs all evidence, opening
  recovers crashed sessions, trusted heads pin the log, a session that keeps to the protocol is accepted.

  \<^bold>\<open>Samples.\<close> \<open>Samples\<close>, \<open>SampleTraces\<close>, \<open>SampleRuntime\<close>, \<open>SampleStore\<close> and \<open>SampleSession\<close> evaluate the model at
  concrete inputs; the witnesses rest on them.

  \<^bold>\<open>Conventions.\<close> A thrown error is \<open>Inl\<close> of an error constructor, its message is not kept. A method that changes an
  object takes it and returns it; a transaction that fails leaves the tables. Integers are \<open>int\<close> and \<open>nat\<close> where the
  source uses \<open>bigint\<close> or keeps to safe integers, which the schemas check. Strings are their UTF-8 bytes,
  sorted in the order of their UTF-16 code units (\<open>utf16_order\<close>) as \<open>Array.prototype.sort\<close> does. Recursion is structural or
  over a log, so no fuel is used, save the depth bound the JSON serialiser itself has and \<open>2 * length s + 2\<close> steps for
  \<open>json_parse s\<close>, which the round trips show to be enough. Clock readings, generated ids and callbacks are arguments; a date
  given as an object (the \<open>now\<close> of \<open>authorize\<close>) is a valid one.

  \<^bold>\<open>Parameters.\<close> \<open>host\<close>: SHA-256 and Keccak-256 as functions on text, \<open>localeCompare\<close>, the text of fractional numbers,
  the zod date-time check, URL parsing, the non-ISO dates \<open>Date.parse\<close> accepts. \<open>session_env\<close>: HMAC-SHA-256, HKDF, the
  calendar day in Phoenix, what SQLite records of the created tables, path resolution. Where a property needs more than
  totality of them it says so (64 lower-case hex digits, no collision among named texts).

  \<^bold>\<open>Not modelled.\<close> Failures of the SQL engine, the disk (creating the directory, setting modes, dangling links) and the
  scheduler; freezing, proxies, instances of classes as input and identity of objects beyond the flags named in the theories;
  a commit checkpoint called after its callback has returned; network collectors, the vault, the capture registry, archives, checkpoints and anchors,
  alerts, attention, research ledgers, public projection, applications and scripts: their own logic is listed in the
  manifest with what is missing. They use the modelled authorities through the operations modelled here.
\<close>

subsection \<open>The policy kernel\<close>

text \<open>
  C1: the kernel approves a request exactly when its intent and every observation parse and the policy
  permits the intent on this evidence at this time.
\<close>

theorem approval_characterised:
  "(\<exists>a. snd (authorize h k raw robs now) = Approved a) \<longleftrightarrow>
     (\<exists>i obs. ExecutionIntentSchema h raw = Some i \<and> collect (ObservationSchema h) robs = Some obs
        \<and> policy_permits h k i obs now)"
  by (rule authorize_approved_iff)

text \<open>
  C2: whatever requests a kernel is given, no intent id and no nonce is approved twice, and none it had already
  processed is approved again.
\<close>

theorem no_replay:
  "distinct (map (\<lambda>a. intentId (app_intent a)) (approvals (snd (authorize_run h k rs))))
   \<and> distinct (map (\<lambda>a. to_lower (nonce (action (app_intent a)))) (approvals (snd (authorize_run h k rs))))
   \<and> (\<lambda>a. intentId (app_intent a)) ` set (approvals (snd (authorize_run h k rs))) \<inter> set (processedIntentIds k) = {}
   \<and> (\<lambda>a. to_lower (nonce (action (app_intent a)))) ` set (approvals (snd (authorize_run h k rs)))
       \<inter> set (processedNonces k) = {}"
  using run_no_replay [of h k rs "fst (authorize_run h k rs)" "snd (authorize_run h k rs)"] by auto

text \<open>
  C3: from a new kernel, the amounts approved on one UTC day for one payment asset never sum to more than the
  policy's daily limit for that asset, whatever the requests and their order.
\<close>

theorem daily_limit_respected:
  assumes "new_kernel h rawPolicy None = Inr k"
    and "map_of (maxDailySpendByAsset (policy k)) (key_asset key) = Some daily"
  shows "total_for key (approvals (snd (authorize_run h k rs))) \<le> read_nat daily"
proof -
  note fresh = fresh_kernel [OF assms(1)]
  let ?k = "fst (authorize_run h k rs)"
  have "authorize_run h k rs = (?k, snd (authorize_run h k rs))" by simp
  from run_invariant [OF this] fresh
  have run: "limits_kept ?k" "policy ?k = policy k"
      "spent ?k key = spent k key + total_for key (approvals (snd (authorize_run h k rs)))" by blast+
  moreover have "spent k key = 0" using fresh by (simp add: spent_def)
  ultimately have "0 < total_for key (approvals (snd (authorize_run h k rs))) \<longrightarrow>
      total_for key (approvals (snd (authorize_run h k rs))) \<le> read_nat daily"
    using assms(2) unfolding limits_kept_def by (metis add_0 option.sel)
  then show ?thesis by (cases "total_for key (approvals (snd (authorize_run h k rs)))") auto
qed

theorem daily_limit_respected_witness:
  "total_for (dailySpendKey sample_intent sample_now)
     (approvals (snd (authorize_run sample_host sample_kernel [sample_request]))) \<le> read_nat ''150'' \<and> approvals (snd (authorize_run sample_host sample_kernel [sample_request]))
      = [approval sample_host sample_kernel sample_intent sample_now]"
  using daily_limit_respected [OF sample_kernel_new sample_limits, of "[sample_request]"] sample_run by simp

text \<open>
  C4: a kernel restored from the state another exported, after any run from a new kernel, decides every further
  sequence of requests exactly as the exporting kernel would.
\<close>

theorem restored_kernel_decides_alike:
  assumes "new_kernel h raw None = Inr k0" "authorize_run h k0 rs = (k, ds)"
    and "list_all (\<lambda>(_, _, now). four_digit_year now) rs" "Bytes32Schema (policyHash k0)"
    and "length (processedIntentIds k) \<le> 1000000" "length (processedNonces k) \<le> 1000000"
  shows "\<exists>k'. new_kernel h raw (Some (state_json (exportState h k))) = Inr k'
    \<and> snd (authorize_run h k' further) = snd (authorize_run h k further)"
proof -
  obtain k' where "new_kernel h raw (Some (state_json (exportState h k))) = Inr k'" "kernel_equiv k k'"
    using restored_run [OF assms] by blast
  then show ?thesis using authorize_run_equiv [of k k' h further] by auto
qed

theorem restored_kernel_decides_alike_witness:
  "\<exists>k'. new_kernel sample_host (policy_json sample_config)
        (Some (state_json (exportState sample_host (approve sample_kernel sample_intent sample_now)))) = Inr k'
    \<and> snd (authorize_run sample_host k' [sample_request])
       = snd (authorize_run sample_host (approve sample_kernel sample_intent sample_now) [sample_request])"
  by (rule restored_kernel_decides_alike [OF sample_kernel_new sample_run])
    (simp_all add: sample_request_def sample_year sample_counts)

text \<open>
  C5: a rejected request leaves the kernel as it was and says why. An approved one returns the parsed intent with the hash of
  the policy in force, and records its intent id, its nonce and its spend, and nothing else.
\<close>

theorem decision_and_state:
  "case authorize h k raw robs now of
     (k', Rejected r) \<Rightarrow> k' = k \<and> rej_reasons r \<noteq> [] \<and> rej_policyHash r = policyHash k
   | (k', Approved a) \<Rightarrow> (\<exists>i. ExecutionIntentSchema h raw = Some i \<and> a = approval h k i now
        \<and> app_intent a = i \<and> app_policyHash a = policyHash k \<and> policy k' = policy k \<and> policyHash k' = policyHash k
        \<and> set (processedIntentIds k') = insert (intentId i) (set (processedIntentIds k))
        \<and> set (processedNonces k') = insert (to_lower (nonce (action i))) (set (processedNonces k))
        \<and> spent k' = (spent k)(dailySpendKey i now := spent k (dailySpendKey i now) + read_nat (maxTotalSpend (action i))))"
  by (cases rule: authorize_cases [of h raw robs k now]) (auto simp: fun_eq_iff)

subsection \<open>Canonical JSON\<close>

text \<open>
  C6: the canonical text of a value parses back to the value with the fields of every object in key order, and
  that value has the same canonical text.
\<close>

theorem canonical_round_trip:
  assumes "canonicalJson h v = Inr s" "wf_json h v"
  shows "json_parse h s = Some (sort_deep v) \<and> canonicalJson h (sort_deep v) = Inr s"
  using json_parse_serialized [OF assms] serialize_sort_deep(1) [of h 0 v] assms(1) by (simp add: canonicalJson_def)

theorem canonical_round_trip_witness:
  "json_parse sample_host ''{\"a\":[true,null],\"b\":\"x\"}''
     = Some (JObj [(''a'', JArr [JBool True, JNull]), (''b'', JStr ''x'')])"
proof -
  have "canonicalJson sample_host (JObj [(''b'', JStr ''x''), (''a'', JArr [JBool True, JNull])])
      = Inr ''{\"a\":[true,null],\"b\":\"x\"}''" by code_simp
  from canonical_round_trip [OF this] show ?thesis by (simp add: field_order_def utf16_order_def code_def)
qed

subsection \<open>Dates, amounts and assets\<close>

text \<open>
  C7: the time an event is stored under is the instant its writer gave, in one fixed form. Normalising keeps the instant, is
  idempotent, and gives two accepted times the same text exactly when they are the same instant.
\<close>

theorem occurred_at_normalised:
  assumes "normalizeOccurredAt h (JStr a) = Inr s" "normalizeOccurredAt h (JStr b) = Inr t"
  shows "(\<exists>i. date_parse h a = Some i \<and> s = to_iso i) \<and> date_parse h s = date_parse h a \<and> normalizeOccurredAt h (JStr s) = Inr s
    \<and> (s = t \<longleftrightarrow> date_parse h a = date_parse h b)"
proof -
  have instant: "\<exists>i. date_parse h x = Some i \<and> r = to_iso i \<and> date_parse h r = Some i"
    if given: "normalizeOccurredAt h (JStr x) = Inr r" for x r
  proof -
    obtain i where "date_parse h x = Some i" "r = to_iso i"
      using given by (cases "date_parse h x") (simp_all add: normalizeOccurredAt_def)
    then show ?thesis using date_parse_valid [of h x i] by simp
  qed
  obtain i j where i: "date_parse h a = Some i" "s = to_iso i" "date_parse h s = Some i"
      and j: "date_parse h b = Some j" "t = to_iso j" "date_parse h t = Some j"
    using instant [OF assms(1)] instant [OF assms(2)] by blast
  have same: "s = t \<longleftrightarrow> date_parse h a = date_parse h b"
  proof
    assume "s = t"
    then show "date_parse h a = date_parse h b" using i(1,3) j(1,3) by simp
  next
    assume "date_parse h a = date_parse h b"
    then have "i = j" using i(1) j(1) by simp
    then show "s = t" unfolding i(2) j(2) by (rule arg_cong)
  qed
  show ?thesis
  proof (intro conjI same)
    show "\<exists>i. date_parse h a = Some i \<and> s = to_iso i" by (intro exI conjI) (rule i(1), rule i(2))
    show "date_parse h s = date_parse h a" unfolding i(1,3) by (rule refl)
    show "normalizeOccurredAt h (JStr s) = Inr s" by (rule normalize_of_canonical [OF normalize_canonical [OF assms(1)]])
  qed
qed

theorem occurred_at_normalised_witness:
  "normalizeOccurredAt (sample_host\<lparr>legacy_date := \<lambda>_. Some 1767225600000\<rparr>) (JStr ''2026-01-01'') = Inr (to_iso 1767225600000)
   \<and> date_parse (sample_host\<lparr>legacy_date := \<lambda>_. Some 1767225600000\<rparr>) (to_iso 1767225600000)
     = date_parse (sample_host\<lparr>legacy_date := \<lambda>_. Some 1767225600000\<rparr>) ''2026-01-01''"
proof -
  let ?h = "sample_host\<lparr>legacy_date := \<lambda>_. Some 1767225600000\<rparr>"
  have given: "normalizeOccurredAt ?h (JStr ''2026-01-01'') = Inr (to_iso 1767225600000)"
    by (simp add: normalizeOccurredAt_def date_parse_def parse_canonical_def blank_def code_def valid_time_def max_time_def)
  from occurred_at_normalised [OF this this] given show ?thesis by simp
qed

text \<open>
  C8: an atomic amount is exactly the decimal text of a natural number that fits 256 bits: no sign, no leading
  zero, nothing above the bound.
\<close>

theorem amounts_are_uint256:
  "AtomicAmountSchema s \<longleftrightarrow> (\<exists>n \<le> MAX_UINT256. s = nat_str n)"
  by (rule AtomicAmountSchema_iff)

subsection \<open>Proposals and typed data\<close>

text \<open>
  C9: an accepted research proposal cites between one and a hundred distinct evidence ids, claims no more
  independent clusters than it cites, names no provider or source twice, and does not expire before it was created.
\<close>

theorem accepted_proposal:
  assumes "ResearchProposalV1Schema h v = Some p"
  shows "distinct (prop_evidenceIds p) \<and> 1 \<le> length (prop_evidenceIds p) \<and> length (prop_evidenceIds p) \<le> 100
    \<and> 0 \<le> prov_independentClusterCount (prop_provenance p)
    \<and> prov_independentClusterCount (prop_provenance p) \<le> int (length (prop_evidenceIds p))
    \<and> distinct (prov_providerIds (prop_provenance p)) \<and> distinct (prov_sourceKinds (prop_provenance p))
    \<and> expires_after_creation h (prop_createdAt p) (prop_expiresAt p)"
  using proposal_accepted [OF assms] by blast

theorem accepted_proposal_witness:
  "prov_independentClusterCount (prop_provenance sample_accepted) \<le> int (length (prop_evidenceIds sample_accepted))
   \<and> prov_independentClusterCount (prop_provenance sample_accepted) = 2"
  using accepted_proposal [OF sample_proposal_parses] by (simp add: sample_accepted_def)

text \<open>
  C10: the evidence root commits to the evidence as a set of ids with their multiplicity: it ignores their order, and where the
  hashed texts do not collide two lists with one root hold the same ids.
\<close>

theorem evidence_root_commits:
  assumes "hex_digests (keccak256_hex h)"
    and "inj_on (keccak256_hex h) (set xs \<union> set ys \<union> {root_bytes h xs, root_bytes h ys})"
  shows "evidenceRoot h xs = evidenceRoot h ys \<longleftrightarrow> mset xs = mset ys"
  using evidenceRoot_inject [OF assms] evidenceRoot_mset by blast

theorem evidence_root_commits_witness:
  "evidenceRoot sample_host (evidenceIds sample_intent) = evidenceRoot sample_host (evidenceIds sample_twin)
     \<longleftrightarrow> mset (evidenceIds sample_intent) = mset (evidenceIds sample_twin)"
  by (rule evidence_root_commits)
    (simp, rule inj_on_subset [OF sample_no_collision], auto simp: hashed_texts_def intent_texts_def)

text \<open>
  C11: the typed data that is signed binds the intent: two accepted intents with the same typed data agree on their
  id, versions, policy hash, evidence, contract, whole action and expiry second, where the hashed texts do not collide.
\<close>

theorem signature_binds_intent:
  assumes "hex_digests (keccak256_hex h)" "inj_on (keccak256_hex h) (hashed_texts h i \<union> hashed_texts h j)"
    and "ExecutionIntentSchema h v = Some i" "ExecutionIntentSchema h w = Some j"
    and "executionIntentTypedData h v c = Inr d" "executionIntentTypedData h w c' = Inr d"
  shows "intentId i = intentId j \<and> strategyVersion i = strategyVersion j \<and> policyVersion i = policyVersion j
    \<and> intent_policyHash i = intent_policyHash j \<and> mset (evidenceIds i) = mset (evidenceIds j)
    \<and> action i = action j \<and> c = c'
    \<and> (\<exists>s t. date_parse h (expiresAt i) = Some s \<and> date_parse h (expiresAt j) = Some t \<and> s div 1000 = t div 1000)"
  by (rule typed_data_binds [OF assms])

theorem signature_binds_intent_witness:
  "action sample_intent = action sample_twin \<and> mset (evidenceIds sample_intent) = mset (evidenceIds sample_twin)
   \<and> evidenceIds sample_intent \<noteq> evidenceIds sample_twin"
  using signature_binds_intent [OF _ sample_no_collision sample_intent_parses sample_twin_parses sample_signs]
  by (simp add: sample_intent_def sample_twin_def)

subsection \<open>The improvement loop\<close>

text \<open>
  C12: the champion changes only by promotion. After any sequence of calls on a new loop, the champion is the one the loop
  started with, or the calls contain, in this order, a proposal of some candidate, an attack it survived, a canary
  within the allocation limit, a canary result within the drawdown limit, an evaluation of enough samples that
  recommends promotion, and its promotion.
\<close>

theorem champion_passes_every_gate:
  assumes "new_loop h raw opts = Inr l" "loop_trace h l es m"
  shows "champion m = champion l
    \<or> (\<exists>i r. ev_recommendPromotion r \<and> in_order [proposed i, survived_attack i, canary_started (loop_options l) i,
         canary_survived (loop_options l) i, evaluated_as (loop_options l) i (Some r), was_promoted i] es)"
  using loop_trace_ok [OF assms(2) new_loop_ok [OF assms(1)]] by (simp add: loop_ok_def champion_ok_def)

theorem champion_passes_every_gate_witness:
  "champion (sample_stage Promoted (Some sample_evaluation)\<lparr>champion := sample_strategy ''rsi-2'' 900\<rparr>) \<noteq> champion sample_loop
   \<and> (\<exists>i r. ev_recommendPromotion r \<and> in_order [proposed i, survived_attack i, canary_started (loop_options sample_loop) i,
        canary_survived (loop_options sample_loop) i, evaluated_as (loop_options sample_loop) i (Some r), was_promoted i]
        sample_events)"
proof -
  have "champion (sample_stage Promoted (Some sample_evaluation)\<lparr>champion := sample_strategy ''rsi-2'' 900\<rparr>)
      \<noteq> champion sample_loop" by (simp add: sample_loop_def sample_strategy_def)
  then show ?thesis using champion_passes_every_gate [OF sample_loop_new sample_trace] by blast
qed

text \<open>
  C13: the stage of every candidate is backed by the calls that lead to it, in order, and its strategy is valid and
  new with respect to its base.
\<close>

theorem candidate_stage_is_earned:
  assumes "new_loop h raw opts = Inr l" "loop_trace h l es m" "map_of (candidates m) i = Some c"
  shows "in_order (gates (loop_options l) i (cand_evaluation c) (cand_stage c)) es
    \<and> StrategySchema (strategy_json (cand_strategy c)) = Some (cand_strategy c)
    \<and> strat_version (cand_strategy c) \<noteq> cand_baseVersion c \<and> cand_id c = i"
  using loop_trace_ok [OF assms(2) new_loop_ok [OF assms(1)]] assms(3) by (simp add: loop_ok_def candidate_ok_def)

theorem candidate_stage_is_earned_witness:
  "in_order (gates (loop_options sample_loop) sample_candidate_id (Some sample_evaluation) Promoted) sample_events"
  using candidate_stage_is_earned [OF sample_loop_new sample_trace, of sample_candidate_id
      "sample_candidate Promoted (Some sample_evaluation)"]
  by (simp add: sample_stage_def) (simp add: sample_candidate_def)

text \<open>
  C14: promotion succeeds exactly for an evaluated candidate whose evaluation recommends it and whose base is still the
  champion, and then its strategy becomes the champion.
\<close>

theorem promotion_characterised:
  "snd (promote l i) = Inr s \<longleftrightarrow>
     (\<exists>c r. map_of (candidates l) i = Some c \<and> cand_stage c = Evaluated \<and> cand_evaluation c = Some r
        \<and> ev_recommendPromotion r \<and> cand_baseVersion c = strat_version (champion l) \<and> s = cand_strategy c
        \<and> champion (fst (promote l i)) = s)"
  by (auto simp: promote_def requireStage_ok and_then_def or_fail_def ensure_def requireStage_def split: sum.splits option.splits if_splits)

subsection \<open>The event store\<close>

text \<open>
  C15: the integrity report of a database is clean exactly when its rows form the hash chain from the genesis
  hash with consecutive sequence numbers and the metadata names its head.
\<close>

theorem integrity_report_exact:
  "rep_valid (verifyIntegrityInternal h db) \<longleftrightarrow> valid_db h db"
  by (rule verify_valid_iff)

text \<open>
  C16: any sequence of appends, whatever each input is and whether it succeeds, keeps a valid store valid and only extends the
  log it started with.
\<close>

theorem appends_extend_history:
  assumes "valid_db h (store_db s)" "hex_digests (sha256_hex h)" "list_all (\<lambda>(input, _, _). wf_json h input) is"
    and "int (length (db_rows (store_db s)) + length is) \<le> max_safe_integer"
  shows "valid_db h (store_db (append_all h s is))
    \<and> prefix (by_sequence (store_db s)) (by_sequence (store_db (append_all h s is)))"
  by (rule append_all_extends [OF assms])

theorem appends_extend_history_witness:
  "valid_db sample_host (store_db (append_all sample_host sample_store [(JObj sample_fields, 0, ''a''), (JNull, 0, ''b'')]))
   \<and> db_rows (store_db (append_all sample_host sample_store [(JObj sample_fields, 0, ''a''), (JNull, 0, ''b'')])) \<noteq> []"
  by (intro conjI conjunct1 [OF appends_extend_history] sample_append_all)
    (simp_all add: max_safe_integer_def)

text \<open>
  C17: an append that reports an error left the store exactly as it was.
\<close>

theorem failed_append_changes_nothing:
  assumes "idle s" "valid_db h (store_db s)" "hex_digests (sha256_hex h)" "wf_json h input" "has_room (store_db s)"
    and "append_event h s input now uuid = (s', Inl e)"
  shows "s' = s"
  using append_event_error_idle [OF assms(1,6)] append_event_total_read [OF assms(2-5), of now uuid] assms(6) by fastforce

theorem failed_append_changes_nothing_witness:
  "append_event sample_host sample_store JNull 0 ''a'' = (sample_store, Inl (InvalidEvent NotAnObject))"
proof -
  obtain s' where run: "append_event sample_host sample_store JNull 0 ''a'' = (s', Inl (InvalidEvent NotAnObject))"
    by (simp add: append_event_def prepareEvent_def assertOpen_idle)
  have "s' = sample_store" by (rule failed_append_changes_nothing [OF _ _ _ _ _ run]) simp_all
  then show ?thesis using run by simp
qed

text \<open>
  C18: repeating a named append returns the stored event and appends nothing, whenever it is repeated.
\<close>

theorem append_is_idempotent:
  assumes "idle s" "hex_digests (sha256_hex h)" "wf_json h (JObj fs)" "has_room (store_db s)"
    and "append_event h s (JObj fs) now uuid = (s', Inr ev)"
    and "property_of fs ''eventId'' \<noteq> JUndefined \<or> property_of fs ''idempotencyKey'' \<noteq> JUndefined"
    and "property_of fs ''occurredAt'' \<noteq> JNull" "valid_time now'"
  shows "append_event h s' (JObj fs) now' uuid' = (s', Inr ev)"
  by (rule append_event_retry [OF assms])

theorem append_is_idempotent_witness:
  "\<exists>s' ev. append_event sample_host sample_store (JObj sample_fields) 0 ''a'' = (s', Inr ev)
     \<and> append_event sample_host s' (JObj sample_fields) 1767225600000 ''b'' = (s', Inr ev)"
proof -
  obtain s' ev where run: "append_event sample_host sample_store (JObj sample_fields) 0 ''a'' = (s', Inr ev)"
    by (rule sample_append [of 0 "''a''"])
  have "append_event sample_host s' (JObj sample_fields) 1767225600000 ''b'' = (s', Inr ev)"
    by (rule append_is_idempotent [OF _ _ sample_fields_simps(7) _ run]) simp_all
  then show ?thesis using run by blast
qed

text \<open>
  C19: the head commits to the whole log. Two valid logs of the same length with the same head hash are the same log, where the
  texts hashed for their rows do not collide.
\<close>

theorem head_commits_to_history:
  assumes "valid_db h a" "valid_db h b" "length (by_sequence a) = length (by_sequence b)"
    and "head_hash (by_sequence a) = head_hash (by_sequence b)"
    and "inj_on (sha256_hex h) (hashed h (by_sequence a) \<union> hashed h (by_sequence b))"
  shows "by_sequence a = by_sequence b"
  using chain_pinned [OF _ _ assms(3-5)] assms(1,2) by (simp add: valid_db_def)

theorem head_commits_to_history_witness:
  "by_sequence (sys_db sample_stopped) = by_sequence ((sys_db sample_stopped)\<lparr>db_rows := rev (db_rows (sys_db sample_stopped))\<rparr>)"
  by (rule head_commits_to_history [of sample_host]) (simp_all add: sample_single)

text \<open>
  C20: an exclusive transaction that reports an error, its own or its operation's, leaves the tables exactly as they were.
\<close>

theorem failed_transaction_rolls_back:
  assumes "withExclusiveTransaction h lift op s w = (s', w', Inl e)"
  shows "store_db s' = store_db s"
  by (rule exclusive_error [OF assms])

theorem failed_transaction_rolls_back_witness:
  "store_db (fst (withExclusiveTransaction sample_host (\<lambda>e. e) (\<lambda>s w. (fst (append_event sample_host s (JObj sample_fields) 0 ''a''), w,
      Inl StoreClosed :: (StoreError, nat) result)) sample_store (0 :: nat))) = initializeSchema None"
proof -
  let ?op = "\<lambda>s w. (fst (append_event sample_host s (JObj sample_fields) 0 ''a''), w, Inl StoreClosed :: (StoreError, nat) result)"
  obtain s' w' where run: "withExclusiveTransaction sample_host (\<lambda>e. e) ?op sample_store (0 :: nat) = (s', w', Inl StoreClosed)"
    by (simp add: withExclusiveTransaction_def Let_def)
  show ?thesis unfolding run using failed_transaction_rolls_back [OF run] by simp
qed

text \<open>
  C21: an exclusive transaction commits only what its operation left on tables that were valid, when no append inside it
  failed and the store is still open.
\<close>

theorem commit_is_clean:
  assumes "withExclusiveTransaction h lift op s w = (s', w', Inr x)"
  shows "\<exists>s1. op (opened s) w = (s1, w', Inr x) \<and> \<not> store_failed s1 \<and> \<not> store_closed s1
    \<and> valid_db h (store_db s) \<and> store_db s' = store_db s1 \<and> \<not> store_exclusive s"
  by (rule exclusive_commit [OF assms]) auto

theorem commit_is_clean_witness:
  "valid_db sample_host (store_db sample_store) \<and> \<not> store_exclusive sample_store"
proof -
  obtain s' where "withExclusiveTransaction sample_host (\<lambda>e. e) (\<lambda>s w. (s, w, Inr True)) sample_store (0 :: nat) = (s', 0, Inr True)"
    by (simp add: withExclusiveTransaction_def Let_def)
  from commit_is_clean [OF this] show ?thesis by blast
qed

subsection \<open>The runtime authority\<close>

text \<open>
  C22: any calls by any number of processes, in any order and with any outcome, keep the log a valid chain whose replay
  succeeds; the log only grows, and the state it replays to never goes back to an earlier revision.
\<close>

theorem runs_keep_authority:
  assumes "runtime_run h y z" "hex_digests (sha256_hex h)" "runtime_ok h y"
  shows "runtime_ok h z \<and> valid_db h (sys_db z) \<and> prefix (by_sequence (sys_db y)) (by_sequence (sys_db z))
    \<and> moves_on h (sys_db y) (sys_db z)"
  using runtime_run_ok [OF assms] by (auto simp: runtime_ok_def moves_on_def)

theorem runs_keep_authority_witness:
  "valid_db sample_host (sys_db sample_dispatched) \<and> sys_world sample_dispatched = 1"
  using runs_keep_authority [OF sample_runs(1) _ sample_start_ok] sample_dispatched_world by simp

text \<open>
  C23: an authorization of an earlier revision is dead. Once a STOP, a restart or a transition has moved the revision on, a call
  that uses it, whatever callback it is given, does not change the world, issues nothing, leaves the state of the authority as
  it was, and adds to the log at most one event: a check of this authorization, denied.
\<close>

theorem stale_authorization_is_inert:
  assumes "hex_digests (sha256_hex h)" "runtime_ok h y" "callable y c" "call_authorization c = Some rq"
    and "audit h (sys_db y) = Inr acc" "rp_state acc = Some st" "rs_revision st \<noteq> rq_requestedRevision rq"
  shows "sys_world (runtime_exec h c y) = sys_world y \<and> sys_issued (runtime_exec h c y) = sys_issued y
    \<and> denied_at_most h (sys_db y) rq st (sys_db (runtime_exec h c y))"
  using stale_world [OF assms] stale_call [OF assms] by simp

theorem stale_authorization_is_inert_witness:
  "sys_world (runtime_exec sample_host (DispatchCall sample_authorization sample_dispatch (sample_clock 1) (sample_uuid CHR ''d''))
     sample_superseded) = 0
   \<and> (\<exists>st. rs_revision st = 3 \<and> denied_at_most sample_host (sys_db sample_superseded) sample_authorization st
     (sys_db (runtime_exec sample_host (DispatchCall sample_authorization sample_dispatch (sample_clock 1) (sample_uuid CHR ''d''))
       sample_superseded)))"
proof -
  let ?c = "DispatchCall sample_authorization sample_dispatch (sample_clock 1) (sample_uuid CHR ''d'')"
  obtain acc st where y: "audit sample_host (sys_db sample_superseded) = Inr acc" "rp_state acc = Some st" "rs_revision st = 3"
      "sample_authorization \<in> set (sys_issued sample_superseded)" "has_room (sys_db sample_superseded)" "sys_world sample_superseded = 0"
    by (rule sample_superseded_state)
  have ok: "runtime_ok sample_host sample_superseded" using runtime_run_ok [OF sample_runs(2) _ sample_start_ok] by simp
  have "callable sample_superseded ?c" using y(4,5) by (simp add: callable_def)
  from stale_authorization_is_inert [OF _ ok this _ y(1,2), of sample_authorization] y(3,6) show ?thesis by auto
qed

text \<open>
  C24: a dispatch reaches the world only behind a check that the state of the store allows, made on an authorization that was never
  checked before, and then exactly what the callback does with the allowed receipt.
\<close>

theorem dispatch_needs_grant:
  assumes "idle s" "has_room (store_db s)" "hex_digests (sha256_hex h)"
    and "consumeAndDispatch h rq dispatch clock uuid s w = (s', w', r)"
  shows "w' = w \<or> (\<exists>rc t. w' = fst (dispatch rc w) \<and> rc_allowed rc \<and> rc_authorizationId rc = rq_authorizationId rq
      \<and> grants h (store_db s) rq t \<and> find_by_key (store_db s) (boundary_key (rq_authorizationId rq)) = None)"
proof (cases "w' = w")
  case False
  from assms False show ?thesis by (rule dispatch_world) blast
qed simp

theorem dispatch_needs_grant_witness:
  "\<exists>t. grants sample_host (sys_db sample_granted) sample_authorization t"
proof -
  obtain s' w' r where run: "consumeAndDispatch sample_host sample_authorization sample_dispatch (sample_clock 1) (sample_uuid CHR ''d'')
      (connection (sys_db sample_granted)) 0 = (s', w', r)" by (metis prod_cases3)
  have "w' = 1" using sample_dispatched_world run by (simp add: sample_dispatched_def sample_granted_fields)
  moreover have "has_room (sys_db sample_granted)" by (rule sample_granted_state)
  ultimately show ?thesis using dispatch_needs_grant [OF _ _ _ run] by auto
qed

text \<open>
  C25: a local commit reaches the world only when its consumption was allowed, and the state still grants the authorization after it,
  within the authorization's monotonic lifetime, and only on a local commit boundary. It returns its receipt only when its callback
  called the checkpoint exactly once and the checkpoint, too, found the authority granting and within its lifetime; what the callback
  did to the world is then what the script does. (A callback that acts without a checkpoint has acted on the world, but its
  commit fails.)
\<close>

theorem commit_needs_grant:
  assumes "idle s" "has_room (store_db s)" "hex_digests (sha256_hex h)"
    and "consumeLocalCommit h rq commit clocks uuid s w = (s', w', r)"
  shows "(w' = w \<or> (\<exists>s2 rc t u m. consumeBoundaryAuthorization h rq (clocks 0) uuid s w = (s2, w, Inr rc)
      \<and> grants h (store_db s) rq t \<and> grants h (store_db s2) rq u \<and> isLocalCommitBoundary (rq_boundary rq)
      \<and> readMonotonicClock (clocks 1) = Inr m \<and> \<not> outside_lifetime rq m))
    \<and> (case r of Inl _ \<Rightarrow> True | Inr rc \<Rightarrow> \<exists>s2. consumeBoundaryAuthorization h rq (clocks 0) uuid s w = (s2, w, Inr rc)
      \<and> committed_behind_checkpoint h rq clocks (commit rc) (opened s2) w w')"
proof
  show "w' = w \<or> (\<exists>s2 rc t u m. consumeBoundaryAuthorization h rq (clocks 0) uuid s w = (s2, w, Inr rc)
      \<and> grants h (store_db s) rq t \<and> grants h (store_db s2) rq u \<and> isLocalCommitBoundary (rq_boundary rq)
      \<and> readMonotonicClock (clocks 1) = Inr m \<and> \<not> outside_lifetime rq m)"
  proof (cases "w' = w")
    case False
    from assms False show ?thesis by (rule commit_world) blast
  qed simp
  show "case r of Inl _ \<Rightarrow> True | Inr rc \<Rightarrow> \<exists>s2. consumeBoundaryAuthorization h rq (clocks 0) uuid s w = (s2, w, Inr rc)
      \<and> committed_behind_checkpoint h rq clocks (commit rc) (opened s2) w w'"
  proof (cases r)
    case (Inr rc)
    show ?thesis by (rule commit_returned [OF assms(1-3) assms(4) [unfolded Inr]]) (auto simp: Inr)
  qed simp
qed

theorem commit_needs_grant_witness:
  "\<exists>s' rc s2. consumeLocalCommit sample_host sample_commit_authorization sample_commit (\<lambda>_. sample_clock 1) (sample_uuid CHR ''d'')
       (connection (sys_db sample_granted)) 0 = (s', 1, Inr rc)
     \<and> committed_behind_checkpoint sample_host sample_commit_authorization (\<lambda>_. sample_clock 1) (sample_commit rc) (opened s2) 0 1"
proof -
  obtain s' rc where run: "consumeLocalCommit sample_host sample_commit_authorization sample_commit (\<lambda>_. sample_clock 1)
     (sample_uuid CHR ''d'') (connection (sys_db sample_granted)) 0 = (s', 1, Inr rc)" by (rule sample_commit_returns)
  have "has_room (sys_db sample_granted)" by (rule sample_granted_state)
  then show ?thesis using commit_needs_grant [OF _ _ _ run] run by auto
qed

text \<open>
  C26: the completion of a collection runs only when its allowed check is durable in the log and the state still is the one the
  authorization was requested in.
\<close>

theorem completion_needs_durable_check:
  assumes "idle s" "has_room (store_db s)" "hex_digests (sha256_hex h)"
    and "guardBoundaryCompletion h rq completion clock s w = (s', w', r)"
  shows "w' = w \<or> (\<exists>row ev p acc st. find_by_key (store_db s) (boundary_key (rq_authorizationId rq)) = Some row
      \<and> rowToEvent h row = Inr ev \<and> RuntimeBoundaryEventPayloadSchema h (ev_payload ev) = Some p \<and> durable_check rq p
      \<and> audit h (store_db s) = Inr acc \<and> rp_state acc = Some st \<and> boundaryCompletionReason (requested rq) st = ALLOWED)"
proof (cases "w' = w")
  case False
  from assms False show ?thesis by (rule completion_world) blast
qed simp

theorem completion_needs_durable_check_witness:
  "fst (snd (guardBoundaryCompletion sample_host sample_authorization (\<lambda>_ w. (Suc w, True)) (sample_clock 1)
     (connection (sys_db sample_granted)) 0)) = 0"
proof -
  obtain s' w' r where run: "guardBoundaryCompletion sample_host sample_authorization (\<lambda>_ w. (Suc w, True)) (sample_clock 1)
     (connection (sys_db sample_granted)) 0 = (s', w', r)" by (metis prod_cases3)
  have "has_room (sys_db sample_granted)" by (rule sample_granted_state)
  moreover have "find_by_key (sys_db sample_granted) (boundary_key (sample_uuid CHR ''5'')) = None"
    by (rule sample_granted_state)
  ultimately show ?thesis using completion_needs_durable_check [OF _ _ _ run] run by auto
qed

text \<open>
  C27: an authorization object acts at most once. Whatever calls are made on it, with whatever callbacks and stores, at most one
  consumption and at most one completion changes the world.
\<close>

theorem authorization_acts_once:
  "effects h (\<lambda>c. \<not> is_completion c) cs (createRuntimeBoundaryAuthorization rq, w) \<le> 1
   \<and> effects h is_completion cs (createRuntimeBoundaryAuthorization rq, w) \<le> 1"
  using one_consumption [of h cs "(createRuntimeBoundaryAuthorization rq, w)"]
    one_completion [of h cs "(createRuntimeBoundaryAuthorization rq, w)"]
  by (simp add: createRuntimeBoundaryAuthorization_def)

text \<open>
  C28: the authority can always be stopped. On a valid store, in whatever mode, a STOP with a valid input, a new request id and a
  fresh event id succeeds: the log then replays to STOPPED under the same process at the next revision, which is what the caller
  is shown, and the request is recorded.
\<close>

theorem stop_always_available:
  assumes "idle s" "valid_db h (store_db s)" "has_room (store_db s)" "hex_digests (sha256_hex h)" "audit h (store_db s) = Inr acc"
    and "parseRuntimeInput (RuntimeStopInputSchema h) v = Some inp"
    and "RuntimeUuidSchema uuid" "fresh_id h (store_db s) uuid" "rp_state acc = Some st"
    and "find_by_key (store_db s) (stop_key (in_stopId inp)) = None" "in_stopId inp \<notin> set (rp_requestIds acc)"
  shows "\<exists>s' sn acc' st'. stop_runtime h v uuid s w = (s', w, Inr sn) \<and> audit h (store_db s') = Inr acc'
    \<and> rp_state acc' = Some st' \<and> rs_mode st' = STOPPED \<and> rs_processInstanceId st' = rs_processInstanceId st
    \<and> rs_revision st' = rs_revision st + 1 \<and> currentSnapshot acc' = Inr sn \<and> in_stopId inp \<in> set (rp_requestIds acc')"
  by (rule stop_succeeds [OF assms, of w]) blast

theorem stop_always_available_witness:
  "\<exists>s' sn acc' st'. stop_runtime sample_host sample_stop (sample_uuid CHR ''e'') (connection (sys_db sample_granted)) () = (s', (), Inr sn)
     \<and> audit sample_host (store_db s') = Inr acc' \<and> rp_state acc' = Some st' \<and> rs_mode st' = STOPPED \<and> rs_revision st' = 3"
proof (rule sample_stop_conditions)
  fix acc st
  assume y: "audit sample_host (sys_db sample_granted) = Inr acc" "rp_state acc = Some st" "rs_revision st = 2"
    "valid_db sample_host (sys_db sample_granted)" "has_room (sys_db sample_granted)"
    "fresh_id sample_host (sys_db sample_granted) (sample_uuid CHR ''e'')"
    "find_by_key (sys_db sample_granted) (stop_key (sample_uuid CHR ''3'')) = None"
    "sample_uuid CHR ''3'' \<notin> set (rp_requestIds acc)"
  have "\<exists>s' sn acc' st'. stop_runtime sample_host sample_stop (sample_uuid CHR ''e'') (connection (sys_db sample_granted)) () = (s', (), Inr sn)
     \<and> audit sample_host (store_db s') = Inr acc' \<and> rp_state acc' = Some st' \<and> rs_mode st' = STOPPED
     \<and> rs_processInstanceId st' = rs_processInstanceId st \<and> rs_revision st' = rs_revision st + 1 \<and> currentSnapshot acc' = Inr sn
     \<and> in_stopId \<lparr>in_stopAt = to_iso 1767225600000, in_stopId = sample_uuid CHR ''3''\<rparr> \<in> set (rp_requestIds acc')"
    by (rule stop_always_available [OF _ _ _ _ _ sample_stop_parses, of _ acc]) (use y in simp_all)
  then show ?thesis using y(3) by auto
qed

text \<open>
  C29: opening succeeds and starts stopped. A process with a new id opens a valid store under a fresh event id: it finds the
  authority STOPPED, its own, at the revision after the last.
\<close>

theorem opening_starts_stopped:
  assumes "open_store h file = Inr s" "has_room (store_db s)" "hex_digests (sha256_hex h)" "audit h (store_db s) = Inr acc"
    and "parseRuntimeInput (OpenRuntimeInputSchema h) v = Some inp"
    and "RuntimeUuidSchema uuid" "fresh_id h (store_db s) uuid"
    and "find_by_key (store_db s) (stop_key (in_processInstanceId inp)) = None"
      "in_processInstanceId inp \<notin> set (rp_requestIds acc)"
  shows "\<exists>db ct acc' st. open_runtime h file v uuid = (Some db, Inr ct) \<and> audit h db = Inr acc' \<and> rp_state acc' = Some st
    \<and> rs_mode st = STOPPED \<and> rs_processInstanceId st = in_processInstanceId inp
    \<and> rs_revision st = (case rp_state acc of None \<Rightarrow> 0 | Some old \<Rightarrow> rs_revision old) + 1 \<and> valid_db h db"
  by (rule open_succeeds [OF assms]) blast

theorem opening_starts_stopped_witness:
  "\<exists>db ct acc' st. open_runtime sample_host None sample_open (sample_uuid CHR ''a'') = (Some db, Inr ct)
     \<and> audit sample_host db = Inr acc' \<and> rp_state acc' = Some st \<and> rs_mode st = STOPPED \<and> rs_revision st = 1"
proof -
  obtain s where s: "open_store sample_host None = Inr s" "store_db s = initializeSchema None"
    by (auto simp: open_store_def Let_def)
  have "audit sample_host (initializeSchema None) = Inr replay_start"
    using sample_at_start_empty(2) by (simp add: sample_at_start_def new_system_def)
  from opening_starts_stopped [OF s(1) _ _ _ sample_open_parses, of replay_start "sample_uuid CHR ''a''"] this s(2)
  show ?thesis by (simp add: replay_start_def find_by_key_def) blast
qed

text \<open>
  C30: what may move moves. A transition the mode table allows, asked for by the process in force with its current mode and revision,
  a new request id, a time not before the last event and a fresh event id, takes effect.
\<close>

theorem allowed_transition_takes_effect:
  assumes "idle s" "valid_db h (store_db s)" "has_room (store_db s)" "hex_digests (sha256_hex h)" "audit h (store_db s) = Inr acc"
    and "parseRuntimeInput (RuntimeTransitionInputSchema h) v = Some inp"
    and "RuntimeUuidSchema uuid" "fresh_id h (store_db s) uuid"
    and "rp_state acc = Some st" "rs_mode st = in_expectedMode inp" "rs_revision st = in_expectedRevision inp"
      "isModeTransitionAllowed (rs_mode st) (in_targetMode inp)"
    and "find_by_key (store_db s) (transition_key (in_transitionId inp)) = None"
      "in_transitionId inp \<notin> set (rp_requestIds acc)" "follows_audit h (in_transitionAt inp) acc"
  shows "\<exists>s' sn acc' st'. transition h (rs_processInstanceId st) v uuid s w = (s', w, Inr sn) \<and> audit h (store_db s') = Inr acc'
    \<and> rp_state acc' = Some st' \<and> rs_mode st' = in_targetMode inp \<and> rs_revision st' = rs_revision st + 1
    \<and> rs_processInstanceId st' = rs_processInstanceId st"
  by (rule transition_succeeds [OF assms, of w]) blast

theorem allowed_transition_takes_effect_witness:
  "\<exists>s' sn. transition sample_host sample_process sample_transition (sample_uuid CHR ''b'') (connection (sys_db sample_stopped)) ()
     = (s', (), Inr sn)"
proof -
  obtain acc st where y: "valid_db sample_host (sys_db sample_stopped)" "audit sample_host (sys_db sample_stopped) = Inr acc"
    "rp_state acc = Some st" "rs_mode st = STOPPED" "rs_processInstanceId st = sample_process" "rs_revision st = 1"
    "rp_requestIds acc = [sample_process]" "rp_lastAuditAt acc = Some (to_iso 1767225600000)"
    "logged (sys_db sample_stopped) = [(RUNTIME_AGGREGATE_ID, sample_uuid CHR ''a'', Some (stop_key sample_process))]"
    by (rule sample_stopped_state)
  have "fresh_id sample_host (sys_db sample_stopped) (sample_uuid CHR ''b'')"
    by (rule sample_fresh [OF y(1)]) (use y(9) in simp_all)
  moreover have "find_by_key (sys_db sample_stopped) (transition_key (sample_uuid CHR ''2'')) = None"
    by (rule logged_find) (use y(9) in \<open>auto simp: stop_key_def transition_key_def\<close>)
  moreover have "has_room (sys_db sample_stopped)" using y(9) by (rule sample_room) simp
  ultimately show ?thesis
    using allowed_transition_takes_effect [of "connection (sys_db sample_stopped)" sample_host acc, OF _ _ _ _ _ sample_transition_parses,
        of "sample_uuid CHR ''b''" st "()"] y
    by (simp add: follows_audit_def sample_process_def) blast
qed

text \<open>
  C31: what is granted is honoured. A dispatch within the lifetime of an authorization the state still grants, never checked before,
  under a fresh event id, runs its callback once with an allowed receipt and returns it.
\<close>

theorem granted_dispatch_runs:
  assumes "idle s" "valid_db h (store_db s)" "has_room (store_db s)" "hex_digests (sha256_hex h)"
      "audit h (store_db s) = Inr acc" "request_ok h (requested rq)"
    and "RuntimeUuidSchema uuid" "fresh_id h (store_db s) uuid"
    and "rp_state acc = Some st" "find_by_key (store_db s) (boundary_key (rq_authorizationId rq)) = None"
    and "readRuntimeClock h clock = Inr clockAt" "readMonotonicClock clock = Inr m" "\<not> outside_lifetime rq m"
    and "boundaryReason h (requested rq) st (nonRegressingBoundaryTime h clockAt acc (Some (rq_requestedAt rq))) = ALLOWED"
    and "\<And>rc. rc_allowed rc \<Longrightarrow> rc_authorizationId rc = rq_authorizationId rq \<Longrightarrow> dispatch rc w = (w', True)"
  shows "\<exists>s' rc. consumeAndDispatch h rq dispatch clock uuid s w = (s', w', Inr rc) \<and> rc_allowed rc
    \<and> rc_authorizationId rc = rq_authorizationId rq"
  by (rule dispatch_succeeds [of s h acc rq uuid st clock clockAt m dispatch w w', OF assms]) blast+

theorem granted_dispatch_runs_witness:
  "\<exists>s' rc. consumeAndDispatch sample_host sample_authorization sample_dispatch (sample_clock 1) (sample_uuid CHR ''d'')
     (connection (sys_db sample_granted)) 0 = (s', 1, Inr rc) \<and> rc_allowed rc"
proof (rule sample_dispatch_conditions)
  fix acc st
  assume y: "audit sample_host (sys_db sample_granted) = Inr acc" "rp_state acc = Some st"
    "valid_db sample_host (sys_db sample_granted)" "has_room (sys_db sample_granted)"
    "fresh_id sample_host (sys_db sample_granted) (sample_uuid CHR ''d'')"
    "find_by_key (sys_db sample_granted) (boundary_key (sample_uuid CHR ''5'')) = None"
    "boundaryReason sample_host (requested sample_authorization) st
       (nonRegressingBoundaryTime sample_host (to_iso 1767225600000) acc (Some (rq_requestedAt sample_authorization))) = ALLOWED"
  show ?thesis
    using granted_dispatch_runs [of "connection (sys_db sample_granted)" sample_host acc sample_authorization
          "sample_uuid CHR ''d''" st "sample_clock 1" "to_iso 1767225600000" 1 sample_dispatch 0 1]
      y sample_clocks [of 1] by (auto simp: sample_request_ok sample_dispatch_def AUTHORIZATION_TTL_MS_def)
qed

subsection \<open>Supervised sessions\<close>

text \<open>
  C32: on a sound coordinator with room, a call whose input passes its schema does one of three things: it fails with an
  error of the caller and changes nothing; it repeats a transition that is on the log, with the very same input text, and
  returns the record of that time and changes nothing; or it makes one new transition that the state machine allows and
  leaves a sound coordinator.
\<close>

theorem session_call_outcome:
  assumes "coordinator_ok v c" "session_room c" "call_input v call = Some i" "session_exec v call c = (c', res)"
  shows "(\<exists>e. res = Inl e \<and> caller_error e \<and> c' = c)
    \<or> (\<exists>r. res = Inr r \<and> repeats v (input_action i) i r (co_db c) \<and> c' = c)
    \<or> (\<exists>r db'. res = Inr r \<and> c' = c\<lparr>co_db := db'\<rparr> \<and> transition_made v (input_action i) i r (co_db c) db' \<and> coordinator_ok v c')"
  using session_exec_outcome [OF assms(1-3)] assms(4) by (auto simp: call_outcome_def split: sum.splits)

theorem session_call_outcome_witness:
  "\<exists>res c'. session_exec sample_env sample_plan_call sample_coordinator = (c', res)
    \<and> ((\<exists>e. res = Inl e \<and> caller_error e \<and> c' = sample_coordinator)
      \<or> (\<exists>r. res = Inr r \<and> repeats sample_env (input_action (PlanInput (po_plan sample_session))) (PlanInput (po_plan sample_session)) r
            (co_db sample_coordinator) \<and> c' = sample_coordinator)
      \<or> (\<exists>r db'. res = Inr r \<and> c' = sample_coordinator\<lparr>co_db := db'\<rparr>
            \<and> transition_made sample_env (input_action (PlanInput (po_plan sample_session))) (PlanInput (po_plan sample_session)) r
                (co_db sample_coordinator) db' \<and> coordinator_ok sample_env c'))"
  using session_call_outcome [OF sample_start(1) _ sample_plan_input sample_planned(1)] sample_planned(1) sample_start_room by metis

text \<open>
  C33: an operator may repeat a call whose answer was lost: whatever calls were made since, the same call returns the same
  record and changes nothing.
\<close>

theorem retried_call_returns_the_record:
  assumes "coordinator_ok v c" "room_for (Suc (length calls)) c" "session_exec v call c = (c', Inr r)"
  shows "session_exec v call (session_run v calls c') = (session_run v calls c', Inr r)"
  by (rule retry_returns_the_record [OF assms])

theorem retried_call_returns_the_record_witness:
  "session_exec sample_env sample_plan_call (session_run sample_env sample_calls (sample_after 1))
     = (session_run sample_env sample_calls (sample_after 1), Inr sample_planned_record)"
  by (rule retried_call_returns_the_record [OF sample_start(1) _ sample_planned(1)])
    (simp add: sample_session_room sample_calls_def protocol_inputs_def)

text \<open>
  C34: the row of a session that was accepted or invalidated is final: no sequence of calls changes it.
\<close>

theorem ended_session_is_final:
  assumes "coordinator_ok v c" "room_for (length calls) c" "getSessionRow (co_db c) i = Some row" "isTerminal (sw_state row)"
  shows "getSessionRow (co_db (session_run v calls c)) i = Some row"
  by (rule terminal_final [OF assms])

theorem ended_session_is_final_witness:
  "\<exists>row. sw_state row = Accepted \<and>
     getSessionRow (co_db (session_run sample_env sample_calls (sample_after 10))) sample_id_text = Some row"
proof -
  obtain row where row: "getSessionRow (co_db (sample_after 10)) sample_id_text = Some row" "sw_state row = Accepted"
    by (rule sample_accepted)
  have "room_for (length sample_calls) (sample_after 10)"
    using sample_after_ok(2) [of 10] by (simp add: room_for_def sample_calls_def protocol_inputs_def)
  from ended_session_is_final [OF sample_after_ok(1) this row(1)] row show ?thesis by (auto simp: isTerminal_def)
qed

text \<open>
  C35: in a database that verifies, a session whose state is accepted carries its evidence: every preflight check passed;
  no incident, every source closed, events, digests and the local checkpoint verified, the captures, their indexes and keys
  purged and the orphan scan clean, the alert check healthy and the close complete; the independent verification; a complete
  bill with nothing outstanding, within the reservation; and acceptance evidence that binds the digests of exactly these and
  the three verified artifacts. And it was started on its qualification date, acknowledged in both windows and stopped within
  two hours.
\<close>

theorem accepted_session_is_evidenced:
  assumes "verifySessionsInternal v key p db" "getSessionRow db i = Some row" "sw_state row = Accepted"
  shows "\<exists>r. parseRecordJson v (sw_record_json row) = Some r \<and> sr_sessionId r = i \<and> fully_evidenced v r \<and> supervised v r"
  using accepted_row_evidenced [OF assms] by metis

theorem accepted_session_is_evidenced_witness:
  "\<exists>row r. getSessionRow (co_db (sample_after 10)) sample_id_text = Some row \<and> sw_state row = Accepted
     \<and> parseRecordJson sample_env (sw_record_json row) = Some r \<and> sr_sessionId r = sample_id_text
     \<and> fully_evidenced sample_env r \<and> supervised sample_env r"
proof -
  obtain row where row: "getSessionRow (co_db (sample_after 10)) sample_id_text = Some row" "sw_state row = Accepted"
    by (rule sample_accepted)
  have "verifySessionsInternal sample_env (co_key (sample_after 10)) (co_profile (sample_after 10)) (co_db (sample_after 10))"
    using sample_after_ok(1) by (simp add: coordinator_ok_def)
  from accepted_session_is_evidenced [OF this row] row show ?thesis by blast
qed

text \<open>
  C36: the authenticated log of an accepted session is the whole life of a session: planned, preflighted, started, both
  acknowledgements in some order, stopped, verified locally and externally, its costs reconciled, accepted.
\<close>

theorem accepted_session_was_lived:
  assumes "coordinator_ok v c" "getSessionRow (co_db c) i = Some row" "sw_state row = Accepted"
  shows "\<exists>acks. set acks = {ActMinute45, ActMinute90} \<and> distinct acks
    \<and> map aw_action (session_log (co_db c) i)
      = [ActPlan, ActPreflight, ActStart] @ acks @ [ActStop, ActLocal, ActExternal, ActCost, ActAccept]"
proof -
  obtain acks where "map aw_action (session_log (co_db c) i) = history Accepted acks" "set acks = {ActMinute45, ActMinute90}" "distinct acks"
    by (rule accepted_session_history [OF assms])
  then show ?thesis by auto
qed

theorem accepted_session_was_lived_witness:
  "\<exists>acks. set acks = {ActMinute45, ActMinute90} \<and> distinct acks
    \<and> map aw_action (session_log (co_db (sample_after 10)) sample_id_text)
      = [ActPlan, ActPreflight, ActStart] @ acks @ [ActStop, ActLocal, ActExternal, ActCost, ActAccept]"
proof -
  obtain row where row: "getSessionRow (co_db (sample_after 10)) sample_id_text = Some row" "sw_state row = Accepted"
    by (rule sample_accepted)
  show ?thesis by (rule accepted_session_was_lived [OF sample_after_ok(1) row])
qed

text \<open>
  C37: a session that has not ended can always be invalidated: with room in the tables and no later call on the log, the
  operation succeeds, blocks the session's egress and records the reason.
\<close>

theorem live_session_can_be_invalidated:
  assumes "coordinator_ok v c" "session_room c" "getSessionRow (co_db c) (iv_sessionId i) = Some row" "\<not> isTerminal (sw_state row)"
    and "InvalidateSessionInputSchema (se_host v) x = Some i"
    and "sd_metadata (co_db c) = Some m" "not_before_latest v (iv_invalidatedAt i) m"
  shows "\<exists>r db'. invalidateSession v x c = (c\<lparr>co_db := db'\<rparr>, Inr r) \<and> coordinator_ok v (c\<lparr>co_db := db'\<rparr>)
    \<and> transition_made v ActInvalidate (InvalidateInput i) r (co_db c) db'
    \<and> sr_sessionId r = iv_sessionId i \<and> sr_state r = Invalid \<and> sr_egressStatus r = EgressBlocked
    \<and> sr_invalidationReason r = Some (iv_reason i)"
  by (rule live_session_invalidated [OF assms]) blast

theorem live_session_can_be_invalidated_witness:
  "\<exists>r db'. invalidateSession sample_env sample_invalidation (sample_after 1) = ((sample_after 1)\<lparr>co_db := db'\<rparr>, Inr r)
    \<and> sr_state r = Invalid \<and> sr_invalidationReason r = Some OperatorAbort"
proof -
  obtain row m where row: "getSessionRow (co_db (sample_after 1)) sample_id_text = Some row" "\<not> isTerminal (sw_state row)"
      and m: "sd_metadata (co_db (sample_after 1)) = Some m" "not_before_latest sample_env (sample_moment 1) m"
    by (rule sample_planned_row)
  show ?thesis
    using live_session_can_be_invalidated [OF sample_after_ok(1,3) _ row(2) _ m(1), of sample_abort sample_invalidation]
      row(1) m(2) sample_invalidation_parses by (auto simp: sample_abort_def)
qed

text \<open>
  C38: whatever tables are found on disk, a coordinator that opens has claimed its path alone, has verified every row, has
  left ended sessions as they were and has no session that is still live; and tables that were there before are only accepted
  under a trusted head that they contain.
\<close>

theorem opened_coordinator_is_safe:
  assumes "open_coordinator v x stateKey paths disk = (paths', left, Inr (c, receipt))"
    and "\<And>path. keys_ok (sf_db (disk path))"
  shows "co_path c \<notin> set paths \<and> paths' = co_path c # paths \<and> left = Some (co_db c)
    \<and> verifySessionsInternal v (co_key c) (co_profile c) (co_db c)
    \<and> list_all (\<lambda>row. isTerminal (sw_state row)) (sd_sessions (co_db c))
    \<and> (\<forall>i row. getSessionRow (sf_db (disk (co_path c))) i = Some row \<longrightarrow> isTerminal (sw_state row)
         \<longrightarrow> getSessionRow (co_db c) i = Some row)
    \<and> (schemaProjection (sf_db (disk (co_path c))) \<noteq> Some (JArr []) \<longrightarrow>
         (\<exists>opts head. OpenSessionCoordinatorOptionsSchema (se_host v) x stateKey = Some opts \<and> op_trustedHead opts = Some head
            \<and> verifyTrustedHead (co_profile c) (sf_db (disk (co_path c))) head))"
  using assms by (rule opened_safely) (auto simp: list_all_iff)

theorem opened_coordinator_is_safe_witness:
  "verifySessionsInternal sample_env (co_key sample_coordinator) (co_profile sample_coordinator) (co_db sample_coordinator)
    \<and> list_all (\<lambda>row. isTerminal (sw_state row)) (sd_sessions (co_db sample_coordinator))
    \<and> co_path sample_coordinator = ''canary''"
proof (rule sample_opened)
  fix receipt
  assume opened: "open_coordinator sample_env sample_options (Some sample_state_key) [] sample_disk
      = ([''canary''], Some (co_db sample_coordinator), Inr (sample_coordinator, receipt))"
  have "keys_ok (sf_db (sample_disk path))" for path by (simp add: sample_disk_def keys_ok_def empty_db_def)
  from opened_coordinator_is_safe [OF opened this] show ?thesis by auto
qed

text \<open>
  C39: a head reported by a sound coordinator pins the log of that time: any tables that verify under the same key and contain
  that head begin with the very rows the coordinator had, unless the keyed digest collides on two of them.
\<close>

theorem trusted_head_pins_the_log:
  assumes "coordinator_ok v c" "getTrustedHead v c = Inr head"
    and "verifySessionsInternal v (co_key c) (co_profile c) db'" "verifyTrustedHead (co_profile c) db' head"
    and "n = length (getAllAuditRows (co_db c))"
    and "inj_on (hmac_hex v (co_key c)) (audit_mac_text v ` (set (getAllAuditRows (co_db c)) \<union> set (take n (getAllAuditRows db'))))"
  shows "take n (getAllAuditRows db') = getAllAuditRows (co_db c)"
  by (rule reported_head_pins [OF assms])

theorem trusted_head_pins_the_log_witness:
  "take 1 (getAllAuditRows (co_db (sample_after 2))) = getAllAuditRows (co_db (sample_after 1))"
proof -
  obtain head where head: "getTrustedHead sample_env (sample_after 1) = Inr head" "verifyTrustedHead (co_profile (sample_after 1)) (co_db (sample_after 2)) head"
      and db: "verifySessionsInternal sample_env (co_key (sample_after 1)) (co_profile (sample_after 1)) (co_db (sample_after 2))"
      "\<forall>f :: string \<Rightarrow> string. inj_on f (audit_mac_text sample_env ` (set (getAllAuditRows (co_db (sample_after 1))) \<union> set (take 1 (getAllAuditRows (co_db (sample_after 2))))))"
    by (rule sample_head)
  show ?thesis
    by (rule trusted_head_pins_the_log [OF sample_after_ok(1) head(1) db(1) head(2) sample_log_grows(1) [symmetric] db(2) [rule_format]])
qed

text \<open>
  C40: a session that keeps to the protocol is accepted. On a sound coordinator with room, no live session and no accepted
  one that day, ten calls in order and in time, whose evidence passes, end with the session accepted.
\<close>

theorem compliant_session_is_accepted:
  assumes "coordinator_ok v c" "room_for 10 c" "compliant v (co_profile c) s"
    and "map (call_input v) calls = map Some (protocol_inputs s)"
    and "\<And>row. row \<in> set (sd_sessions (co_db c)) \<Longrightarrow> sw_active_profile row = None"
    and "getSessionRow (co_db c) (pl_sessionId (po_plan s)) = None"
    and "\<And>a. getAuditByAction (co_db c) (pl_sessionId (po_plan s)) a = None"
    and "sd_metadata (co_db c) = Some m" "not_before_latest v (pl_plannedAt (po_plan s)) m"
    and "accepted_on (co_db c) (planned_record (co_profile c) (po_plan s)) = None"
  shows "\<exists>row. getSessionRow (co_db (session_run v calls c)) (pl_sessionId (po_plan s)) = Some row \<and> sw_state row = Accepted"
  by (rule compliant_accepted [OF assms])

theorem compliant_session_is_accepted_witness:
  "\<exists>row. getSessionRow (co_db (session_run sample_env sample_calls sample_coordinator)) sample_id_text = Some row
    \<and> sw_state row = Accepted"
proof -
  obtain m where m: "sd_metadata (co_db sample_coordinator) = Some m" "not_before_latest sample_env (pl_plannedAt (po_plan sample_session)) m"
    by (rule sample_latest)
  show ?thesis
    unfolding sample_session_id [symmetric]
    by (rule compliant_session_is_accepted [OF sample_start(1) _ _ sample_calls_parse sample_free(1-3) m sample_free(4)])
      (simp_all add: sample_session_room sample_start(4) sample_compliant)
qed

end
